(* ===== verification/Go_Prelude.thy ===== *)
theory Go_Prelude
  imports
    Complex_Main
    "HOL-Library.AList"
    "HOL-Library.Multiset"
    "HOL-Library.Word"
    "HOL-Library.Char_ord"
begin

text \<open>
  What the sources use of the Go language and its standard library, shared by every other
  theory: error values and their wrapping, results that may panic, slices, maps ranged over in
  an unspecified order, the few functions of the package \<open>strings\<close>, 64-bit conversions, and
  the rounding of numbers to \<open>float32\<close>.
\<close>

section \<open>Collections of facts\<close>

named_theorems go_simps \<open>equations of the Go primitives, unfolded by the component proofs\<close>
named_theorems wf_intros \<open>introduction rules of the well-formedness predicates\<close>

section \<open>Errors and panics\<close>

text \<open>
  An \<open>error\<close> value: one made by \<open>errors.New\<close> or by \<open>fmt.Errorf\<close> without \<open>%w\<close>, or one
  that wraps another error with \<open>%w\<close>. The message keeps the literal text of the format. The
  third constructor is the struct \<open>UnauthorizedAccessError\<close> of \<open>internal/edge/errors.go\<close>, which
  embeds an error and has no method \<open>Unwrap\<close>.
\<close>

datatype error = ErrorString string | WrapError string error | UnauthorizedAccessError error

text \<open>\<open>errors.Is\<close>: the target occurs in the chain of wrapped errors.\<close>

fun errors_Is :: "error \<Rightarrow> error \<Rightarrow> bool" where
  "errors_Is (ErrorString m) t = (ErrorString m = t)"
| "errors_Is (WrapError m e) t = (WrapError m e = t \<or> errors_Is e t)"
| "errors_Is (UnauthorizedAccessError e) t = (UnauthorizedAccessError e = t)"

text \<open>
  A computation that may panic returns \<open>Inl\<close> of what it panicked with. \<open>res_bind\<close> runs the
  next computation on the result, or passes the panic on.
\<close>

fun res_bind :: "'e + 'a \<Rightarrow> ('a \<Rightarrow> 'e + 'b) \<Rightarrow> 'e + 'b" where
  "res_bind (Inl e) f = Inl e"
| "res_bind (Inr x) f = f x"

lemma res_bind_cong [fundef_cong]:
  "m = m' \<Longrightarrow> (\<And>x. m' = Inr x \<Longrightarrow> f x = f' x) \<Longrightarrow> res_bind m f = res_bind m' f'"
  by (cases m') auto

lemma res_bind_eq_Inr [simp]:
  "res_bind m f = Inr y \<longleftrightarrow> (\<exists>x. m = Inr x \<and> f x = Inr y)"
  by (cases m) auto

lemma res_bind_eq_Inl:
  "res_bind m f = Inl e \<longleftrightarrow> m = Inl e \<or> (\<exists>x. m = Inr x \<and> f x = Inl e)"
  by (cases m) auto

text \<open>
  A call that acts on the world outside the program (the container runtime, the cgroup file
  system, the network) takes a state of that world and returns the next one, with what the call
  returned or that it panicked.
\<close>

datatype 'a call = Panics | Returns 'a

type_synonym ('w, 'a) io = "'w \<Rightarrow> 'a call \<times> 'w"

definition ret :: "'a \<Rightarrow> ('w, 'a) io" where
  "ret x w = (Returns x, w)"

definition io_panic :: "('w, 'a) io" where
  "io_panic w = (Panics, w)"

definition io_bind :: "('w, 'a) io \<Rightarrow> ('a \<Rightarrow> ('w, 'b) io) \<Rightarrow> ('w, 'b) io" where
  "io_bind m f w = (case m w of (Panics, w') \<Rightarrow> (Panics, w') | (Returns x, w') \<Rightarrow> f x w')"

lemma ret_apply [simp]: "ret x w = (Returns x, w)"
  by (simp add: ret_def)

lemma io_panic_apply [simp]: "io_panic w = (Panics, w)"
  by (simp add: io_panic_def)

lemma io_bind_eq_Returns:
  "io_bind m f w = (Returns y, w'') \<longleftrightarrow> (\<exists>x w'. m w = (Returns x, w') \<and> f x w' = (Returns y, w''))"
  by (auto simp: io_bind_def split: prod.splits call.splits)

lemma io_bind_eq_Panics:
  "io_bind m f w = (Panics, w'') \<longleftrightarrow>
     m w = (Panics, w'') \<or> (\<exists>x w'. m w = (Returns x, w') \<and> f x w' = (Panics, w''))"
  by (auto simp: io_bind_def split: prod.splits call.splits)

text \<open>What a call returns, where it returns.\<close>

definition io_post :: "('w, 'a) io \<Rightarrow> 'w \<Rightarrow> ('a \<Rightarrow> 'w \<Rightarrow> bool) \<Rightarrow> bool" where
  "io_post m w P \<longleftrightarrow> (case m w of (Panics, w') \<Rightarrow> True | (Returns x, w') \<Rightarrow> P x w')"

lemma io_post_ret [simp]: "io_post (ret x) w P \<longleftrightarrow> P x w"
  by (simp add: io_post_def)

lemma io_post_panic [simp]: "io_post io_panic w P"
  by (simp add: io_post_def)

lemma io_post_bind [simp]: "io_post (io_bind m f) w P \<longleftrightarrow> io_post m w (\<lambda>x w'. io_post (f x) w' P)"
  by (auto simp: io_post_def io_bind_def split: prod.splits call.splits)

lemma io_post_mono: "io_post m w P \<Longrightarrow> (\<And>x w'. P x w' \<Longrightarrow> Q x w') \<Longrightarrow> io_post m w Q"
  by (auto simp: io_post_def split: prod.splits call.splits)

lemma io_post_True [simp]: "io_post m w (\<lambda>_ _. True)"
  by (auto simp: io_post_def split: prod.splits call.splits)

section \<open>Slices and maps\<close>

text \<open>A slice expression \<open>s[lo:hi]\<close>: it panics unless \<open>0 \<le> lo \<le> hi \<le> len s\<close>.\<close>

definition go_slice :: "'a list \<Rightarrow> int \<Rightarrow> int \<Rightarrow> 'a list option" where
  "go_slice s lo hi =
     (if 0 \<le> lo \<and> lo \<le> hi \<and> hi \<le> int (length s)
      then Some (take (nat (hi - lo)) (drop (nat lo) s)) else None)"

lemma go_slice_Some:
  "go_slice s lo hi = Some t \<longleftrightarrow>
     0 \<le> lo \<and> lo \<le> hi \<and> hi \<le> int (length s) \<and> t = take (nat (hi - lo)) (drop (nat lo) s)"
  by (auto simp: go_slice_def)

text \<open>
  A Go map is an association list with distinct keys; an assignment \<open>m[k] = v\<close> is
  \<open>AList.update\<close> and \<open>delete(m, k)\<close> is \<open>AList.delete\<close>. The language leaves the order in which
  \<open>range\<close> visits a map unspecified. A definition that ranges over a map takes the order as an
  argument: a function that rearranges the entries, which the locale below constrains.
\<close>

type_synonym ('k, 'v) gomap = "('k \<times> 'v) list"

definition wf_map :: "('k, 'v) gomap \<Rightarrow> bool" where
  "wf_map m \<longleftrightarrow> distinct (map fst m)"

lemma wf_map_Nil [simp, wf_intros]: "wf_map []"
  by (simp add: wf_map_def)

lemma wf_map_update [simp, wf_intros]: "wf_map m \<Longrightarrow> wf_map (AList.update k v m)"
  by (simp add: wf_map_def distinct_update)

lemma wf_map_delete [simp, wf_intros]: "wf_map m \<Longrightarrow> wf_map (AList.delete k m)"
  by (simp add: wf_map_def distinct_delete)

lemma set_update_cases: "e \<in> set (AList.update k v m) \<Longrightarrow> e = (k, v) \<or> e \<in> set m"
  by (induction m) (auto split: if_splits)

definition is_range :: "('a list \<Rightarrow> 'a list) \<Rightarrow> bool" where
  "is_range rng \<longleftrightarrow> (\<forall>xs. mset (rng xs) = mset xs)"

lemma is_range_id [simp]: "is_range id" "is_range (\<lambda>xs. xs)"
  by (simp_all add: is_range_def)

lemma is_range_rev [simp]: "is_range rev"
  by (simp add: is_range_def)

lemma is_range_mset: "is_range rng \<Longrightarrow> mset (rng xs) = mset xs"
  by (simp add: is_range_def)

lemma is_range_set: "is_range rng \<Longrightarrow> set (rng xs) = set xs"
  by (metis is_range_mset mset_eq_setD)

lemma is_range_length: "is_range rng \<Longrightarrow> length (rng xs) = length xs"
  by (metis is_range_mset size_mset)

lemma is_range_distinct: "is_range rng \<Longrightarrow> distinct (rng xs) = distinct xs"
  by (metis is_range_mset mset_eq_imp_distinct_iff)

lemma is_range_small: "is_range rng \<Longrightarrow> length xs \<le> 1 \<Longrightarrow> rng xs = xs"
proof (cases xs)
  case (Cons x ys)
  assume r: "is_range rng" and "length xs \<le> 1"
  with Cons have xs: "xs = [x]" by simp
  then have "mset (rng xs) = {#x#}" by (simp add: is_range_mset [OF r])
  then show ?thesis using xs by simp
next
  case Nil
  assume "is_range rng"
  then have "length (rng xs) = 0" using Nil by (simp add: is_range_length)
  then show ?thesis using Nil by simp
qed

lemma mset_two: "mset xs = mset [a, b] \<Longrightarrow> xs = [a, b] \<or> xs = rev [a, b]"
proof -
  assume m: "mset xs = mset [a, b]"
  then have "length xs = 2" by (metis length_Cons list.size(3) mset_eq_length numeral_2_eq_2)
  then obtain x y where xs: "xs = [x, y]" by (auto simp: numeral_2_eq_2 length_Suc_conv)
  with m show ?thesis by (auto simp: add_eq_conv_ex)
qed

lemmas is_range_simps = is_range_mset is_range_set is_range_length is_range_distinct

text \<open>
  A map or a slice that may be \<open>nil\<close> is an option, None when it is: \<open>range\<close> and \<open>len\<close> do not
  tell nil from empty, \<open>encoding/json\<close> and a write to a map do.
\<close>

definition elems :: "'a list option \<Rightarrow> 'a list" where
  "elems m = (case m of None \<Rightarrow> [] | Some xs \<Rightarrow> xs)"

lemma elems_simps [simp]: "elems None = []" "elems (Some xs) = xs"
  by (simp_all add: elems_def)

section \<open>The package strings\<close>

text \<open>The format directive \<open>'%s'\<close> with its quotes.\<close>

definition quoted :: "string \<Rightarrow> string" where
  "quoted s = CHR 0x27 # s @ [CHR 0x27]"

text \<open>\<open>strings.ReplaceAll\<close> for a one-byte pattern and a one-byte replacement.\<close>

definition replaceAll :: "string \<Rightarrow> char \<Rightarrow> char \<Rightarrow> string" where
  "replaceAll s old new = map (\<lambda>c. if c = old then new else c) s"

text \<open>\<open>strings.Split\<close> for a one-byte separator: always at least one part.\<close>

fun split_on :: "char \<Rightarrow> string \<Rightarrow> string list" where
  "split_on sep [] = [[]]"
| "split_on sep (c # cs) =
     (if c = sep then [] # split_on sep cs
      else (case split_on sep cs of
              [] \<Rightarrow> [[c]]
            | p # ps \<Rightarrow> (c # p) # ps))"

text \<open>\<open>strings.Join\<close>.\<close>

fun join :: "string \<Rightarrow> string list \<Rightarrow> string" where
  "join sep [] = []"
| "join sep [p] = p"
| "join sep (p # q # ps) = p @ sep @ join sep (q # ps)"

lemma split_on_nonempty [simp]: "split_on sep s \<noteq> []"
  by (induction s) (auto split: list.splits)

lemma length_split_on: "length (split_on sep s) = Suc (count_list s sep)"
  by (induction s) (auto split: list.splits)

lemma join_Cons: "ps \<noteq> [] \<Longrightarrow> join sep (p # ps) = p @ sep @ join sep ps"
  by (cases ps) auto

lemma join_split_on: "join [sep] (split_on sep s) = s"
proof (induction s)
  case (Cons c cs)
  obtain p ps where ps: "split_on sep cs = p # ps"
    using split_on_nonempty by (cases "split_on sep cs") auto
  with Cons.IH show ?case
    by (cases ps) auto
qed simp

lemma split_on_append:
  "split_on sep (xs @ sep # ys) = split_on sep xs @ split_on sep ys"
  by (induction xs) (auto split: list.splits)

lemma split_on_none: "sep \<notin> set s \<Longrightarrow> split_on sep s = [s]"
  by (induction s) auto

section \<open>Fixed-width integers\<close>

type_synonym uint64 = "64 word"
type_synonym int64 = "64 word"
type_synonym float64 = "64 word"

text \<open>
  An \<open>int64\<close> is a 64-bit word read with \<open>sint\<close>, a \<open>uint64\<close> one read with \<open>uint\<close>; a conversion
  between the two keeps the bits. A \<open>float64\<close> is only passed on, as the word of its bits. Times and durations count nanoseconds.
\<close>

type_synonym time = int
type_synonym duration = int

definition second :: duration where
  "second = 1000000000"

section \<open>Decimal numerals\<close>

text \<open>Digits, their value, and the directive \<open>%d\<close> for a number that is not negative.\<close>

definition is_digit :: "char \<Rightarrow> bool" where
  "is_digit c \<longleftrightarrow> CHR ''0'' \<le> c \<and> c \<le> CHR ''9''"

definition digits_value :: "string \<Rightarrow> int" where
  "digits_value ds = foldl (\<lambda>n c. 10 * n + (of_char c - 48)) 0 ds"

fun decimal :: "nat \<Rightarrow> string" where
  "decimal n = (if n < 10 then [char_of (48 + n)] else decimal (n div 10) @ [char_of (48 + n mod 10)])"

declare decimal.simps [simp del]

lemma of_char_digit:
  fixes n :: nat
  assumes "n < 10"
  shows "of_char (char_of (48 + n)) = 48 + n" and "of_char (char_of (48 + n)) = (48 + int n)"
proof -
  show nat: "of_char (char_of (48 + n)) = 48 + n" using assms by simp
  have "of_char (char_of (48 + n)) = int (of_char (char_of (48 + n)))"
    by (rule of_nat_of_char [symmetric])
  also have "\<dots> = 48 + int n" unfolding nat by simp
  finally show "of_char (char_of (48 + n)) = (48 + int n)" .
qed

lemma is_digit_char_of: "(n :: nat) < 10 \<Longrightarrow> is_digit (char_of (48 + n))"
  by (simp add: is_digit_def less_eq_char_def of_char_digit)

lemma decimal_nonempty [simp]: "decimal n \<noteq> []"
  by (subst decimal.simps) simp

lemma decimal_digits: "list_all is_digit (decimal n)"
proof (induction n rule: decimal.induct)
  case (1 n)
  then show ?case by (subst decimal.simps) (simp add: is_digit_char_of)
qed

lemma digits_value_snoc: "digits_value (ds @ [c]) = 10 * digits_value ds + (of_char c - 48)"
  by (simp add: digits_value_def)

lemma digits_value_decimal: "digits_value (decimal n) = int n"
proof (induction n rule: decimal.induct)
  case (1 n)
  show ?case
  proof (cases "n < 10")
    case True
    then show ?thesis by (subst decimal.simps) (simp add: digits_value_def of_char_digit)
  next
    case False
    with 1 show ?thesis
      by (subst decimal.simps) (simp add: digits_value_snoc of_char_digit, presburger)
  qed
qed

text \<open>Hexadecimal digits and numerals, the directive \<open>%x\<close>.\<close>

definition hex_digit :: "nat \<Rightarrow> char" where
  "hex_digit n = (if n < 10 then char_of (48 + n) else char_of (87 + n))"

fun hex :: "nat \<Rightarrow> string" where
  "hex n = (if n < 16 then [hex_digit n] else hex (n div 16) @ [hex_digit (n mod 16)])"

section \<open>Simulation\<close>

text \<open>
  A step relation implements another through an abstraction function, where an invariant holds:
  every step keeps the invariant and is a step of the specification or leaves its state alone.
\<close>

locale simulation =
  fixes step :: "'s \<Rightarrow> 's \<Rightarrow> bool" and astep :: "'a \<Rightarrow> 'a \<Rightarrow> bool"
    and abst :: "'s \<Rightarrow> 'a" and inv :: "'s \<Rightarrow> bool"
  assumes inv_step: "inv s \<Longrightarrow> step s s' \<Longrightarrow> inv s'"
    and sim_step: "inv s \<Longrightarrow> step s s' \<Longrightarrow> abst s' = abst s \<or> astep (abst s) (abst s')"
begin

lemma reach: "step\<^sup>*\<^sup>* s s' \<Longrightarrow> inv s \<Longrightarrow> inv s' \<and> astep\<^sup>*\<^sup>* (abst s) (abst s')"
proof (induction rule: rtranclp_induct)
  case (step t u)
  then have "inv t" "astep\<^sup>*\<^sup>* (abst s) (abst t)" by simp_all
  moreover from sim_step [OF \<open>inv t\<close> step.hyps(2)] have "astep\<^sup>*\<^sup>* (abst t) (abst u)" by auto
  ultimately show ?case using inv_step step.hyps(2) by (meson rtranclp_trans)
qed simp

end

end
