(* ===== verification/Lexer.thy ===== *)
theory Lexer
  imports Go_Prelude
begin

text \<open>
  The tokens of profile conditions and the lexer that produces them
  (\<open>internal/configuration/interpreter/token.go\<close> and \<open>lexer.go\<close>). A Go byte is a \<open>char\<close>; the
  lexer's position fields are the Go \<open>int\<close>s. \<open>Scan\<close> slices the source to cut out a name, which
  could panic: the model returns \<open>None\<close> there, and \<open>Scan_refines_ref_scan\<close> shows that it never does.
\<close>

section \<open>Tokens\<close>

datatype Token =
    ILLEGAL | EOL
  | LPAREN | RPAREN | PERCENT | DEC
  | AND | EQUALS | NOT_EQUALS | DIV | GTE | GREATER | LTE | LESS | OR
  | STRING | NUMBER | NIL

fun Token_String :: "Token \<Rightarrow> string" where
  "Token_String ILLEGAL = ''illegal''"
| "Token_String EOL = ''EOL''"
| "Token_String LPAREN = ''(''"
| "Token_String RPAREN = '')''"
| "Token_String PERCENT = ''%''"
| "Token_String DEC = ''-''"
| "Token_String AND = ''&&''"
| "Token_String DIV = ''/''"
| "Token_String EQUALS = ''==''"
| "Token_String NOT_EQUALS = ''!=''"
| "Token_String GTE = ''>=''"
| "Token_String GREATER = ''>''"
| "Token_String LTE = ''<=''"
| "Token_String LESS = ''<''"
| "Token_String OR = ''||''"
| "Token_String STRING = ''string''"
| "Token_String NUMBER = ''number''"
| "Token_String NIL = ''nil''"

section \<open>The lexer\<close>

record lexer =
  src :: string
  ch :: char
  offset :: int
  pos :: int
  nextPos :: int

abbreviation NUL :: char where
  "NUL \<equiv> CHR 0x00"

abbreviation TAB :: char where
  "TAB \<equiv> CHR 0x09"

definition isAlpha :: "char \<Rightarrow> bool" where
  "isAlpha c \<longleftrightarrow> (CHR ''a'' \<le> c \<and> c \<le> CHR ''z'') \<or> (CHR ''A'' \<le> c \<and> c \<le> CHR ''Z'')"

definition isSymbol :: "char \<Rightarrow> bool" where
  "isSymbol c \<longleftrightarrow> c = CHR ''_'' \<or> c = CHR ''%''"

definition isDigit :: "char \<Rightarrow> bool" where
  "isDigit c \<longleftrightarrow> CHR ''0'' \<le> c \<and> c \<le> CHR ''9''"

definition lex_next :: "lexer \<Rightarrow> lexer" where
  "lex_next l0 =
     (let l = l0\<lparr>pos := nextPos l0\<rparr>
      in if int (length (src l)) \<le> offset l
         then (if ch l \<noteq> NUL
               then l\<lparr>ch := NUL, offset := offset l + 1, nextPos := nextPos l + 1\<rparr>
               else l)
         else l\<lparr>ch := src l ! nat (offset l), nextPos := nextPos l + 1, offset := offset l + 1\<rparr>)"

definition newLexer :: "string \<Rightarrow> lexer" where
  "newLexer s = lex_next \<lparr>src = s, ch = NUL, offset = 0, pos = 0, nextPos = 0\<rparr>"

text \<open>
  How much input is left: every \<open>next\<close> on a character other than NUL decreases it. It is the
  measure of the three scanning loops and, later, of the parser.
\<close>

definition lex_left :: "lexer \<Rightarrow> nat" where
  "lex_left l = 2 * nat (int (length (src l)) - offset l) + (if ch l = NUL then 0 else 1)"

lemma lex_left_next: "ch l \<noteq> NUL \<Longrightarrow> lex_left (lex_next l) < lex_left l"
  by (auto simp: lex_left_def lex_next_def Let_def)

lemma not_NUL_class [simp]:
  "\<not> isAlpha NUL" "\<not> isSymbol NUL" "\<not> isDigit NUL"
  by (simp_all add: isAlpha_def isSymbol_def isDigit_def)

text \<open>The loop of \<open>Scan\<close> that skips blanks.\<close>

function skip_blanks :: "lexer \<Rightarrow> lexer" where
  "skip_blanks l =
     (if ch l = CHR '' '' \<or> ch l = TAB then skip_blanks (lex_next l) else l)"
  by pat_completeness auto
termination
  by (relation "measure lex_left") (auto intro!: lex_left_next)

text \<open>The loop that reads the rest of a name.\<close>

function scan_name :: "lexer \<Rightarrow> lexer" where
  "scan_name l =
     (if isAlpha (ch l) \<or> isDigit (ch l) \<or> isSymbol (ch l) then scan_name (lex_next l) else l)"
  by pat_completeness auto
termination
  by (relation "measure lex_left") (auto intro!: lex_left_next)

text \<open>The loop that reads the rest of a number into \<open>chars\<close>, counting its dots.\<close>

function scan_number :: "lexer \<Rightarrow> string \<Rightarrow> nat \<Rightarrow> lexer \<times> string \<times> nat" where
  "scan_number l chars countDot =
     (if isDigit (ch l) \<or> ch l = CHR ''.''
      then scan_number (lex_next l) (chars @ [ch l])
             (if ch l = CHR ''.'' then countDot + 1 else countDot)
      else (l, chars, countDot))"
  by pat_completeness auto
termination
  by (relation "measure (\<lambda>(l, _, _). lex_left l)") (auto intro!: lex_left_next)

declare skip_blanks.simps [simp del] scan_name.simps [simp del] scan_number.simps [simp del]

text \<open>A second character decides between a one- and a two-character operator.\<close>

definition two_char :: "lexer \<Rightarrow> char \<Rightarrow> Token \<Rightarrow> Token \<Rightarrow> Token \<times> lexer" where
  "two_char l c both single = (if ch l = c then (both, lex_next l) else (single, l))"

text \<open>
  \<open>Scan\<close> returns the position, the token, its text, and the advanced lexer. The switch on the
  first character is \<open>scan_op\<close> but for numbers.
\<close>

definition scan_op :: "char \<Rightarrow> lexer \<Rightarrow> Token \<times> string \<times> lexer" where
  "scan_op c l =
     (if c = CHR ''('' then (LPAREN, [], l)
      else if c = CHR '')'' then (RPAREN, [], l)
      else if c = CHR ''-'' then (DEC, [], l)
      else if c = CHR ''!'' then (case two_char l (CHR ''='') NOT_EQUALS ILLEGAL of (t, l') \<Rightarrow> (t, [], l'))
      else if c = CHR ''='' then (case two_char l (CHR ''='') EQUALS ILLEGAL of (t, l') \<Rightarrow> (t, [], l'))
      else if c = CHR ''<'' then (case two_char l (CHR ''='') LTE LESS of (t, l') \<Rightarrow> (t, [], l'))
      else if c = CHR ''>'' then (case two_char l (CHR ''='') GTE GREATER of (t, l') \<Rightarrow> (t, [], l'))
      else if c = CHR ''&'' then (case two_char l (CHR ''&'') AND ILLEGAL of (t, l') \<Rightarrow> (t, [], l'))
      else if c = CHR ''|'' then (case two_char l (CHR ''|'') OR ILLEGAL of (t, l') \<Rightarrow> (t, [], l'))
      else (ILLEGAL, ''unexpected char'', l))"

definition Scan :: "lexer \<Rightarrow> (int \<times> Token \<times> string \<times> lexer) option" where
  "Scan l0 =
     (let l1 = skip_blanks l0
      in if ch l1 = NUL then Some (pos l1, EOL, [], l1)
         else
           (let p = pos l1; c = ch l1; l = lex_next l1
            in if isAlpha c \<or> isSymbol c then
                 (let start = offset l - 2; l' = scan_name l
                  in case go_slice (src l') start (offset l' - 1) of
                       None \<Rightarrow> None
                     | Some name \<Rightarrow>
                         if name = ''nil'' then Some (p, NIL, name, l')
                         else Some (p, STRING, name, l'))
               else if isDigit c then
                 (case scan_number l [c] 0 of
                    (l', chars, countDot) \<Rightarrow>
                      Some (pos l', if 1 < countDot then ILLEGAL else NUMBER, chars, l'))
               else (case scan_op c l of (t, v, l') \<Rightarrow> Some (pos l', t, v, l'))))"

section \<open>What is left to read\<close>

text \<open>
  The invariant of the lexer after its first \<open>next\<close>, and the input it has still to read. A NUL
  byte ends the input, as the end of the source does.
\<close>

definition lex_wf :: "lexer \<Rightarrow> bool" where
  "lex_wf l \<longleftrightarrow> 0 \<le> offset l \<and> offset l \<le> int (length (src l)) + 1 \<and>
     (ch l \<noteq> NUL \<longrightarrow> 1 \<le> offset l \<and> offset l \<le> int (length (src l)) \<and>
        ch l = src l ! nat (offset l - 1))"

definition lex_rest :: "lexer \<Rightarrow> string" where
  "lex_rest l = (if ch l = NUL then []
     else takeWhile (\<lambda>c. c \<noteq> NUL) (drop (nat (offset l - 1)) (src l)))"

lemma src_next [simp]: "src (lex_next l) = src l"
  by (simp add: lex_next_def Let_def)

lemma offset_next: "ch l \<noteq> NUL \<Longrightarrow> offset (lex_next l) = offset l + 1"
  by (simp add: lex_next_def Let_def)

lemma lex_wf_next [wf_intros]: "lex_wf l \<Longrightarrow> ch l \<noteq> NUL \<Longrightarrow> lex_wf (lex_next l)"
  by (auto simp: lex_wf_def lex_next_def Let_def)

lemma lex_wf_new [wf_intros]: "lex_wf (newLexer s)"
  by (auto simp: lex_wf_def newLexer_def lex_next_def Let_def Suc_le_eq)

lemma lex_rest_new: "lex_rest (newLexer s) = takeWhile (\<lambda>c. c \<noteq> NUL) s"
  by (cases s) (auto simp: lex_rest_def newLexer_def lex_next_def Let_def)

lemma lex_rest_NUL [simp]: "ch l = NUL \<Longrightarrow> lex_rest l = []"
  by (simp add: lex_rest_def)

lemma lex_rest_next:
  assumes "lex_wf l" and "ch l \<noteq> NUL"
  shows "lex_rest l = ch l # lex_rest (lex_next l)"
proof -
  define i where "i = nat (offset l - 1)"
  have i: "i < length (src l)" "offset l = int i + 1" "ch l = src l ! i"
    using assms by (auto simp: lex_wf_def i_def)
  have "drop i (src l) = ch l # drop (Suc i) (src l)"
    using i by (simp add: Cons_nth_drop_Suc)
  moreover have "lex_rest (lex_next l) = takeWhile (\<lambda>c. c \<noteq> NUL) (drop (Suc i) (src l))"
    using i assms(2)
    by (auto simp: lex_rest_def lex_next_def Let_def nat_add_distrib drop_Cons'
             simp flip: Cons_nth_drop_Suc)
  ultimately show ?thesis
    using assms(2) i(2) by (simp add: lex_rest_def)
qed

lemma lex_rest_Nil: "lex_wf l \<Longrightarrow> lex_rest l = [] \<longleftrightarrow> ch l = NUL"
  using lex_rest_next by fastforce

section \<open>The scanning loops\<close>

abbreviation name_char :: "char \<Rightarrow> bool" where
  "name_char c \<equiv> isAlpha c \<or> isDigit c \<or> isSymbol c"

abbreviation num_char :: "char \<Rightarrow> bool" where
  "num_char c \<equiv> isDigit c \<or> c = CHR ''.''"

abbreviation blank :: "char \<Rightarrow> bool" where
  "blank c \<equiv> c = CHR '' '' \<or> c = TAB"

lemma skip_blanks_spec:
  "lex_wf l \<Longrightarrow> lex_wf (skip_blanks l) \<and> src (skip_blanks l) = src l \<and>
     lex_rest (skip_blanks l) = dropWhile blank (lex_rest l)"
proof (induction l rule: skip_blanks.induct)
  case (1 l)
  show ?case
  proof (cases "blank (ch l)")
    case True
    then have n: "ch l \<noteq> NUL" by auto
    with "1.IH" [OF True lex_wf_next [OF "1.prems" n]] True show ?thesis
      by (simp add: skip_blanks.simps [of l] lex_rest_next [OF "1.prems" n])
  next
    case False
    then have "dropWhile blank (lex_rest l) = lex_rest l"
      using lex_rest_next [OF "1.prems"] by (cases "ch l = NUL") auto
    with False "1.prems" show ?thesis by (simp add: skip_blanks.simps [of l])
  qed
qed

lemma scan_name_spec:
  "lex_wf l \<Longrightarrow> lex_wf (scan_name l) \<and> src (scan_name l) = src l \<and>
     lex_rest (scan_name l) = dropWhile name_char (lex_rest l) \<and>
     offset (scan_name l) = offset l + int (length (takeWhile name_char (lex_rest l)))"
proof (induction l rule: scan_name.induct)
  case (1 l)
  show ?case
  proof (cases "name_char (ch l)")
    case True
    then have n: "ch l \<noteq> NUL" by auto
    with "1.IH" [OF True lex_wf_next [OF "1.prems" n]] True show ?thesis
      by (simp add: scan_name.simps [of l] lex_rest_next [OF "1.prems" n] offset_next)
  next
    case False
    then have "dropWhile name_char (lex_rest l) = lex_rest l"
      and "takeWhile name_char (lex_rest l) = []"
      using lex_rest_next [OF "1.prems"] by (cases "ch l = NUL"; auto)+
    with False "1.prems" show ?thesis by (simp add: scan_name.simps [of l])
  qed
qed

lemma scan_number_spec:
  "lex_wf l \<Longrightarrow> \<exists>l'. scan_number l cs n =
       (l', cs @ takeWhile num_char (lex_rest l),
        n + count_list (takeWhile num_char (lex_rest l)) (CHR ''.'')) \<and>
     lex_wf l' \<and> src l' = src l \<and> lex_rest l' = dropWhile num_char (lex_rest l)"
proof (induction l cs n rule: scan_number.induct)
  case (1 l cs n)
  show ?case
  proof (cases "num_char (ch l)")
    case True
    then have n: "ch l \<noteq> NUL" by auto
    with "1.IH" [OF True lex_wf_next [OF "1.prems" n]] True show ?thesis
      by (simp add: scan_number.simps [of l] lex_rest_next [OF "1.prems" n])
        (auto simp: isDigit_def)
  next
    case False
    then have "dropWhile num_char (lex_rest l) = lex_rest l"
      and "takeWhile num_char (lex_rest l) = []"
      using lex_rest_next [OF "1.prems"] by (cases "ch l = NUL"; auto)+
    with False "1.prems" show ?thesis by (simp add: scan_number.simps [of l])
  qed
qed

section \<open>Maximal munch: a reference lexer\<close>

text \<open>
  What one call of \<open>Scan\<close> means on the input left: skip blanks, then take the longest name,
  the longest run of digits and dots, or an operator of one or two characters.
\<close>

definition ref_two :: "char \<Rightarrow> Token \<Rightarrow> Token \<Rightarrow> string \<Rightarrow> Token \<times> string \<times> string" where
  "ref_two x both single cs =
     (if cs \<noteq> [] \<and> hd cs = x then (both, [], tl cs) else (single, [], cs))"

definition ref_op :: "char \<Rightarrow> string \<Rightarrow> Token \<times> string \<times> string" where
  "ref_op c cs =
     (if c = CHR ''('' then (LPAREN, [], cs)
      else if c = CHR '')'' then (RPAREN, [], cs)
      else if c = CHR ''-'' then (DEC, [], cs)
      else if c = CHR ''!'' then ref_two (CHR ''='') NOT_EQUALS ILLEGAL cs
      else if c = CHR ''='' then ref_two (CHR ''='') EQUALS ILLEGAL cs
      else if c = CHR ''<'' then ref_two (CHR ''='') LTE LESS cs
      else if c = CHR ''>'' then ref_two (CHR ''='') GTE GREATER cs
      else if c = CHR ''&'' then ref_two (CHR ''&'') AND ILLEGAL cs
      else if c = CHR ''|'' then ref_two (CHR ''|'') OR ILLEGAL cs
      else (ILLEGAL, ''unexpected char'', cs))"

definition ref_scan :: "string \<Rightarrow> Token \<times> string \<times> string" where
  "ref_scan s =
     (case dropWhile blank s of
        [] \<Rightarrow> (EOL, [], [])
      | c # cs \<Rightarrow>
          if isAlpha c \<or> isSymbol c then
            (let name = c # takeWhile name_char cs
             in (if name = ''nil'' then NIL else STRING, name, dropWhile name_char cs))
          else if isDigit c then
            (let num = c # takeWhile num_char cs
             in (if 1 < count_list num (CHR ''.'') then ILLEGAL else NUMBER, num,
                 dropWhile num_char cs))
          else ref_op c cs)"

lemma two_char_spec:
  assumes "lex_wf l" and "c \<noteq> NUL" and "two_char l c b s = (t, l')"
  shows "lex_wf l' \<and> src l' = src l \<and> (t, [], lex_rest l') = ref_two c b s (lex_rest l)"
proof (cases "ch l = c")
  case True
  with assms have "ch l \<noteq> NUL" by simp
  with True assms show ?thesis
    by (auto simp: two_char_def ref_two_def lex_rest_next lex_wf_next)
next
  case False
  then have "\<not> (lex_rest l \<noteq> [] \<and> hd (lex_rest l) = c)"
    using lex_rest_next [OF assms(1)] by (cases "ch l = NUL") auto
  with False assms show ?thesis by (auto simp: two_char_def ref_two_def)
qed

lemma scan_op_spec:
  assumes "lex_wf l" and "scan_op c l = (t, v, l')"
  shows "lex_wf l' \<and> src l' = src l \<and> (t, v, lex_rest l') = ref_op c (lex_rest l)"
proof -
  have two: "lex_wf l' \<and> src l' = src l \<and> (t, v, lex_rest l') = ref_two x b s (lex_rest l)"
    if "x \<noteq> NUL" and "(case two_char l x b s of (t, l') \<Rightarrow> (t, [], l')) = (t, v, l')" for x b s
    using two_char_spec [OF assms(1) that(1)] that(2) by (auto split: prod.splits)
  show ?thesis
    unfolding ref_op_def
    by (insert assms, simp add: scan_op_def split: if_splits; (rule two [rotated], assumption, simp)?)
qed

text \<open>The slice that cuts out a name is in range, and yields the name read.\<close>

lemma name_slice:
  assumes wf: "lex_wf l" and c: "ch l \<noteq> NUL" and l': "l' = scan_name (lex_next l)"
  shows "go_slice (src l') (offset (lex_next l) - 2) (offset l' - 1) =
           Some (ch l # takeWhile name_char (lex_rest (lex_next l)))"
proof -
  define w where "w = takeWhile name_char (lex_rest (lex_next l))"
  define i where "i = nat (offset l - 1)"
  note spec = scan_name_spec [OF lex_wf_next [OF wf c], folded l' w_def]
  have i: "offset l = int i + 1" using wf c by (auto simp: lex_wf_def i_def)
  have off: "offset l' - 1 = int i + 1 + int (length w)"
    using spec by (simp add: offset_next c i)
  have wf': "lex_wf l'" and src': "src l' = src l" using spec by auto
  have bound: "int i + 1 + int (length w) \<le> int (length (src l))"
    using wf' off src' by (auto simp: lex_wf_def)
  have "lex_rest l = takeWhile (\<lambda>c. c \<noteq> NUL) (drop i (src l))"
    using c by (simp add: lex_rest_def i_def)
  moreover have "lex_rest l = (ch l # w) @ dropWhile name_char (lex_rest (lex_next l))"
    using lex_rest_next [OF wf c] by (simp add: w_def)
  ultimately have "take (length (ch l # w)) (drop i (src l)) = ch l # w"
    by (metis append_eq_conv_conj append_take_drop_id takeWhile_dropWhile_id append.assoc)
  with bound show ?thesis
    by (simp add: go_slice_def off offset_next c i src' nat_add_distrib flip: w_def)
qed

theorem Scan_refines_ref_scan:
  assumes "lex_wf l"
  shows "\<exists>p l'. Scan l = Some (p, fst (ref_scan (lex_rest l)), fst (snd (ref_scan (lex_rest l))), l') \<and>
           lex_wf l' \<and> lex_rest l' = snd (snd (ref_scan (lex_rest l)))"
proof -
  define l1 where "l1 = skip_blanks l"
  note sb = skip_blanks_spec [OF assms, folded l1_def]
  show ?thesis
  proof (cases "ch l1 = NUL")
    case True
    with sb show ?thesis
      by (simp add: Scan_def ref_scan_def flip: l1_def)
  next
    case False
    define c where "c = ch l1"
    define r where "r = lex_rest (lex_next l1)"
    have wf: "lex_wf (lex_next l1)" using sb False lex_wf_next by blast
    have drop: "dropWhile blank (lex_rest l) = c # r"
      using sb lex_rest_next [of l1] False by (simp add: c_def r_def)
    consider (name) "isAlpha c \<or> isSymbol c" | (num) "\<not> (isAlpha c \<or> isSymbol c)" "isDigit c"
      | (op) "\<not> (isAlpha c \<or> isSymbol c)" "\<not> isDigit c" by blast
    then show ?thesis
    proof cases
      case name
      show ?thesis
        using scan_name_spec [OF wf] name False drop
          name_slice [OF conjunct1 [OF sb] False refl]
        by (auto simp: Scan_def ref_scan_def Let_def simp flip: l1_def c_def r_def)
    next
      case num
      from num(2) have "c \<noteq> CHR ''.''" by (auto simp: isDigit_def)
      then show ?thesis
        using scan_number_spec [OF wf, of "[c]" 0] num False drop
        by (auto simp: Scan_def ref_scan_def Let_def simp flip: l1_def c_def r_def)
    next
      case op
      obtain t v l' where so: "scan_op c (lex_next l1) = (t, v, l')" by (cases "scan_op c (lex_next l1)")
      have "ref_op c r = (t, v, lex_rest l')" "lex_wf l'"
        using scan_op_spec [OF wf so, folded r_def] by auto
      with op False drop so show ?thesis
        by (auto simp: Scan_def ref_scan_def Let_def simp flip: l1_def c_def r_def)
    qed
  qed
qed

end
