(* ===== verification/Float32.thy ===== *)
theory Float32
  imports Go_Prelude
begin

text \<open>
  The finite \<open>float32\<close> numbers. Every finite binary32 value is a multiple of \<open>2^-149\<close>, the
  smallest subnormal, so a value is represented by that (integer) multiple. Comparisons and
  negation of Go are then those of the integers (\<open>-0\<close> and \<open>+0\<close> compare equal and coincide).
  \<open>round32 n d\<close> is the binary32 number nearest to \<open>n / d\<close>, ties to the even significand, or
  \<open>None\<close> when it overflows: what \<open>strconv.ParseFloat(s, 32)\<close> computes.
\<close>

type_synonym float32 = int

text \<open>Division rounded to the nearest integer, ties to even.\<close>

definition rne :: "int \<Rightarrow> int \<Rightarrow> int" where
  "rne n d =
     (let q = n div d; r = n mod d
      in if 2 * r < d \<or> (2 * r = d \<and> even q) then q else q + 1)"

text \<open>
  The unit in the last place: the least power of two \<open>s\<close> with \<open>n / d < 2 ^ 24 * s\<close>, looked for
  upwards with \<open>fuel\<close> doublings left; \<open>bound\<close> is \<open>d * 2 ^ 24 * s\<close>. In units of \<open>2^-149\<close> the
  largest finite exponent is 253, hence 253 doublings.
\<close>

fun find_ulp :: "nat \<Rightarrow> int \<Rightarrow> int \<Rightarrow> int \<Rightarrow> int option" where
  "find_ulp 0 n bound s = (if n < bound then Some s else None)"
| "find_ulp (Suc fuel) n bound s =
     (if n < bound then Some s else find_ulp fuel n (2 * bound) (2 * s))"

definition round32 :: "int \<Rightarrow> int \<Rightarrow> float32 option" where
  "round32 n d =
     (let u = n * 2 ^ 149
      in case find_ulp 253 u (d * 2 ^ 24) 1 of
           None \<Rightarrow> None
         | Some s \<Rightarrow>
             (let v = rne u (d * s) * s
              in if v < 2 ^ 277 then Some v else None))"

text \<open>The conversion \<open>float32(i)\<close> of an integer; an \<open>int\<close> of Go never overflows it.\<close>

definition f32_of_int :: "int \<Rightarrow> float32" where
  "f32_of_int i =
     (case round32 \<bar>i\<bar> 1 of None \<Rightarrow> 0 | Some u \<Rightarrow> sgn i * u)"

section \<open>Rounding is to nearest, and exact on small integers\<close>

lemma rne_mult [simp]: "0 < d \<Longrightarrow> rne (q * d) d = q"
  by (simp add: rne_def)

lemma rne_bound: "0 < d \<Longrightarrow> 2 * \<bar>rne n d * d - n\<bar> \<le> d"
proof -
  assume d: "0 < d"
  define q r where qr: "q = n div d" "r = n mod d"
  have n: "n = q * d + r" by (simp add: qr)
  have r: "0 \<le> r" "r < d" using d by (simp_all add: qr)
  show ?thesis
  proof (cases "2 * r < d \<or> (2 * r = d \<and> even q)")
    case True
    then have "rne n d = q" by (simp add: rne_def qr Let_def)
    with True n r show ?thesis by auto
  next
    case False
    then have "rne n d = q + 1" by (auto simp: rne_def qr Let_def)
    moreover have "d \<le> 2 * r" using False by linarith
    ultimately show ?thesis using n r by (simp add: algebra_simps)
  qed
qed

lemma find_ulp_Some:
  "find_ulp fuel n b s = Some s' \<Longrightarrow>
     \<exists>j. s' = s * 2 ^ j \<and> n < b * 2 ^ j \<and> (0 < j \<longrightarrow> b * 2 ^ j \<le> 2 * n)"
proof (induction fuel arbitrary: b s)
  case 0
  then show ?case by (intro exI [of _ 0]) (auto split: if_splits)
next
  case (Suc fuel)
  show ?case
  proof (cases "n < b")
    case True
    with Suc.prems show ?thesis by (intro exI [of _ 0]) auto
  next
    case False
    with Suc.prems have "find_ulp fuel n (2 * b) (2 * s) = Some s'" by simp
    from Suc.IH [OF this] obtain j where
      "s' = 2 * s * 2 ^ j" "n < 2 * b * 2 ^ j" "0 < j \<longrightarrow> 2 * b * 2 ^ j \<le> 2 * n" by blast
    with False show ?thesis by (intro exI [of _ "Suc j"]) (cases j, auto)
  qed
qed

lemma find_ulp_None: "find_ulp fuel n b s = None \<Longrightarrow> b * 2 ^ fuel \<le> n"
proof (induction fuel arbitrary: b s)
  case (Suc fuel)
  then have "find_ulp fuel n (2 * b) (2 * s) = None" by (auto split: if_splits)
  from Suc.IH [OF this] show ?case by (simp add: mult.left_commute mult.commute)
qed (auto split: if_splits)

text \<open>The rounded value is within half a unit in the last place of the exact one.\<close>

lemma round32_nearest:
  assumes "0 < d" and "round32 n d = Some v"
  shows "\<exists>k. n * 2 ^ 149 < d * 2 ^ 24 * 2 ^ k \<and> 2 * \<bar>v * d - n * 2 ^ 149\<bar> \<le> d * 2 ^ k"
proof -
  obtain s where s: "find_ulp 253 (n * 2 ^ 149) (d * 2 ^ 24) 1 = Some s"
    and v: "v = rne (n * 2 ^ 149) (d * s) * s"
    using assms(2) by (auto simp: round32_def Let_def split: option.splits if_splits)
  obtain k where k: "s = 2 ^ k" "n * 2 ^ 149 < d * 2 ^ 24 * 2 ^ k"
    using find_ulp_Some [OF s] by auto
  have "2 * \<bar>rne (n * 2 ^ 149) (d * s) * (d * s) - n * 2 ^ 149\<bar> \<le> d * s"
    by (rule rne_bound) (simp add: assms(1) k)
  then have "2 * \<bar>v * d - n * 2 ^ 149\<bar> \<le> d * 2 ^ k"
    by (simp add: v k ac_simps)
  with k show ?thesis by blast
qed

text \<open>Integers below \<open>2^24\<close> are exact, so a literal such as \<open>23\<close> is the number 23.\<close>

lemma round32_small:
  assumes "0 \<le> n" and "n < 2 ^ 24"
  shows "round32 n 1 = Some (n * 2 ^ 149)"
proof -
  have lt: "n * 2 ^ 149 < 2 ^ 24 * 2 ^ 149"
    using assms(2) by (rule mult_strict_right_mono) simp
  have "find_ulp 253 (n * 2 ^ 149) (1 * 2 ^ 24) 1 \<noteq> None"
  proof
    assume "find_ulp 253 (n * 2 ^ 149) (1 * 2 ^ 24) 1 = None"
    from find_ulp_None [OF this] have "2 ^ 24 * 2 ^ 253 \<le> n * 2 ^ 149" by simp
    moreover have "(2::int) ^ 24 * 2 ^ 149 \<le> 2 ^ 24 * 2 ^ 253" by simp
    ultimately show False using lt by (meson leD order_trans)
  qed
  then obtain s where s: "find_ulp 253 (n * 2 ^ 149) (1 * 2 ^ 24) 1 = Some s" by blast
  obtain k where k: "s = 2 ^ k" "0 < k \<longrightarrow> 2 ^ 24 * 2 ^ k \<le> 2 * (n * 2 ^ 149)"
    using find_ulp_Some [OF s] by auto
  have "k \<le> 149"
  proof (rule ccontr)
    assume k150: "\<not> k \<le> 149"
    then have "(2::int) ^ 150 \<le> 2 ^ k" by (intro power_increasing) auto
    then have "(2::int) * (2 ^ 24 * 2 ^ 149) \<le> 2 ^ 24 * 2 ^ k" by simp
    moreover from k150 k have "2 ^ 24 * 2 ^ k \<le> 2 * (n * 2 ^ 149)" by simp
    ultimately show False using lt by linarith
  qed
  then have split: "n * 2 ^ 149 = (n * 2 ^ (149 - k)) * 2 ^ k"
    by (simp add: mult.assoc flip: power_add)
  have "rne (n * 2 ^ 149) (1 * s) = n * 2 ^ (149 - k)"
    by (subst split) (simp add: k)
  then have v: "rne (n * 2 ^ 149) (1 * s) * s = n * 2 ^ 149"
    by (simp only: split k)
  have "n * 2 ^ 149 < 2 ^ 277"
    using lt by (rule less_trans) simp
  then show ?thesis
    by (simp only: round32_def Let_def s option.case v if_True)
qed

lemma f32_of_int_small:
  assumes "\<bar>i\<bar> < 2 ^ 24"
  shows "f32_of_int i = i * 2 ^ 149"
proof -
  have "f32_of_int i = sgn i * \<bar>i\<bar> * 2 ^ 149"
    using round32_small [OF _ assms] by (simp add: f32_of_int_def mult.assoc)
  then show ?thesis by (simp only: sgn_mult_abs)
qed

end
