(* ===== verification/Parser.thy ===== *)
theory Parser
  imports Lexer Float32
begin

text \<open>
  The expressions of profile conditions and their recursive-descent parser
  (\<open>internal/configuration/interpreter/expr.go\<close> and \<open>parser.go\<close>). The parser panics with a
  \<open>*ParseError\<close>, which \<open>parse\<close> recovers; any other panic would be raised again. The mutual
  recursion of the source goes through \<open>expression\<close> only, called by \<open>primary\<close> on a parenthesis:
  the definitions below take \<open>expression\<close> as their argument \<open>rec\<close>, and \<open>expression\<close> itself
  spends one unit of fuel per level of parentheses. \<open>parse_total\<close> shows that the fuel of \<open>parse\<close>
  is always enough.
\<close>

section \<open>Expressions\<close>

datatype Expr =
    LiteralExpr string
  | NilExpr
  | NumExpr float32
  | UnaryExpr Token Expr
  | ValueExpr Expr Expr
  | CompExpr Expr Token Expr
  | LogicExpr Expr Token Expr
  | GroupExpr Expr

section \<open>The parser\<close>

datatype panic =
    ParseError int string
  | RuntimeError
  | OutOfFuel

record parser =
  p_lexer :: lexer
  p_pos :: int
  p_tok :: Token
  p_val :: string

type_synonym 'a parsed = "panic + 'a \<times> parser"

definition errorf :: "parser \<Rightarrow> string \<Rightarrow> panic" where
  "errorf p msg = ParseError (p_pos p) msg"

definition p_next :: "parser \<Rightarrow> panic + parser" where
  "p_next p =
     (case Scan (p_lexer p) of
        None \<Rightarrow> Inl RuntimeError
      | Some (ps, t, v, l) \<Rightarrow>
          (let p' = p\<lparr>p_lexer := l, p_pos := ps, p_tok := t, p_val := v\<rparr>
           in if t = ILLEGAL then Inl (errorf p' v) else Inr p'))"

definition matches :: "parser \<Rightarrow> Token list \<Rightarrow> bool" where
  "matches p operators \<longleftrightarrow> p_tok p \<in> set operators"

definition expect :: "parser \<Rightarrow> Token list \<Rightarrow> panic + unit" where
  "expect p toks =
     (if p_tok p \<in> set toks then Inr ()
      else Inl (errorf p (''expected ['' @ join '' '' (map Token_String toks) @ ''] instead of '' @
                          Token_String (p_tok p))))"

definition consume :: "parser \<Rightarrow> Token \<Rightarrow> string \<Rightarrow> panic + parser" where
  "consume p t msg = (if \<not> matches p [t] then Inl (errorf p msg) else p_next p)"

text \<open>
  \<open>strconv.ParseFloat(s, 32)\<close> on the digits and dots the lexer hands over: the nearest
  \<open>float32\<close>, or a range error.
\<close>

definition digit_val :: "char \<Rightarrow> int" where
  "digit_val c = of_char c - 48"

definition int_of_digits :: "string \<Rightarrow> int" where
  "int_of_digits ds = foldl (\<lambda>n c. 10 * n + digit_val c) 0 ds"

definition parseFloat :: "string \<Rightarrow> float32 option" where
  "parseFloat s =
     (let whole = takeWhile (\<lambda>c. c \<noteq> CHR ''.'') s; frac = drop (Suc (length whole)) s
      in round32 (int_of_digits (whole @ frac)) (10 ^ length frac))"

definition primary :: "(parser \<Rightarrow> Expr parsed) \<Rightarrow> parser \<Rightarrow> Expr parsed" where
  "primary rec p =
     (case p_tok p of
        STRING \<Rightarrow> res_bind (p_next p) (\<lambda>p'. Inr (LiteralExpr (p_val p), p'))
      | NIL \<Rightarrow> res_bind (p_next p) (\<lambda>p'. Inr (NilExpr, p'))
      | NUMBER \<Rightarrow>
          (case parseFloat (p_val p) of
             None \<Rightarrow> Inl (errorf p (''expected number instead of '' @ quoted (p_val p)))
           | Some v \<Rightarrow> res_bind (p_next p) (\<lambda>p'. Inr (NumExpr v, p')))
      | LPAREN \<Rightarrow>
          res_bind (p_next p) (\<lambda>p1.
          res_bind (rec p1) (\<lambda>(e, p2).
          res_bind (consume p2 RPAREN ''expect ')' after expression'') (\<lambda>p3.
          Inr (GroupExpr e, p3))))
      | t \<Rightarrow> Inl (errorf p (''unknown token '' @ quoted (Token_String t))))"

definition unary :: "(parser \<Rightarrow> Expr parsed) \<Rightarrow> parser \<Rightarrow> Expr parsed" where
  "unary rec p =
     (if matches p [DEC]
      then res_bind (p_next p) (\<lambda>p1.
           res_bind (expect p1 [NUMBER]) (\<lambda>_.
           res_bind (primary rec p1) (\<lambda>(e, p2).
           Inr (UnaryExpr (p_tok p) e, p2))))
      else res_bind (expect p [NUMBER, NIL]) (\<lambda>_. primary rec p))"

definition p_value :: "(parser \<Rightarrow> Expr parsed) \<Rightarrow> parser \<Rightarrow> Expr parsed" where
  "p_value rec p =
     res_bind (unary rec p) (\<lambda>(e, p1).
       if matches p1 [STRING]
       then res_bind (primary rec p1) (\<lambda>(r, p2). Inr (ValueExpr e r, p2))
       else Inr (e, p1))"

definition compare_ops :: "Token list" where
  "compare_ops = [GREATER, GTE, LESS, LTE, EQUALS, NOT_EQUALS]"

definition compare :: "(parser \<Rightarrow> Expr parsed) \<Rightarrow> parser \<Rightarrow> Expr parsed" where
  "compare rec p =
     res_bind (primary rec p) (\<lambda>(e, p1).
       if matches p1 compare_ops
       then res_bind (p_next p1) (\<lambda>p2.
            res_bind (p_value rec p2) (\<lambda>(r, p3).
            Inr (CompExpr e (p_tok p1) r, p3)))
       else Inr (e, p1))"

text \<open>
  The loop of \<open>and()\<close> returns in its first round, so it is a conditional: the check for the
  token that follows is made only when there was no \<open>&&\<close>.
\<close>

definition p_and :: "(parser \<Rightarrow> Expr parsed) \<Rightarrow> parser \<Rightarrow> Expr parsed" where
  "p_and rec p =
     res_bind (compare rec p) (\<lambda>(e, p1).
       if matches p1 [AND]
       then res_bind (p_next p1) (\<lambda>p2.
            res_bind (compare rec p2) (\<lambda>(r, p3).
            Inr (LogicExpr e AND r, p3)))
       else if \<not> matches p1 [OR, RPAREN, EOL]
       then Inl (errorf p1 (''expecting OR RPAREN or EOL instead of '' @ quoted (Token_String (p_tok p1))))
       else Inr (e, p1))"

fun or_loop :: "nat \<Rightarrow> (parser \<Rightarrow> Expr parsed) \<Rightarrow> Expr \<Rightarrow> parser \<Rightarrow> Expr parsed" where
  "or_loop 0 rec e p = Inl OutOfFuel"
| "or_loop (Suc n) rec e p =
     (if matches p [OR]
      then res_bind (p_next p) (\<lambda>p1.
           res_bind (p_and rec p1) (\<lambda>(r, p2).
           or_loop n rec (LogicExpr e OR r) p2))
      else Inr (e, p))"

definition p_or :: "nat \<Rightarrow> (parser \<Rightarrow> Expr parsed) \<Rightarrow> parser \<Rightarrow> Expr parsed" where
  "p_or n rec p = res_bind (p_and rec p) (\<lambda>(e, p1). or_loop n rec e p1)"

fun expression :: "nat \<Rightarrow> parser \<Rightarrow> Expr parsed" where
  "expression 0 p = Inl OutOfFuel"
| "expression (Suc n) p = p_or (Suc n) (expression n) p"

text \<open>
  \<open>parse\<close>: initialise the parser with the first token, then parse one expression. What follows
  the expression in the source is not looked at.
\<close>

definition parse :: "string \<Rightarrow> panic + Expr" where
  "parse s =
     (let p = \<lparr>p_lexer = newLexer s, p_pos = 0, p_tok = ILLEGAL, p_val = []\<rparr>
      in res_bind (p_next p) (\<lambda>p1.
         res_bind (expression (length s + 2) p1) (\<lambda>(e, _). Inr e)))"

section \<open>Progress of the parser\<close>

text \<open>The texts that are read as one name.\<close>

definition is_name :: "string \<Rightarrow> bool" where
  "is_name x \<longleftrightarrow> (\<exists>c cs. x = c # cs \<and> (isAlpha c \<or> isSymbol c) \<and> (\<forall>d \<in> set cs. name_char d)) \<and> x \<noteq> ''nil''"

definition p_wf :: "parser \<Rightarrow> bool" where
  "p_wf p \<longleftrightarrow> lex_wf (p_lexer p) \<and> (p_tok p = EOL \<longrightarrow> lex_rest (p_lexer p) = []) \<and>
     (p_tok p = STRING \<longrightarrow> is_name (p_val p))"

definition p_left :: "parser \<Rightarrow> nat" where
  "p_left p = length (lex_rest (p_lexer p)) + (if p_tok p = EOL then 0 else 1)"

lemma ref_scan_shrinks:
  assumes "ref_scan s = (t, v, r)"
  shows "t = EOL \<and> r = [] \<or> t \<noteq> EOL \<and> length r < length s"
proof (cases "dropWhile blank s")
  case Nil
  with assms show ?thesis by (simp add: ref_scan_def)
next
  case (Cons c cs)
  have "length (dropWhile blank s) \<le> length s" by (rule length_dropWhile_le)
  with Cons have cs: "length cs < length s" by simp
  have name: "length (dropWhile name_char cs) < length s"
    and num: "length (dropWhile num_char cs) < length s"
    using cs length_dropWhile_le le_less_trans by blast+
  have "length (tl cs) < length s" using cs by simp
  with assms Cons cs name num show ?thesis
    by (auto simp: ref_scan_def ref_op_def ref_two_def Let_def split: if_splits)
qed

lemma ref_scan_name:
  assumes "ref_scan s = (STRING, v, r)"
  shows "is_name v"
proof -
  obtain c cs where d: "dropWhile blank s = c # cs" using assms by (cases "dropWhile blank s") (auto simp: ref_scan_def)
  have op: "ref_op c cs \<noteq> (STRING, v, r)" by (auto simp: ref_op_def ref_two_def split: if_splits)
  have name: "isAlpha c \<or> isSymbol c" "v = c # takeWhile name_char cs" "v \<noteq> ''nil''"
    using assms d op by (auto simp: ref_scan_def Let_def split: if_splits)
  then show ?thesis by (auto simp: is_name_def dest: set_takeWhileD)
qed

lemma p_next_cases:
  assumes "lex_wf (p_lexer p)"
  obtains (illegal) x m where "p_next p = Inl (ParseError x m)"
  | (ok) p' where "p_next p = Inr p'" "p_wf p'"
      "p_tok p' = EOL \<or> length (lex_rest (p_lexer p')) < length (lex_rest (p_lexer p))"
proof -
  obtain t v r where rs: "ref_scan (lex_rest (p_lexer p)) = (t, v, r)"
    by (cases "ref_scan (lex_rest (p_lexer p))")
  obtain ps l where sc: "Scan (p_lexer p) = Some (ps, t, v, l)" "lex_wf l" "lex_rest l = r"
    using Scan_refines_ref_scan [OF assms] rs by auto
  show thesis
  proof (cases "t = ILLEGAL")
    case True
    with sc show ?thesis by (auto simp: p_next_def errorf_def intro: illegal)
  next
    case False
    with sc ref_scan_shrinks [OF rs] ref_scan_name rs show ?thesis
      by (auto simp: p_next_def p_wf_def intro!: ok)
  qed
qed

lemma p_next_progress:
  assumes "p_wf p" and "p_tok p \<noteq> EOL"
  shows "case p_next p of
           Inl x \<Rightarrow> (\<exists>ps m. x = ParseError ps m)
         | Inr p' \<Rightarrow> p_wf p' \<and> p_left p' < p_left p"
proof -
  have wf: "lex_wf (p_lexer p)" using assms by (simp add: p_wf_def)
  show ?thesis
    by (rule p_next_cases [OF wf]) (use assms in \<open>auto simp: p_left_def p_wf_def\<close>)
qed

section \<open>The grammar of parsed expressions\<close>

text \<open>
  The shapes the parser builds, by level: 0 a primary, 1 a comparison, 2 a conjunction, 3 a
  disjunction. A conjunction joins exactly two comparisons.
\<close>

fun is_value :: "Expr \<Rightarrow> bool" where
  "is_value (NumExpr _) = True"
| "is_value NilExpr = True"
| "is_value (UnaryExpr t e) = (t = DEC \<and> (\<exists>n. e = NumExpr n))"
| "is_value (ValueExpr l r) =
     ((case l of NumExpr _ \<Rightarrow> True | NilExpr \<Rightarrow> True | UnaryExpr t e \<Rightarrow> t = DEC \<and> (\<exists>n. e = NumExpr n)
        | _ \<Rightarrow> False) \<and> (\<exists>u. r = LiteralExpr u \<and> is_name u))"
| "is_value _ = False"

fun gram :: "nat \<Rightarrow> Expr \<Rightarrow> bool" where
  "gram k (LiteralExpr x) = is_name x"
| "gram k NilExpr = True"
| "gram k (NumExpr _) = True"
| "gram k (GroupExpr e) = gram 3 e"
| "gram k (CompExpr l t r) = (1 \<le> k \<and> gram 0 l \<and> t \<in> set compare_ops \<and> is_value r)"
| "gram k (LogicExpr l t r) =
     (t = AND \<and> 2 \<le> k \<and> gram 1 l \<and> gram 1 r \<or> t = OR \<and> 3 \<le> k \<and> gram 3 l \<and> gram 2 r)"
| "gram k (UnaryExpr _ _) = False"
| "gram k (ValueExpr _ _) = False"

lemma gram_mono: "gram j e \<Longrightarrow> j \<le> k \<Longrightarrow> gram k e"
  by (cases e) auto

text \<open>
  What a parsing step promises: it panics with a \<open>ParseError\<close>, or it returns an expression
  with the property \<open>Q\<close> and a well-formed parser with less than \<open>n\<close> input left. The rules
  follow the sequencing of the parsing functions.
\<close>

definition outcome :: "nat \<Rightarrow> (Expr \<Rightarrow> bool) \<Rightarrow> Expr parsed \<Rightarrow> bool" where
  "outcome n Q r \<longleftrightarrow>
     (case r of
        Inl x \<Rightarrow> (\<exists>ps m. x = ParseError ps m)
      | Inr (e, p) \<Rightarrow> Q e \<and> p_wf p \<and> p_left p < n)"

lemma outcome_simps [simp]:
  "outcome n Q (Inl (errorf p m))"
  "outcome n Q (Inr (e, p)) \<longleftrightarrow> Q e \<and> p_wf p \<and> p_left p < n"
  by (auto simp: outcome_def errorf_def)

lemma outcome_weaken:
  "outcome m Q r \<Longrightarrow> m \<le> n \<Longrightarrow> (\<And>e. Q e \<Longrightarrow> R e) \<Longrightarrow> outcome n R r"
  by (auto simp: outcome_def split: sum.splits)

lemma outcome_bind:
  assumes "outcome m Q r"
    and "\<And>e p. Q e \<Longrightarrow> p_wf p \<Longrightarrow> p_left p < m \<Longrightarrow> outcome n R (f (e, p))"
  shows "outcome n R (res_bind r f)"
proof (cases r)
  case (Inl x)
  with assms(1) show ?thesis by (simp add: outcome_def)
next
  case (Inr y)
  then show ?thesis using assms by (cases y) (auto simp: outcome_def)
qed

lemma outcome_next:
  assumes "p_wf p" and "p_tok p \<noteq> EOL"
    and "\<And>p'. p_wf p' \<Longrightarrow> p_left p' < p_left p \<Longrightarrow> outcome n R (f p')"
  shows "outcome n R (res_bind (p_next p) f)"
  using p_next_progress [OF assms(1,2)] assms(3)
  by (cases "p_next p") (auto simp: outcome_def)

lemma outcome_expect:
  assumes "p_tok p \<in> set ts \<Longrightarrow> outcome n R (f ())"
  shows "outcome n R (res_bind (expect p ts) f)"
  using assms by (auto simp: expect_def)

lemma outcome_consume:
  assumes "p_wf p" and "t \<noteq> EOL"
    and "\<And>p'. p_wf p' \<Longrightarrow> p_left p' < p_left p \<Longrightarrow> outcome n R (f p')"
  shows "outcome n R (res_bind (consume p t m) f)"
proof (cases "p_tok p = t")
  case True
  with assms show ?thesis
    by (auto simp: consume_def matches_def intro: outcome_next)
qed (simp add: consume_def matches_def)

definition primary_of :: "Token \<Rightarrow> Expr \<Rightarrow> bool" where
  "primary_of t e \<longleftrightarrow> gram 0 e \<and> (t = NUMBER \<longrightarrow> (\<exists>n. e = NumExpr n)) \<and>
     (t = NIL \<longrightarrow> e = NilExpr) \<and> (t = STRING \<longrightarrow> (\<exists>u. e = LiteralExpr u \<and> is_name u))"

definition is_operand :: "Expr \<Rightarrow> bool" where
  "is_operand e \<longleftrightarrow> (\<exists>n. e = NumExpr n) \<or> e = NilExpr \<or> (\<exists>n. e = UnaryExpr DEC (NumExpr n))"

text \<open>
  The interface between the levels of the grammar: given that \<open>rec\<close> parses an expression when
  less than \<open>N\<close> input is left, every level does when at most \<open>N\<close> is left.
\<close>

locale expression_parser =
  fixes N :: nat and rec :: "parser \<Rightarrow> Expr parsed"
  assumes rec_ok: "p_wf p \<Longrightarrow> p_left p < N \<Longrightarrow> outcome (p_left p) (gram 3) (rec p)"
begin

lemma primary_ok:
  assumes "p_wf p" and "p_left p \<le> N"
  shows "outcome (p_left p) (primary_of (p_tok p)) (primary rec p)"
proof (cases "p_tok p = LPAREN")
  case True
  have "outcome (p_left p) (primary_of LPAREN)
      (res_bind (p_next p) (\<lambda>p1. res_bind (rec p1) (\<lambda>(e, p2).
         res_bind (consume p2 RPAREN ''expect ')' after expression'')
           (\<lambda>p3. Inr (GroupExpr e, p3)))))"
    by (rule outcome_next)
      (use assms True in \<open>auto simp: primary_of_def intro!: outcome_bind [OF rec_ok] outcome_consume\<close>)
  with True show ?thesis by (simp add: primary_def)
next
  case False
  have "p_tok p = STRING \<Longrightarrow> is_name (p_val p)" using assms(1) by (simp add: p_wf_def)
  with False assms show ?thesis
    by (auto simp: primary_def primary_of_def intro!: outcome_next split: Token.split option.split)
qed

lemma unary_ok:
  assumes "p_wf p" and "p_left p \<le> N"
  shows "outcome (p_left p) is_operand (unary rec p)"
proof (cases "p_tok p = DEC")
  case True
  with assms show ?thesis
    by (auto simp: unary_def matches_def primary_of_def is_operand_def
        intro!: outcome_next outcome_expect outcome_bind [OF primary_ok])
next
  case False
  with assms show ?thesis
    by (auto simp: unary_def matches_def primary_of_def is_operand_def
        intro!: outcome_expect outcome_weaken [OF primary_ok])
qed

lemma value_ok:
  assumes "p_wf p" and "p_left p \<le> N"
  shows "outcome (p_left p) is_value (p_value rec p)"
  unfolding p_value_def
  by (rule outcome_bind [OF unary_ok [OF assms]])
    (use assms in \<open>auto simp: matches_def primary_of_def is_operand_def
       intro!: outcome_bind [OF primary_ok]\<close>)

lemma compare_ok:
  assumes "p_wf p" and "p_left p \<le> N"
  shows "outcome (p_left p) (gram 1) (compare rec p)"
  unfolding compare_def
  by (rule outcome_bind [OF primary_ok [OF assms]])
    (use assms in \<open>auto simp: matches_def primary_of_def compare_ops_def gram_mono [of 0 _ "Suc 0"]
       intro!: outcome_next outcome_bind [OF value_ok]\<close>)

lemma and_ok:
  assumes "p_wf p" and "p_left p \<le> N"
  shows "outcome (p_left p) (gram 2) (p_and rec p)"
  unfolding p_and_def
  by (rule outcome_bind [OF compare_ok [OF assms]])
    (use assms in \<open>auto simp: matches_def gram_mono
       intro!: outcome_next outcome_bind [OF compare_ok]\<close>)

lemma or_loop_ok:
  assumes "p_wf p" and "p_left p \<le> N" and "p_left p < k" and "gram 3 e"
  shows "outcome (Suc (p_left p)) (gram 3) (or_loop k rec e p)"
  using assms
proof (induction k arbitrary: e p)
  case (Suc k)
  show ?case
  proof (cases "p_tok p = OR")
    case True
    with Suc.prems show ?thesis
      by (auto simp: matches_def
          intro!: outcome_next outcome_bind [OF and_ok] outcome_weaken [OF Suc.IH])
  next
    case False
    with Suc.prems show ?thesis by (simp add: matches_def)
  qed
qed simp

lemma or_ok:
  assumes "p_wf p" and "p_left p \<le> N"
  shows "outcome (p_left p) (gram 3) (p_or (Suc N) rec p)"
  unfolding p_or_def
  by (rule outcome_bind [OF and_ok [OF assms]])
    (use assms in \<open>auto simp del: or_loop.simps simp: gram_mono [of 2 _ 3]
       intro!: outcome_weaken [OF or_loop_ok]\<close>)

end

text \<open>Every \<open>expression n\<close> meets the contract for the bound \<open>n\<close>.\<close>

lemma expression_ok:
  "p_wf p \<Longrightarrow> p_left p < n \<Longrightarrow> outcome (p_left p) (gram 3) (expression n p)"
proof (induction n arbitrary: p)
  case (Suc n)
  have "expression_parser n (expression n)"
    by (rule expression_parser.intro) (rule Suc.IH)
  from expression_parser.or_ok [OF this] Suc.prems show ?case by simp
qed simp

interpretation ep: expression_parser n "expression n" for n
  by unfold_locales (rule expression_ok)

section \<open>Properties of parse\<close>

lemma parse_cases:
  obtains (error) ps m where "parse s = Inl (ParseError ps m)"
  | (expr) e where "parse s = Inr e" "gram 3 e"
proof -
  define p where "p = \<lparr>p_lexer = newLexer s, p_pos = 0, p_tok = ILLEGAL, p_val = []\<rparr>"
  have wf: "lex_wf (p_lexer p)" by (simp add: p_def lex_wf_new)
  have len: "length (lex_rest (p_lexer p)) \<le> length s"
    by (simp add: p_def lex_rest_new length_takeWhile_le)
  from wf show thesis
  proof (cases rule: p_next_cases)
    case (illegal x m)
    then show ?thesis by (intro error) (simp add: parse_def flip: p_def)
  next
    case (ok p1)
    with len have "p_left p1 < length s + 2" by (auto simp: p_left_def p_wf_def)
    from expression_ok [OF ok(2) this] ok(1) show ?thesis
      by (auto simp: parse_def outcome_def split: sum.splits simp flip: p_def intro: error expr)
  qed
qed

lemma parse_gram: "parse s = Inr e \<Longrightarrow> gram 3 e"
  by (cases rule: parse_cases [of s]) auto

text \<open>
  C11: \<open>parse\<close> always returns: on every source it yields an expression of the grammar or a
  \<open>ParseError\<close>. The slice of the lexer never panics, so the type assertion in the recovery of
  \<open>parse\<close> never fails, and the fuel of the model is enough.
\<close>

theorem parse_total:
  "(\<exists>e. parse s = Inr e \<and> gram 3 e) \<or> (\<exists>ps m. parse s = Inl (ParseError ps m))"
  by (cases rule: parse_cases [of s]) auto

text \<open>
  A third conjunct is dropped without an error. The grammar in the header of the source
  allows any number of \<open>&&\<close>, but \<open>and()\<close> returns after the first one and nothing checks that the
  input is used up.
\<close>

theorem parse_drops_third_conjunct:
  "parse ''x == 1 && y == 2 && z == 3'' = parse ''x == 1 && y == 2'' \<and>
   parse ''x == 1 && y == 2'' =
     Inr (LogicExpr (CompExpr (LiteralExpr ''x'') EQUALS (NumExpr (2 ^ 149))) AND
                    (CompExpr (LiteralExpr ''y'') EQUALS (NumExpr (2 ^ 150))))"
  by (rule conjI; code_simp)

end
