(* ===== verification/Interpreter.thy ===== *)
theory Interpreter
  imports Parser
begin

text \<open>
  The evaluation of profile conditions (\<open>internal/configuration/interpreter\<close>: \<open>value.go\<close>,
  \<open>ast.go\<close>, \<open>interpreter.go\<close>). A visitor method may panic with an \<open>*EvaluationError\<close>, or with
  a runtime error when a type assertion fails; \<open>Evaluate\<close> recovers both. On a runtime error it
  assigns the result of a failed assertion to \<open>err\<close>: an error interface that holds a nil
  pointer and is not equal to \<open>nil\<close>, the constructor \<open>NilEvaluationError\<close> here.
\<close>

section \<open>Values and variables\<close>

datatype valueType = typeNull | typeBool | typeNum

record val =
  val_typ :: valueType
  val_b :: bool
  val_n :: float32

definition num :: "float32 \<Rightarrow> val" where
  "num n = \<lparr>val_typ = typeNum, val_b = False, val_n = n\<rparr>"

definition boolean :: "bool \<Rightarrow> val" where
  "boolean b = \<lparr>val_typ = typeBool, val_b = b, val_n = 0\<rparr>"

definition null :: val where
  "null = \<lparr>val_typ = typeNull, val_b = False, val_n = 0\<rparr>"

lemmas val_defs = num_def boolean_def null_def

text \<open>The dynamic type of a variable is one of three supported ones, or another.\<close>

datatype variable = VBool bool | VFloat32 float32 | VInt int64 | VOther

type_synonym variables = "string \<Rightarrow> variable option"

datatype eval_panic = EvaluationError Expr string | TypeAssertionError

section \<open>The visitor\<close>

definition visitLiteralExpr :: "variables \<Rightarrow> string \<Rightarrow> eval_panic + val" where
  "visitLiteralExpr vs name =
     (case vs name of
        None \<Rightarrow> Inr null
      | Some (VBool b) \<Rightarrow> Inr (boolean b)
      | Some (VFloat32 f) \<Rightarrow> Inr (num f)
      | Some (VInt i) \<Rightarrow> Inr (num (f32_of_int (sint i)))
      | Some VOther \<Rightarrow>
          Inl (EvaluationError (LiteralExpr name) (''variable '' @ quoted name @ '' has the wrong type'')))"

definition visitLogicExpr :: "Expr \<Rightarrow> Token \<Rightarrow> val \<Rightarrow> val \<Rightarrow> eval_panic + val" where
  "visitLogicExpr e t l r =
     (case t of
        OR \<Rightarrow> Inr (boolean (val_b l \<or> val_b r))
      | AND \<Rightarrow> Inr (boolean (val_b l \<and> val_b r))
      | _ \<Rightarrow> Inl (EvaluationError e (''operator '' @ quoted (Token_String t) @ '' not supported'')))"

definition visitComprExpr :: "Expr \<Rightarrow> Token \<Rightarrow> val \<Rightarrow> val \<Rightarrow> eval_panic + val" where
  "visitComprExpr e t l r =
     (if val_typ r = typeNull then
        (case t of
           EQUALS \<Rightarrow> Inr (boolean (val_typ l = typeNull))
         | NOT_EQUALS \<Rightarrow> Inr (boolean (val_typ l \<noteq> typeNull))
         | _ \<Rightarrow> Inl (EvaluationError e
                  (''operator '' @ quoted (Token_String t) @ '' not supported on nil'')))
      else if val_typ l = typeNull then Inr (boolean False)
      else
        (case t of
           LESS \<Rightarrow> Inr (boolean (val_n l < val_n r))
         | LTE \<Rightarrow> Inr (boolean (val_n l \<le> val_n r))
         | GREATER \<Rightarrow> Inr (boolean (val_n l > val_n r))
         | GTE \<Rightarrow> Inr (boolean (val_n l \<ge> val_n r))
         | EQUALS \<Rightarrow> Inr (boolean (val_n l = val_n r))
         | NOT_EQUALS \<Rightarrow> Inr (boolean (val_n l \<noteq> val_n r))
         | _ \<Rightarrow> Inl (EvaluationError e
                  (''operator '' @ quoted (Token_String t) @ '' not supported''))))"

text \<open>\<open>e.(*NumExpr)\<close>: the type assertions of the value and unary visitors.\<close>

definition assert_NumExpr :: "Expr \<Rightarrow> eval_panic + float32" where
  "assert_NumExpr e = (case e of NumExpr n \<Rightarrow> Inr n | _ \<Rightarrow> Inl TypeAssertionError)"

text \<open>\<open>Expr.Accept\<close>, dispatching to the visitor; both operands are always evaluated.\<close>

fun Accept :: "variables \<Rightarrow> Expr \<Rightarrow> eval_panic + val" where
  "Accept vs (LiteralExpr name) = visitLiteralExpr vs name"
| "Accept vs NilExpr = Inr null"
| "Accept vs (NumExpr n) = Inr (num n)"
| "Accept vs (UnaryExpr t r) = res_bind (assert_NumExpr r) (\<lambda>n. Inr (num (-1 * n)))"
| "Accept vs (ValueExpr l r) = res_bind (assert_NumExpr l) (\<lambda>n. Inr (num n))"
| "Accept vs (CompExpr l t r) =
     res_bind (Accept vs l) (\<lambda>vl.
     res_bind (Accept vs r) (\<lambda>vr. visitComprExpr (CompExpr l t r) t vl vr))"
| "Accept vs (LogicExpr l t r) =
     res_bind (Accept vs l) (\<lambda>vl.
     res_bind (Accept vs r) (\<lambda>vr. visitLogicExpr (LogicExpr l t r) t vl vr))"
| "Accept vs (GroupExpr e) = Accept vs e"

section \<open>The interpreter\<close>

datatype eval_error = EvalError Expr string | NilEvaluationError

text \<open>The directive \<open>%v\<close> prints the number of a \<open>valueType\<close>.\<close>

fun typ_text :: "valueType \<Rightarrow> string" where
  "typ_text typeNull = ''0''"
| "typ_text typeBool = ''1''"
| "typ_text typeNum = ''2''"

definition Evaluate :: "Expr \<Rightarrow> variables \<Rightarrow> bool \<times> eval_error option" where
  "Evaluate e vs =
     (case Accept vs e of
        Inl (EvaluationError x m) \<Rightarrow> (False, Some (EvalError x m))
      | Inl TypeAssertionError \<Rightarrow> (False, Some NilEvaluationError)
      | Inr v \<Rightarrow>
          if val_typ v \<noteq> typeBool
          then (False, Some (EvalError e (''expected bool value. actual '' @ quoted (typ_text (val_typ v)))))
          else (val_b v, None))"

text \<open>\<open>interpreter.New\<close>: the parsed expression, or the parse error.\<close>

definition interpreter_New :: "string \<Rightarrow> panic + Expr" where
  "interpreter_New s = parse s"

section \<open>A direct semantics of conditions\<close>

text \<open>
  What a condition means: a comparison with \<open>nil\<close> asks whether the left side is defined; any
  other comparison is false when its left side is undefined; a name on its own is true when it
  is a variable that holds \<open>true\<close>.
\<close>

fun operand :: "variables \<Rightarrow> Expr \<Rightarrow> float32 option" where
  "operand vs (LiteralExpr name) =
     (case vs name of
        Some (VFloat32 f) \<Rightarrow> Some f
      | Some (VInt i) \<Rightarrow> Some (f32_of_int (sint i))
      | Some (VBool b) \<Rightarrow> Some 0
      | _ \<Rightarrow> None)"
| "operand vs (NumExpr n) = Some n"
| "operand vs (UnaryExpr _ r) = (case r of NumExpr n \<Rightarrow> Some (- n) | _ \<Rightarrow> None)"
| "operand vs (ValueExpr l _) = (case l of NumExpr n \<Rightarrow> Some n | _ \<Rightarrow> None)"
| "operand vs (GroupExpr e) = operand vs e"
| "operand vs (CompExpr _ _ _) = Some 0"
| "operand vs (LogicExpr _ _ _) = Some 0"
| "operand vs NilExpr = None"

fun compare_nums :: "Token \<Rightarrow> float32 \<Rightarrow> float32 \<Rightarrow> bool" where
  "compare_nums LESS x y = (x < y)"
| "compare_nums LTE x y = (x \<le> y)"
| "compare_nums GREATER x y = (x > y)"
| "compare_nums GTE x y = (x \<ge> y)"
| "compare_nums EQUALS x y = (x = y)"
| "compare_nums NOT_EQUALS x y = (x \<noteq> y)"
| "compare_nums _ x y = False"

fun truth :: "variables \<Rightarrow> Expr \<Rightarrow> bool" where
  "truth vs (LogicExpr l t r) =
     (if t = OR then truth vs l \<or> truth vs r else truth vs l \<and> truth vs r)"
| "truth vs (CompExpr l t r) =
     (case operand vs r of
        None \<Rightarrow> (t = EQUALS) = (operand vs l = None)
      | Some y \<Rightarrow> (case operand vs l of None \<Rightarrow> False | Some x \<Rightarrow> compare_nums t x y))"
| "truth vs (GroupExpr e) = truth vs e"
| "truth vs (LiteralExpr name) = (vs name = Some (VBool True))"
| "truth vs _ = False"

text \<open>
  The conditions that evaluate without an error: the variables have supported types, only \<open>==\<close>
  and \<open>!=\<close> compare with \<open>nil\<close>, and a unit of measure follows a number without a sign.
\<close>

fun defined :: "variables \<Rightarrow> Expr \<Rightarrow> bool" where
  "defined vs (LiteralExpr name) = (vs name \<noteq> Some VOther)"
| "defined vs (ValueExpr l r) = (\<exists>n. l = NumExpr n)"
| "defined vs (CompExpr l t r) =
     (defined vs l \<and> defined vs r \<and> (r = NilExpr \<longrightarrow> t = EQUALS \<or> t = NOT_EQUALS))"
| "defined vs (LogicExpr l t r) = (defined vs l \<and> defined vs r)"
| "defined vs (GroupExpr e) = defined vs e"
| "defined vs _ = True"

fun is_condition :: "variables \<Rightarrow> Expr \<Rightarrow> bool" where
  "is_condition vs (CompExpr _ _ _) = True"
| "is_condition vs (LogicExpr _ _ _) = True"
| "is_condition vs (GroupExpr e) = is_condition vs e"
| "is_condition vs (LiteralExpr name) = (\<exists>b. vs name = Some (VBool b))"
| "is_condition vs _ = False"

text \<open>What the visitor computes, related to the direct semantics.\<close>

definition denotes :: "variables \<Rightarrow> Expr \<Rightarrow> val \<Rightarrow> bool" where
  "denotes vs e v \<longleftrightarrow>
     (val_typ v = typeNull) = (operand vs e = None) \<and>
     (\<forall>x. operand vs e = Some x \<longrightarrow> val_n v = x) \<and>
     val_b v = truth vs e \<and> (val_typ v = typeBool) = is_condition vs e"

lemma is_value_Accept:
  assumes "is_value r"
  shows "case Accept vs r of
           Inl x \<Rightarrow> \<not> defined vs r
         | Inr v \<Rightarrow> defined vs r \<and> denotes vs r v \<and> (val_typ v = typeNull) = (r = NilExpr)"
  using assms
  by (cases r) (auto simp: assert_NumExpr_def denotes_def val_defs split: Expr.splits)

lemma literal_Accept:
  "case Accept vs (LiteralExpr x) of
     Inl _ \<Rightarrow> \<not> defined vs (LiteralExpr x)
   | Inr v \<Rightarrow> defined vs (LiteralExpr x) \<and> denotes vs (LiteralExpr x) v"
  by (auto simp: visitLiteralExpr_def denotes_def val_defs split: option.splits variable.splits)

lemma visitComprExpr_denotes:
  assumes l: "denotes vs l vl" and r: "denotes vs r vr" "(val_typ vr = typeNull) = (r = NilExpr)"
    and t: "t \<in> set compare_ops"
  shows "case visitComprExpr e t vl vr of
           Inl _ \<Rightarrow> r = NilExpr \<and> t \<noteq> EQUALS \<and> t \<noteq> NOT_EQUALS
         | Inr v \<Rightarrow> (r = NilExpr \<longrightarrow> t = EQUALS \<or> t = NOT_EQUALS) \<and> denotes vs (CompExpr l t r) v"
proof (cases "r = NilExpr")
  case True
  with r have "val_typ vr = typeNull" by simp
  with True l t show ?thesis
    by (cases t) (simp_all add: visitComprExpr_def denotes_def boolean_def)
next
  case False
  with r obtain y where y: "val_typ vr \<noteq> typeNull" "operand vs r = Some y" "val_n vr = y"
    by (auto simp: denotes_def)
  show ?thesis
  proof (cases "operand vs l")
    case None
    with l have "val_typ vl = typeNull" by (simp add: denotes_def)
    with None y False show ?thesis by (simp add: visitComprExpr_def denotes_def boolean_def)
  next
    case (Some x)
    with l have "val_typ vl \<noteq> typeNull" "val_n vl = x" by (simp_all add: denotes_def)
    with Some y False t show ?thesis
      by (cases t) (simp_all add: visitComprExpr_def denotes_def boolean_def compare_ops_def)
  qed
qed

lemma Accept_denotes:
  "gram k e \<Longrightarrow>
     case Accept vs e of Inl x \<Rightarrow> \<not> defined vs e | Inr v \<Rightarrow> defined vs e \<and> denotes vs e v"
proof (induction e arbitrary: k)
  case (LiteralExpr x)
  show ?case by (rule literal_Accept)
next
  case (GroupExpr e)
  then have "gram 3 e" by simp
  from GroupExpr.IH [OF this] show ?case by (simp add: denotes_def split: sum.splits)
next
  case (CompExpr l t r)
  then have l: "gram 0 l" and r: "is_value r" and t: "t \<in> set compare_ops" by auto
  note IH = CompExpr.IH(1) [OF l] is_value_Accept [OF r, of vs]
  show ?case
  proof (cases "Accept vs l")
    case (Inr vl)
    then show ?thesis
    proof (cases "Accept vs r")
      case vr: (Inr vr)
      with IH Inr visitComprExpr_denotes [OF _ _ _ t, of vs l vl r vr "CompExpr l t r"]
      show ?thesis by (simp split: sum.splits)
    qed (use IH in simp)
  qed (use IH in simp)
next
  case (LogicExpr l t r)
  then obtain i j where "gram i l" "gram j r" and t: "t = AND \<or> t = OR" by auto
  note IH = LogicExpr.IH(1) [OF this(1)] LogicExpr.IH(2) [OF this(2)]
  show ?case
  proof (cases "Accept vs l")
    case (Inr vl)
    then show ?thesis
    proof (cases "Accept vs r")
      case vr: (Inr vr)
      with IH Inr t show ?thesis
        by (elim disjE) (simp_all add: visitLogicExpr_def denotes_def boolean_def)
    qed (use IH in simp)
  qed (use IH in simp)
qed (auto simp: denotes_def val_defs)

section \<open>Properties of Evaluate\<close>



fun names_of :: "Expr \<Rightarrow> string set" where
  "names_of (LiteralExpr x) = {x}"
| "names_of (CompExpr l t r) = names_of l \<union> names_of r"
| "names_of (LogicExpr l t r) = names_of l \<union> names_of r"
| "names_of (GroupExpr e) = names_of e"
| "names_of _ = {}"

lemma Accept_frame:
  "(\<And>x. x \<in> names_of e \<Longrightarrow> vs x = ws x) \<Longrightarrow> Accept vs e = Accept ws e"
  by (induction e) (auto simp: visitLiteralExpr_def)

text \<open>
  \<open>Evaluate\<close> depends only on the variables that occur in the condition, so a metric that a
  condition does not mention never changes its result.
\<close>

theorem Evaluate_frame:
  assumes "x \<notin> names_of e"
  shows "Evaluate e (vs(x := u)) = Evaluate e vs"
proof -
  have "Accept (vs(x := u)) e = Accept vs e"
    by (rule Accept_frame) (use assms in auto)
  then show ?thesis by (simp add: Evaluate_def)
qed

theorem Evaluate_frame_witness:
  "Evaluate (CompExpr (LiteralExpr ''cpu'') LESS (NumExpr 5)) (Map.empty(''mem'' := Some (VFloat32 1)))
     = Evaluate (CompExpr (LiteralExpr ''cpu'') LESS (NumExpr 5)) Map.empty"
  by (rule Evaluate_frame) simp

text \<open>
  While a variable has no value, every comparison of it with a number is false without an
  error, whatever the operator: \<open>!=\<close> too. Only the comparisons with \<open>nil\<close> see that it is missing.
\<close>

theorem Evaluate_missing:
  assumes "vs x = None" and "t \<in> set compare_ops"
  shows "Evaluate (CompExpr (LiteralExpr x) t (NumExpr n)) vs = (False, None) \<and>
    Evaluate (CompExpr (LiteralExpr x) EQUALS NilExpr) vs = (True, None) \<and>
    Evaluate (CompExpr (LiteralExpr x) NOT_EQUALS NilExpr) vs = (False, None)"
  using assms
  by (auto simp: Evaluate_def visitLiteralExpr_def visitComprExpr_def val_defs)

theorem Evaluate_missing_witness:
  "Evaluate (CompExpr (LiteralExpr ''cpu'') NOT_EQUALS (NumExpr 5)) Map.empty = (False, None) \<and>
   Evaluate (CompExpr (LiteralExpr ''cpu'') EQUALS NilExpr) Map.empty = (True, None)"
  using Evaluate_missing [of Map.empty "''cpu''" NOT_EQUALS 5] by (simp add: compare_ops_def)

text \<open>
  A condition that compares with a negative quantity that carries a unit parses, but its
  evaluation fails a type assertion for every value of the variable, and reports \<open>false\<close> with an
  error that holds a nil pointer.
\<close>

theorem Evaluate_signed_unit:
  "parse ''temp > -5C'' = Inr (CompExpr (LiteralExpr ''temp'') GREATER
     (ValueExpr (UnaryExpr DEC (NumExpr (5 * 2 ^ 149))) (LiteralExpr ''C''))) \<and>
   Evaluate (CompExpr (LiteralExpr ''temp'') GREATER
     (ValueExpr (UnaryExpr DEC (NumExpr (5 * 2 ^ 149))) (LiteralExpr ''C'')))
     (vs(''temp'' \<mapsto> VFloat32 f)) = (False, Some NilEvaluationError)"
proof
  show "parse ''temp > -5C'' = Inr (CompExpr (LiteralExpr ''temp'') GREATER
     (ValueExpr (UnaryExpr DEC (NumExpr (5 * 2 ^ 149))) (LiteralExpr ''C'')))"
    by code_simp
qed (simp add: Evaluate_def visitLiteralExpr_def assert_NumExpr_def)

end
