(* ===== verification/Printer.thy ===== *)
theory Printer
  imports Interpreter
begin

text \<open>
  The methods \<open>String\<close> of the expressions (\<open>internal/configuration/interpreter/expr.go\<close>) and the
  texts of the errors that use them. A number prints as an integer when it is one, and with six
  significant digits otherwise. What is printed parses again, to an expression with the same
  values.
\<close>

section \<open>Printing numbers\<close>

text \<open>\<open>strconv.Itoa\<close>.\<close>

definition itoa :: "int \<Rightarrow> string" where
  "itoa i = (if i < 0 then CHR ''-'' # decimal (nat (- i)) else decimal (nat i))"

text \<open>
  The conversion \<open>int(v)\<close> drops the fraction. For a value that is not in the range of an \<open>int\<close> the
  result depends on the implementation: the argument \<open>conv\<close>.
\<close>

definition f32_to_int :: "(float32 \<Rightarrow> int64) \<Rightarrow> float32 \<Rightarrow> int" where
  "f32_to_int conv v =
     (let i = sgn v * (\<bar>v\<bar> div 2 ^ 149)
      in if - (2 ^ 63) \<le> i \<and> i < 2 ^ 63 then i else sint (conv v))"

text \<open>
  The directive \<open>%.6g\<close> for a positive number \<open>n / d\<close>: the decimal exponent, the six digits rounded to
  even with their trailing zeros removed, and the layout with or without an exponent.
\<close>

fun find_exp :: "nat \<Rightarrow> int \<Rightarrow> int \<Rightarrow> int \<Rightarrow> int" where
  "find_exp 0 n d e = e"
| "find_exp (Suc fuel) n d e = (if n < 10 * d then e else find_exp fuel n (10 * d) (e + 1))"

text \<open>The value is at least \<open>2^-149\<close>, more than \<open>10^-46\<close>, and below \<open>10^39\<close>: 85 steps from \<open>-46\<close>.\<close>

definition g_digits :: "int \<Rightarrow> int \<Rightarrow> int \<times> string" where
  "g_digits n d =
     (let e = find_exp 85 (n * 10 ^ 46) d (- 46);
          m = (if e \<le> 5 then rne (n * 10 ^ nat (5 - e)) d else rne n (d * 10 ^ nat (e - 5)));
          (e', m') = (if m \<ge> 10 ^ 6 then (e + 1, m div 10) else (e, m))
      in (e', rev (dropWhile (\<lambda>c. c = CHR ''0'') (rev (decimal (nat m'))))))"

definition fmt_e :: "int \<Rightarrow> string \<Rightarrow> string" where
  "fmt_e e ds =
     hd ds # (if length ds > 1 then CHR ''.'' # tl ds else []) @
     CHR ''e'' # (if e < 0 then CHR ''-'' else CHR ''+'') #
     (if \<bar>e\<bar> < 10 then CHR ''0'' # decimal (nat \<bar>e\<bar>) else decimal (nat \<bar>e\<bar>))"

definition fmt_f :: "int \<Rightarrow> string \<Rightarrow> string" where
  "fmt_f e ds =
     (if e < 0 then ''0.'' @ replicate (nat (- e - 1)) (CHR ''0'') @ ds
      else
        (let k = nat (e + 1)
         in if length ds \<le> k then ds @ replicate (k - length ds) (CHR ''0'')
            else take k ds @ CHR ''.'' # drop k ds))"

definition fmt_g6 :: "float32 \<Rightarrow> string" where
  "fmt_g6 v =
     (let (e, ds) = g_digits \<bar>v\<bar> (2 ^ 149);
          eprec = (if length ds < 6 \<and> e + 1 \<le> int (length ds) then int (length ds) else 6);
          s = (if e < - 4 \<or> eprec \<le> e then fmt_e e ds else fmt_f e ds)
      in if v < 0 then CHR ''-'' # s else s)"

section \<open>Printing expressions\<close>

definition NumExpr_String :: "(float32 \<Rightarrow> int64) \<Rightarrow> float32 \<Rightarrow> string" where
  "NumExpr_String conv v =
     (if v = f32_of_int (f32_to_int conv v) then itoa (f32_to_int conv v) else fmt_g6 v)"

text \<open>The right part of a \<open>ValueExpr\<close> is never nil in what \<open>parse\<close> builds.\<close>

fun Expr_String :: "(float32 \<Rightarrow> int64) \<Rightarrow> Expr \<Rightarrow> string" where
  "Expr_String conv (LiteralExpr name) = name"
| "Expr_String conv NilExpr = ''nil''"
| "Expr_String conv (NumExpr v) = NumExpr_String conv v"
| "Expr_String conv (UnaryExpr t r) = Token_String t @ Expr_String conv r"
| "Expr_String conv (ValueExpr l r) = Expr_String conv l @ '' '' @ Expr_String conv r"
| "Expr_String conv (CompExpr l t r) =
     ''( '' @ Expr_String conv l @ '' '' @ Token_String t @ '' '' @ Expr_String conv r @ '' )''"
| "Expr_String conv (LogicExpr l t r) =
     ''( '' @ Expr_String conv l @ '' '' @ Token_String t @ '' '' @ Expr_String conv r @ '' )''"
| "Expr_String conv (GroupExpr e) = Expr_String conv e"

definition ParseError_Error :: "int \<Rightarrow> string \<Rightarrow> string" where
  "ParseError_Error p msg = ''parse error at column '' @ itoa p @ '': '' @ msg"

definition EvaluationError_Error :: "(float32 \<Rightarrow> int64) \<Rightarrow> Expr \<Rightarrow> string \<Rightarrow> string" where
  "EvaluationError_Error conv e msg = ''expr '' @ quoted (Expr_String conv e) @ '': '' @ msg"

section \<open>Reading what was printed\<close>

text \<open>Expressions whose numbers are integers below \<open>2^24\<close>, which a \<open>float32\<close> holds exactly.\<close>

definition exact :: "int \<Rightarrow> float32" where
  "exact i = i * 2 ^ 149"

fun integral :: "Expr \<Rightarrow> bool" where
  "integral (NumExpr v) = (\<exists>i. 0 \<le> i \<and> i < 2 ^ 24 \<and> v = exact i)"
| "integral (UnaryExpr t r) = integral r"
| "integral (ValueExpr l r) = integral l"
| "integral (CompExpr l t r) = (integral l \<and> integral r)"
| "integral (LogicExpr l t r) = (integral l \<and> integral r)"
| "integral (GroupExpr e) = integral e"
| "integral _ = True"

lemma NumExpr_String_integral:
  assumes "0 \<le> i" and "i < 2 ^ 24"
  shows "NumExpr_String conv (exact i) = decimal (nat i)"
proof -
  have "f32_to_int conv (exact i) = i"
    using assms by (auto simp: f32_to_int_def exact_def abs_mult sgn_mult sgn_if)
  moreover have "f32_of_int i = exact i" using assms f32_of_int_small [of i] by (simp add: exact_def)
  ultimately show ?thesis using assms by (simp add: NumExpr_String_def itoa_def)
qed

text \<open>The expression that is read back: each operator in parentheses of its own.\<close>

fun regroup :: "Expr \<Rightarrow> Expr" where
  "regroup (CompExpr l t r) = GroupExpr (CompExpr (regroup l) t r)"
| "regroup (LogicExpr l t r) = GroupExpr (LogicExpr (regroup l) t (regroup r))"
| "regroup (GroupExpr e) = regroup e"
| "regroup e = e"

subsection \<open>Tokens\<close>

definition ends_token :: "string \<Rightarrow> bool" where
  "ends_token r \<longleftrightarrow> r = [] \<or> hd r = CHR '' ''"

lemma ref_scan_blank [simp]: "ref_scan (CHR '' '' # s) = ref_scan s"
  by (simp add: ref_scan_def)

lemma ref_scan_Nil [simp]: "ref_scan [] = (EOL, [], [])"
  by (simp add: ref_scan_def)

lemma name_char_blank [simp]: "\<not> name_char (CHR '' '')" "\<not> num_char (CHR '' '')"
  by (simp_all add: isAlpha_def isDigit_def isSymbol_def)

lemma takeWhile_token:
  assumes "\<forall>d \<in> set cs. P d" and "ends_token r" and "\<not> P (CHR '' '')"
  shows "takeWhile P (cs @ r) = cs" and "dropWhile P (cs @ r) = r"
  using assms by (cases r; auto simp: ends_token_def)+

lemma not_blank: "isAlpha c \<or> isSymbol c \<or> isDigit c \<Longrightarrow> \<not> blank c"
  by (auto simp: isAlpha_def isDigit_def isSymbol_def)

lemma ref_scan_name_token:
  assumes "is_name x" and "ends_token r"
  shows "ref_scan (x @ r) = (STRING, x, r)"
proof -
  obtain c cs where x: "x = c # cs" "isAlpha c \<or> isSymbol c" "\<forall>d \<in> set cs. name_char d"
    using assms(1) by (auto simp: is_name_def)
  have "\<not> blank c" using not_blank x(2) by blast
  then show ?thesis
    using x assms takeWhile_token [OF x(3) assms(2)] by (simp add: ref_scan_def Let_def is_name_def)
qed

lemma ref_scan_nil_token: "ends_token r \<Longrightarrow> ref_scan (''nil'' @ r) = (NIL, ''nil'', r)"
  using takeWhile_token [of "''il''" name_char r]
  by (simp add: ref_scan_def Let_def isAlpha_def isSymbol_def isDigit_def)

lemma isDigit_decimal: "\<forall>c \<in> set (decimal n). isDigit c"
  using decimal_digits [of n] by (simp add: list_all_iff is_digit_def isDigit_def)

lemma isDigit_not_alpha: "isDigit c \<Longrightarrow> \<not> (isAlpha c \<or> isSymbol c)"
  using order_trans [of "CHR ''a''" c "CHR ''9''"] order_trans [of "CHR ''A''" c "CHR ''9''"]
  by (auto simp: isDigit_def isAlpha_def isSymbol_def)

lemma ref_scan_number_token:
  assumes "ends_token r"
  shows "ref_scan (decimal n @ r) = (NUMBER, decimal n, r)"
proof -
  obtain c cs where d: "decimal n = c # cs" by (cases "decimal n") auto
  have digits: "isDigit c" "\<forall>x \<in> set cs. num_char x" using isDigit_decimal [of n] by (auto simp: d)
  have "\<not> blank c" "\<not> (isAlpha c \<or> isSymbol c)" using digits(1) not_blank isDigit_not_alpha by blast+
  moreover have "CHR ''.'' \<notin> set (c # cs)" using isDigit_decimal [of n] by (auto simp: d isDigit_def)
  ultimately show ?thesis
    using digits takeWhile_token [OF digits(2) assms name_char_blank(2)] by (simp add: d ref_scan_def Let_def count_notin)
qed

lemma parseFloat_decimal:
  assumes "0 \<le> i" and "i < 2 ^ 24"
  shows "parseFloat (decimal (nat i)) = Some (exact i)"
proof -
  have "\<forall>c \<in> set (decimal (nat i)). c \<noteq> CHR ''.''" using isDigit_decimal [of "nat i"] by (auto simp: isDigit_def)
  then have t: "takeWhile (\<lambda>c. c \<noteq> CHR ''.'') (decimal (nat i)) = decimal (nat i)" by (simp only: takeWhile_eq_all_conv)
  have "int_of_digits (decimal (nat i)) = i"
    using digits_value_decimal [of "nat i"] assms(1) by (simp add: int_of_digits_def digit_val_def digits_value_def)
  then show ?thesis using round32_small [OF assms] by (simp add: parseFloat_def exact_def t del: takeWhile_eq_all_conv)
qed

lemma ref_scan_paren [simp]: "ref_scan (CHR ''('' # r) = (LPAREN, [], r)" "ref_scan (CHR '')'' # r) = (RPAREN, [], r)"
  "ref_scan (CHR ''-'' # r) = (DEC, [], r)"
  by (simp_all add: ref_scan_def ref_op_def isAlpha_def isSymbol_def isDigit_def)

lemma ref_scan_op_token:
  assumes "t \<in> set compare_ops \<or> t = AND \<or> t = OR"
  shows "ref_scan (Token_String t @ CHR '' '' # r) = (t, [], CHR '' '' # r)"
  using assms by (auto simp: compare_ops_def ref_scan_def ref_op_def ref_two_def isAlpha_def isSymbol_def isDigit_def)

subsection \<open>Parsing\<close>

text \<open>A parser in front of a text: its token is the first one of the text.\<close>

definition reads :: "parser \<Rightarrow> string \<Rightarrow> bool" where
  "reads p s \<longleftrightarrow> lex_wf (p_lexer p) \<and> ref_scan s = (p_tok p, p_val p, lex_rest (p_lexer p)) \<and> p_tok p \<noteq> ILLEGAL"

lemma reads_blank [simp]: "reads p (CHR '' '' # s) = reads p s"
  by (simp add: reads_def)

abbreviation legal :: "string \<Rightarrow> bool" where
  "legal s \<equiv> fst (ref_scan s) \<noteq> ILLEGAL"

lemma next_reads:
  assumes "lex_wf (p_lexer p)" and "legal (lex_rest (p_lexer p))"
  shows "\<exists>p'. p_next p = Inr p' \<and> reads p' (lex_rest (p_lexer p))"
proof -
  let ?r = "lex_rest (p_lexer p)"
  obtain t v r where rs: "ref_scan ?r = (t, v, r)" by (cases "ref_scan ?r")
  obtain ps l where "Scan (p_lexer p) = Some (ps, t, v, l)" "lex_wf l" "lex_rest l = r"
    using Scan_refines_ref_scan [OF assms(1)] rs by auto
  with assms(2) rs show ?thesis by (simp add: p_next_def reads_def)
qed

lemma reads_next:
  assumes "reads p s" and "ref_scan s = (t, v, r)" and "legal r"
  shows "p_tok p = t" and "p_val p = v" and "\<exists>p'. p_next p = Inr p' \<and> reads p' r"
  using assms next_reads [of p] by (simp_all add: reads_def)

lemma reads_tok: "reads p s \<Longrightarrow> p_tok p = fst (ref_scan s)"
  by (simp add: reads_def)

lemma primary_reads:
  assumes "reads p (x @ r)" and "legal r" and "ends_token r"
  shows "is_name x \<Longrightarrow> \<exists>p'. primary rec p = Inr (LiteralExpr x, p') \<and> reads p' r"
    and "x = ''nil'' \<Longrightarrow> \<exists>p'. primary rec p = Inr (NilExpr, p') \<and> reads p' r"
    and "x = decimal (nat i) \<Longrightarrow> 0 \<le> i \<Longrightarrow> i < 2 ^ 24 \<Longrightarrow>
      \<exists>p'. primary rec p = Inr (NumExpr (exact i), p') \<and> reads p' r"
proof -
  show "\<exists>p'. primary rec p = Inr (LiteralExpr x, p') \<and> reads p' r" if "is_name x"
    using reads_next [OF assms(1) ref_scan_name_token [OF that assms(3)] assms(2)] by (auto simp: primary_def)
  show "\<exists>p'. primary rec p = Inr (NilExpr, p') \<and> reads p' r" if x: "x = ''nil''"
    using reads_next [OF assms(1) [unfolded x] ref_scan_nil_token [OF assms(3)] assms(2)] by (auto simp: primary_def)
  show "\<exists>p'. primary rec p = Inr (NumExpr (exact i), p') \<and> reads p' r"
    if x: "x = decimal (nat i)" and i: "0 \<le> i" "i < 2 ^ 24"
    using reads_next [OF assms(1) [unfolded x] ref_scan_number_token [OF assms(3)] assms(2)] parseFloat_decimal [OF i]
    by (auto simp: primary_def)
qed

text \<open>A value, up to the next token, which is not a unit.\<close>

lemma unary_reads:
  assumes "is_operand v" and "integral v" and "reads p (Expr_String conv v @ r)" and "legal r" and "ends_token r"
  shows "\<exists>p'. unary rec p = Inr (v, p') \<and> reads p' r"
proof -
  consider (nil) "v = NilExpr" | (num) i where "v = NumExpr (exact i)" "0 \<le> i" "i < 2 ^ 24"
    | (neg) i where "v = UnaryExpr DEC (NumExpr (exact i))" "0 \<le> i" "i < 2 ^ 24"
    using assms(1,2) by (auto simp: is_operand_def)
  then show ?thesis
  proof cases
    case nil
    with primary_reads(2) [OF _ assms(4,5), of p "''nil''"] assms(3) reads_tok [OF assms(3)]
      ref_scan_nil_token [OF assms(5)]
    show ?thesis by (simp add: unary_def matches_def expect_def)
  next
    case (num i)
    with assms(3) have "reads p (decimal (nat i) @ r)" by (simp add: NumExpr_String_integral)
    with primary_reads(3) [OF this assms(4,5) HOL.refl num(2,3)] reads_tok [OF this] ref_scan_number_token [OF assms(5)] num(1)
    show ?thesis by (simp add: unary_def matches_def expect_def)
  next
    case (neg i)
    let ?d = "decimal (nat i) @ r"
    from neg assms(3) have p: "reads p (CHR ''-'' # ?d)" by (simp add: NumExpr_String_integral)
    have num: "ref_scan ?d = (NUMBER, decimal (nat i), r)" by (rule ref_scan_number_token [OF assms(5)])
    obtain p1 where p1: "p_next p = Inr p1" "reads p1 ?d" "p_tok p = DEC"
      using reads_next [OF p ref_scan_paren(3)] num by auto
    with primary_reads(3) [OF p1(2) assms(4,5) HOL.refl neg(2,3)] reads_tok [OF p1(2)] num neg(1)
    show ?thesis by (auto simp: unary_def matches_def expect_def)
  qed
qed

lemma value_reads:
  assumes "is_value v" and "integral v" and "reads p (Expr_String conv v @ r)"
    and "legal r" and "ends_token r" and "fst (ref_scan r) \<noteq> STRING"
  shows "\<exists>p'. p_value rec p = Inr (v, p') \<and> reads p' r"
proof (cases "is_operand v")
  case True
  from unary_reads [OF True assms(2-5)] obtain p' where "unary rec p = Inr (v, p')" "reads p' r" by blast
  with assms(6) reads_tok [of p' r] show ?thesis by (simp add: p_value_def matches_def)
next
  case False
  with assms(1) obtain l u where v: "v = ValueExpr l (LiteralExpr u)" "is_operand l" "is_name u"
    by (cases v) (auto simp: is_operand_def split: Expr.splits)
  let ?r = "CHR '' '' # u @ r"
  have u: "ref_scan ?r = (STRING, u, r)" using ref_scan_name_token [OF v(3) assms(5)] by simp
  obtain p1 where p1: "unary rec p = Inr (l, p1)" "reads p1 ?r"
    using unary_reads [OF v(2), of p conv ?r] assms(2,3) v(1) u by (auto simp: ends_token_def)
  with primary_reads(1) [of p1 u r] assms(4,5) v(1,3) u reads_tok [OF p1(2)]
  show ?thesis by (auto simp: p_value_def matches_def)
qed

text \<open>The fuel an expression takes: one unit for each level of the parentheses it is printed with.\<close>

fun depth :: "Expr \<Rightarrow> nat" where
  "depth (CompExpr l t r) = Suc (depth l)"
| "depth (LogicExpr l t r) = Suc (max (depth l) (depth r))"
| "depth (GroupExpr e) = depth e"
| "depth _ = 0"

lemma depth_le: "depth e \<le> length (Expr_String conv e)"
  by (induction e) auto

text \<open>The levels above \<open>primary\<close> when no operator of theirs follows.\<close>

lemma compare_plain:
  assumes "primary rec p = Inr (e, p')" and "p_tok p' \<notin> set compare_ops"
  shows "compare rec p = Inr (e, p')"
  using assms by (simp add: compare_def matches_def)

lemma and_plain:
  assumes "compare rec p = Inr (e, p')" and "p_tok p' \<in> {OR, RPAREN, EOL}"
  shows "p_and rec p = Inr (e, p')"
  using assms by (auto simp: p_and_def matches_def)

lemma expression_plain:
  assumes "p_and (expression n) p = Inr (e, p')" and "p_tok p' \<noteq> OR"
  shows "expression (Suc n) p = Inr (e, p')"
  using assms by (simp add: p_or_def matches_def)

lemma expression_or:
  assumes "p_and (expression (Suc n)) p = Inr (l, p1)" and "p_tok p1 = OR" and "p_next p1 = Inr p2"
    and "p_and (expression (Suc n)) p2 = Inr (r, p3)" and "p_tok p3 \<noteq> OR"
  shows "expression (Suc (Suc n)) p = Inr (LogicExpr l OR r, p3)"
  using assms by (simp add: expression.simps(2) [of "Suc n" p] p_or_def matches_def del: expression.simps(2))

lemma primary_group:
  assumes "reads p (CHR ''('' # s)" and "legal s" and "legal r"
    and "\<And>p1. reads p1 s \<Longrightarrow> \<exists>p2. rec p1 = Inr (e, p2) \<and> reads p2 (CHR '')'' # r)"
  shows "\<exists>p'. primary rec p = Inr (GroupExpr e, p') \<and> reads p' r"
proof -
  obtain p1 where p1: "p_next p = Inr p1" "reads p1 s" "p_tok p = LPAREN"
    using reads_next [OF assms(1) ref_scan_paren(1) assms(2)] by blast
  obtain p2 where p2: "rec p1 = Inr (e, p2)" "reads p2 (CHR '')'' # r)" using assms(4) [OF p1(2)] by blast
  obtain p3 where "p_next p2 = Inr p3" "reads p3 r" "p_tok p2 = RPAREN"
    using reads_next [OF p2(2) ref_scan_paren(2) assms(3)] by blast
  with p1 p2 show ?thesis by (simp add: primary_def consume_def matches_def)
qed

text \<open>The first token of a printed expression is a name, a number, nil or a parenthesis.\<close>

lemma Expr_String_legal:
  "gram k e \<Longrightarrow> integral e \<Longrightarrow> ends_token r \<Longrightarrow> legal (Expr_String conv e @ r)"
proof (induction e arbitrary: k)
  case (LiteralExpr x)
  then show ?case using ref_scan_name_token by simp
next
  case NilExpr
  then show ?case using ref_scan_nil_token by simp
next
  case (NumExpr v)
  then show ?case using ref_scan_number_token by (auto simp: NumExpr_String_integral)
qed auto

lemma operand_String_legal:
  "is_operand v \<Longrightarrow> integral v \<Longrightarrow> ends_token r \<Longrightarrow> legal (Expr_String conv v @ r)"
  using ref_scan_nil_token ref_scan_number_token by (auto simp: is_operand_def NumExpr_String_integral)

lemma value_String_legal:
  "is_value v \<Longrightarrow> integral v \<Longrightarrow> ends_token r \<Longrightarrow> legal (Expr_String conv v @ r)"
proof (cases "is_operand v")
  case False
  assume v: "is_value v" "integral v"
  with False obtain l u where "v = ValueExpr l (LiteralExpr u)" "is_operand l"
    by (cases v) (auto simp: is_operand_def split: Expr.splits)
  with v operand_String_legal [of l "CHR '' '' # u @ r" conv] show ?thesis by (simp add: ends_token_def)
qed (rule operand_String_legal)

lemma op_follows:
  assumes "t \<in> set compare_ops \<or> t = AND \<or> t = OR"
  shows "legal (CHR '' '' # Token_String t @ CHR '' '' # r)" "ends_token (CHR '' '' # s)"
    "fst (ref_scan (CHR '' '' # Token_String t @ CHR '' '' # r)) = t"
  using assms ref_scan_op_token [OF assms] by (auto simp: ends_token_def compare_ops_def)

lemma compare_reads:
  assumes l: "\<And>p s. legal s \<Longrightarrow> ends_token s \<Longrightarrow> reads p (Expr_String conv l @ s) \<Longrightarrow>
      \<exists>p'. primary rec p = Inr (l', p') \<and> reads p' s"
    and r: "is_value r" "integral r" and t: "t \<in> set compare_ops"
    and p: "reads p (Expr_String conv l @ '' '' @ Token_String t @ '' '' @ Expr_String conv r @ '' '' @ CHR '')'' # s)"
  shows "\<exists>p'. compare rec p = Inr (CompExpr l' t r, p') \<and> reads p' (CHR '')'' # s)"
proof -
  let ?r = "CHR '' '' # Expr_String conv r @ CHR '' '' # CHR '')'' # s"
  let ?op = "CHR '' '' # Token_String t @ ?r"
  obtain p1 where p1: "primary rec p = Inr (l', p1)" "reads p1 ?op"
    using l [of ?op p] op_follows [of t] t p by auto
  have "legal ?r" using value_String_legal [OF r] by (simp add: ends_token_def)
  then obtain p2 where p2: "p_next p1 = Inr p2" "reads p2 ?r" "p_tok p1 = t"
    using reads_next [OF p1(2), of t "[]" ?r] ref_scan_op_token [of t] t by auto
  obtain p3 where "p_value rec p2 = Inr (r, p3)" "reads p3 (CHR '' '' # CHR '')'' # s)"
    using value_reads [OF r, of p2 conv "CHR '' '' # CHR '')'' # s" rec] p2(2) by (auto simp: ends_token_def)
  with p1 p2 t show ?thesis by (simp add: compare_def matches_def)
qed

lemma primary_prints:
  "gram k e \<Longrightarrow> integral e \<Longrightarrow> depth e < n \<Longrightarrow> legal s \<Longrightarrow> ends_token s \<Longrightarrow>
     reads p (Expr_String conv e @ s) \<Longrightarrow> \<exists>p'. primary (expression n) p = Inr (regroup e, p') \<and> reads p' s"
proof (induction e arbitrary: k n p s)
  case (LiteralExpr x)
  then show ?case using primary_reads(1) by simp
next
  case NilExpr
  then show ?case using primary_reads(2) [of p "''nil''"] by simp
next
  case (NumExpr v)
  then show ?case using primary_reads(3) [of p "decimal (nat i)" s i for i] by (auto simp: NumExpr_String_integral)
next
  case (GroupExpr e)
  from GroupExpr.IH [of 3 n s p] GroupExpr.prems show ?case by simp
next
  case (CompExpr l t r)
  then have l: "gram 0 l" "integral l" and r: "is_value r" "integral r" and t: "t \<in> set compare_ops" by auto
  obtain m where n: "n = Suc m" "depth l < m" using CompExpr.prems(3) by (cases n) auto
  let ?s = "Expr_String conv l @ '' '' @ Token_String t @ '' '' @ Expr_String conv r @ '' '' @ CHR '')'' # s"
  have inner: "\<exists>p2. expression n p1 = Inr (CompExpr (regroup l) t r, p2) \<and> reads p2 (CHR '')'' # s)"
    if p1: "reads p1 (CHR '' '' # ?s)" for p1
  proof -
    obtain p2 where "compare (expression m) p1 = Inr (CompExpr (regroup l) t r, p2)" "reads p2 (CHR '')'' # s)"
      using compare_reads [OF CompExpr.IH(1) [OF l n(2)] r t, where p = p1 and s = s] p1 by auto
    then show ?thesis using expression_plain [OF and_plain] reads_tok n(1) by auto
  qed
  from primary_group [of p "CHR '' '' # ?s" s "expression n", OF _ _ CompExpr.prems(4) inner]
    CompExpr.prems(6) Expr_String_legal [OF l, of _ conv]
  show ?case by (simp add: ends_token_def)
next
  case (LogicExpr l t r)
  then obtain i j where l: "gram i l" "integral l" and r: "gram j r" "integral r" and t: "t = AND \<or> t = OR" by auto
  obtain m where n: "n = Suc (Suc m)" "depth l < Suc m" "depth r < Suc m" using LogicExpr.prems(3) by (cases n rule: nat.exhaust; cases "n - 1") auto
  define rec where "rec = expression (Suc m)"
  note IH = LogicExpr.IH(1) [OF l n(2), folded rec_def] LogicExpr.IH(2) [OF r n(3), folded rec_def]
  let ?r = "CHR '' '' # Expr_String conv r @ CHR '' '' # CHR '')'' # s"
  let ?op = "CHR '' '' # Token_String t @ ?r"
  have op: "legal ?op" "ends_token ?op" "ref_scan ?op = (t, [], ?r)"
    using op_follows [of t] ref_scan_op_token [of t] t by auto
  have legal: "legal ?r" using Expr_String_legal [OF r] by (simp add: ends_token_def)
  have inner: "\<exists>p2. expression n p1 = Inr (LogicExpr (regroup l) t (regroup r), p2) \<and> reads p2 (CHR '')'' # s)"
    if p1: "reads p1 (CHR '' '' # Expr_String conv l @ ?op)" for p1
  proof -
    obtain p2 where p2: "primary rec p1 = Inr (regroup l, p2)" "reads p2 ?op"
      using IH(1) [OF op(1,2)] p1 by (auto simp del: reads_blank simp: reads_blank [of p1])
    obtain p3 where p3: "p_next p2 = Inr p3" "reads p3 ?r" "p_tok p2 = t"
      using reads_next [OF p2(2) op(3) legal] by blast
    obtain p4 where p4: "primary rec p3 = Inr (regroup r, p4)" "reads p4 (CHR '')'' # s)"
      using IH(2) [of "CHR '' '' # CHR '')'' # s" p3] p3(2) by (auto simp: ends_token_def)
    have tok: "p_tok p4 = RPAREN" using reads_tok [OF p4(2)] by simp
    have c: "compare rec p1 = Inr (regroup l, p2)" "compare rec p3 = Inr (regroup r, p4)"
      using compare_plain [OF p2(1)] compare_plain [OF p4(1)] p3(3) t tok by (auto simp: compare_ops_def)
    from t show ?thesis
    proof
      assume "t = AND"
      then have "p_and rec p1 = Inr (LogicExpr (regroup l) t (regroup r), p4)"
        using c p3 by (simp add: p_and_def matches_def)
      with expression_plain [of "Suc m" p1, folded rec_def, OF this] tok n(1) p4(2) show ?thesis by auto
    next
      assume or: "t = OR"
      have "p_and rec p1 = Inr (regroup l, p2)" "p_and rec p3 = Inr (regroup r, p4)"
        using and_plain [OF c(1)] and_plain [OF c(2)] p3(3) tok or by auto
      with expression_or [of m p1, folded rec_def] p3 or tok n(1) p4(2) show ?thesis by auto
    qed
  qed
  from primary_group [of p "CHR '' '' # Expr_String conv l @ ?op" s "expression n", OF _ _ LogicExpr.prems(4) inner]
    LogicExpr.prems(6) Expr_String_legal [OF l, of _ conv]
  show ?case by (simp add: ends_token_def)
qed auto

subsection \<open>The whole text\<close>

lemma printed_no_NUL:
  shows "is_name x \<Longrightarrow> NUL \<notin> set x" and "NUL \<notin> set (decimal n)" and "NUL \<notin> set (Token_String t)"
proof -
  have "\<not> name_char NUL" by (simp add: isAlpha_def isSymbol_def isDigit_def)
  then show "is_name x \<Longrightarrow> NUL \<notin> set x" unfolding is_name_def by fastforce
  show "NUL \<notin> set (decimal n)" using isDigit_decimal [of n] by (auto simp: isDigit_def)
  show "NUL \<notin> set (Token_String t)" by (cases t) auto
qed

lemma operand_no_NUL: "is_operand v \<Longrightarrow> integral v \<Longrightarrow> NUL \<notin> set (Expr_String conv v)"
  using printed_no_NUL(2) by (auto simp: is_operand_def NumExpr_String_integral)

lemma value_no_NUL: "is_value v \<Longrightarrow> integral v \<Longrightarrow> NUL \<notin> set (Expr_String conv v)"
proof (cases "is_operand v")
  case False
  assume v: "is_value v" "integral v"
  with False obtain l u where "v = ValueExpr l (LiteralExpr u)" "is_operand l" "is_name u"
    by (cases v) (auto simp: is_operand_def split: Expr.splits)
  with v operand_no_NUL [of l conv] printed_no_NUL(1) [of u] show ?thesis by simp
qed (rule operand_no_NUL)

lemma Expr_no_NUL: "gram k e \<Longrightarrow> integral e \<Longrightarrow> NUL \<notin> set (Expr_String conv e)"
proof (induction e arbitrary: k)
  case (NumExpr v)
  then show ?case using printed_no_NUL(2) by (auto simp: NumExpr_String_integral)
next
  case (CompExpr l t r)
  then show ?case using value_no_NUL printed_no_NUL(3) [of t] by auto
next
  case (LogicExpr l t r)
  then show ?case using printed_no_NUL(3) [of t] by auto
qed (use printed_no_NUL(1) in auto)

lemma parse_printed:
  assumes "gram k e" and "integral e"
  shows "parse (Expr_String conv e) = Inr (regroup e)"
proof -
  let ?s = "Expr_String conv e"
  let ?p = "\<lparr>p_lexer = newLexer ?s, p_pos = 0, p_tok = ILLEGAL, p_val = []\<rparr>"
  have rest: "lex_rest (newLexer ?s) = ?s"
    using Expr_no_NUL [OF assms, of conv] by (auto simp: lex_rest_new takeWhile_eq_all_conv)
  have nil: "legal []" "ends_token []" by (simp_all add: ends_token_def)
  have "legal ?s" using Expr_String_legal [OF assms nil(2)] by simp
  then obtain p1 where p1: "p_next ?p = Inr p1" "reads p1 ?s"
    using next_reads [of ?p] lex_wf_new rest by auto
  obtain p2 where p2: "primary (expression (Suc (length ?s))) p1 = Inr (regroup e, p2)" "reads p2 []"
    using primary_prints [OF assms _ nil] depth_le [of e conv] p1(2) by (metis append_Nil2 le_imp_less_Suc)
  then have "p_tok p2 = EOL" using reads_tok by fastforce
  then have "expression (Suc (Suc (length ?s))) p1 = Inr (regroup e, p2)"
    using expression_plain [OF and_plain [OF compare_plain [OF p2(1)]]] by (simp add: compare_ops_def)
  then show ?thesis using p1(1) by (simp add: parse_def del: expression.simps)
qed

text \<open>Reading an expression with more parentheses changes its errors, never its value.\<close>

definition same_outcome :: "(eval_panic + val) \<Rightarrow> (eval_panic + val) \<Rightarrow> bool" where
  "same_outcome x y \<longleftrightarrow> (case x of Inr v \<Rightarrow> y = Inr v | Inl _ \<Rightarrow> \<exists>e. y = Inl e)"

lemma same_outcome_visit:
  "same_outcome (visitComprExpr e t l r) (visitComprExpr e' t l r)"
  "same_outcome (visitLogicExpr e t l r) (visitLogicExpr e' t l r)"
  by (cases t; simp add: same_outcome_def visitComprExpr_def visitLogicExpr_def)+

lemma same_outcome_bind:
  assumes "same_outcome x y" and "\<And>v. same_outcome (f v) (g v)"
  shows "same_outcome (res_bind x f) (res_bind y g)"
  using assms by (cases x) (auto simp: same_outcome_def)

lemma same_outcome_refl [simp]: "same_outcome x x"
  by (simp add: same_outcome_def split: sum.splits)

lemma Accept_regroup: "same_outcome (Accept vs e) (Accept vs (regroup e))"
  by (induction e) (auto intro!: same_outcome_bind same_outcome_visit)

lemma Evaluate_same:
  assumes "same_outcome (Accept vs e) (Accept vs e')"
  shows "fst (Evaluate e' vs) = fst (Evaluate e vs)"
    and "snd (Evaluate e' vs) = None \<longleftrightarrow> snd (Evaluate e vs) = None"
  using assms by (auto simp: same_outcome_def Evaluate_def split: sum.splits eval_panic.splits)

section \<open>Properties\<close>

text \<open>
  C9: A printed expression is read back. When \<open>parse\<close> has accepted a condition whose numbers are
  integers below \<open>2^24\<close>, what its \<open>String\<close> method prints is accepted again, and the expression it
  gives has the same value as the first one for all variables, and an error in the same cases. This
  holds although \<open>String\<close> drops the parentheses of the source and adds others.
\<close>

theorem print_parse:
  assumes "parse s = Inr e" and "integral e"
  shows "\<exists>e'. parse (Expr_String conv e) = Inr e' \<and>
    (\<forall>vs. fst (Evaluate e' vs) = fst (Evaluate e vs) \<and>
          (snd (Evaluate e' vs) = None \<longleftrightarrow> snd (Evaluate e vs) = None))"
  using parse_printed [OF parse_gram [OF assms(1)] assms(2)] Evaluate_same [OF Accept_regroup] by blast

lemma parse_example:
  "parse ''a > 2 && (b == nil || c)'' =
     Inr (LogicExpr (CompExpr (LiteralExpr ''a'') GREATER (NumExpr (exact 2))) AND
       (GroupExpr (LogicExpr (CompExpr (LiteralExpr ''b'') EQUALS NilExpr) OR (LiteralExpr ''c''))))"
  unfolding exact_def by code_simp

theorem print_parse_witness:
  "\<exists>e e'. parse ''a > 2 && (b == nil || c)'' = Inr e \<and>
     Expr_String (\<lambda>_. 0) e = ''( ( a > 2 ) && ( ( b == nil ) || c ) )'' \<and> parse (Expr_String (\<lambda>_. 0) e) = Inr e' \<and>
     fst (Evaluate e' [''a'' \<mapsto> VInt 3]) = fst (Evaluate e [''a'' \<mapsto> VInt 3])"
proof -
  let ?e = "LogicExpr (CompExpr (LiteralExpr ''a'') GREATER (NumExpr (exact 2))) AND
       (GroupExpr (LogicExpr (CompExpr (LiteralExpr ''b'') EQUALS NilExpr) OR (LiteralExpr ''c'')))"
  have "integral ?e" by (auto intro: exI [of _ 2])
  from print_parse [OF parse_example this, of "\<lambda>_. 0"]
  obtain e' where e': "parse (Expr_String (\<lambda>_. 0) ?e) = Inr e'" "\<forall>vs. fst (Evaluate e' vs) = fst (Evaluate ?e vs)"
    by blast
  have two: "decimal 2 = ''2''" by code_simp
  have "Expr_String (\<lambda>_. 0) ?e = ''( ( a > 2 ) && ( ( b == nil ) || c ) )''"
    using NumExpr_String_integral [of 2 "\<lambda>_. 0"] two by simp
  with e' parse_example show ?thesis by blast
qed

end
