(* ===== verification/Store.thy ===== *)
theory Store
  imports Go_Prelude
begin

text \<open>
  The store of jobs and the difference of two lists by ID (\<open>internal/scheduler/store.go\<close>,
  \<open>util.go\<close>), for any type of elements: the scheduler instantiates it with job pointers. A Go
  slice is a window on a backing array: \<open>ToList\<close> shares the array, and \<open>Delete\<close> moves the tail
  inside it. The store is therefore the backing array and the length of the window; what is
  behind the window is kept, since a loop over an earlier \<open>ToList\<close> still sees it.
\<close>

section \<open>The store\<close>

record 'a Store =
  backing :: "'a list"
  len :: nat

definition NewStore :: "'a Store" where
  "NewStore = \<lparr>backing = [], len = 0\<rparr>"

definition Len :: "'a Store \<Rightarrow> nat" where
  "Len s = len s"

text \<open>\<open>Inl ()\<close> is the panic of an index below zero.\<close>

definition Get :: "'a Store \<Rightarrow> int \<Rightarrow> unit + 'a option" where
  "Get s idx =
     (if int (len s) \<le> idx then Inr None
      else if idx < 0 then Inl ()
      else Inr (Some (backing s ! nat idx)))"

definition ToList :: "'a Store \<Rightarrow> 'a list" where
  "ToList s = take (len s) (backing s)"

fun index_from :: "('a \<Rightarrow> string) \<Rightarrow> nat \<Rightarrow> 'a list \<Rightarrow> string \<Rightarrow> nat option" where
  "index_from ids i [] k = None"
| "index_from ids i (t # ts) k = (if ids t = k then Some i else index_from ids (Suc i) ts k)"

definition index :: "('a \<Rightarrow> string) \<Rightarrow> 'a Store \<Rightarrow> string \<Rightarrow> nat option" where
  "index ids s k = index_from ids 0 (ToList s) k"

fun find_from :: "('a \<Rightarrow> string) \<Rightarrow> 'a list \<Rightarrow> string \<Rightarrow> 'a option" where
  "find_from ids [] k = None"
| "find_from ids (t # ts) k = (if ids t = k then Some t else find_from ids ts k)"

definition Find :: "('a \<Rightarrow> string) \<Rightarrow> 'a Store \<Rightarrow> string \<Rightarrow> 'a option" where
  "Find ids s k = find_from ids (ToList s) k"

text \<open>
  \<open>append(s.jobs, t)\<close> writes behind the window, in place when the array has room and in a larger
  copy otherwise.
\<close>

definition Add :: "'a Store \<Rightarrow> 'a \<Rightarrow> 'a Store" where
  "Add s t = \<lparr>backing = take (len s) (backing s) @ [t] @ drop (Suc (len s)) (backing s),
              len = Suc (len s)\<rparr>"

text \<open>
  \<open>append(s.jobs[:idx], s.jobs[idx+1:]...)\<close> moves the elements after \<open>idx\<close> one place down; the
  last place of the old window keeps its value.
\<close>

definition Delete :: "('a \<Rightarrow> string) \<Rightarrow> 'a Store \<Rightarrow> 'a \<Rightarrow> 'a option \<times> 'a Store" where
  "Delete ids s el =
     (case index ids s (ids el) of
        None \<Rightarrow> (None, s)
      | Some i \<Rightarrow>
          (Some (backing s ! i),
           \<lparr>backing = take i (backing s) @ drop (Suc i) (take (len s) (backing s)) @
                       drop (len s - 1) (backing s),
            len = len s - 1\<rparr>))"

section \<open>The difference of two lists by ID\<close>

text \<open>One loop fills both maps; the result ranges over the first one, in the order \<open>rng\<close>.\<close>

fun substract_loop :: "('s \<Rightarrow> string) \<Rightarrow> ('t \<Rightarrow> string) \<Rightarrow> nat \<Rightarrow> nat \<Rightarrow> 's list \<Rightarrow> 't list \<Rightarrow>
    (string, 's) gomap \<Rightarrow> (string, 't) gomap \<Rightarrow> (string, 's) gomap \<times> (string, 't) gomap" where
  "substract_loop ida idb 0 i a b m1 m2 = (m1, m2)"
| "substract_loop ida idb (Suc n) i a b m1 m2 =
     substract_loop ida idb n (Suc i) a b
       (if i < length a then AList.update (ida (a ! i)) (a ! i) m1 else m1)
       (if i < length b then AList.update (idb (b ! i)) (b ! i) m2 else m2)"

definition substract :: "((string \<times> 's) list \<Rightarrow> (string \<times> 's) list) \<Rightarrow>
    ('s \<Rightarrow> string) \<Rightarrow> ('t \<Rightarrow> string) \<Rightarrow> 's list \<Rightarrow> 't list \<Rightarrow> 's list" where
  "substract rng ida idb a b =
     (let limit = (if length a < length b then length b else length a);
          (m1, m2) = substract_loop ida idb limit 0 a b [] []
      in map snd (filter (\<lambda>(k, v). map_of m2 k = None) (rng m1)))"

section \<open>The store is a list\<close>

definition store_wf :: "'a Store \<Rightarrow> bool" where
  "store_wf s \<longleftrightarrow> len s \<le> length (backing s)"

lemma store_wf_New [simp, wf_intros]: "store_wf NewStore"
  by (simp add: store_wf_def NewStore_def)

lemma ToList_New [simp]: "ToList NewStore = []"
  by (simp add: ToList_def NewStore_def)

lemma length_ToList: "store_wf s \<Longrightarrow> length (ToList s) = len s"
  by (simp add: store_wf_def ToList_def)

lemma store_wf_Add [simp, wf_intros]: "store_wf s \<Longrightarrow> store_wf (Add s t)"
  by (simp add: store_wf_def Add_def)

lemma ToList_Add [simp]: "store_wf s \<Longrightarrow> ToList (Add s t) = ToList s @ [t]"
  by (simp add: store_wf_def ToList_def Add_def)

lemma index_from_Some:
  "index_from ids i ts k = Some j \<Longrightarrow>
     i \<le> j \<and> j - i < length ts \<and> ids (ts ! (j - i)) = k \<and> (\<forall>m < j - i. ids (ts ! m) \<noteq> k)"
proof (induction ts arbitrary: i)
  case (Cons t ts)
  show ?case
  proof (cases "ids t = k")
    case False
    with Cons have IH: "Suc i \<le> j \<and> j - Suc i < length ts \<and> ids (ts ! (j - Suc i)) = k \<and>
        (\<forall>m < j - Suc i. ids (ts ! m) \<noteq> k)" by simp
    then have "j - i = Suc (j - Suc i)" by (metis Suc_diff_Suc Suc_le_eq)
    with IH False show ?thesis by (auto simp: less_Suc_eq_0_disj)
  qed (use Cons in auto)
qed simp

lemma index_from_None: "index_from ids i ts k = None \<longleftrightarrow> k \<notin> ids ` set ts"
  by (induction ts arbitrary: i) auto

lemma find_from_Some: "find_from ids ts k = Some t \<Longrightarrow> t \<in> set ts \<and> ids t = k"
  by (induction ts) (auto split: if_splits)

lemma find_from_None: "find_from ids ts k = None \<longleftrightarrow> k \<notin> ids ` set ts"
  by (induction ts) auto

text \<open>Removing the first element with an ID from a list.\<close>

fun remove_id :: "('a \<Rightarrow> string) \<Rightarrow> string \<Rightarrow> 'a list \<Rightarrow> 'a list" where
  "remove_id ids k [] = []"
| "remove_id ids k (t # ts) = (if ids t = k then ts else t # remove_id ids k ts)"

lemma remove_id_index:
  "index_from ids i ts k = Some j \<Longrightarrow> remove_id ids k ts = take (j - i) ts @ drop (Suc (j - i)) ts"
proof (induction ts arbitrary: i)
  case (Cons t ts)
  show ?case
  proof (cases "ids t = k")
    case False
    with Cons.prems have ix: "index_from ids (Suc i) ts k = Some j" by simp
    have "j - i = Suc (j - Suc i)"
      using index_from_Some [OF ix] by (metis Suc_diff_Suc Suc_le_eq)
    with Cons.IH [OF ix] False show ?thesis by simp
  qed (use Cons in auto)
qed simp

lemma remove_id_notin: "k \<notin> ids ` set ts \<Longrightarrow> remove_id ids k ts = ts"
  by (induction ts) auto

lemma remove_id_distinct:
  "distinct (map ids ts) \<Longrightarrow> remove_id ids k ts = filter (\<lambda>t. ids t \<noteq> k) ts"
proof (induction ts)
  case (Cons t ts)
  show ?case
  proof (cases "ids t = k")
    case True
    with Cons.prems have "k \<notin> ids ` set ts" by simp
    then have "\<forall>x \<in> set ts. ids x \<noteq> k" by blast
    with True show ?thesis by (simp add: filter_True)
  qed (use Cons in auto)
qed simp

lemma set_remove_id_subset: "set (remove_id ids k ts) \<subseteq> set ts"
  by (induction ts) auto

lemma distinct_remove_id: "distinct (map ids ts) \<Longrightarrow> distinct (map ids (remove_id ids k ts))"
  by (simp add: remove_id_distinct distinct_map_filter)

lemma Delete_wf [simp, wf_intros]: "store_wf s \<Longrightarrow> store_wf (snd (Delete ids s el))"
proof -
  assume wf: "store_wf s"
  show ?thesis
  proof (cases "index ids s (ids el)")
    case (Some i)
    with wf have "i < len s"
      using index_from_Some [of ids 0 "ToList s"] by (auto simp: index_def length_ToList)
    with wf Some show ?thesis by (auto simp: Delete_def store_wf_def)
  qed (use wf in \<open>simp add: Delete_def\<close>)
qed

lemma ToList_Delete:
  assumes wf: "store_wf s"
  shows "ToList (snd (Delete ids s el)) = remove_id ids (ids el) (ToList s)"
proof (cases "index ids s (ids el)")
  case None
  then have "ids el \<notin> ids ` set (ToList s)" by (simp add: index_def index_from_None)
  with None show ?thesis by (simp add: Delete_def remove_id_notin)
next
  case (Some i)
  note I = index_from_Some [OF Some [unfolded index_def]]
  then have i: "i < len s" using length_ToList [OF wf] by simp
  have "remove_id ids (ids el) (ToList s) = take i (ToList s) @ drop (Suc i) (ToList s)"
    using remove_id_index [OF Some [unfolded index_def]] by simp
  moreover have "take i (ToList s) = take i (backing s)"
    using i by (simp add: ToList_def min_def)
  ultimately show ?thesis
    using Some i wf by (simp add: Delete_def ToList_def store_wf_def)
qed

section \<open>The interface of the store\<close>

text \<open>
  What the scheduler relies on: the list of elements that \<open>ToList\<close> returns, after an \<open>Add\<close> and
  after a \<open>Delete\<close>, and that both keep the store well-formed. A store whose elements have
  distinct IDs stays so when an element with a new ID is added or any element is removed.
\<close>

locale job_store =
  fixes wf :: "'s \<Rightarrow> bool" and to_list :: "'s \<Rightarrow> 'a list"
    and add :: "'s \<Rightarrow> 'a \<Rightarrow> 's" and delete :: "'s \<Rightarrow> 'a \<Rightarrow> 's" and ids :: "'a \<Rightarrow> string"
  assumes wf_add: "wf s \<Longrightarrow> wf (add s t)"
    and wf_delete: "wf s \<Longrightarrow> wf (delete s t)"
    and list_add: "wf s \<Longrightarrow> to_list (add s t) = to_list s @ [t]"
    and list_delete: "wf s \<Longrightarrow> to_list (delete s t) = remove_id ids (ids t) (to_list s)"
begin

definition unique :: "'s \<Rightarrow> bool" where
  "unique s \<longleftrightarrow> wf s \<and> distinct (map ids (to_list s))"

lemma unique_add: "unique s \<Longrightarrow> ids t \<notin> ids ` set (to_list s) \<Longrightarrow> unique (add s t)"
  by (simp add: unique_def list_add wf_add)

lemma unique_delete: "unique s \<Longrightarrow> unique (delete s t)"
  by (simp add: unique_def list_delete wf_delete distinct_remove_id)

lemma delete_removes:
  "unique s \<Longrightarrow> set (to_list (delete s t)) = {x \<in> set (to_list s). ids x \<noteq> ids t}"
  by (auto simp: unique_def list_delete remove_id_distinct)

lemma delete_keeps_order:
  "unique s \<Longrightarrow> to_list (delete s t) = filter (\<lambda>x. ids x \<noteq> ids t) (to_list s)"
  by (simp add: unique_def list_delete remove_id_distinct)

lemma delete_add:
  "unique s \<Longrightarrow> ids t \<notin> ids ` set (to_list s) \<Longrightarrow> to_list (delete (add s t) t) = to_list s"
proof -
  assume u: "unique s" and new: "ids t \<notin> ids ` set (to_list s)"
  then have "to_list (delete (add s t) t) = filter (\<lambda>x. ids x \<noteq> ids t) (to_list s @ [t])"
    using delete_keeps_order [OF unique_add [OF u new]] by (simp add: list_add unique_def)
  moreover have "\<forall>x \<in> set (to_list s). ids x \<noteq> ids t" using new by (metis imageI)
  ultimately show ?thesis by simp
qed

lemma fold_add: "wf s \<Longrightarrow> wf (foldl add s ts) \<and> to_list (foldl add s ts) = to_list s @ ts"
  by (induction ts arbitrary: s) (auto simp: wf_add list_add)

end

interpretation js: job_store store_wf ToList Add "\<lambda>s t. snd (Delete ids s t)" ids for ids
  by unfold_locales (simp_all add: ToList_Delete)

text \<open>
  Deleting an element of a store with distinct IDs removes that element and keeps the others
  in their order, and a \<open>Delete\<close> right after the \<open>Add\<close> of a new element gives the old list back.
\<close>

theorem Delete_Add:
  assumes "store_wf s" and "distinct (map ids (ToList s))"
  shows "ToList (snd (Delete ids s t)) = filter (\<lambda>x. ids x \<noteq> ids t) (ToList s) \<and>
    (ids t \<notin> ids ` set (ToList s) \<longrightarrow> ToList (snd (Delete ids (Add s t) t)) = ToList s)"
proof -
  have "js.unique ids s" using assms by (simp add: js.unique_def)
  then show ?thesis using js.delete_keeps_order js.delete_add by metis
qed

theorem Delete_Add_witness:
  "ToList (snd (Delete (\<lambda>x. x) (Add (Add NewStore ''a'') ''b'') ''a'')) = [''b'']"
  using Delete_Add [of "Add (Add NewStore ''a'') ''b''" "\<lambda>x. x" "''a''"] by simp

text \<open>
  \<open>Find\<close> and \<open>Delete\<close> agree on what is there.
\<close>

lemma Find_None: "Find ids s k = None \<longleftrightarrow> k \<notin> ids ` set (ToList s)"
  by (simp add: Find_def find_from_None)

lemma Find_Some: "Find ids s k = Some t \<Longrightarrow> t \<in> set (ToList s) \<and> ids t = k"
  by (simp add: Find_def find_from_Some)

section \<open>The difference computed\<close>

definition put_id :: "('s \<Rightarrow> string) \<Rightarrow> (string, 's) gomap \<Rightarrow> 's \<Rightarrow> (string, 's) gomap" where
  "put_id ids m x = AList.update (ids x) x m"

lemma substract_loop_eq:
  "substract_loop ida idb n i a b m1 m2 =
     (foldl (put_id ida) m1 (take n (drop i a)), foldl (put_id idb) m2 (take n (drop i b)))"
proof (induction n arbitrary: i m1 m2)
  case (Suc n)
  have step: "take (Suc n) (drop i xs) = (if i < length xs then xs ! i # take n (drop (Suc i) xs) else [])"
    for xs :: "'c list"
    by (cases "i < length xs") (simp_all flip: Cons_nth_drop_Suc)
  show ?case
    by (simp only: substract_loop.simps Suc.IH step) (auto simp: put_id_def)
qed simp

lemma put_id_step:
  "fst ` set (put_id ids m x) = insert (ids x) (fst ` set m)"
  "set (put_id ids m x) \<subseteq> insert (ids x, x) (set m)"
  by (induction m) (auto simp: put_id_def)

definition by_id :: "('s \<Rightarrow> string) \<Rightarrow> (string, 's) gomap \<Rightarrow> 's set \<Rightarrow> bool" where
  "by_id ids m X \<longleftrightarrow> wf_map m \<and> (\<forall>k v. (k, v) \<in> set m \<longrightarrow> ids v = k \<and> v \<in> X)"

lemma by_id_fold:
  "by_id ids m X \<Longrightarrow> set xs \<subseteq> X \<Longrightarrow>
     by_id ids (foldl (put_id ids) m xs) X \<and>
     fst ` set (foldl (put_id ids) m xs) = fst ` set m \<union> ids ` set xs"
proof (induction xs arbitrary: m)
  case (Cons x xs)
  have "by_id ids (put_id ids m x) X"
    using Cons.prems put_id_step(2) [of ids m x] by (auto simp: by_id_def put_id_def)
  from Cons.IH [OF this] Cons.prems(2) show ?case by (simp add: put_id_step)
qed simp

lemma substract_laws:
  assumes "is_range rng"
  shows "set (substract rng ida idb a b) \<subseteq> set a \<and>
    ida ` set (substract rng ida idb a b) = ida ` set a - idb ` set b \<and>
    distinct (map ida (substract rng ida idb a b))"
proof -
  define m1 m2 where "m1 = foldl (put_id ida) [] a" and "m2 = foldl (put_id idb) [] b"
  have sub: "substract rng ida idb a b = map snd (filter (\<lambda>(k, v). map_of m2 k = None) (rng m1))"
    by (simp add: substract_def substract_loop_eq m1_def m2_def Let_def)
  have m1: "by_id ida m1 (set a)" "fst ` set m1 = ida ` set a"
    using by_id_fold [of ida "[]" "set a" a] by (simp_all add: m1_def by_id_def)
  have m2: "fst ` set m2 = idb ` set b"
    using by_id_fold [of idb "[]" "set b" b] by (simp add: m2_def by_id_def)
  have rng: "set (rng m1) = set m1" using assms by (rule is_range_set)
  have key: "ida v = k" "v \<in> set a" if "(k, v) \<in> set (rng m1)" for k v
    using m1(1) that rng by (auto simp: by_id_def)
  have none: "map_of m2 k = None \<longleftrightarrow> k \<notin> idb ` set b" for k
    by (simp add: map_of_eq_None_iff m2)
  have fstkeys: "map ida (substract rng ida idb a b) =
      map fst (filter (\<lambda>(k, v). map_of m2 k = None) (rng m1))"
    unfolding sub using key(1) by (auto simp: comp_def)
  have "mset (map fst (rng m1)) = mset (map fst m1)"
    using assms by (simp add: is_range_mset)
  then have "distinct (map fst (rng m1))"
    using m1(1) by (metis by_id_def wf_map_def mset_eq_imp_distinct_iff)
  then have "distinct (map ida (substract rng ida idb a b))"
    unfolding fstkeys by (rule distinct_map_filter)
  moreover have "ida ` set (substract rng ida idb a b) = ida ` set a - idb ` set b"
  proof -
    have "ida ` set (substract rng ida idb a b) =
        fst ` {x \<in> set m1. fst x \<notin> idb ` set b}"
      by (simp only: fstkeys flip: set_map) (auto simp: none rng)
    also have "\<dots> = fst ` set m1 - idb ` set b" by auto
    finally show ?thesis by (simp add: m1(2))
  qed
  moreover have "set (substract rng ida idb a b) \<subseteq> set a"
    unfolding sub using key(2) by auto
  ultimately show ?thesis by blast
qed

text \<open>
  C25: \<open>substract a b\<close> returns elements of \<open>a\<close> only, one for each ID that occurs in \<open>a\<close> and not in
  \<open>b\<close>, whatever the order in which the map of \<open>a\<close> is ranged over.
\<close>

theorem substract_spec:
  assumes "is_range rng"
  shows "set (substract rng ida idb a b) \<subseteq> set a \<and>
    ida ` set (substract rng ida idb a b) = ida ` set a - idb ` set b \<and>
    distinct (map ida (substract rng ida idb a b))"
  using assms by (rule substract_laws)

theorem substract_spec_witness:
  "is_range rev \<and> set (substract rev (\<lambda>x. x) (\<lambda>x. x) [''a'', ''b'', ''c''] [''b'', ''d'']) = {''a'', ''c''}"
proof -
  have "(\<lambda>x. x) ` set (substract rev (\<lambda>x. x) (\<lambda>x. x) [''a'', ''b'', ''c''] [''b'', ''d'']) =
      (\<lambda>x. x) ` set [''a'', ''b'', ''c''] - (\<lambda>x. x) ` set [''b'', ''d'']"
    using substract_spec [of rev "\<lambda>x. x" "\<lambda>x. x" "[''a'', ''b'', ''c'']" "[''b'', ''d'']"] by simp
  then show ?thesis by auto
qed

end
