(* ===== verification/Profile.thy ===== *)
theory Profile
  imports Interpreter
begin

text \<open>
  The profile manager (\<open>internal/profile\<close>: \<open>evaluator.go\<close>, \<open>manager.go\<close>, \<open>server.go\<close>, and
  \<open>internal/entity/profile.go\<close>). The evaluator is a function of the profiles and the metrics. The
  goroutine \<open>Manager.run\<close> is a step relation: a step is one branch of its \<open>select\<close>, or the
  completion of a channel send it waits in. The metric server is the state of its counter and of
  the goroutines its handler starts.
\<close>

section \<open>Evaluating profiles\<close>

record ProfileCondition =
  pc_Name :: string
  RequiredVariables :: "string list"
  Expression :: Expr

record DeviceProfile =
  dp_Name :: string
  dp_Conditions :: "ProfileCondition list"

record ConditionResult =
  cr_Name :: string
  cr_Value :: bool
  cr_Error :: "eval_error option"

record ProfileEvaluationResult =
  pr_Name :: string
  ConditionsResults :: "ConditionResult list"

record profileEvaluator =
  pe_Name :: string
  pe_Profile :: DeviceProfile

definition evaluator_evaluate :: "profileEvaluator \<Rightarrow> variables \<Rightarrow> ProfileEvaluationResult" where
  "evaluator_evaluate pe metrics =
     \<lparr>pr_Name = pe_Name pe,
      ConditionsResults = map (\<lambda>c. case Evaluate (Expression c) metrics of
          (res, err) \<Rightarrow> \<lparr>cr_Name = pc_Name c, cr_Value = res, cr_Error = err\<rparr>)
        (dp_Conditions (pe_Profile pe))\<rparr>"

type_synonym profiles = "(string, DeviceProfile) gomap"
type_synonym profiles_range = "profiles \<Rightarrow> profiles"

definition SetProfiles :: "profiles_range \<Rightarrow> profiles \<Rightarrow> profileEvaluator list" where
  "SetProfiles rng ps = map (\<lambda>(k, v). \<lparr>pe_Name = k, pe_Profile = v\<rparr>) (rng ps)"

text \<open>The option it returns is None exactly when there is no evaluator.\<close>

definition simple_Evaluate ::
    "profileEvaluator list \<Rightarrow> variables \<Rightarrow> ProfileEvaluationResult list option" where
  "simple_Evaluate evs metrics =
     (let results = map (\<lambda>e. evaluator_evaluate e metrics) evs
      in if length results = 0 then None else Some results)"

section \<open>The manager\<close>

text \<open>
  Where the goroutine is: in its \<open>select\<close>, or waiting in one of its channel sends. \<open>ToDone\<close> is the
  send of \<open>Shutdown\<close> to the metric server, which only the goroutine started by \<open>newMetricServer\<close>
  receives, once.
\<close>

datatype control =
    Select
  | ToInput "profiles option"
  | ToEvaluate
  | ToOutput "ProfileEvaluationResult list"
  | ToDone
  | Returned

record Manager =
  control :: control
  evaluators :: "profileEvaluator list"
  metrics :: variables
  metricServer :: bool
  doneListener :: bool
  metricChannel :: bool
  inputCh :: "profiles option option"
  evaluateCh :: bool
  OutputCh :: "ProfileEvaluationResult list option"
  cancelFunc :: bool

definition new_Manager :: Manager where
  "new_Manager = \<lparr>control = Select, evaluators = [], metrics = Map.empty, metricServer = False,
     doneListener = False, metricChannel = False, inputCh = None, evaluateCh = False,
     OutputCh = None, cancelFunc = False\<rparr>"

text \<open>The branch \<open>opt := <-input\<close>, up to the send it ends in.\<close>

definition on_input :: "profiles_range \<Rightarrow> profiles option \<Rightarrow> Manager \<Rightarrow> Manager" where
  "on_input rng opt m =
     (case opt of
        None \<Rightarrow> if metricServer m then m\<lparr>control := ToDone\<rparr> else m
      | Some ps \<Rightarrow>
          (let m1 = m\<lparr>evaluators := SetProfiles rng ps\<rparr>;
               m2 = (if \<not> metricServer m1
                     then m1\<lparr>metricServer := True, doneListener := True, metricChannel := True\<rparr>
                     else m1)
           in m2\<lparr>control := ToEvaluate\<rparr>))"

definition on_metric :: "string \<Rightarrow> float32 \<Rightarrow> Manager \<Rightarrow> Manager" where
  "on_metric name v m = m\<lparr>metrics := (metrics m)(name \<mapsto> VFloat32 v), control := ToEvaluate\<rparr>"

definition on_evaluate :: "Manager \<Rightarrow> Manager" where
  "on_evaluate m =
     (case simple_Evaluate (evaluators m) (metrics m) of
        None \<Rightarrow> m
      | Some results \<Rightarrow> m\<lparr>control := ToOutput results\<rparr>)"

text \<open>
  A message whose payload has the wrong type leaves the zero option, which is Some of no profiles.
\<close>

datatype payload = Profiles_payload "profiles option" | Other_payload

definition payload_value :: "payload \<Rightarrow> profiles option" where
  "payload_value p = (case p of Profiles_payload v \<Rightarrow> v | Other_payload \<Rightarrow> Some [])"

inductive run_step :: "profiles_range \<Rightarrow> Manager \<Rightarrow> Manager \<Rightarrow> bool" for rng where
  recv: "control m = Select \<Longrightarrow> run_step rng m (m\<lparr>control := ToInput (payload_value p)\<rparr>)"
| recv_other: "control m = Select \<Longrightarrow> run_step rng m m"
| send_input: "control m = ToInput v \<Longrightarrow> inputCh m = None \<Longrightarrow>
    run_step rng m (m\<lparr>inputCh := Some v, control := Select\<rparr>)"
| input: "control m = Select \<Longrightarrow> inputCh m = Some opt \<Longrightarrow>
    run_step rng m (on_input rng opt (m\<lparr>inputCh := None\<rparr>))"
| metric: "control m = Select \<Longrightarrow> metricChannel m \<Longrightarrow> run_step rng m (on_metric name v m)"
| send_evaluate: "control m = ToEvaluate \<Longrightarrow> \<not> evaluateCh m \<Longrightarrow>
    run_step rng m (m\<lparr>evaluateCh := True, control := Select\<rparr>)"
| evaluate: "control m = Select \<Longrightarrow> evaluateCh m \<Longrightarrow>
    run_step rng m (on_evaluate (m\<lparr>evaluateCh := False\<rparr>))"
| send_output: "control m = ToOutput r \<Longrightarrow> OutputCh m = None \<Longrightarrow>
    run_step rng m (m\<lparr>OutputCh := Some r, control := Select\<rparr>)"
| send_done: "control m = ToDone \<Longrightarrow> doneListener m \<Longrightarrow>
    run_step rng m (m\<lparr>doneListener := False, metricChannel := False, control := Select\<rparr>)"
| ctx_done: "control m = Select \<Longrightarrow> run_step rng m (m\<lparr>control := Returned\<rparr>)"
| consumer: "OutputCh m = Some r \<Longrightarrow> run_step rng m (m\<lparr>OutputCh := None\<rparr>)"

inductive reaches :: "profiles_range \<Rightarrow> Manager \<Rightarrow> Manager \<Rightarrow> bool" for rng where
  refl: "reaches rng m m"
| step: "reaches rng m m' \<Longrightarrow> run_step rng m' m'' \<Longrightarrow> reaches rng m m''"

inductive_simps run_step_iff: "run_step rng m m'"

lemma reaches_trans: "reaches rng b c \<Longrightarrow> reaches rng a b \<Longrightarrow> reaches rng a c"
  by (induction rule: reaches.induct) (auto intro: reaches.step)

lemma reaches1: "run_step rng a b \<Longrightarrow> reaches rng b c \<Longrightarrow> reaches rng a c"
  by (rule reaches_trans) (auto intro: reaches.intros)

text \<open>
  \<open>Shutdown\<close>, which the command calls before it ends: None when it waits for ever in the send to
  the metric server. The field \<open>cancelFunc\<close> is whether the variable is not nil; calling nil panics.
\<close>

definition profile_Shutdown :: "Manager \<Rightarrow> (unit call \<times> Manager) option" where
  "profile_Shutdown m =
     (if metricServer m \<and> \<not> doneListener m then None
      else (let m' = (if metricServer m then m\<lparr>doneListener := False\<rparr> else m)
            in Some (if cancelFunc m' then Returns () else Panics, m')))"

text \<open>
  The goroutine waits in a send that nobody but itself, or nobody any more, can receive.
\<close>

definition deadlocked :: "Manager \<Rightarrow> bool" where
  "deadlocked m \<longleftrightarrow>
     (\<exists>v. control m = ToInput v \<and> inputCh m \<noteq> None) \<or>
     control m = ToEvaluate \<and> evaluateCh m \<or>
     control m = ToDone \<and> \<not> doneListener m"

section \<open>The metric server\<close>

record metricValue =
  mv_Value :: float32
  mv_Name :: string

text \<open>\<open>inflight\<close>: the goroutines that still have to send their value on the output channel.\<close>

record metricServerState =
  count :: int
  max_count :: int
  inflight :: "metricValue list"

definition newMetricServer :: metricServerState where
  "newMetricServer = \<lparr>count = 0, max_count = 10, inflight = []\<rparr>"

definition StatusOK :: nat where "StatusOK = 200"
definition StatusBadRequest :: nat where "StatusBadRequest = 400"
definition StatusInternalServerError :: nat where "StatusInternalServerError = 500"

text \<open>
  The handler: \<open>body\<close> is the request body, or None when reading it fails; \<open>decode\<close> is
  \<open>json.Unmarshal\<close> into a \<open>metricValue\<close>.
\<close>

definition handler :: "(string \<Rightarrow> metricValue option) \<Rightarrow> string option \<Rightarrow> metricServerState \<Rightarrow>
    nat \<times> metricServerState" where
  "handler decode body s =
     (if count s \<ge> max_count s then (StatusOK, s)
      else case body of
        None \<Rightarrow> (StatusInternalServerError, s)
      | Some d \<Rightarrow>
          (case decode d of
             None \<Rightarrow> (StatusBadRequest, s)
           | Some data \<Rightarrow> (StatusOK, s\<lparr>count := count s + 1, inflight := inflight s @ [data]\<rparr>)))"

text \<open>One of the goroutines delivers its value; which one is not determined.\<close>

definition deliver :: "nat \<Rightarrow> metricServerState \<Rightarrow> (metricValue \<times> metricServerState) option" where
  "deliver i s =
     (if i < length (inflight s)
      then Some (inflight s ! i,
                 s\<lparr>count := count s - 1,
                   inflight := take i (inflight s) @ drop (Suc i) (inflight s)\<rparr>)
      else None)"

section \<open>Properties of the evaluator\<close>

text \<open>
  The evaluator returns one result per profile and in it one result per condition, in order;
  a condition's result is what the interpreter computes for it, under the condition's name.
\<close>

theorem simple_Evaluate_spec:
  assumes "is_range rng" and "ps \<noteq> []"
  shows "\<exists>rs. simple_Evaluate (SetProfiles rng ps) vs = Some rs \<and>
    mset (map pr_Name rs) = mset (map fst ps) \<and>
    (\<forall>r \<in> set rs. \<exists>p. (pr_Name r, p) \<in> set ps \<and>
       map (\<lambda>c. (cr_Name c, cr_Value c, cr_Error c)) (ConditionsResults r) =
       map (\<lambda>c. (pc_Name c, Evaluate (Expression c) vs)) (dp_Conditions p))"
proof -
  define rs where "rs = map (\<lambda>(k, v). evaluator_evaluate \<lparr>pe_Name = k, pe_Profile = v\<rparr> vs) (rng ps)"
  have "rng ps \<noteq> []" using assms is_range_length [of rng ps] by auto
  then have "simple_Evaluate (SetProfiles rng ps) vs = Some rs"
    by (simp add: simple_Evaluate_def SetProfiles_def rs_def case_prod_unfold comp_def)
  moreover have "map pr_Name rs = map fst (rng ps)"
    by (simp add: rs_def evaluator_evaluate_def case_prod_unfold comp_def)
  then have "mset (map pr_Name rs) = mset (map fst ps)"
    by (simp add: is_range_mset [OF assms(1)])
  moreover have "\<forall>r \<in> set rs. \<exists>p. (pr_Name r, p) \<in> set ps \<and>
       map (\<lambda>c. (cr_Name c, cr_Value c, cr_Error c)) (ConditionsResults r) =
       map (\<lambda>c. (pc_Name c, Evaluate (Expression c) vs)) (dp_Conditions p)"
    using is_range_set [OF assms(1), of ps]
    by (auto simp: rs_def evaluator_evaluate_def case_prod_unfold)
  ultimately show ?thesis by blast
qed

definition profile_example :: DeviceProfile where
  "profile_example = \<lparr>dp_Name = ''perf'', dp_Conditions = [\<lparr>pc_Name = ''high'', RequiredVariables = [''cpu''],
     Expression = CompExpr (LiteralExpr ''cpu'') GREATER (ValueExpr (NumExpr 0) NilExpr)\<rparr>]\<rparr>"

theorem simple_Evaluate_spec_witness:
  "\<exists>rs. simple_Evaluate (SetProfiles (\<lambda>x. x) [(''perf'', profile_example)]) Map.empty = Some rs \<and>
     mset (map pr_Name rs) = {#''perf''#}"
  using simple_Evaluate_spec [of "\<lambda>x. x" "[(''perf'', profile_example)]" Map.empty]
  by (auto simp: is_range_def)

section \<open>Properties of the manager\<close>

lemmas run_defs = on_input_def on_metric_def on_evaluate_def

text \<open>The invariant of every state the goroutine reaches.\<close>

definition manager_inv :: "Manager \<Rightarrow> bool" where
  "manager_inv m \<longleftrightarrow>
     (metricChannel m \<longrightarrow> metricServer m) \<and> (metricChannel m = doneListener m) \<and> \<not> cancelFunc m \<and>
     (\<forall>r. control m = ToOutput r \<longrightarrow> simple_Evaluate (evaluators m) (metrics m) = Some r)"

lemma manager_inv_step: "run_step rng m m' \<Longrightarrow> manager_inv m \<Longrightarrow> manager_inv m'"
  by (induction rule: run_step.induct)
    (auto simp: manager_inv_def run_defs Let_def split: option.splits)

lemma manager_inv_reaches: "reaches rng m m' \<Longrightarrow> manager_inv m \<Longrightarrow> manager_inv m'"
  by (induction rule: reaches.induct) (auto intro: manager_inv_step)


text \<open>
  No step sets the cancel function: \<open>Shutdown\<close> never returns. It panics, or, when the profiles
  were withdrawn before, waits for a metric server that is not listening any more.
\<close>

theorem Shutdown_never_returns:
  assumes "reaches rng new_Manager m"
  shows "profile_Shutdown m = None \<or> (\<exists>m'. profile_Shutdown m = Some (Panics, m'))"
proof -
  have "manager_inv new_Manager" by (simp add: manager_inv_def new_Manager_def)
  with manager_inv_reaches [OF assms] have "\<not> cancelFunc m" by (simp add: manager_inv_def)
  then show ?thesis by (simp add: profile_Shutdown_def Let_def)
qed

text \<open>Runs of the manager used in the examples: profiles received, then evaluated or not.\<close>

definition m_profiles :: "profiles \<Rightarrow> Manager" where
  "m_profiles ps = new_Manager\<lparr>evaluators := SetProfiles (\<lambda>x. x) ps, metricServer := True,
     doneListener := True, metricChannel := True, evaluateCh := True\<rparr>"

lemma reaches_m_profiles: "reaches (\<lambda>x. x) new_Manager (m_profiles ps)"
proof -
  let ?a = "new_Manager\<lparr>control := ToInput (Some ps)\<rparr>"
  let ?b = "?a\<lparr>inputCh := Some (Some ps), control := Select\<rparr>"
  let ?c = "on_input (\<lambda>x. x) (Some ps) (?b\<lparr>inputCh := None\<rparr>)"
  have a: "run_step (\<lambda>x. x) new_Manager ?a"
    using run_step.recv [of new_Manager "\<lambda>x. x" "Profiles_payload (Some ps)"]
    by (simp add: new_Manager_def payload_value_def)
  have b: "run_step (\<lambda>x. x) ?a ?b"
    by (rule run_step.send_input) (simp_all add: new_Manager_def)
  have c: "run_step (\<lambda>x. x) ?b ?c" by (rule run_step.input) simp_all
  have d: "run_step (\<lambda>x. x) ?c (?c\<lparr>evaluateCh := True, control := Select\<rparr>)"
    by (rule run_step.send_evaluate) (simp_all add: on_input_def new_Manager_def Let_def)
  have "reaches (\<lambda>x. x) new_Manager (?c\<lparr>evaluateCh := True, control := Select\<rparr>)"
    by (rule reaches1 [OF a reaches1 [OF b reaches1 [OF c reaches1 [OF d reaches.refl]]]])
  also have "?c\<lparr>evaluateCh := True, control := Select\<rparr> = m_profiles ps"
    by (simp add: on_input_def new_Manager_def m_profiles_def Let_def)
  finally show ?thesis .
qed


lemma deadlocked_step:
  assumes "run_step rng m m'" and "deadlocked m"
  shows "\<exists>out. m' = m\<lparr>OutputCh := out\<rparr>"
  using assms by (cases rule: run_step.cases) (auto simp: deadlocked_def)

text \<open>
  A deadlocked manager stays as it is for ever: it takes no message, no metric and no
  shutdown, and evaluates nothing; only the channel to the scheduler can still be drained.
\<close>

theorem deadlocked_forever:
  assumes "reaches rng m m'" and "deadlocked m"
  shows "\<exists>out. m' = m\<lparr>OutputCh := out\<rparr>"
  using assms
proof (induction rule: reaches.induct)
  case (refl m)
  show ?case by (rule exI [of _ "OutputCh m"]) simp
next
  case (step m m' m'')
  then obtain out where m': "m' = m\<lparr>OutputCh := out\<rparr>" by blast
  with step.prems have "deadlocked m'" by (simp add: deadlocked_def)
  from deadlocked_step [OF step.hyps(2) this] m' show ?case by auto
qed

definition m_deadlocked :: Manager where
  "m_deadlocked = on_metric ''cpu'' 0 (m_profiles [])"

lemma m_deadlocked_deadlocked: "deadlocked m_deadlocked"
  by (simp add: m_deadlocked_def deadlocked_def on_metric_def m_profiles_def)

theorem deadlocked_forever_witness:
  "\<exists>out. m_deadlocked = m_deadlocked\<lparr>OutputCh := out\<rparr>"
  by (rule deadlocked_forever [OF reaches.refl m_deadlocked_deadlocked])


text \<open>
  Once the profiles have been withdrawn the manager never listens to metrics again. The server
  is stopped but the field \<open>metricServer\<close> keeps it, so that new profiles do not start another
  one; the metrics stay what they were.
\<close>

theorem metrics_never_resume:
  assumes "reaches rng m m'" and "metricServer m" and "\<not> metricChannel m" and "\<not> doneListener m"
  shows "\<not> metricChannel m' \<and> metrics m' = metrics m \<and> metricServer m'"
proof -
  have "\<not> metricChannel m' \<and> \<not> doneListener m' \<and> metrics m' = metrics m \<and> metricServer m'"
    using assms
  proof (induction rule: reaches.induct)
    case (step m m' m'')
    then have m': "metricServer m'" "\<not> metricChannel m'" "\<not> doneListener m'" "metrics m' = metrics m"
      by auto
    from step.hyps(2) show ?case
      by (cases rule: run_step.cases)
        (use m' in \<open>auto simp: run_defs Let_def split: option.splits\<close>)
  qed simp
  then show ?thesis by blast
qed

definition m_withdrawn :: Manager where
  "m_withdrawn = (m_profiles [])\<lparr>doneListener := False, metricChannel := False\<rparr>"

theorem metrics_never_resume_witness:
  "\<not> metricChannel (on_input (\<lambda>x. x) (Some []) m_withdrawn)"
proof -
  let ?m = "m_withdrawn\<lparr>inputCh := Some (Some [])\<rparr>"
  have "run_step (\<lambda>x. x) ?m (on_input (\<lambda>x. x) (Some []) (?m\<lparr>inputCh := None\<rparr>))"
    by (rule run_step.input) (simp_all add: m_withdrawn_def m_profiles_def new_Manager_def)
  then have "reaches (\<lambda>x. x) ?m (on_input (\<lambda>x. x) (Some []) (?m\<lparr>inputCh := None\<rparr>))"
    by (rule reaches.step [OF reaches.refl])
  moreover have "?m\<lparr>inputCh := None\<rparr> = m_withdrawn"
    by (simp add: m_withdrawn_def m_profiles_def new_Manager_def)
  ultimately show ?thesis
    using metrics_never_resume [of "\<lambda>x. x" ?m]
    by (simp add: m_withdrawn_def m_profiles_def)
qed

section \<open>Properties of the metric server\<close>

definition server_inv :: "metricServerState \<Rightarrow> bool" where
  "server_inv s \<longleftrightarrow> count s = int (length (inflight s)) \<and> count s \<le> max_count s"

text \<open>
  The counter of the metric server counts the values in flight and, with one request handled
  at a time, stays within the limit; at the limit the handler answers 200 and drops the value.
\<close>

theorem handler_inv:
  assumes "server_inv s"
  shows "server_inv (snd (handler decode body s)) \<and>
    (\<forall>i v s'. deliver i s = Some (v, s') \<longrightarrow> server_inv s' \<and> mset (inflight s) = add_mset v (mset (inflight s'))) \<and>
    (length (inflight s) = nat (max_count s) \<longrightarrow> handler decode body s = (StatusOK, s))"
proof -
  have "mset xs = add_mset (xs ! i) (mset (take i xs @ drop (Suc i) xs))"
    if "i < length xs" for i and xs :: "metricValue list"
    using id_take_nth_drop [OF that] by (metis mset.simps(2) mset_append union_mset_add_mset_right)
  with assms show ?thesis
    by (auto simp: server_inv_def handler_def deliver_def split: option.splits if_splits)
qed

theorem handler_inv_witness:
  "server_inv newMetricServer \<and>
   server_inv (snd (handler (\<lambda>_. Some \<lparr>mv_Value = 1, mv_Name = ''cpu''\<rparr>) (Some ''x'') newMetricServer))"
proof -
  have "server_inv newMetricServer" by (simp add: server_inv_def newMetricServer_def)
  with handler_inv [OF this] show ?thesis by blast
qed

end
