(* ===== verification/Workload.thy ===== *)
theory Workload
  imports Go_Prelude
begin

text \<open>
  The workloads of the device (\<open>internal/entity/workload.go\<close>, \<open>utils.go\<close>, \<open>message.go\<close>) and
  their identity. \<open>Hash\<close> writes the fields of a workload into one text, ranging over its maps in
  whatever order the language picks, and digests it with SHA-256: the order \<open>rng\<close> and the
  digest \<open>sha\<close> (in hexadecimal, 64 digits) are arguments. A CPU limit is held through a pointer,
  and the directive \<open>%+v\<close> prints the pointer: a condition carries the address of its limit.
\<close>

section \<open>Data\<close>

type_synonym WorkloadKind = string

definition PodKind :: WorkloadKind where "PodKind = ''pod''"
definition AnsibleKind :: WorkloadKind where "AnsibleKind = ''ansible''"
definition K8SKind :: WorkloadKind where "K8SKind = ''k8s''"

lemmas kind_defs = PodKind_def AnsibleKind_def K8SKind_def

text \<open>\<open>CPU *int64\<close>: nil, or an address and the limit stored there.\<close>

record WorkloadCondition =
  wc_Name :: string
  wc_CPU :: "(nat \<times> int64) option"

record WorkloadProfile =
  wp_Name :: string
  wp_Conditions :: "WorkloadCondition list"

text \<open>
  The maps and two of the slices may be \<open>nil\<close>, the None here: \<open>String\<close> prints nil and empty
  differently, and the executors write to the map of labels when it is not nil (\<open>ToPod\<close>).
\<close>

record PodWorkload =
  Name :: string
  WKind :: WorkloadKind
  Namespace :: string
  CronSpec :: string
  Rootless :: bool
  Annotations :: "(string, string) gomap option"
  Secrets :: "(string, string) gomap option"
  Configmaps :: "string list option"
  ImageRegistryAuth :: string
  Labels :: "(string, string) gomap option"
  WorkloadProfiles :: "WorkloadProfile list option"
  Specification :: string

text \<open>\<open>CpuResource\<close>: the quota and the period, in microseconds.\<close>

record CpuResource =
  Value1 :: uint64
  Value2 :: uint64

definition CpuResource_Equal :: "CpuResource \<Rightarrow> CpuResource \<Rightarrow> bool" where
  "CpuResource_Equal c other \<longleftrightarrow> Value1 c = Value1 other \<and> Value2 c = Value2 other"

definition zeroCpu :: CpuResource where
  "zeroCpu = \<lparr>Value1 = 0, Value2 = 0\<rparr>"

lemma CpuResource_Equal_eq [simp]: "CpuResource_Equal c d \<longleftrightarrow> c = d"
  by (cases c; cases d) (auto simp: CpuResource_Equal_def)

section \<open>The text that is hashed\<close>

definition fmt_ptr :: "(nat \<times> 'a) option \<Rightarrow> string" where
  "fmt_ptr p = (case p of None \<Rightarrow> ''<nil>'' | Some (addr, _) \<Rightarrow> ''0x'' @ hex addr)"

definition fmt_condition :: "WorkloadCondition \<Rightarrow> string" where
  "fmt_condition c = ''{Name:'' @ wc_Name c @ '' CPU:'' @ fmt_ptr (wc_CPU c) @ ''}''"

definition fmt_profile :: "WorkloadProfile \<Rightarrow> string" where
  "fmt_profile p =
     ''{Name:'' @ wp_Name p @ '' Conditions:['' @
       join '' '' (map fmt_condition (wp_Conditions p)) @ '']}''"

definition fmt_profiles :: "WorkloadProfile list \<Rightarrow> string" where
  "fmt_profiles ps = ''['' @ join '' '' (map fmt_profile ps) @ '']''"

definition fmt_map :: "(string, string) gomap \<Rightarrow> string" where
  "fmt_map m = concat (map (\<lambda>(k, v). k @ v) m)"

definition fmt_bool :: "bool \<Rightarrow> string" where
  "fmt_bool b = (if b then ''true'' else ''false'')"

type_synonym range_fn = "(string \<times> string) list \<Rightarrow> (string \<times> string) list"

definition hash_text :: "range_fn \<Rightarrow> PodWorkload \<Rightarrow> string" where
  "hash_text rng p =
     Name p @ Namespace p @ WKind p @
     fmt_map (rng (elems (Annotations p))) @ fmt_map (rng (elems (Secrets p))) @
     fmt_map (rng (elems (Labels p))) @ concat (elems (Configmaps p)) @
     ImageRegistryAuth p @ Specification p @ fmt_profiles (elems (WorkloadProfiles p)) @
     fmt_bool (Rootless p) @ CronSpec p"

definition Hash :: "range_fn \<Rightarrow> (string \<Rightarrow> string) \<Rightarrow> PodWorkload \<Rightarrow> string" where
  "Hash rng sha p = sha (hash_text rng p)"

definition ID :: "range_fn \<Rightarrow> (string \<Rightarrow> string) \<Rightarrow> PodWorkload \<Rightarrow> string" where
  "ID rng sha p = Name p @ ''-'' @ take 12 (Hash rng sha p)"

definition Kind :: "PodWorkload \<Rightarrow> WorkloadKind" where
  "Kind p = WKind p"

definition Profiles :: "PodWorkload \<Rightarrow> WorkloadProfile list" where
  "Profiles p = elems (WorkloadProfiles p)"

definition Cron :: "PodWorkload \<Rightarrow> string" where
  "Cron p = CronSpec p"

definition IsRootless :: "PodWorkload \<Rightarrow> bool" where
  "IsRootless p = Rootless p"

lemmas workload_simps [go_simps] = Kind_def Profiles_def Cron_def IsRootless_def

section \<open>When the identity of a workload is stable\<close>

text \<open>At most one entry in each of the three maps that \<open>Hash\<close> ranges over.\<close>

definition small_maps :: "PodWorkload \<Rightarrow> bool" where
  "small_maps p \<longleftrightarrow> length (elems (Annotations p)) \<le> 1 \<and>
     length (elems (Secrets p)) \<le> 1 \<and> length (elems (Labels p)) \<le> 1"

lemma length_ID:
  assumes "\<And>s. 12 \<le> length (sha s)"
  shows "length (ID rng sha p) = length (Name p) + 13"
  using assms [of "hash_text rng p"] by (simp add: ID_def Hash_def)

text \<open>
  A workload with at most one annotation, one secret and one label has one identity, whatever
  order the maps are ranged over in.
\<close>

theorem ID_stable:
  assumes "is_range rng" and "small_maps p"
  shows "ID rng sha p = ID (\<lambda>m. m) sha p"
  using assms by (simp add: ID_def Hash_def hash_text_def small_maps_def is_range_small)

definition pod_example :: PodWorkload where
  "pod_example = \<lparr>Name = ''web'', WKind = ''pod'', Namespace = ''default'', CronSpec = [],
     Rootless = False, Annotations = None, Secrets = None, Configmaps = None, ImageRegistryAuth = [],
     Labels = Some [(''app'', ''web'')], WorkloadProfiles = None, Specification = ''spec''\<rparr>"

theorem ID_stable_witness:
  "is_range rev \<and> small_maps pod_example \<and>
     ID rev (\<lambda>s. s) pod_example = ID (\<lambda>m. m) (\<lambda>s. s) pod_example"
  using ID_stable [of rev pod_example "\<lambda>s. s"] 
  by (simp add: small_maps_def pod_example_def)

text \<open>
  With two labels the text that is hashed depends on the order of the range, so that two calls
  of \<open>Hash\<close> on one workload may return different digests; and it depends on the address of a CPU
  limit, so that two copies of one workload hash differently.
\<close>

theorem hash_text_unstable:
  "hash_text rev (pod_example\<lparr>Labels := Some [(''a'', ''1''), (''b'', ''2'')]\<rparr>) \<noteq>
     hash_text (\<lambda>m. m) (pod_example\<lparr>Labels := Some [(''a'', ''1''), (''b'', ''2'')]\<rparr>) \<and>
   hash_text rng (pod_example\<lparr>WorkloadProfiles := Some
       [\<lparr>wp_Name = ''p'', wp_Conditions = [\<lparr>wc_Name = ''c'', wc_CPU = Some (16, 5)\<rparr>]\<rparr>]\<rparr>) \<noteq>
     hash_text rng (pod_example\<lparr>WorkloadProfiles := Some
       [\<lparr>wp_Name = ''p'', wp_Conditions = [\<lparr>wc_Name = ''c'', wc_CPU = Some (32, 5)\<rparr>]\<rparr>]\<rparr>)"
  by (simp add: hash_text_def pod_example_def fmt_map_def fmt_profiles_def fmt_profile_def
      fmt_condition_def fmt_ptr_def fmt_bool_def char_of_def hex_digit_def)

end
