(* ===== verification/Job.thy ===== *)
theory Job
  imports Workload
begin

text \<open>
  The jobs of the scheduler (\<open>internal/entity/job.go\<close>, \<open>state.go\<close>) with their state machine, and
  the construction of a job (\<open>Builder\<close>, and \<open>createJob\<close> of \<open>internal/scheduler/scheduler.go\<close>).
  What the code gets from its surroundings is collected in a record \<open>env\<close>: the clock, the
  back-off and cron packages, the order of a map range and the SHA-256 digest.
\<close>

section \<open>States\<close>

datatype JobState =
    ReadyState | RunningState | StoppedState | DegradedState
  | ExitedState | ErrorState | UnknownState | InactiveState

fun JobState_String :: "JobState \<Rightarrow> string" where
  "JobState_String ReadyState = ''ready''"
| "JobState_String RunningState = ''running''"
| "JobState_String DegradedState = ''degraded''"
| "JobState_String StoppedState = ''stopped''"
| "JobState_String ExitedState = ''exited''"
| "JobState_String ErrorState = ''error''"
| "JobState_String InactiveState = ''inactive''"
| "JobState_String UnknownState = ''unknown''"

fun OneOf :: "JobState \<Rightarrow> JobState list \<Rightarrow> bool" where
  "OneOf ts [] = False"
| "OneOf ts (s # states) = (if ts = s then True else OneOf ts states)"

lemma OneOf_iff [simp]: "OneOf ts states \<longleftrightarrow> ts \<in> set states"
  by (induction states) auto

section \<open>The environment\<close>

datatype backoff =
    ConstantBackOff duration
  | ExponentialBackOff duration duration float64

record env =
  now :: time
  nextBackOff :: "backoff \<Rightarrow> duration"
  cronParse :: "string \<Rightarrow> error + (time \<Rightarrow> time)"
  mapOrder :: range_fn
  digest :: "string \<Rightarrow> string"

section \<open>Cron and retry\<close>

record CronJob =
  cron_next :: time
  cron_schedule :: "time \<Rightarrow> time"

definition Cron_ComputeNext :: "env \<Rightarrow> CronJob \<Rightarrow> CronJob" where
  "Cron_ComputeNext E cj = cj\<lparr>cron_next := cron_schedule cj (now E)\<rparr>"

definition Cron_CanReconcile :: "env \<Rightarrow> CronJob \<Rightarrow> bool" where
  "Cron_CanReconcile E cj \<longleftrightarrow> cron_next cj < now E"

record RetryJob =
  MarkedForRestart :: bool
  retry_next :: time
  retry_b :: backoff

definition Retry_ComputeNext :: "env \<Rightarrow> RetryJob \<Rightarrow> RetryJob" where
  "Retry_ComputeNext E rj = rj\<lparr>retry_next := now E + nextBackOff E (retry_b rj)\<rparr>"

definition Retry_CanReconcile :: "env \<Rightarrow> RetryJob \<Rightarrow> bool" where
  "Retry_CanReconcile E rj \<longleftrightarrow> retry_next rj < now E"

section \<open>Jobs\<close>

datatype HookType = PreSetCurrentState | PostSetCurrentState | PreSetTargetState | PostSetTargetState

text \<open>The two hooks the program registers: the closures of \<open>createJob\<close>.\<close>

datatype JobStateHook = MarkRestartHook | LogTargetHook

record Job =
  workload :: PodWorkload
  currentState :: JobState
  targetState :: JobState
  markedForDeletion :: bool
  cron :: "CronJob option"
  retry :: "RetryJob option"
  hooks :: "(HookType \<times> JobStateHook) list"
  currentResources :: CpuResource
  targetResources :: CpuResource

definition job_ID :: "env \<Rightarrow> Job \<Rightarrow> string" where
  "job_ID E j = ID (mapOrder E) (digest E) (workload j)"

definition ShouldRestart :: "Job \<Rightarrow> bool" where
  "ShouldRestart j \<longleftrightarrow>
     OneOf (currentState j) [ExitedState, UnknownState] \<and> targetState j = RunningState"

definition mark_restart :: "env \<Rightarrow> Job \<Rightarrow> JobState \<Rightarrow> Job" where
  "mark_restart E j s =
     (let j1 =
        (if ShouldRestart j then
           (case retry j of
              None \<Rightarrow> j
            | Some r \<Rightarrow>
                if \<not> MarkedForRestart r
                then j\<lparr>retry := Some ((Retry_ComputeNext E r)\<lparr>MarkedForRestart := True\<rparr>)\<rparr>
                else j)
         else j)
      in if s = RunningState
         then j1\<lparr>retry := map_option (\<lambda>r. r\<lparr>MarkedForRestart := False\<rparr>) (retry j1)\<rparr>
         else j1)"

fun run_hook :: "env \<Rightarrow> JobStateHook \<Rightarrow> Job \<Rightarrow> JobState \<Rightarrow> Job" where
  "run_hook E MarkRestartHook j s = mark_restart E j s"
| "run_hook E LogTargetHook j s = j"

fun run_hooks :: "env \<Rightarrow> HookType \<Rightarrow> (HookType \<times> JobStateHook) list \<Rightarrow> Job \<Rightarrow> JobState \<Rightarrow> Job" where
  "run_hooks E ht [] j s = j"
| "run_hooks E ht ((t, h) # hs) j s = run_hooks E ht hs (if t = ht then run_hook E h j s else j) s"

definition SetTargetState :: "env \<Rightarrow> Job \<Rightarrow> JobState \<Rightarrow> Job" where
  "SetTargetState E j s =
     (let j1 = run_hooks E PreSetTargetState (hooks j) j s; j2 = j1\<lparr>targetState := s\<rparr>
      in run_hooks E PostSetTargetState (hooks j) j2 s)"

definition SetCurrentState :: "env \<Rightarrow> Job \<Rightarrow> JobState \<Rightarrow> Job" where
  "SetCurrentState E j s =
     (let j1 = run_hooks E PreSetCurrentState (hooks j) j s
      in if s = UnknownState \<and> (currentState j1 = ReadyState \<or> currentState j1 = InactiveState)
         then j1
         else if OneOf s [UnknownState, ExitedState] \<and> targetState j1 = InactiveState
         then j1\<lparr>currentState := InactiveState\<rparr>
         else run_hooks E PostSetCurrentState (hooks j) (j1\<lparr>currentState := s\<rparr>) s)"

definition MarkForDeletion :: "Job \<Rightarrow> Job" where
  "MarkForDeletion j = j\<lparr>markedForDeletion := True\<rparr>"

definition SetCurrentResources :: "Job \<Rightarrow> CpuResource \<Rightarrow> Job" where
  "SetCurrentResources j r = j\<lparr>currentResources := r\<rparr>"

definition SetTargetResources :: "Job \<Rightarrow> CpuResource \<Rightarrow> Job" where
  "SetTargetResources j r = j\<lparr>targetResources := r\<rparr>"

section \<open>Building a job\<close>

record Builder =
  b_w :: PodWorkload
  b_cronSpec :: string
  b_retryBackoff :: "backoff option"
  b_hooks :: "(HookType \<times> JobStateHook) list"

definition NewBuilder :: "PodWorkload \<Rightarrow> Builder" where
  "NewBuilder w = \<lparr>b_w = w, b_cronSpec = [], b_retryBackoff = None, b_hooks = []\<rparr>"

definition WithExponentialRetry ::
  "Builder \<Rightarrow> duration \<Rightarrow> duration \<Rightarrow> float64 \<Rightarrow> Builder" where
  "WithExponentialRetry jb initialInterval maxInterval multiplier =
     jb\<lparr>b_retryBackoff := Some (ExponentialBackOff initialInterval maxInterval multiplier)\<rparr>"

definition WithConstantRetry :: "Builder \<Rightarrow> duration \<Rightarrow> Builder" where
  "WithConstantRetry jb interval = jb\<lparr>b_retryBackoff := Some (ConstantBackOff interval)\<rparr>"

definition WithCron :: "Builder \<Rightarrow> string \<Rightarrow> Builder" where
  "WithCron jb cronSpec = jb\<lparr>b_cronSpec := cronSpec\<rparr>"

definition AddHook :: "Builder \<Rightarrow> HookType \<Rightarrow> JobStateHook \<Rightarrow> Builder" where
  "AddHook jb t fn = jb\<lparr>b_hooks := b_hooks jb @ [(t, fn)]\<rparr>"

definition Build :: "env \<Rightarrow> Builder \<Rightarrow> error + Job" where
  "Build E jb =
     (let j = \<lparr>workload = b_w jb, currentState = ReadyState, targetState = ReadyState,
               markedForDeletion = False, cron = None, retry = None, hooks = [],
               currentResources = zeroCpu, targetResources = zeroCpu\<rparr>
      in res_bind
           (if b_cronSpec jb \<noteq> [] then
              (case cronParse E (b_cronSpec jb) of
                 Inl e \<Rightarrow> Inl e
               | Inr sched \<Rightarrow>
                   Inr (j\<lparr>cron := Some \<lparr>cron_next = sched (now E), cron_schedule = sched\<rparr>\<rparr>))
            else Inr j)
           (\<lambda>j1.
              let j2 = (case b_retryBackoff jb of
                          None \<Rightarrow> j1
                        | Some b \<Rightarrow>
                            j1\<lparr>retry := Some \<lparr>MarkedForRestart = False, retry_next = now E, retry_b = b\<rparr>\<rparr>)
              in Inr (if b_hooks jb \<noteq> [] then j2\<lparr>hooks := hooks j2 @ b_hooks jb\<rparr> else j2)))"

definition createJob :: "env \<Rightarrow> PodWorkload \<Rightarrow> error + Job" where
  "createJob E w =
     (let b = NewBuilder w;
          b1 = (if Cron w \<noteq> [] then WithCron b (Cron w) else WithConstantRetry b (10 * second));
          b2 = AddHook b1 PostSetCurrentState MarkRestartHook;
          b3 = AddHook b2 PostSetTargetState LogTargetHook
      in Build E b3)"

section \<open>Well-formed jobs\<close>

text \<open>
  What \<open>createJob\<close> establishes and every operation keeps: the two hooks, and either a cron
  schedule or a retry, never both.
\<close>

definition job_wf :: "Job \<Rightarrow> bool" where
  "job_wf j \<longleftrightarrow>
     hooks j = [(PostSetCurrentState, MarkRestartHook), (PostSetTargetState, LogTargetHook)] \<and>
     (cron j = None \<longleftrightarrow> retry j \<noteq> None)"

text \<open>The current state after the executor reported \<open>s\<close>.\<close>

definition observe :: "JobState \<Rightarrow> JobState \<Rightarrow> JobState \<Rightarrow> JobState" where
  "observe cur tgt s =
     (if s = UnknownState \<and> (cur = ReadyState \<or> cur = InactiveState) then cur
      else if (s = UnknownState \<or> s = ExitedState) \<and> tgt = InactiveState then InactiveState
      else s)"

lemma mark_restart_simps [simp]:
  "workload (mark_restart E j s) = workload j"
  "currentState (mark_restart E j s) = currentState j"
  "targetState (mark_restart E j s) = targetState j"
  "markedForDeletion (mark_restart E j s) = markedForDeletion j"
  "cron (mark_restart E j s) = cron j"
  "hooks (mark_restart E j s) = hooks j"
  "currentResources (mark_restart E j s) = currentResources j"
  "targetResources (mark_restart E j s) = targetResources j"
  "retry (mark_restart E j s) = None \<longleftrightarrow> retry j = None"
  by (auto simp: mark_restart_def Let_def split: option.splits)

lemma SetTargetState_eq: "job_wf j \<Longrightarrow> SetTargetState E j s = j\<lparr>targetState := s\<rparr>"
  by (simp add: SetTargetState_def job_wf_def Let_def)

lemma SetCurrentState_eq:
  "job_wf j \<Longrightarrow> SetCurrentState E j s =
     (if s = UnknownState \<and> (currentState j = ReadyState \<or> currentState j = InactiveState) then j
      else if (s = UnknownState \<or> s = ExitedState) \<and> targetState j = InactiveState
      then j\<lparr>currentState := InactiveState\<rparr>
      else mark_restart E (j\<lparr>currentState := s\<rparr>) s)"
  by (auto simp: SetCurrentState_def job_wf_def Let_def)

lemma SetCurrentState_simps [simp]:
  assumes "job_wf j"
  shows "workload (SetCurrentState E j s) = workload j"
    and "targetState (SetCurrentState E j s) = targetState j"
    and "markedForDeletion (SetCurrentState E j s) = markedForDeletion j"
    and "cron (SetCurrentState E j s) = cron j"
    and "hooks (SetCurrentState E j s) = hooks j"
    and "currentResources (SetCurrentState E j s) = currentResources j"
    and "targetResources (SetCurrentState E j s) = targetResources j"
    and "currentState (SetCurrentState E j s) = observe (currentState j) (targetState j) s"
  using assms by (auto simp: SetCurrentState_eq observe_def)

lemma job_ID_cong [simp]:
  "job_ID E (j\<lparr>targetState := s\<rparr>) = job_ID E j"
  "job_ID E (j\<lparr>currentState := s\<rparr>) = job_ID E j"
  "job_wf j \<Longrightarrow> job_ID E (SetCurrentState F j s) = job_ID E j"
  "job_wf j \<Longrightarrow> job_ID E (SetTargetState F j s) = job_ID E j"
  "job_ID E (MarkForDeletion j) = job_ID E j"
  "job_ID E (SetCurrentResources j r) = job_ID E j"
  "job_ID E (SetTargetResources j r) = job_ID E j"
  "job_ID E (j\<lparr>cron := c\<rparr>) = job_ID E j"
  by (simp_all add: job_ID_def SetTargetState_eq MarkForDeletion_def SetCurrentResources_def
      SetTargetResources_def)

lemma job_wf_ops [simp, wf_intros]:
  "job_wf j \<Longrightarrow> job_wf (SetCurrentState E j s)"
  "job_wf j \<Longrightarrow> job_wf (SetTargetState E j s)"
  "job_wf j \<Longrightarrow> job_wf (MarkForDeletion j)"
  "job_wf j \<Longrightarrow> job_wf (SetCurrentResources j r)"
  "job_wf j \<Longrightarrow> job_wf (SetTargetResources j r)"
  "job_wf j \<Longrightarrow> cron j \<noteq> None \<Longrightarrow> job_wf (j\<lparr>cron := Some c\<rparr>)"
  by (auto simp: SetCurrentState_eq SetTargetState_eq MarkForDeletion_def SetCurrentResources_def
      SetTargetResources_def) (auto simp: job_wf_def)

lemma createJob_wf [wf_intros]:
  "createJob E w = Inr j \<Longrightarrow> job_wf j \<and> workload j = w \<and> currentState j = ReadyState \<and>
     targetState j = ReadyState \<and> \<not> markedForDeletion j"
  by (auto simp: createJob_def Build_def NewBuilder_def AddHook_def WithCron_def
      WithConstantRetry_def job_wf_def Let_def split: if_splits sum.splits)

lemma createJob_retry:
  "createJob E w = Inr j \<Longrightarrow> Cron w = [] \<Longrightarrow>
     retry j = Some \<lparr>MarkedForRestart = False, retry_next = now E,
       retry_b = ConstantBackOff (10 * second)\<rparr>"
  by (auto simp: createJob_def Build_def NewBuilder_def AddHook_def WithConstantRetry_def Let_def)

section \<open>Properties\<close>

text \<open>
  \<open>createJob\<close> fails exactly when the workload has a cron specification that does not parse. A
  job it returns is ready, is not marked, and has a schedule or a retry of ten seconds, not both.
\<close>

theorem createJob_spec:
  "case createJob E w of
     Inl e \<Rightarrow> Cron w \<noteq> [] \<and> cronParse E (Cron w) = Inl e
   | Inr j \<Rightarrow> job_wf j \<and> workload j = w \<and> currentState j = ReadyState \<and>
       targetState j = ReadyState \<and> \<not> markedForDeletion j \<and>
       (if Cron w = []
        then cron j = None \<and> retry j = Some \<lparr>MarkedForRestart = False, retry_next = now E,
               retry_b = ConstantBackOff (10 * second)\<rparr>
        else retry j = None \<and> (\<exists>f. cronParse E (Cron w) = Inr f \<and>
               cron j = Some \<lparr>cron_next = f (now E), cron_schedule = f\<rparr>))"
  by (auto simp: createJob_def Build_def NewBuilder_def AddHook_def WithCron_def
      WithConstantRetry_def job_wf_def Let_def split: if_splits sum.splits)

text \<open>
  A series of reports of the executor, each at its own time, all of a job that is not running.
\<close>

fun reports :: "Job \<Rightarrow> (env \<times> JobState) list \<Rightarrow> Job" where
  "reports j [] = j"
| "reports j ((E, s) # rs) = reports (SetCurrentState E j s) rs"

abbreviation down :: "JobState \<Rightarrow> bool" where
  "down s \<equiv> s = ExitedState \<or> s = UnknownState"

lemma reports_marked:
  assumes "job_wf j" and "targetState j = RunningState" and "down (currentState j)"
    and "retry j = Some r" and "MarkedForRestart r" and "\<forall>(E, s) \<in> set rs. down s"
  shows "retry (reports j rs) = Some r \<and> down (currentState (reports j rs)) \<and>
    targetState (reports j rs) = RunningState"
  using assms
proof (induction rs arbitrary: j)
  case (Cons x rs)
  obtain E s where x: "x = (E, s)" by (cases x)
  with Cons.prems have s: "down s" by auto
  have "retry (SetCurrentState E j s) = Some r"
    using Cons.prems s by (auto simp: SetCurrentState_eq mark_restart_def ShouldRestart_def)
  moreover have "down (currentState (SetCurrentState E j s))"
    using Cons.prems s by (auto simp: observe_def)
  ultimately show ?case
    using Cons.IH [of "SetCurrentState E j s"] Cons.prems x by simp
qed simp

text \<open>
  C26: The restart of a job that stopped is due ten seconds after the first report that it is down,
  and later reports do not postpone it.
\<close>

theorem restart_not_postponed:
  assumes "createJob E w = Inr j\<^sub>0" and "Cron w = []"
    and j: "j = j\<^sub>0\<lparr>currentState := RunningState, targetState := RunningState\<rparr>"
    and backoff: "\<And>d. nextBackOff E\<^sub>0 (ConstantBackOff d) = d"
    and "down s\<^sub>0" and "\<forall>(E, s) \<in> set rs. down s"
    and "now E\<^sub>0 + 10 * second < now E\<^sub>1"
  shows "\<exists>r. retry (reports j ((E\<^sub>0, s\<^sub>0) # rs)) = Some r \<and>
    retry_next r = now E\<^sub>0 + 10 * second \<and> Retry_CanReconcile E\<^sub>1 r \<and>
    ShouldRestart (reports j ((E\<^sub>0, s\<^sub>0) # rs))"
proof -
  note j0 = conjunct1 [OF createJob_wf [OF assms(1)]] createJob_retry [OF assms(1,2)]
  then have wf: "job_wf j" by (simp add: j job_wf_def)
  define r where "r = \<lparr>MarkedForRestart = True, retry_next = now E\<^sub>0 + 10 * second,
    retry_b = ConstantBackOff (10 * second)\<rparr>"
  define k where "k = SetCurrentState E\<^sub>0 j s\<^sub>0"
  have "job_wf k" by (simp add: k_def wf)
  moreover have "retry k = Some r" "down (currentState k)" "targetState k = RunningState"
    using wf assms(5) j0 unfolding k_def
    by (auto simp: SetCurrentState_eq mark_restart_def ShouldRestart_def j Retry_ComputeNext_def
        backoff r_def observe_def)
  ultimately have "retry (reports k rs) = Some r \<and> down (currentState (reports k rs)) \<and>
    targetState (reports k rs) = RunningState"
    using assms(6) by (intro reports_marked) (auto simp: r_def)
  with assms(7) show ?thesis
    by (auto simp: r_def Retry_CanReconcile_def ShouldRestart_def k_def)
qed

text \<open>An environment at time \<open>t\<close> for the examples.\<close>

definition env_at :: "time \<Rightarrow> env" where
  "env_at t = \<lparr>now = t,
     nextBackOff = (\<lambda>b. case b of ConstantBackOff d \<Rightarrow> d | ExponentialBackOff d _ _ \<Rightarrow> d),
     cronParse = (\<lambda>s. if s = ''* * * * *'' then Inr (\<lambda>t. (t div (60 * second) + 1) * (60 * second))
                      else Inl (ErrorString ''cron'')),
     mapOrder = (\<lambda>m. m), digest = (\<lambda>s. take 64 (s @ replicate 64 (CHR ''0'')))\<rparr>"

theorem restart_not_postponed_witness:
  "\<exists>j\<^sub>0 r. createJob (env_at 0) pod_example = Inr j\<^sub>0 \<and>
     retry (reports (j\<^sub>0\<lparr>currentState := RunningState, targetState := RunningState\<rparr>)
       ((env_at 5, ExitedState) # [(env_at 6, UnknownState), (env_at 7, ExitedState)])) = Some r \<and>
     retry_next r = now (env_at 5) + 10 * second"
proof -
  have "Cron pod_example = []" by (simp add: Cron_def pod_example_def)
  moreover from this obtain j\<^sub>0 where j0: "createJob (env_at 0) pod_example = Inr j\<^sub>0"
    by (auto simp: createJob_def Build_def NewBuilder_def AddHook_def WithConstantRetry_def Let_def)
  ultimately show ?thesis
    using restart_not_postponed [of "env_at 0" pod_example j\<^sub>0 _ "env_at 5" ExitedState
        "[(env_at 6, UnknownState), (env_at 7, ExitedState)]" "env_at 20000000000", OF j0 _ refl]
    by (auto simp: env_at_def second_def)
qed

end
