(* ===== verification/Evaluate.thy ===== *)
theory Evaluate
  imports Profile Job
begin

text \<open>
  How the scheduler decides whether a job is to run (\<open>evaluate\<close> of
  \<open>internal/scheduler/scheduler.go\<close>): it matches the results of the device's profiles with the
  profiles of the workload, and picks the smallest CPU limit of the conditions that hold.
\<close>

section \<open>The function\<close>

record evaluationResult =
  Active :: bool
  Resource :: "CpuResource option"

text \<open>
  The map from the name of a profile to the list of its conditions, each with its name and its
  evaluation so far; the code holds the conditions through pointers and sets \<open>Active\<close> in place.
\<close>

type_synonym results_map = "(string, (string \<times> evaluationResult) list) gomap"

definition conditionEv :: "WorkloadCondition \<Rightarrow> string \<times> evaluationResult" where
  "conditionEv c =
     (wc_Name c, \<lparr>Active = False,
        Resource = (case wc_CPU c of None \<Rightarrow> None | Some (_, cpu) \<Rightarrow> Some \<lparr>Value1 = cpu, Value2 = 100000\<rparr>)\<rparr>)"

definition populate :: "WorkloadProfile list \<Rightarrow> results_map" where
  "populate ps = foldl (\<lambda>m p. AList.update (wp_Name p) (map conditionEv (wp_Conditions p)) m) [] ps"

text \<open>\<open>findFn\<close> and the assignment through the pointer it returns; without a match nothing changes.\<close>

fun activate :: "string \<Rightarrow> (string \<times> evaluationResult) list \<Rightarrow> (string \<times> evaluationResult) list" where
  "activate name [] = []"
| "activate name ((k, er) # l) = (if k = name then (k, er\<lparr>Active := True\<rparr>) # l else (k, er) # activate name l)"

definition apply_condition :: "string \<Rightarrow> results_map \<Rightarrow> ConditionResult \<Rightarrow> results_map" where
  "apply_condition pname m c =
     (if cr_Error c \<noteq> None then m
      else if cr_Value c
      then (case map_of m pname of
              None \<Rightarrow> m
            | Some l \<Rightarrow> AList.update pname (activate (cr_Name c) l) m)
      else m)"

definition apply_result :: "results_map \<Rightarrow> ProfileEvaluationResult \<Rightarrow> results_map" where
  "apply_result m r = foldl (apply_condition (pr_Name r)) m (ConditionsResults r)"

text \<open>The loops over the map: whether a condition holds, the least quota so far, its resource.\<close>

type_synonym min_state = "bool \<times> uint64 \<times> CpuResource option"

definition min_condition :: "min_state \<Rightarrow> string \<times> evaluationResult \<Rightarrow> min_state" where
  "min_condition st e =
     (case (st, e) of
        ((foundActive, minCpu, resource), (_, er)) \<Rightarrow>
          if Active er then
            (case Resource er of
               None \<Rightarrow> (True, minCpu, resource)
             | Some cpu \<Rightarrow>
                 if Value1 cpu \<le> minCpu then (True, Value1 cpu, Some cpu) else (True, minCpu, resource))
          else (foundActive, minCpu, resource))"

definition min_profile :: "nat \<times> uint64 \<times> CpuResource option \<Rightarrow> string \<times> (string \<times> evaluationResult) list \<Rightarrow>
    nat \<times> uint64 \<times> CpuResource option" where
  "min_profile st e =
     (case st of
        (n, minCpu, resource) \<Rightarrow>
          (case foldl min_condition (False, minCpu, resource) (snd e) of
             (foundActive, minCpu', resource') \<Rightarrow>
               (if foundActive then Suc n else n, minCpu', resource')))"

definition evaluate :: "(results_map \<Rightarrow> results_map) \<Rightarrow> WorkloadProfile list \<Rightarrow>
    ProfileEvaluationResult list \<Rightarrow> evaluationResult" where
  "evaluate rng ps results =
     (if length ps = 0 \<or> length results = 0 then \<lparr>Active = True, Resource = None\<rparr>
      else
        (let resultsMap = foldl apply_result (populate ps) results
         in case foldl min_profile (0, 100000, None) (rng resultsMap) of
              (n, minCpu, resource) \<Rightarrow> \<lparr>Active = (n \<ge> length results), Resource = resource\<rparr>))"

section \<open>What the loops compute\<close>

text \<open>The conditions that hold, by the name of the profile and of the condition.\<close>

definition holds :: "ProfileEvaluationResult list \<Rightarrow> string \<Rightarrow> string \<Rightarrow> bool" where
  "holds results p c \<longleftrightarrow>
     (\<exists>r \<in> set results. pr_Name r = p \<and>
        (\<exists>cr \<in> set (ConditionsResults r). cr_Name cr = c \<and> cr_Error cr = None \<and> cr_Value cr))"

definition wf_results :: "results_map \<Rightarrow> bool" where
  "wf_results m \<longleftrightarrow> wf_map m \<and> (\<forall>(n, l) \<in> set m. distinct (map fst l))"

text \<open>Every condition that satisfies \<open>P\<close> is made active.\<close>

definition activate_all :: "(string \<Rightarrow> string \<Rightarrow> bool) \<Rightarrow> results_map \<Rightarrow> results_map" where
  "activate_all P m =
     map (\<lambda>(n, l). (n, map (\<lambda>(k, er). (k, if P n k then er\<lparr>Active := True\<rparr> else er)) l)) m"

lemma activate_distinct:
  "distinct (map fst l) \<Longrightarrow>
     activate k l = map (\<lambda>(k', er). (k', if k' = k then er\<lparr>Active := True\<rparr> else er)) l"
proof (induction k l rule: activate.induct)
  case (2 name k er l)
  have "map (\<lambda>(k', er). (k', if k' = k then er\<lparr>Active := True\<rparr> else er)) l = l" if "k \<notin> fst ` set l"
    using that by (intro map_idI) force
  with 2 show ?case by auto
qed simp

lemma update_map:
  assumes "wf_map m" and "map_of m k = Some l"
  shows "AList.update k v m = map (\<lambda>(n, x). (n, if n = k then v else x)) m"
  using assms
proof (induction m)
  case (Cons a m)
  have "map (\<lambda>(n, x). (n, if n = k then v else x)) m = m" if "k \<notin> fst ` set m"
    using that by (intro map_idI) force
  with Cons show ?case by (cases a) (auto simp: wf_map_def split: if_splits)
qed simp

lemma activate_all_wf: "wf_results m \<Longrightarrow> wf_results (activate_all P m)"
  by (auto simp: wf_results_def activate_all_def wf_map_def comp_def case_prod_unfold)

lemma activate_all_compose:
  "activate_all Q (activate_all P m) = activate_all (\<lambda>n k. P n k \<or> Q n k) m"
  by (auto simp: activate_all_def)

lemma activate_all_False: "activate_all (\<lambda>n k. False) m = m"
  by (auto simp: activate_all_def intro!: map_idI)

lemma apply_condition_eq:
  assumes "wf_results m"
  shows "apply_condition p m c =
    activate_all (\<lambda>n k. n = p \<and> k = cr_Name c \<and> cr_Error c = None \<and> cr_Value c) m"
proof (cases "cr_Error c = None \<and> cr_Value c")
  case hit: True
  show ?thesis
  proof (cases "map_of m p")
    case None
    then have "p \<notin> fst ` set m" by (simp add: map_of_eq_None_iff)
    then have "activate_all (\<lambda>n k. n = p \<and> k = cr_Name c \<and> cr_Error c = None \<and> cr_Value c) m = m"
      by (force simp: activate_all_def intro!: map_idI)
    with hit None show ?thesis by (simp add: apply_condition_def)
  next
    case (Some l)
    have wf: "wf_map m" and dl: "\<And>n l. (n, l) \<in> set m \<Longrightarrow> distinct (map fst l)"
      using assms by (auto simp: wf_results_def)
    have "l' = l" if "(p, l') \<in> set m" for l'
      using that Some wf by (metis map_of_is_SomeI wf_map_def option.inject)
    with hit show ?thesis
      by (auto simp: apply_condition_def Some update_map [OF wf Some] activate_all_def
          activate_distinct [OF dl] intro!: map_idI [symmetric] dest: dl)
  qed
qed (auto simp: apply_condition_def activate_all_False)

lemma foldl_activate:
  assumes "\<And>x m. x \<in> set xs \<Longrightarrow> wf_results m \<Longrightarrow> f m x = activate_all (P x) m" and "wf_results m"
  shows "foldl f m xs = activate_all (\<lambda>n k. \<exists>x \<in> set xs. P x n k) m"
  using assms
proof (induction xs arbitrary: m)
  case (Cons x xs)
  then have "foldl f (activate_all (P x) m) xs =
      activate_all (\<lambda>n k. \<exists>x \<in> set xs. P x n k) (activate_all (P x) m)"
    by (intro Cons.IH) (auto intro: activate_all_wf)
  with Cons.prems show ?case by (simp add: activate_all_compose)
qed (simp add: activate_all_False)

lemma apply_results_eq:
  assumes "wf_results m"
  shows "foldl apply_result m results = activate_all (holds results) m"
proof -
  have "apply_result m r = activate_all (\<lambda>n k. \<exists>c \<in> set (ConditionsResults r).
      n = pr_Name r \<and> k = cr_Name c \<and> cr_Error c = None \<and> cr_Value c) m" if "wf_results m" for m r
    unfolding apply_result_def using that by (intro foldl_activate) (simp_all add: apply_condition_eq)
  with assms have "foldl apply_result m results = activate_all (\<lambda>n k. \<exists>r \<in> set results.
      \<exists>c \<in> set (ConditionsResults r). n = pr_Name r \<and> k = cr_Name c \<and> cr_Error c = None \<and> cr_Value c) m"
    by (intro foldl_activate) simp_all
  also have "(\<lambda>n k. \<exists>r \<in> set results. \<exists>c \<in> set (ConditionsResults r).
      n = pr_Name r \<and> k = cr_Name c \<and> cr_Error c = None \<and> cr_Value c) = holds results"
    by (auto simp: holds_def fun_eq_iff)
  finally show ?thesis .
qed

definition distinct_names :: "WorkloadProfile list \<Rightarrow> bool" where
  "distinct_names ps \<longleftrightarrow> distinct (map wp_Name ps) \<and>
     (\<forall>p \<in> set ps. distinct (map wc_Name (wp_Conditions p)))"

lemma update_snoc: "k \<notin> fst ` set m \<Longrightarrow> AList.update k v m = m @ [(k, v)]"
  by (induction m) auto

lemma populate_eq:
  "distinct (map wp_Name ps) \<Longrightarrow>
     populate ps = map (\<lambda>p. (wp_Name p, map conditionEv (wp_Conditions p))) ps"
  unfolding populate_def
  by (induction ps rule: rev_induct) (auto simp: update_snoc image_image)

lemma populate_wf: "distinct_names ps \<Longrightarrow> wf_results (populate ps)"
  by (auto simp: distinct_names_def populate_eq wf_results_def wf_map_def comp_def conditionEv_def)

text \<open>The least quota: the loop over the resources of the active conditions, in any order.\<close>

definition least_step :: "uint64 \<times> CpuResource option \<Rightarrow> CpuResource \<Rightarrow> uint64 \<times> CpuResource option" where
  "least_step st cpu = (if Value1 cpu \<le> fst st then (Value1 cpu, Some cpu) else st)"

definition active_resources :: "(string \<times> evaluationResult) list \<Rightarrow> CpuResource list" where
  "active_resources l = List.map_filter (\<lambda>(k, er). if Active er then Resource er else None) l"

definition has_active :: "string \<times> (string \<times> evaluationResult) list \<Rightarrow> bool" where
  "has_active e \<longleftrightarrow> (\<exists>(k, er) \<in> set (snd e). Active er)"

lemma min_condition_eq:
  "min_condition (f, st) (k, er) =
     (f \<or> Active er, case (if Active er then Resource er else None) of None \<Rightarrow> st | Some cpu \<Rightarrow> least_step st cpu)"
  by (cases st) (simp add: min_condition_def least_step_def split: option.split)

lemma active_resources_simps [simp]:
  "active_resources [] = []"
  "active_resources ((k, er) # l) =
     (case (if Active er then Resource er else None) of None \<Rightarrow> [] | Some cpu \<Rightarrow> [cpu]) @ active_resources l"
  by (simp_all add: active_resources_def map_filter_simps split: option.split)

lemma foldl_min_condition:
  "foldl min_condition (f, st) l =
     (f \<or> (\<exists>(k, er) \<in> set l. Active er), foldl least_step st (active_resources l))"
proof (induction l arbitrary: f st)
  case (Cons e l)
  obtain k er where e: "e = (k, er)" by (cases e)
  show ?case by (simp add: e Cons.IH min_condition_eq split: option.split)
qed simp

lemma foldl_min_profile:
  "foldl min_profile (n, st) m =
     (n + length (filter has_active m), foldl least_step st (concat (map (active_resources \<circ> snd) m)))"
proof (induction m arbitrary: n st)
  case (Cons e m)
  have "min_profile (n, st) e = (if has_active e then Suc n else n, foldl least_step st (active_resources (snd e)))"
    by (cases st) (simp add: min_profile_def foldl_min_condition has_active_def case_prod_unfold)
  then show ?case by (simp add: Cons.IH)
qed simp

lemma foldl_least_step:
  assumes "\<forall>c \<in> set cs. Value2 c = 100000"
  shows "snd (foldl least_step (a, r) cs) =
    (let Q = {v \<in> Value1 ` set cs. v \<le> a} in if Q = {} then r else Some \<lparr>Value1 = Min Q, Value2 = 100000\<rparr>)"
  using assms
proof (induction cs arbitrary: a r)
  case (Cons c cs)
  let ?Q = "\<lambda>a cs. {v \<in> Value1 ` set cs. v \<le> a}"
  have c: "c = \<lparr>Value1 = Value1 c, Value2 = 100000\<rparr>" using Cons.prems by (cases c) simp
  show ?case
  proof (cases "Value1 c \<le> a")
    case False
    then have "?Q a (c # cs) = ?Q a cs" by auto
    with False Cons show ?thesis by (simp add: least_step_def)
  next
    case True
    have fin: "finite (?Q (Value1 c) cs)" "finite (?Q a (c # cs))" by simp_all
    have ne: "?Q a (c # cs) \<noteq> {}" using True by auto
    have least: "Min (?Q a (c # cs)) = (if ?Q (Value1 c) cs = {} then Value1 c else Min (?Q (Value1 c) cs))"
    proof (rule Min_eqI [OF fin(2)])
      show "(if ?Q (Value1 c) cs = {} then Value1 c else Min (?Q (Value1 c) cs)) \<in> ?Q a (c # cs)"
        using True Min_in [OF fin(1)] by (auto intro: order_trans)
      fix y assume y: "y \<in> ?Q a (c # cs)"
      have le: "(if ?Q (Value1 c) cs = {} then Value1 c else Min (?Q (Value1 c) cs)) \<le> Value1 c"
        using Min_in [OF fin(1)] by auto
      show "(if ?Q (Value1 c) cs = {} then Value1 c else Min (?Q (Value1 c) cs)) \<le> y"
      proof (cases "y \<le> Value1 c \<and> y \<in> Value1 ` set cs")
        case True
        then show ?thesis using Min_le [OF fin(1), of y] by auto
      next
        case False
        with y have "Value1 c \<le> y" by auto
        with le show ?thesis by (rule order_trans)
      qed
    qed
    have "snd (foldl least_step (a, r) (c # cs)) = snd (foldl least_step (Value1 c, Some c) cs)"
      using True by (simp add: least_step_def)
    also have "\<dots> = (if ?Q (Value1 c) cs = {} then Some c else Some \<lparr>Value1 = Min (?Q (Value1 c) cs), Value2 = 100000\<rparr>)"
      using Cons.IH [of "Value1 c" "Some c"] Cons.prems unfolding Let_def by auto
    also have "\<dots> = Some \<lparr>Value1 = Min (?Q a (c # cs)), Value2 = 100000\<rparr>"
      unfolding least using c by auto
    finally show ?thesis using ne unfolding Let_def by argo
  qed
qed simp

section \<open>Properties\<close>

text \<open>The profiles of the workload with a condition that holds, and the quotas of such conditions.\<close>

definition active_profiles :: "WorkloadProfile list \<Rightarrow> ProfileEvaluationResult list \<Rightarrow> WorkloadProfile list" where
  "active_profiles ps results =
     filter (\<lambda>p. \<exists>c \<in> set (wp_Conditions p). holds results (wp_Name p) (wc_Name c)) ps"

definition active_quotas :: "WorkloadProfile list \<Rightarrow> ProfileEvaluationResult list \<Rightarrow> uint64 set" where
  "active_quotas ps results =
     {q. \<exists>p \<in> set ps. \<exists>c \<in> set (wp_Conditions p). holds results (wp_Name p) (wc_Name c) \<and>
        (\<exists>a. wc_CPU c = Some (a, q)) \<and> q \<le> 100000}"

lemma active_of_profile:
  "set (active_resources (map ((\<lambda>(k, er). (k, if P k then er\<lparr>Active := True\<rparr> else er)) \<circ> conditionEv) cs)) =
     {\<lparr>Value1 = q, Value2 = 100000\<rparr> |q. \<exists>c \<in> set cs. P (wc_Name c) \<and> (\<exists>a. wc_CPU c = Some (a, q))}"
  by (induction cs) (auto simp: conditionEv_def split: option.split)

lemma evaluate_eq:
  assumes "is_range rng" and "distinct_names ps" and "ps \<noteq> []" and "results \<noteq> []"
  shows "Active (evaluate rng ps results) = (length results \<le> length (active_profiles ps results)) \<and>
    Resource (evaluate rng ps results) =
      (if active_quotas ps results = {} then None
       else Some \<lparr>Value1 = Min (active_quotas ps results), Value2 = 100000\<rparr>)"
proof -
  define m where "m = activate_all (holds results) (populate ps)"
  define Q where "Q q \<longleftrightarrow> (\<exists>p \<in> set ps. \<exists>c \<in> set (wp_Conditions p).
      holds results (wp_Name p) (wc_Name c) \<and> (\<exists>a. wc_CPU c = Some (a, q)))" for q
  define cs where "cs = concat (map (active_resources \<circ> snd) (rng m))"
  have ev: "evaluate rng ps results =
      \<lparr>Active = (length results \<le> length (filter has_active (rng m))), Resource = snd (foldl least_step (100000, None) cs)\<rparr>"
    using assms(3,4) foldl_min_profile [of 0 "(100000, None)" "rng m"]
    by (simp add: evaluate_def apply_results_eq [OF populate_wf [OF assms(2)]] m_def cs_def case_prod_unfold Let_def)
  have m: "m = map (\<lambda>p. (wp_Name p, map (\<lambda>(k, er). (k, if holds results (wp_Name p) k then er\<lparr>Active := True\<rparr> else er))
      (map conditionEv (wp_Conditions p)))) ps"
    using assms(2) by (simp add: m_def activate_all_def populate_eq distinct_names_def)
  have "mset (filter has_active (rng m)) = mset (filter has_active m)"
    using is_range_mset [OF assms(1), of m] by simp
  then have "length (filter has_active (rng m)) = length (filter has_active m)"
    by (metis size_mset)
  also have "\<dots> = length (active_profiles ps results)"
    unfolding m active_profiles_def
    by (simp add: filter_map comp_def has_active_def conditionEv_def case_prod_unfold)
  finally have n: "length (filter has_active (rng m)) = length (active_profiles ps results)" .
  have "set cs = \<Union> (set ` (active_resources \<circ> snd) ` set m)"
    by (simp add: cs_def is_range_set [OF assms(1)])
  also have "\<dots> = {\<lparr>Value1 = q, Value2 = 100000\<rparr> |q. Q q}"
    unfolding m by (auto simp: active_of_profile Q_def)
  finally have cs: "set cs = {\<lparr>Value1 = q, Value2 = 100000\<rparr> |q. Q q}" .
  then have "Value1 ` set cs = {q. Q q}" by (force simp: image_iff)
  then have "{v \<in> Value1 ` set cs. v \<le> 100000} = active_quotas ps results"
    by (auto simp: active_quotas_def Q_def)
  moreover have "\<forall>c \<in> set cs. Value2 c = 100000" using cs by auto
  ultimately show ?thesis
    using foldl_least_step [of cs 100000 None] by (simp add: ev n Let_def)
qed


definition perf_profile :: WorkloadProfile where
  "perf_profile = \<lparr>wp_Name = ''perf'',
     wp_Conditions = [\<lparr>wc_Name = ''low'', wc_CPU = Some (16, 20000)\<rparr>, \<lparr>wc_Name = ''high'', wc_CPU = Some (24, 50000)\<rparr>]\<rparr>"

definition perf_low :: ProfileEvaluationResult where
  "perf_low = \<lparr>pr_Name = ''perf'',
     ConditionsResults = [\<lparr>cr_Name = ''high'', cr_Value = True, cr_Error = None\<rparr>,
                          \<lparr>cr_Name = ''low'', cr_Value = True, cr_Error = None\<rparr>]\<rparr>"


text \<open>
  The number of results counts, not the number of the workload's profiles. On a device with more
  profiles than the workload names, the job is never to run, whatever conditions hold.
\<close>

theorem evaluate_never_active:
  assumes "is_range rng" and "distinct_names ps" and "ps \<noteq> []" and "length ps < length results"
  shows "\<not> Active (evaluate rng ps results)"
proof -
  have "length (active_profiles ps results) \<le> length ps" by (simp add: active_profiles_def)
  moreover have "results \<noteq> []" using assms(4) by auto
  ultimately show ?thesis using assms(4) evaluate_eq [OF assms(1-3), of results] by simp
qed

theorem evaluate_never_active_witness:
  "\<not> Active (evaluate rev [perf_profile] [perf_low, \<lparr>pr_Name = ''other'', ConditionsResults = []\<rparr>])"
  using evaluate_never_active [of rev "[perf_profile]" "[perf_low, \<lparr>pr_Name = ''other'', ConditionsResults = []\<rparr>]"]
  by (simp add: distinct_names_def perf_profile_def)

end
