(* ===== verification/Executor.thy ===== *)
theory Executor
  imports Job
begin

text \<open>
  The executors (\<open>internal/executor\<close>): the translation of a workload to a pod (\<open>common/util.go\<close>),
  the podman executor with its client (\<open>podman/executor.go\<close>, \<open>podman.go\<close>, \<open>mapper.go\<close>), the k8s
  executor (\<open>k8s/executor.go\<close>) and the dispatch to them (\<open>executor.go\<close>). The podman bindings, the
  Kubernetes client, the YAML package and the temporary file are arguments, records of functions on
  a world \<open>'w\<close>. A call that fails returns an \<open>error\<close> value next to its result; a call that panics
  is a \<open>Panics\<close>.
\<close>

section \<open>Pods\<close>

record EnvVar =
  ev_Name :: string
  ev_Value :: string

text \<open>Of the Kubernetes types only what the code reads or writes; the rest is kept as text.\<close>

record Container =
  c_Env :: "EnvVar list"
  c_rest :: string

record PodSpec =
  Containers :: "Container list"
  spec_rest :: string

record Pod =
  pod_Kind :: string
  pod_Name :: string
  pod_Annotations :: "(string, string) gomap"
  pod_Labels :: "(string, string) gomap"
  pod_Spec :: PodSpec

record yaml_api =
  yaml_PodSpec :: "string \<Rightarrow> error + PodSpec"
  yaml_Pod :: "Pod \<Rightarrow> error + string"

definition flottaLabel :: string where
  "flottaLabel = ''project-flotta.io''"

text \<open>
  \<open>ToPod\<close> puts its label into the map of the pod, which is the map of the workload unless that is
  nil: the workload comes back with the label. The name of the pod is computed before, the label
  is the hash without the label.
\<close>

definition ToPod :: "env \<Rightarrow> yaml_api \<Rightarrow> string \<Rightarrow> PodWorkload \<Rightarrow> error + Pod \<times> PodWorkload" where
  "ToPod E Y deviceID w =
     (case yaml_PodSpec Y (Specification w) of
        Inl err \<Rightarrow> Inl err
      | Inr podSpec \<Rightarrow>
          (let containers = map (\<lambda>c. c\<lparr>c_Env := c_Env c @ [\<lparr>ev_Name = ''DEVICE_ID'', ev_Value = deviceID\<rparr>]\<rparr>)
                              (Containers podSpec);
               labels = elems (Labels w);
               labels' = AList.update flottaLabel (Hash (mapOrder E) (digest E) w) labels;
               pod = \<lparr>pod_Kind = ''Pod'', pod_Name = ID (mapOrder E) (digest E) w,
                      pod_Annotations = elems (Annotations w), pod_Labels = labels',
                      pod_Spec = podSpec\<lparr>Containers := containers\<rparr>\<rparr>
           in Inr (pod, case Labels w of
                          None \<Rightarrow> w
                        | Some _ \<Rightarrow> w\<lparr>Labels := Some labels'\<rparr>)))"

definition yaml_sep :: string where
  "yaml_sep = ''---'' @ [CHR 0x0A]"

definition ToPodYaml :: "yaml_api \<Rightarrow> Pod \<Rightarrow> string list \<Rightarrow> error + string" where
  "ToPodYaml Y pod configmaps =
     (case yaml_Pod Y pod of
        Inl err \<Rightarrow> Inl err
      | Inr podYaml \<Rightarrow>
          (let cmYaml = (if length configmaps > 0 then join yaml_sep configmaps else [])
           in Inr (join yaml_sep [podYaml, cmYaml])))"

section \<open>The podman client\<close>

definition ErrDeployingWorkload :: error where
  "ErrDeployingWorkload = ErrorString ''failed to deploy workload''"

definition ErrRunningWorkload :: error where
  "ErrRunningWorkload = ErrorString ''failed to execute workload''"

definition ErrStoppingWorkload :: error where
  "ErrStoppingWorkload = ErrorString ''failed to stop workload''"

definition ErrRemoveWorkload :: error where
  "ErrRemoveWorkload = ErrorString ''failed to remove workload''"

record KubeOptions =
  Authfile :: string
  Network :: "string list"
  ko_Annotations :: "(string, string) gomap"
  ko_Start :: bool
  CGroupParent :: string

text \<open>
  The bindings: a pod in a list is its name and status, one in a report of \<open>play.Kube\<close> its ID and
  the IDs of its containers, an inspected container its name and its networks with their address.
  \<open>writeTemp\<close> stands for \<open>os.CreateTemp\<close>, the write and the close: it returns the name of the
  file, or None when the file could not be created.
\<close>

record 'w podman_api =
  pods_List :: "('w, error + (string \<times> string) list) io"
  pods_Exists :: "string \<Rightarrow> ('w, error + bool) io"
  pods_Remove :: "string \<Rightarrow> ('w, error option) io"
  pods_Start :: "string \<Rightarrow> ('w, error option) io"
  pods_Stop :: "string \<Rightarrow> int \<Rightarrow> ('w, error option) io"
  play_Kube :: "string \<Rightarrow> KubeOptions \<Rightarrow> ('w, error + (string \<times> string list) list) io"
  containers_Inspect :: "string \<Rightarrow> ('w, error + string \<times> (string, string) gomap) io"
  writeTemp :: "string \<Rightarrow> ('w, string option) io"

record WorkloadInfo =
  wi_Id :: string
  wi_Name :: string
  wi_Status :: string

record ContainerReport =
  cr_IPAddress :: string
  cr_Id :: string
  cr_CName :: string

record PodReport =
  rep_Id :: string
  rep_Name :: string
  rep_Containers :: "ContainerReport list"

definition DefaultNetworkName :: string where
  "DefaultNetworkName = ''podman''"

definition DefaultTimeoutForStoppingInSeconds :: int where
  "DefaultTimeoutForStoppingInSeconds = 5"

definition podman_List :: "'w podman_api \<Rightarrow> ('w, error + WorkloadInfo list) io" where
  "podman_List A =
     io_bind (pods_List A) (\<lambda>r. ret
       (case r of
          Inl err \<Rightarrow> Inl err
        | Inr podList \<Rightarrow> Inr (map (\<lambda>(n, st). \<lparr>wi_Id = n, wi_Name = n, wi_Status = st\<rparr>) podList)))"

definition podman_Exists :: "'w podman_api \<Rightarrow> string \<Rightarrow> ('w, bool \<times> error option) io" where
  "podman_Exists A workloadId =
     io_bind (pods_Exists A workloadId) (\<lambda>r. ret
       (case r of Inl err \<Rightarrow> (False, Some err) | Inr exists \<Rightarrow> (exists, None)))"

definition podman_Remove :: "'w podman_api \<Rightarrow> string \<Rightarrow> ('w, error option) io" where
  "podman_Remove A workloadId =
     io_bind (podman_Exists A workloadId) (\<lambda>(exists, err).
       case err of
         Some e \<Rightarrow> ret (Some e)
       | None \<Rightarrow> if exists then pods_Remove A workloadId else ret None)"

definition getContainerDetails :: "'w podman_api \<Rightarrow> string \<Rightarrow> ('w, error + ContainerReport) io" where
  "getContainerDetails A containerId =
     io_bind (containers_Inspect A containerId) (\<lambda>r. ret
       (case r of
          Inl err \<Rightarrow> Inl err
        | Inr (name, networks) \<Rightarrow>
            (case map_of networks DefaultNetworkName of
               None \<Rightarrow> Inl (ErrorString (''cannot retrieve container '' @ quoted containerId @ '' network information''))
             | Some ip \<Rightarrow> Inr \<lparr>cr_IPAddress = ip, cr_Id = containerId, cr_CName = name\<rparr>)))"

definition AppendContainer :: "ContainerReport \<Rightarrow> PodReport \<Rightarrow> PodReport" where
  "AppendContainer c p = p\<lparr>rep_Containers := rep_Containers p @ [c]\<rparr>"

fun container_reports :: "'w podman_api \<Rightarrow> string list \<Rightarrow> PodReport \<Rightarrow> ('w, PodReport) io" where
  "container_reports A [] report = ret report"
| "container_reports A (c # cs) report =
     io_bind (getContainerDetails A c) (\<lambda>r.
       case r of
         Inl err \<Rightarrow> container_reports A cs report
       | Inr d \<Rightarrow> container_reports A cs (AppendContainer d report))"

fun pod_reports :: "'w podman_api \<Rightarrow> (string \<times> string list) list \<Rightarrow> ('w, PodReport list) io" where
  "pod_reports A [] = ret []"
| "pod_reports A ((i, cs) # ps) =
     io_bind (container_reports A cs \<lparr>rep_Id = i, rep_Name = [], rep_Containers = []\<rparr>) (\<lambda>report.
     io_bind (pod_reports A ps) (\<lambda>rs.
     ret (report # rs)))"

definition podman_Run :: "'w podman_api \<Rightarrow> string \<Rightarrow> string \<Rightarrow> string \<Rightarrow> (string, string) gomap \<Rightarrow>
    ('w, error + PodReport list) io" where
  "podman_Run A cgroupParent manifestPath authFilePath annotations =
     (let options = \<lparr>Authfile = authFilePath, Network = [DefaultNetworkName],
                     ko_Annotations = annotations, ko_Start = False, CGroupParent = cgroupParent\<rparr>
      in io_bind (play_Kube A manifestPath options) (\<lambda>r.
           case r of
             Inl err \<Rightarrow> ret (Inl err)
           | Inr pods \<Rightarrow> io_bind (pod_reports A pods) (\<lambda>rs. ret (Inr rs))))"

definition podman_Start :: "'w podman_api \<Rightarrow> string \<Rightarrow> ('w, error option) io" where
  "podman_Start A workloadId = pods_Start A workloadId"

definition podman_Stop :: "'w podman_api \<Rightarrow> string \<Rightarrow> ('w, error option) io" where
  "podman_Stop A workloadId =
     io_bind (pods_Exists A workloadId) (\<lambda>r.
       case r of
         Inl err \<Rightarrow> ret (Some err)
       | Inr exists \<Rightarrow>
           io_bind (if exists then pods_Stop A workloadId DefaultTimeoutForStoppingInSeconds else ret None)
             (\<lambda>err. case err of Some e \<Rightarrow> ret (Some e) | None \<Rightarrow> podman_Remove A workloadId))"

section \<open>The podman executor\<close>

definition mapPodmanStatusToEntity :: "string \<Rightarrow> JobState" where
  "mapPodmanStatusToEntity state =
     (if state = ''Running'' then RunningState
      else if state = ''Degraded'' then DegradedState
      else if state = ''Stopped'' then StoppedState
      else if state = ''Error'' then ErrorState
      else if state = ''Exited'' then ExitedState
      else UnknownState)"

abbreviation w_ID :: "env \<Rightarrow> PodWorkload \<Rightarrow> string" where
  "w_ID E w \<equiv> ID (mapOrder E) (digest E) w"

definition createPodCGroupParent :: "env \<Rightarrow> PodWorkload \<Rightarrow> string" where
  "createPodCGroupParent E w =
     (if IsRootless w
      then ''flotta-'' @ replaceAll (w_ID E w) (CHR ''-'') (CHR ''_'') @ ''.slice''
      else ''machine-flotta-'' @ replaceAll (w_ID E w) (CHR ''-'') (CHR ''_'') @ ''.slice'')"

definition pe_Run :: "env \<Rightarrow> yaml_api \<Rightarrow> string \<Rightarrow> 'w podman_api \<Rightarrow> PodWorkload \<Rightarrow>
    ('w, error option \<times> PodWorkload) io" where
  "pe_Run E Y deviceID A w =
     (case ToPod E Y deviceID w of
        Inl err \<Rightarrow> ret (Some (WrapError ''workload_name'' ErrDeployingWorkload), w)
      | Inr (pod, w') \<Rightarrow>
          (case ToPodYaml Y pod (elems (Configmaps w')) of
             Inl err \<Rightarrow> ret (Some (WrapError ''workload_name'' ErrDeployingWorkload), w')
           | Inr yaml \<Rightarrow>
               io_bind (writeTemp A yaml) (\<lambda>tmp.
               case tmp of
                 None \<Rightarrow> io_panic
               | Some path \<Rightarrow>
                   io_bind (podman_Run A (createPodCGroupParent E w') path (ImageRegistryAuth w') (elems (Annotations w'))) (\<lambda>report.
                   case report of
                     Inl err \<Rightarrow> ret (Some (WrapError ''workload_name'' ErrDeployingWorkload), w')
                   | Inr [] \<Rightarrow> io_panic
                   | Inr (r # _) \<Rightarrow>
                       io_bind (podman_Start A (rep_Id r)) (\<lambda>err.
                       case err of
                         Some e \<Rightarrow> ret (Some (WrapError ''workload name'' ErrRunningWorkload), w')
                       | None \<Rightarrow> ret (None, w'))))))"

definition pe_Exists :: "'w podman_api \<Rightarrow> string \<Rightarrow> ('w, bool \<times> error option) io" where
  "pe_Exists A i = podman_Exists A i"

definition pe_Start :: "'w podman_api \<Rightarrow> string \<Rightarrow> ('w, error option) io" where
  "pe_Start A i = io_bind (podman_Start A i) (\<lambda>err. ret
     (case err of None \<Rightarrow> None | Some e \<Rightarrow> Some (WrapError ''workload id'' ErrRunningWorkload)))"

definition pe_Stop :: "'w podman_api \<Rightarrow> string \<Rightarrow> ('w, error option) io" where
  "pe_Stop A i = io_bind (podman_Stop A i) (\<lambda>err. ret
     (case err of None \<Rightarrow> None | Some e \<Rightarrow> Some (WrapError ''pod_id'' ErrStoppingWorkload)))"

definition pe_Remove :: "env \<Rightarrow> 'w podman_api \<Rightarrow> PodWorkload \<Rightarrow> ('w, error option) io" where
  "pe_Remove E A w = io_bind (podman_Remove A (w_ID E w)) (\<lambda>err. ret
     (case err of None \<Rightarrow> None | Some e \<Rightarrow> Some (WrapError ''pod_id'' ErrRemoveWorkload)))"

definition pe_List :: "'w podman_api \<Rightarrow> ('w, WorkloadInfo list \<times> error option) io" where
  "pe_List A = io_bind (podman_List A) (\<lambda>r. ret
     (case r of Inl err \<Rightarrow> ([], Some err) | Inr infos \<Rightarrow> (infos, None)))"

fun state_in :: "string \<Rightarrow> WorkloadInfo list \<Rightarrow> JobState" where
  "state_in i [] = UnknownState"
| "state_in i (wi # wis) =
     (if wi_Id wi = i then mapPodmanStatusToEntity (wi_Status wi) else state_in i wis)"

definition pe_GetState :: "env \<Rightarrow> 'w podman_api \<Rightarrow> PodWorkload \<Rightarrow> ('w, JobState \<times> error option) io" where
  "pe_GetState E A w = io_bind (pe_List A) (\<lambda>(info, err). ret
     (case err of Some e \<Rightarrow> (UnknownState, Some e) | None \<Rightarrow> (state_in (w_ID E w) info, None)))"

section \<open>The k8s executor\<close>

record Deployment =
  d_Name :: string
  d_Replicas :: int
  d_Selector :: "(string, string) gomap"
  d_TemplateLabels :: "(string, string) gomap"
  d_Spec :: PodSpec

text \<open>The deployments of a namespace, which is the first argument.\<close>

record 'w k8s_api =
  dep_Create :: "string \<Rightarrow> Deployment \<Rightarrow> ('w, error option) io"
  dep_Delete :: "string \<Rightarrow> string \<Rightarrow> ('w, error option) io"
  dep_List :: "string \<Rightarrow> ('w, error + string list) io"

definition k8s_Run :: "env \<Rightarrow> yaml_api \<Rightarrow> string \<Rightarrow> 'w k8s_api \<Rightarrow> PodWorkload \<Rightarrow>
    ('w, error option \<times> PodWorkload) io" where
  "k8s_Run E Y deviceID C w =
     (case ToPod E Y deviceID w of
        Inl err \<Rightarrow> ret (Some err, w)
      | Inr (pod, w') \<Rightarrow>
          (let labels = [(''id'', take 12 (w_ID E w'))];
               deployment = \<lparr>d_Name = w_ID E w', d_Replicas = 1, d_Selector = labels,
                             d_TemplateLabels = labels, d_Spec = pod_Spec pod\<rparr>
           in io_bind (dep_Create C (Namespace w') deployment) (\<lambda>err. ret (err, w'))))"

definition notImplemented :: error where
  "notImplemented = ErrorString ''not implemented''"

definition k8s_Exists :: "'w k8s_api \<Rightarrow> string \<Rightarrow> ('w, bool \<times> error option) io" where
  "k8s_Exists C i = ret (False, Some notImplemented)"

definition k8s_Start :: "'w k8s_api \<Rightarrow> string \<Rightarrow> ('w, error option) io" where
  "k8s_Start C i = ret (Some notImplemented)"

definition k8s_Stop :: "'w k8s_api \<Rightarrow> string \<Rightarrow> ('w, error option) io" where
  "k8s_Stop C i = ret (Some notImplemented)"

definition k8s_Remove :: "env \<Rightarrow> 'w k8s_api \<Rightarrow> PodWorkload \<Rightarrow> ('w, error option) io" where
  "k8s_Remove E C w = dep_Delete C (Namespace w) (w_ID E w)"

definition k8s_List :: "'w k8s_api \<Rightarrow> ('w, WorkloadInfo list \<times> error option) io" where
  "k8s_List C = ret ([], None)"

fun deployed :: "string \<Rightarrow> string list \<Rightarrow> JobState" where
  "deployed i [] = UnknownState"
| "deployed i (d # ds) = (if d = i then RunningState else deployed i ds)"

definition k8s_GetState :: "env \<Rightarrow> 'w k8s_api \<Rightarrow> PodWorkload \<Rightarrow> ('w, JobState \<times> error option) io" where
  "k8s_GetState E C w = io_bind (dep_List C (Namespace w)) (\<lambda>r. ret
     (case r of
        Inl err \<Rightarrow> (UnknownState, Some err)
      | Inr items \<Rightarrow> (deployed (w_ID E w) items, None)))"

section \<open>The dispatch\<close>

datatype 'w executor_value = Podman "'w podman_api" | K8s "'w k8s_api"

record 'w executorItem =
  item_Name :: string
  item_Rootless :: bool
  item_Kind :: WorkloadKind
  item_Value :: "'w executor_value"

text \<open>The configuration the executors are made from, and the connections to the runtimes.\<close>

record 'w executor_config =
  XDGRuntimeDir :: string
  KubeConfig :: string
  cfg_DeviceID :: string
  podman_connect :: "string \<Rightarrow> error + 'w podman_api"
  k8s_BuildConfig :: "string \<Rightarrow> error + string"
  k8s_NewForConfig :: "string \<Rightarrow> error + 'w k8s_api"

text \<open>The constructors of the executors; a podman is its connection.\<close>

definition podmanConnection :: "'w executor_config \<Rightarrow> string \<Rightarrow> error + 'w podman_api" where
  "podmanConnection cfg xdgRuntimeDir = podman_connect cfg (''unix:'' @ xdgRuntimeDir @ ''/podman/podman.sock'')"

definition NewPodman :: "'w executor_config \<Rightarrow> string \<Rightarrow> error + 'w podman_api" where
  "NewPodman cfg xdgRuntimeDir =
     (case podmanConnection cfg xdgRuntimeDir of Inl err \<Rightarrow> Inl err | Inr c \<Rightarrow> Inr c)"

definition podman_New :: "'w executor_config \<Rightarrow> string \<Rightarrow> error + 'w podman_api" where
  "podman_New cfg socketPath = (case NewPodman cfg socketPath of Inl err \<Rightarrow> Inl err | Inr p \<Rightarrow> Inr p)"

definition k8s_New :: "'w executor_config \<Rightarrow> string \<Rightarrow> error + 'w k8s_api" where
  "k8s_New cfg kubeConfigPath =
     (case k8s_BuildConfig cfg kubeConfigPath of
        Inl err \<Rightarrow> Inl (WrapError (''failed to create k8s config from kubeconfig '' @ quoted kubeConfigPath) err)
      | Inr config \<Rightarrow>
          (case k8s_NewForConfig cfg config of
             Inl err \<Rightarrow> Inl (WrapError ''failed to create k8s executor'' err)
           | Inr clientset \<Rightarrow> Inr clientset))"

definition createExecutors :: "'w executor_config \<Rightarrow> 'w executorItem list" where
  "createExecutors cfg =
     (let rootless = (if XDGRuntimeDir cfg \<noteq> [] then
            (case podman_New cfg (XDGRuntimeDir cfg) of
               Inl err \<Rightarrow> []
             | Inr p \<Rightarrow> [\<lparr>item_Name = ''podman'', item_Rootless = True, item_Kind = PodKind, item_Value = Podman p\<rparr>])
            else []);
          rootfull =
            (case podman_New cfg ''/run'' of
               Inl err \<Rightarrow> []
             | Inr p \<Rightarrow> [\<lparr>item_Name = ''podman'', item_Rootless = False, item_Kind = PodKind, item_Value = Podman p\<rparr>]);
          k8s = (if KubeConfig cfg \<noteq> [] then
            (case k8s_New cfg (KubeConfig cfg) of
               Inl err \<Rightarrow> []
             | Inr c \<Rightarrow> [\<lparr>item_Name = ''k8s'', item_Rootless = False, item_Kind = K8SKind, item_Value = K8s c\<rparr>])
            else [])
      in rootless @ rootfull @ k8s)"

fun find_executor :: "'w executorItem list \<Rightarrow> WorkloadKind \<Rightarrow> bool \<Rightarrow> 'w executor_value option" where
  "find_executor [] kind rootless = None"
| "find_executor (item # items) kind rootless =
     (if item_Kind item = kind \<and> item_Rootless item = rootless then Some (item_Value item)
      else find_executor items kind rootless)"

definition getExecutor :: "env \<Rightarrow> 'w executorItem list \<Rightarrow> PodWorkload \<Rightarrow> error + 'w executor_value" where
  "getExecutor E exs w =
     (if Kind w = PodKind
      then (case find_executor exs (Kind w) (IsRootless w) of
              None \<Rightarrow> Inl (ErrorString (''podman executor not found for workload '' @ quoted (w_ID E w)))
            | Some i \<Rightarrow> Inr i)
      else (case find_executor exs (Kind w) False of
              None \<Rightarrow> Inl (ErrorString (''k8s executor not found for workload '' @ quoted (w_ID E w)))
            | Some i \<Rightarrow> Inr i))"

text \<open>The methods of the interface \<open>executor\<close>, by the dynamic type of the value.\<close>

fun v_Run where
  "v_Run E Y d (Podman A) w = pe_Run E Y d A w"
| "v_Run E Y d (K8s C) w = k8s_Run E Y d C w"

fun v_Stop where
  "v_Stop (Podman A) i = pe_Stop A i"
| "v_Stop (K8s C) i = k8s_Stop C i"

fun v_GetState where
  "v_GetState E (Podman A) w = pe_GetState E A w"
| "v_GetState E (K8s C) w = k8s_GetState E C w"

fun v_Remove where
  "v_Remove E (Podman A) w = pe_Remove E A w"
| "v_Remove E (K8s C) w = k8s_Remove E C w"

fun v_Exists where
  "v_Exists (Podman A) i = pe_Exists A i"
| "v_Exists (K8s C) i = k8s_Exists C i"

definition ex_Run :: "env \<Rightarrow> yaml_api \<Rightarrow> string \<Rightarrow> 'w executorItem list \<Rightarrow> PodWorkload \<Rightarrow>
    ('w, error option \<times> PodWorkload) io" where
  "ex_Run E Y d exs w =
     (case getExecutor E exs w of Inl err \<Rightarrow> ret (Some err, w) | Inr ex \<Rightarrow> v_Run E Y d ex w)"

definition ex_Stop :: "env \<Rightarrow> 'w executorItem list \<Rightarrow> PodWorkload \<Rightarrow> ('w, error option) io" where
  "ex_Stop E exs w =
     (case getExecutor E exs w of Inl err \<Rightarrow> ret (Some err) | Inr ex \<Rightarrow> v_Stop ex (w_ID E w))"

definition ex_GetState :: "env \<Rightarrow> 'w executorItem list \<Rightarrow> PodWorkload \<Rightarrow> ('w, JobState \<times> error option) io" where
  "ex_GetState E exs w =
     (case getExecutor E exs w of
        Inl err \<Rightarrow> ret (UnknownState, Some err)
      | Inr ex \<Rightarrow> io_bind (v_GetState E ex w) (\<lambda>(state, err). ret
          (case err of Some e \<Rightarrow> (UnknownState, Some e) | None \<Rightarrow> (state, None))))"

definition ex_Remove :: "env \<Rightarrow> 'w executorItem list \<Rightarrow> PodWorkload \<Rightarrow> ('w, error option) io" where
  "ex_Remove E exs w =
     (case getExecutor E exs w of Inl err \<Rightarrow> ret (Some err) | Inr ex \<Rightarrow> v_Remove E ex w)"

definition ex_Exists :: "env \<Rightarrow> 'w executorItem list \<Rightarrow> PodWorkload \<Rightarrow> ('w, bool \<times> error option) io" where
  "ex_Exists E exs w =
     (case getExecutor E exs w of
        Inl err \<Rightarrow> ret (False, Some err)
      | Inr ex \<Rightarrow> io_bind (v_Exists ex (w_ID E w)) (\<lambda>(exists, err). ret
          (case err of Some e \<Rightarrow> (False, Some e) | None \<Rightarrow> (exists, None))))"

text \<open>
  The interface the scheduler sees (\<open>scheduler/common/interfaces.go\<close>), filled in by the executor of
  the program.
\<close>

record 'w Executor =
  if_Remove :: "PodWorkload \<Rightarrow> ('w, error option) io"
  if_Run :: "PodWorkload \<Rightarrow> ('w, error option \<times> PodWorkload) io"
  if_Stop :: "PodWorkload \<Rightarrow> ('w, error option) io"
  if_GetState :: "PodWorkload \<Rightarrow> ('w, JobState \<times> error option) io"
  if_Exists :: "PodWorkload \<Rightarrow> ('w, bool \<times> error option) io"

definition executor_New :: "env \<Rightarrow> yaml_api \<Rightarrow> 'w executor_config \<Rightarrow> 'w Executor" where
  "executor_New E Y cfg =
     \<lparr>if_Remove = ex_Remove E (createExecutors cfg),
      if_Run = ex_Run E Y (cfg_DeviceID cfg) (createExecutors cfg),
      if_Stop = ex_Stop E (createExecutors cfg),
      if_GetState = ex_GetState E (createExecutors cfg),
      if_Exists = ex_Exists E (createExecutors cfg)\<rparr>"

section \<open>The contract of the interface\<close>

text \<open>Two workloads that differ at most in their labels.\<close>

definition relabelled :: "PodWorkload \<Rightarrow> PodWorkload \<Rightarrow> bool" where
  "relabelled w w' \<longleftrightarrow> (\<exists>m. w' = w\<lparr>Labels := m\<rparr>)"

lemma relabelled_refl [simp]: "relabelled w w"
  by (simp add: relabelled_def) (metis PodWorkload.surjective PodWorkload.update_convs(10))

lemma relabelled_update [simp]: "relabelled w (w\<lparr>Labels := m\<rparr>)"
  by (auto simp: relabelled_def)

lemma relabelled_simps:
  assumes "relabelled w w'"
  shows "Kind w' = Kind w" and "Name w' = Name w" and "Cron w' = Cron w" and "Profiles w' = Profiles w"
  using assms by (auto simp: relabelled_def go_simps)

text \<open>
  What the scheduler relies on: a failed call says \<open>UnknownState\<close> or that nothing exists, a workload
  of a kind without an executor is refused, and a run changes at most the labels of its workload.
\<close>

locale executor_contract =
  fixes X :: "'w Executor"
  assumes GetState_error:
      "io_post (if_GetState X w) s (\<lambda>(st, err) s'. err \<noteq> None \<longrightarrow> st = UnknownState)"
    and GetState_kind:
      "Kind w \<noteq> PodKind \<Longrightarrow> Kind w \<noteq> K8SKind \<Longrightarrow>
         io_post (if_GetState X w) s (\<lambda>(st, err) s'. err \<noteq> None)"
    and Exists_error:
      "io_post (if_Exists X w) s (\<lambda>(ex, err) s'. err \<noteq> None \<longrightarrow> \<not> ex)"
    and Run_relabels:
      "io_post (if_Run X w) s (\<lambda>(err, w') s'. relabelled w w')"

definition item_wf :: "'w executorItem \<Rightarrow> bool" where
  "item_wf item \<longleftrightarrow>
     (case item_Value item of Podman _ \<Rightarrow> item_Kind item = PodKind | K8s _ \<Rightarrow> item_Kind item = K8SKind)"

lemma podman_New_eq: "podman_New cfg dir = podman_connect cfg (''unix:'' @ dir @ ''/podman/podman.sock'')"
  by (simp add: podman_New_def NewPodman_def podmanConnection_def split: sum.split)

lemma createExecutors_wf: "list_all item_wf (createExecutors cfg)"
  by (simp add: createExecutors_def Let_def item_wf_def split: sum.split)

lemma createExecutors_kind: "item \<in> set (createExecutors cfg) \<Longrightarrow> item_wf item"
  using createExecutors_wf by (auto simp: list_all_iff)

lemma find_executor_Some:
  "find_executor exs kind rootless = Some v \<Longrightarrow>
     \<exists>item \<in> set exs. item_Kind item = kind \<and> item_Rootless item = rootless \<and> item_Value item = v"
  by (induction exs) (auto split: if_splits)

lemma getExecutor_kind:
  assumes "getExecutor E (createExecutors cfg) w = Inr v"
  shows "case v of Podman _ \<Rightarrow> Kind w = PodKind | K8s _ \<Rightarrow> Kind w = K8SKind"
proof -
  obtain item where "item \<in> set (createExecutors cfg)" "item_Kind item = Kind w" "item_Value item = v"
    using assms find_executor_Some by (fastforce simp: getExecutor_def split: if_splits option.splits)
  with createExecutors_kind [of item cfg] show ?thesis by (cases v) (auto simp: item_wf_def)
qed

lemma ToPod_relabels: "ToPod E Y d w = Inr (pod, w') \<Longrightarrow> relabelled w w'"
  by (auto simp: ToPod_def Let_def split: sum.splits option.splits)

lemma pe_Run_relabels: "io_post (pe_Run E Y d A w) s (\<lambda>(err, w') s'. relabelled w w')"
  by (auto simp: pe_Run_def io_post_def io_bind_def split: sum.splits option.splits list.splits
      prod.splits call.splits dest: ToPod_relabels)

lemma k8s_Run_relabels: "io_post (k8s_Run E Y d C w) s (\<lambda>(err, w') s'. relabelled w w')"
  by (auto simp: k8s_Run_def io_post_def io_bind_def Let_def split: sum.splits option.splits
      prod.splits call.splits dest: ToPod_relabels)

interpretation ex: executor_contract "executor_New E Y cfg" for E Y cfg
proof
  fix w s
  show "io_post (if_GetState (executor_New E Y cfg) w) s (\<lambda>(st, err) s'. err \<noteq> None \<longrightarrow> st = UnknownState)"
    by (auto simp: executor_New_def ex_GetState_def Let_def io_post_def io_bind_def
        split: sum.splits option.splits prod.splits call.splits)
  show "io_post (if_Exists (executor_New E Y cfg) w) s (\<lambda>(ex, err) s'. err \<noteq> None \<longrightarrow> \<not> ex)"
    by (auto simp: executor_New_def ex_Exists_def Let_def io_post_def io_bind_def
        split: sum.splits option.splits prod.splits call.splits)
  show "io_post (if_Run (executor_New E Y cfg) w) s (\<lambda>(err, w') s'. relabelled w w')"
  proof (cases "getExecutor E (createExecutors cfg) w")
    case (Inr v)
    then show ?thesis
      by (cases v) (simp_all add: executor_New_def ex_Run_def pe_Run_relabels k8s_Run_relabels)
  qed (simp add: executor_New_def ex_Run_def)
next
  fix w s
  assume "Kind w \<noteq> PodKind" "Kind w \<noteq> K8SKind"
  then obtain err where "getExecutor E (createExecutors cfg) w = Inl err"
    using getExecutor_kind [of E cfg w]
    by (cases "getExecutor E (createExecutors cfg) w") (auto split: executor_value.splits)
  then show "io_post (if_GetState (executor_New E Y cfg) w) s (\<lambda>(st, err) s'. err \<noteq> None)"
    by (simp add: executor_New_def ex_GetState_def)
qed

section \<open>Properties\<close>

lemma update_absent: "map_of m k = None \<Longrightarrow> AList.update k v m = m @ [(k, v)]"
  by (induction m) (auto split: if_splits)

lemma length_fmt_map: "mset xs = mset ys \<Longrightarrow> length (fmt_map xs) = length (fmt_map ys)"
  by (simp add: fmt_map_def length_concat flip: sum_mset_sum_list)

lemma find_executor_append:
  "find_executor (xs @ ys) k r =
     (case find_executor xs k r of None \<Rightarrow> find_executor ys k r | Some v \<Rightarrow> Some v)"
  by (induction xs) auto

text \<open>
  C24: A workload is handed to the runtime of its own kind and mode. A rootless pod gets the podman
  at the user's socket, another pod the one at the system's, a k8s workload the cluster of the
  kubeconfig; where that connection is missing, or the kind is another, there is an error and no
  other executor is used instead.
\<close>

theorem getExecutor_spec:
  "getExecutor E (createExecutors cfg) w = Inr v \<longleftrightarrow>
     (Kind w = PodKind \<and> IsRootless w \<and> XDGRuntimeDir cfg \<noteq> [] \<and>
        (\<exists>A. v = Podman A \<and> podman_connect cfg (''unix:'' @ XDGRuntimeDir cfg @ ''/podman/podman.sock'') = Inr A)) \<or>
     (Kind w = PodKind \<and> \<not> IsRootless w \<and>
        (\<exists>A. v = Podman A \<and> podman_connect cfg ''unix:/run/podman/podman.sock'' = Inr A)) \<or>
     (Kind w = K8SKind \<and> KubeConfig cfg \<noteq> [] \<and> (\<exists>C config. v = K8s C \<and>
        k8s_BuildConfig cfg (KubeConfig cfg) = Inr config \<and> k8s_NewForConfig cfg config = Inr C))"
  by (auto simp: getExecutor_def createExecutors_def podman_New_eq k8s_New_def Let_def find_executor_append kind_defs
      split: sum.splits if_splits option.splits)

text \<open>
  A workload that has labels comes back from \<open>ToPod\<close> with one more, in its own map, so that
  the text its ID is computed from has become longer, while the pod was named by the ID before. The
  pod is found under the new ID only if the digests of the two texts agree in twelve digits.
\<close>

theorem ToPod_moves_ID:
  assumes "ToPod E Y d w = Inr (pod, w')" and "Labels w = Some m" and "map_of m flottaLabel = None"
    and "is_range (mapOrder E)"
  shows "length (hash_text (mapOrder E) w) < length (hash_text (mapOrder E) w') \<and>
    pod_Name pod = w_ID E w \<and>
    (pod_Name pod = w_ID E w' \<longleftrightarrow>
       take 12 (Hash (mapOrder E) (digest E) w) = take 12 (Hash (mapOrder E) (digest E) w'))"
proof -
  let ?r = "mapOrder E" and ?h = "Hash (mapOrder E) (digest E) w"
  have w': "w' = w\<lparr>Labels := Some (m @ [(flottaLabel, ?h)])\<rparr>" and pod: "pod_Name pod = w_ID E w"
    using assms(1-3) by (auto simp: ToPod_def Let_def update_absent
        split: sum.splits)
  have len: "length (fmt_map (?r xs)) = length (fmt_map xs)" for xs
    by (rule length_fmt_map) (rule is_range_mset [OF assms(4)])
  have "length (fmt_map (m @ [(flottaLabel, ?h)])) > length (fmt_map m)"
    by (simp add: fmt_map_def flottaLabel_def)
  then have "length (hash_text ?r w) < length (hash_text ?r w')"
    using assms(2) by (simp add: w' hash_text_def len)
  then show ?thesis using pod by (auto simp: ID_def w')
qed

definition yaml_example :: yaml_api where
  "yaml_example = \<lparr>yaml_PodSpec = (\<lambda>s. Inr \<lparr>Containers = [\<lparr>c_Env = [], c_rest = s\<rparr>], spec_rest = []\<rparr>),
     yaml_Pod = (\<lambda>p. Inr (pod_Name p))\<rparr>"

theorem ToPod_moves_ID_witness:
  "\<exists>pod w'. ToPod (env_at 0) yaml_example ''dev'' pod_example = Inr (pod, w') \<and>
     length (hash_text (mapOrder (env_at 0)) pod_example) < length (hash_text (mapOrder (env_at 0)) w')"
proof -
  obtain pod w' where "ToPod (env_at 0) yaml_example ''dev'' pod_example = Inr (pod, w')"
    by (auto simp: ToPod_def yaml_example_def Let_def)
  with ToPod_moves_ID [OF this, of "[(''app'', ''web'')]"] show ?thesis
    by (auto simp: pod_example_def flottaLabel_def env_at_def)
qed

text \<open>
  What the documentation of podman says of the calls the executor makes, where \<open>pods\<close> is the list of
  the names and statuses of the pods: listing and asking change nothing and tell the truth, and a
  forced removal that succeeds has removed the pod and no other.
\<close>

definition podman_laws :: "'w podman_api \<Rightarrow> ('w \<Rightarrow> (string \<times> string) list) \<Rightarrow> bool" where
  "podman_laws A pods \<longleftrightarrow>
     (\<forall>s. io_post (pods_List A) s (\<lambda>r s'. pods s' = pods s \<and> (\<forall>l. r = Inr l \<longrightarrow> l = pods s))) \<and>
     (\<forall>i s. io_post (pods_Exists A i) s
        (\<lambda>r s'. pods s' = pods s \<and> (\<forall>b. r = Inr b \<longrightarrow> b = (i \<in> fst ` set (pods s))))) \<and>
     (\<forall>i s. io_post (pods_Remove A i) s
        (\<lambda>err s'. err = None \<longrightarrow> pods s' = filter (\<lambda>p. fst p \<noteq> i) (pods s)))"

lemma podman_lawsD:
  assumes "podman_laws A pods"
  shows "io_post (pods_List A) s (\<lambda>r s'. pods s' = pods s \<and> (\<forall>l. r = Inr l \<longrightarrow> l = pods s))"
    and "io_post (pods_Exists A i) s
        (\<lambda>r s'. pods s' = pods s \<and> (\<forall>b. r = Inr b \<longrightarrow> b = (i \<in> fst ` set (pods s))))"
    and "io_post (pods_Remove A i) s
        (\<lambda>err s'. err = None \<longrightarrow> pods s' = filter (\<lambda>p. fst p \<noteq> i) (pods s))"
  using assms by (simp_all add: podman_laws_def)

lemma podman_Remove_gone:
  assumes laws: "podman_laws A pods"
  shows "io_post (podman_Remove A i) s (\<lambda>err s'. err = None \<longrightarrow> i \<notin> fst ` set (pods s'))"
  unfolding podman_Remove_def podman_Exists_def io_post_bind
proof (rule io_post_mono [OF podman_lawsD(2) [OF laws]], goal_cases)
  case (1 r s1)
  have "io_post (pods_Remove A i) s1 (\<lambda>err s'. err = None \<longrightarrow> i \<notin> fst ` set (pods s'))"
    by (rule io_post_mono [OF podman_lawsD(3) [OF laws]]) auto
  with 1 show ?case by (cases r) auto
qed

lemma podman_Stop_gone:
  assumes laws: "podman_laws A pods"
  shows "io_post (podman_Stop A i) s (\<lambda>err s'. err = None \<longrightarrow> i \<notin> fst ` set (pods s'))"
  unfolding podman_Stop_def io_post_bind
proof (rule io_post_mono [OF podman_lawsD(2) [OF laws]], goal_cases)
  case (1 r s1)
  have rm: "io_post (case err of None \<Rightarrow> podman_Remove A i | Some e \<Rightarrow> ret (Some e)) s2
      (\<lambda>err s'. err = None \<longrightarrow> i \<notin> fst ` set (pods s'))" for err s2
    using podman_Remove_gone [OF laws] by (cases err) auto
  have "io_post m s1 (\<lambda>err s2. io_post (case err of None \<Rightarrow> podman_Remove A i | Some e \<Rightarrow> ret (Some e)) s2
      (\<lambda>err s'. err = None \<longrightarrow> i \<notin> fst ` set (pods s')))" for m
    by (rule io_post_mono [OF io_post_True]) (rule rm)
  then show ?case by (cases r) auto
qed

lemma state_in_absent:
  "i \<notin> fst ` set ps \<Longrightarrow> state_in i (map (\<lambda>(n, st). \<lparr>wi_Id = n, wi_Name = n, wi_Status = st\<rparr>) ps) = UnknownState"
  by (induction ps) auto

lemma pe_GetState_absent:
  assumes laws: "podman_laws A pods" and "w_ID E w \<notin> fst ` set (pods s)"
  shows "io_post (pe_GetState E A w) s (\<lambda>(st, err) s'. st = UnknownState \<and> pods s' = pods s)"
  unfolding pe_GetState_def pe_List_def podman_List_def io_post_bind
proof (rule io_post_mono [OF podman_lawsD(1) [OF laws]], goal_cases)
  case (1 r s1)
  with assms(2) show ?case by (cases r) (auto simp: state_in_absent)
qed

end
