(* ===== verification/Reconcile.thy ===== *)
theory Reconcile
  imports Executor
begin

text \<open>
  The reconciliation of a job with the runtime (\<open>internal/scheduler/reconcile\<close>) and the future that
  hands its result over (\<open>internal/entity/future.go\<close>). A synchronisation function runs in a
  goroutine of its own against the interfaces of \<open>scheduler/common/interfaces.go\<close>; here it is one
  call on the world. It returns the state and the error, and the workload as the run left it.
\<close>

section \<open>Futures\<close>

record 'a Future =
  fut_value :: 'a
  inputClosed :: bool

definition NewFuture :: "'a \<Rightarrow> 'a Future" where
  "NewFuture none = \<lparr>fut_value = none, inputClosed = False\<rparr>"

text \<open>The goroutine of a future: a value received from the channel, and the channel closed.\<close>

definition fut_receive :: "'a \<Rightarrow> 'a Future \<Rightarrow> 'a Future" where
  "fut_receive v f = f\<lparr>fut_value := v\<rparr>"

definition fut_close :: "'a Future \<Rightarrow> 'a Future" where
  "fut_close f = f\<lparr>inputClosed := True\<rparr>"

definition Resolved :: "'a Future \<Rightarrow> bool" where
  "Resolved f = inputClosed f"

definition Poll :: "'a \<Rightarrow> 'a Future \<Rightarrow> 'a \<times> bool" where
  "Poll none f = (if Resolved f then (fut_value f, True) else (none, False))"

section \<open>Reconciling the state\<close>

type_synonym sync_result = "(JobState \<times> error option) \<times> PodWorkload"

definition final_state :: "'w Executor \<Rightarrow> PodWorkload \<Rightarrow> ('w, sync_result) io" where
  "final_state X w =
     io_bind (if_GetState X w) (\<lambda>(state, err). ret
       (case err of Some e \<Rightarrow> ((UnknownState, Some e), w) | None \<Rightarrow> ((state, None), w)))"

definition podman_sync :: "'w Executor \<Rightarrow> Job \<Rightarrow> ('w, sync_result) io" where
  "podman_sync X j =
     (let w = workload j in
      if currentState j = targetState j then ret ((currentState j, None), w)
      else if targetState j = RunningState then
        io_bind (if_Exists X w) (\<lambda>(exists, errE).
        case errE of
          Some e \<Rightarrow> ret ((UnknownState, Some e), w)
        | None \<Rightarrow>
            io_bind (if exists then if_Remove X w else ret None) (\<lambda>err.
            case err of
              Some e \<Rightarrow> ret ((UnknownState, Some e), w)
            | None \<Rightarrow>
                io_bind (if_Run X w) (\<lambda>(err, w').
                case err of
                  Some e \<Rightarrow> ret ((UnknownState, Some e), w')
                | None \<Rightarrow> final_state X w')))
      else if OneOf (targetState j) [ExitedState, InactiveState] then
        io_bind (if_Stop X w) (\<lambda>err.
        case err of
          Some e \<Rightarrow> ret ((UnknownState, Some e), w)
        | None \<Rightarrow>
            io_bind (if_Remove X w) (\<lambda>err.
            case err of
              Some e \<Rightarrow> ret ((UnknownState, Some e), w)
            | None \<Rightarrow> final_state X w))
      else ret ((currentState j, None), w))"

definition k8s_sync :: "'w Executor \<Rightarrow> Job \<Rightarrow> ('w, sync_result) io" where
  "k8s_sync X j =
     (let w = workload j in
      if currentState j = targetState j then ret ((currentState j, None), w)
      else
        io_bind (if targetState j = RunningState then if_Run X w else ret (None, w)) (\<lambda>(err, w').
        case err of
          Some e \<Rightarrow> ret ((UnknownState, Some e), w')
        | None \<Rightarrow>
            io_bind (if OneOf (targetState j) [ExitedState, InactiveState, UnknownState]
                     then if_Remove X w' else ret None) (\<lambda>err.
            case err of
              Some e \<Rightarrow> ret ((UnknownState, Some e), w')
            | None \<Rightarrow> final_state X w')))"

text \<open>The wrapper of \<open>logger.go\<close> only logs a change of state.\<close>

definition logger_sync :: "('w Executor \<Rightarrow> Job \<Rightarrow> ('w, sync_result) io) \<Rightarrow>
    'w Executor \<Rightarrow> Job \<Rightarrow> ('w, sync_result) io" where
  "logger_sync nextSyncFunc X j = io_bind (nextSyncFunc X j) ret"

text \<open>
  The map of synchronisation functions by kind, and the body of \<open>futureWrapper\<close>: a kind without a
  function is only logged, and the call of the nil function panics.
\<close>

definition syncFuncs :: "(WorkloadKind, 'w Executor \<Rightarrow> Job \<Rightarrow> ('w, sync_result) io) gomap" where
  "syncFuncs = AList.update K8SKind (logger_sync k8s_sync) (AList.update PodKind (logger_sync podman_sync) [])"

definition futureWrapper :: "'w Executor \<Rightarrow> Job \<Rightarrow> ('w, sync_result) io" where
  "futureWrapper X j =
     (case map_of syncFuncs (Kind (workload j)) of
        None \<Rightarrow> io_panic
      | Some fn \<Rightarrow> fn X j)"

section \<open>Reconciling the resources\<close>

text \<open>
  The interface of the resource manager; \<open>regexpOk\<close> says whether a pattern compiles
  (\<open>regexp.MustCompile\<close> panics otherwise).
\<close>

record 'w ResourceManager =
  rm_Set :: "string \<Rightarrow> CpuResource \<Rightarrow> ('w, error option) io"
  rm_GetCGroup :: "string \<Rightarrow> bool \<Rightarrow> ('w, string \<times> error option) io"
  rm_GetResources :: "string \<Rightarrow> ('w, CpuResource \<times> error option) io"
  regexpOk :: "string \<Rightarrow> bool"

definition cgroup_pattern :: "env \<Rightarrow> Job \<Rightarrow> string" where
  "cgroup_pattern E j = replaceAll (job_ID E j) (CHR ''-'') (CHR ''_'')"

text \<open>\<open>path.Join\<close> of a root and a path: empty parts and dots go, a double dot takes a part back.\<close>

fun clean_parts :: "string list \<Rightarrow> string list \<Rightarrow> string list" where
  "clean_parts acc [] = rev acc"
| "clean_parts acc (p # ps) =
     (if p = [] \<or> p = ''.'' then clean_parts acc ps
      else if p = ''..'' then clean_parts (tl acc) ps
      else clean_parts (p # acc) ps)"

definition path_Join_root :: "string \<Rightarrow> string" where
  "path_Join_root p = ''/'' @ join ''/'' (clean_parts [] (split_on (CHR ''/'') p))"

definition resources_sync :: "env \<Rightarrow> 'w ResourceManager \<Rightarrow> Job \<Rightarrow> ('w, error option) io" where
  "resources_sync E R j =
     (if \<not> regexpOk R (cgroup_pattern E j) then io_panic
      else
        io_bind (rm_GetCGroup R (cgroup_pattern E j) True) (\<lambda>(cgroup, err).
        case err of
          Some e \<Rightarrow> ret (Some e)
        | None \<Rightarrow>
            if cgroup = [] then ret (Some (ErrorString (''failed to find cgroup for job '' @ quoted (job_ID E j))))
            else
              (let parts = split_on (CHR ''/'') cgroup in
               case go_slice parts 4 (int (length parts)) of
                 None \<Rightarrow> io_panic
               | Some ps \<Rightarrow> rm_Set R (path_Join_root (join ''/'' ps)) (targetResources j))))"

definition resource_syncFuncs ::
    "(WorkloadKind, env \<Rightarrow> 'w ResourceManager \<Rightarrow> Job \<Rightarrow> ('w, error option) io) gomap" where
  "resource_syncFuncs = AList.update PodKind resources_sync []"

definition resource_wrapper :: "env \<Rightarrow> 'w ResourceManager \<Rightarrow> Job \<Rightarrow> ('w, error option) io" where
  "resource_wrapper E R j =
     (case map_of resource_syncFuncs (Kind (workload j)) of
        None \<Rightarrow> io_panic
      | Some fn \<Rightarrow> fn E R j)"

section \<open>What the scheduler relies on\<close>

lemma syncFuncs_kind:
  "map_of syncFuncs k = (if k = K8SKind then Some (logger_sync k8s_sync)
     else if k = PodKind then Some (logger_sync podman_sync) else None)"
  by (simp add: syncFuncs_def update_conv' kind_defs)

lemma logger_sync_eq [simp]: "logger_sync f X j = f X j"
  by (rule ext) (auto simp: logger_sync_def io_bind_def ret_def split: prod.split call.split)

text \<open>A result that carries an error carries \<open>UnknownState\<close>, and the workload is the job's but for labels.\<close>

definition sync_ok :: "Job \<Rightarrow> sync_result \<Rightarrow> bool" where
  "sync_ok j r \<longleftrightarrow> (snd (fst r) \<noteq> None \<longrightarrow> fst (fst r) = UnknownState) \<and> relabelled (workload j) (snd r)"

lemma sync_ok_simps [simp]:
  "sync_ok j ((UnknownState, e), w) \<longleftrightarrow> relabelled (workload j) w"
  "sync_ok j ((st, None), w) \<longleftrightarrow> relabelled (workload j) w"
  by (auto simp: sync_ok_def)

lemma io_post_any: "(\<And>x s'. io_post (f x) s' P) \<Longrightarrow> io_post m s (\<lambda>x s'. io_post (f x) s' P)"
  by (rule io_post_mono [OF io_post_True])

context executor_contract
begin

lemma final_state_ok:
  "relabelled (workload j) w \<Longrightarrow> io_post (final_state X w) s (\<lambda>r s'. sync_ok j r)"
  by (simp add: final_state_def case_prod_unfold)
    (rule io_post_mono [OF io_post_True], simp split: option.split)

lemma Run_then:
  assumes "\<And>err w' s'. relabelled w w' \<Longrightarrow> io_post (f err w') s' P"
  shows "io_post (if_Run X w) s (\<lambda>(err, w') s'. io_post (f err w') s' P)"
  by (rule io_post_mono [OF Run_relabels]) (auto intro: assms)

lemma podman_sync_ok: "io_post (podman_sync X j) s (\<lambda>r s'. sync_ok j r)"
proof -
  have run: "io_post (if_Run X (workload j)) s (\<lambda>(err, w') s'. io_post (case err of
      Some e \<Rightarrow> ret ((UnknownState, Some e), w') | None \<Rightarrow> final_state X w') s' (\<lambda>r s'. sync_ok j r))" for s
    by (rule Run_then) (auto simp: final_state_ok split: option.split)
  show ?thesis
    using run
    by (auto simp: podman_sync_def Let_def case_prod_unfold intro!: io_post_any final_state_ok
        split: option.split)
qed

lemma k8s_sync_ok: "io_post (k8s_sync X j) s (\<lambda>r s'. sync_ok j r)"
proof -
  define rest where "rest err w' =
    (case err of Some e \<Rightarrow> ret ((UnknownState, Some e), w')
     | None \<Rightarrow> io_bind (if OneOf (targetState j) [ExitedState, InactiveState, UnknownState]
                        then if_Remove X w' else ret None) (\<lambda>err.
         case err of Some e \<Rightarrow> ret ((UnknownState, Some e), w') | None \<Rightarrow> final_state X w'))"
    for err :: "error option" and w'
  have rest: "io_post (rest err w') s (\<lambda>r s'. sync_ok j r)" if "relabelled (workload j) w'" for err w' s
    using that by (auto simp: rest_def final_state_ok split: option.split intro!: io_post_any)
  have "io_post (if_Run X (workload j)) s (\<lambda>(err, w') s'. io_post (rest err w') s' (\<lambda>r s'. sync_ok j r))" for s
    by (rule Run_then) (rule rest)
  then show ?thesis
    using rest [of "workload j" None s]
    by (simp add: k8s_sync_def Let_def case_prod_unfold flip: rest_def)
qed

lemma futureWrapper_ok: "io_post (futureWrapper X j) s (\<lambda>r s'. sync_ok j r)"
  by (simp add: futureWrapper_def syncFuncs_kind podman_sync_ok k8s_sync_ok)

end

text \<open>
  What the reconciler and the scheduler rely on of the resource manager: a full path it returns lies
  under the mount point of the control groups. Then the first four parts are the mount point.
\<close>

locale resource_contract =
  fixes R :: "'w ResourceManager"
  assumes GetCGroup_path:
    "io_post (rm_GetCGroup R p True) s (\<lambda>(cg, err) s'. err = None \<longrightarrow> (\<exists>q. cg = ''/sys/fs/cgroup/'' @ q))"

lemma mount_point_parts:
  "split_on (CHR ''/'') (''/sys/fs/cgroup/'' @ q) =
     [[], ''sys'', ''fs'', ''cgroup''] @ split_on (CHR ''/'') q"
  by simp

lemma mount_point_slice:
  "parts = split_on (CHR ''/'') (''/sys/fs/cgroup/'' @ q) \<Longrightarrow>
     go_slice parts 4 (int (length parts)) = Some (split_on (CHR ''/'') q)"
  by (simp only: mount_point_parts) (simp add: go_slice_Some)

context resource_contract
begin

lemma resources_sync_eq:
  assumes "regexpOk R (cgroup_pattern E j)"
    and "rm_GetCGroup R (cgroup_pattern E j) True s = (Returns (cg, None), s')"
  shows "\<exists>q. cg = ''/sys/fs/cgroup/'' @ q \<and>
    resources_sync E R j s = rm_Set R (path_Join_root q) (targetResources j) s'"
proof -
  obtain q where q: "cg = ''/sys/fs/cgroup/'' @ q"
    using GetCGroup_path [of "cgroup_pattern E j" s] assms(2) by (auto simp: io_post_def)
  have "cg \<noteq> []" by (simp add: q)
  moreover have "go_slice (split_on (CHR ''/'') cg) 4 (int (length (split_on (CHR ''/'') cg))) =
      Some (split_on (CHR ''/'') q)"
    unfolding q by (rule mount_point_slice) (rule refl)
  ultimately have "resources_sync E R j s = rm_Set R (path_Join_root q) (targetResources j) s'"
    by (simp add: resources_sync_def assms io_bind_def Let_def join_split_on)
  with q show ?thesis by blast
qed

end

section \<open>Properties\<close>

text \<open>
  C17: With the executor of the program, a reconciliation that fails reports \<open>UnknownState\<close>, and in
  every case the workload of the job is left as it was but for its labels.
\<close>

theorem reconcile_result:
  "io_post (futureWrapper (executor_New E Y cfg) j) s
     (\<lambda>((st, err), w') s'. (err = None \<or> st = UnknownState) \<and> relabelled (workload j) w')"
  by (rule io_post_mono [OF ex.futureWrapper_ok]) (auto simp: sync_ok_def)

lemma executor_New_podman:
  assumes "getExecutor E (createExecutors cfg) w = Inr (Podman A)"
  shows "if_Stop (executor_New E Y cfg) w = pe_Stop A (w_ID E w)"
    and "if_Remove (executor_New E Y cfg) w = pe_Remove E A w"
    and "if_Exists (executor_New E Y cfg) w = io_bind (pe_Exists A (w_ID E w)) (\<lambda>(exists, err). ret
          (case err of Some e \<Rightarrow> (False, Some e) | None \<Rightarrow> (exists, None)))"
    and "if_GetState (executor_New E Y cfg) w = io_bind (pe_GetState E A w) (\<lambda>(state, err). ret
          (case err of Some e \<Rightarrow> (UnknownState, Some e) | None \<Rightarrow> (state, None)))"
  by (simp_all add: executor_New_def ex_Stop_def ex_Remove_def ex_GetState_def ex_Exists_def assms)

lemma pe_Remove_gone:
  assumes "podman_laws A pods"
  shows "io_post (pe_Remove E A w) s (\<lambda>err s'. err = None \<longrightarrow> w_ID E w \<notin> fst ` set (pods s'))"
  unfolding pe_Remove_def io_post_bind
  by (rule io_post_mono [OF podman_Remove_gone [OF assms]]) (auto split: option.split)

lemma final_state_absent:
  assumes "podman_laws A pods" and "getExecutor E (createExecutors cfg) w = Inr (Podman A)"
    and "w_ID E w \<notin> fst ` set (pods s)"
  shows "io_post (final_state (executor_New E Y cfg) w) s
    (\<lambda>r s'. fst (fst r) = UnknownState \<and> w_ID E w \<notin> fst ` set (pods s'))"
  unfolding final_state_def executor_New_podman [OF assms(2)] io_post_bind
  by (rule io_post_mono [OF pe_GetState_absent [OF assms(1,3)]])
    (use assms(3) in \<open>auto split: option.split\<close>)

lemma podman_stop_removes:
  assumes "podman_laws A pods" and "getExecutor E (createExecutors cfg) (workload j) = Inr (Podman A)"
    and "targetState j = ExitedState \<or> targetState j = InactiveState" and "currentState j \<noteq> targetState j"
  shows "io_post (futureWrapper (executor_New E Y cfg) j) s (\<lambda>((st, err), w') s'.
    err = None \<longrightarrow> st = UnknownState \<and> w_ID E (workload j) \<notin> fst ` set (pods s'))"
proof -
  let ?X = "executor_New E Y cfg" and ?w = "workload j"
  let ?Q = "\<lambda>r s'. snd (fst r) = None \<longrightarrow> fst (fst r) = UnknownState \<and> w_ID E ?w \<notin> fst ` set (pods s')"
  have "Kind ?w = PodKind" using getExecutor_kind [OF assms(2)] by simp
  then have kind: "futureWrapper ?X j = podman_sync ?X j"
    by (simp add: futureWrapper_def syncFuncs_kind kind_defs)
  have "io_post (if_Remove ?X ?w) s (\<lambda>err s'. io_post (case err of
      Some e \<Rightarrow> ret ((UnknownState, Some e), ?w) | None \<Rightarrow> final_state ?X ?w) s' ?Q)" for s
    unfolding executor_New_podman(2) [OF assms(2)]
    by (rule io_post_mono [OF pe_Remove_gone [OF assms(1)]])
      (auto split: option.split intro: io_post_mono [OF final_state_absent [OF assms(1,2)]])
  then have "io_post (podman_sync ?X j) s ?Q"
    using assms(3,4)
    by (auto simp: podman_sync_def Let_def intro!: io_post_any split: option.split)
  then show ?thesis unfolding kind by (rule io_post_mono) auto
qed


text \<open>A podman that keeps its pods in a list, for the examples.\<close>

definition mem_podman :: "(string \<times> string) list podman_api" where
  "mem_podman = \<lparr>pods_List = (\<lambda>s. (Returns (Inr s), s)),
     pods_Exists = (\<lambda>i s. (Returns (Inr (i \<in> fst ` set s)), s)),
     pods_Remove = (\<lambda>i s. (Returns None, filter (\<lambda>p. fst p \<noteq> i) s)),
     pods_Start = (\<lambda>i s. (Returns None, s)), pods_Stop = (\<lambda>i t s. (Returns None, s)),
     play_Kube = (\<lambda>p opts s. (Returns (Inr [(p, [])]), s @ [(take (length p - 4) p, ''Running'')])),
     containers_Inspect = (\<lambda>c s. (Returns (Inr (c, [])), s)),
     writeTemp = (\<lambda>y s. (Returns (Some y), s))\<rparr>"

definition cfg_example :: "(string \<times> string) list executor_config" where
  "cfg_example = \<lparr>XDGRuntimeDir = [], KubeConfig = [], cfg_DeviceID = ''dev'',
     podman_connect = (\<lambda>_. Inr mem_podman), k8s_BuildConfig = Inr, k8s_NewForConfig = (\<lambda>_. Inl (ErrorString ''none''))\<rparr>"

definition job_example :: Job where
  "job_example = \<lparr>workload = pod_example, currentState = RunningState, targetState = RunningState,
     markedForDeletion = False, cron = None,
     retry = Some \<lparr>MarkedForRestart = False, retry_next = 0, retry_b = ConstantBackOff (10 * second)\<rparr>,
     hooks = [(PostSetCurrentState, MarkRestartHook), (PostSetTargetState, LogTargetHook)],
     currentResources = zeroCpu, targetResources = zeroCpu\<rparr>"

lemma mem_podman_laws: "podman_laws mem_podman (\<lambda>s. s)"
  by (simp add: podman_laws_def mem_podman_def io_post_def)

lemma getExecutor_example:
  "getExecutor E (createExecutors cfg_example) pod_example = Inr (Podman mem_podman)"
  by (simp add: getExecutor_def createExecutors_def podman_New_eq cfg_example_def pod_example_def go_simps kind_defs)


end
