(* ===== verification/Resources.thy ===== *)
theory Resources
  imports Reconcile
begin

text \<open>
  The resource manager (\<open>internal/resources/manager.go\<close>): the search for the control group of a
  job, and reading and writing its CPU limit. The package \<open>cgroups/v2\<close> and the file system are a
  record of functions on the world; the directory tree that \<open>filepath.Walk\<close> visits is data.
\<close>

section \<open>The system\<close>

text \<open>
  A node of the tree: its name, whether it is a directory, the error of reading it if any, and its
  children in lexical order.
\<close>

datatype node = Node (node_name: string) (node_dir: bool) (node_err: "error option") (children: "node list")

record 'w cgroup_api =
  LoadManager :: "string \<Rightarrow> string \<Rightarrow> ('w, error option) io"
  Update :: "string \<Rightarrow> int \<Rightarrow> int \<Rightarrow> ('w, error option) io"
  ToggleControllers :: "string \<Rightarrow> string list \<Rightarrow> ('w, error option) io"
  LoadSystemd :: "string \<Rightarrow> string \<Rightarrow> ('w, error option) io"
  DeleteSystemd :: "string \<Rightarrow> ('w, error option) io"
  NewSystemd :: "string \<Rightarrow> string \<Rightarrow> int \<Rightarrow> string \<times> string \<times> string \<Rightarrow> ('w, error option) io"
  MkdirAll :: "string \<Rightarrow> ('w, error option) io"
  readFile :: "string \<Rightarrow> ('w, error + string) io"
  cgroupTree :: "'w \<Rightarrow> node"
  matchString :: "string \<Rightarrow> string \<Rightarrow> bool"
  compiles :: "string \<Rightarrow> bool"

definition cgroupRoot :: string where
  "cgroupRoot = ''/sys/fs/cgroup''"

datatype SliceType = UserSlice | SystemSlice | MachineSlice

section \<open>Slices\<close>

definition SliceExists :: "'w cgroup_api \<Rightarrow> string \<Rightarrow> ('w, bool) io" where
  "SliceExists G path = io_bind (LoadSystemd G ''/'' path) (\<lambda>err. ret (err = None))"

fun getRootSlice :: "SliceType \<Rightarrow> string" where
  "getRootSlice UserSlice = ''/user.slice/user-1000.slice/user@1000.service''"
| "getRootSlice SystemSlice = ''/system.slice''"
| "getRootSlice MachineSlice = ''/machine.slice''"

definition CreateSlice :: "env \<Rightarrow> 'w cgroup_api \<Rightarrow> PodWorkload \<Rightarrow> ('w, error option) io" where
  "CreateSlice E G w =
     (let sliceType = (if IsRootless w then UserSlice else MachineSlice);
          rootPath = getRootSlice sliceType;
          cgroupPath = path_Join_root (rootPath @ ''/flotta.slice/flotta-'' @
                         replaceAll (w_ID E w) (CHR ''-'') (CHR ''_'') @ ''.slice'')
      in io_bind (MkdirAll G (path_Join_root (cgroupRoot @ ''/'' @ cgroupPath))) (\<lambda>err.
         case err of
           Some e \<Rightarrow> ret (Some (WrapError ''failed to create cgroup for workload'' e))
         | None \<Rightarrow>
             io_bind (LoadManager G cgroupRoot cgroupPath) (\<lambda>err.
             case err of
               Some e \<Rightarrow> ret (Some e)
             | None \<Rightarrow> ToggleControllers G cgroupPath [''cpu'', ''memory''])))"

definition RemoveSlice :: "'w cgroup_api \<Rightarrow> string \<Rightarrow> ('w, error option) io" where
  "RemoveSlice G path =
     io_bind (LoadSystemd G ''/'' path) (\<lambda>err.
       case err of Some e \<Rightarrow> ret (Some e) | None \<Rightarrow> DeleteSystemd G path)"

definition createSlice :: "'w cgroup_api \<Rightarrow> string \<Rightarrow> ('w, error option) io" where
  "createSlice G path = NewSystemd G ''/'' path (- 1) (''max 100000'', ''0'', ''0'')"

section \<open>CPU limits\<close>

definition Set_resources :: "'w cgroup_api \<Rightarrow> string \<Rightarrow> CpuResource \<Rightarrow> ('w, error option) io" where
  "Set_resources G path r =
     io_bind (LoadManager G cgroupRoot path) (\<lambda>err.
       case err of
         Some e \<Rightarrow> ret (Some e)
       | None \<Rightarrow> Update G path (sint (Value1 r)) (uint (Value2 r)))"

text \<open>\<open>strconv.Atoi\<close>: an optional sign and digits, within 64 bits.\<close>

definition atoi :: "string \<Rightarrow> error + int" where
  "atoi s =
     (let neg = (s \<noteq> [] \<and> hd s = CHR ''-''); ds = (if s \<noteq> [] \<and> (hd s = CHR ''-'' \<or> hd s = CHR ''+'') then tl s else s)
      in if ds = [] \<or> \<not> list_all is_digit ds then Inl (ErrorString ''invalid syntax'')
         else
           (let n = (if neg then - digits_value ds else digits_value ds)
            in if - (2 ^ 63) \<le> n \<and> n < 2 ^ 63 then Inr n else Inl (ErrorString ''value out of range'')))"

text \<open>\<open>strings.TrimSpace\<close> on ASCII text.\<close>

definition is_space :: "char \<Rightarrow> bool" where
  "is_space c \<longleftrightarrow> c \<in> {CHR 0x09, CHR 0x0A, CHR 0x0B, CHR 0x0C, CHR 0x0D, CHR '' ''}"

definition trimSpace :: "string \<Rightarrow> string" where
  "trimSpace s = rev (dropWhile is_space (rev (dropWhile is_space s)))"

text \<open>The inner loop over the parts of a line: None when the line has no part that is not blank.\<close>

fun scan_parts :: "string list \<Rightarrow> (CpuResource \<times> error option) option" where
  "scan_parts [] = None"
| "scan_parts (part # parts) =
     (let p = trimSpace part
      in if p \<noteq> [] then
           Some (if p \<noteq> ''max''
                 then (case atoi p of
                         Inl err \<Rightarrow> (zeroCpu, Some err)
                       | Inr v \<Rightarrow> (\<lparr>Value1 = word_of_int v, Value2 = 100000\<rparr>, None))
                 else (\<lparr>Value1 = 100000, Value2 = 100000\<rparr>, None))
         else scan_parts parts)"

fun scan_lines :: "string list \<Rightarrow> CpuResource \<times> error option" where
  "scan_lines [] = (zeroCpu, None)"
| "scan_lines (l # ls) =
     (case scan_parts (split_on (CHR '' '') l) of None \<Rightarrow> scan_lines ls | Some r \<Rightarrow> r)"

definition ErrCPUMaxFileNotFound :: error where
  "ErrCPUMaxFileNotFound = ErrorString ''cpu.max file not found''"

definition GetResources :: "'w cgroup_api \<Rightarrow> string \<Rightarrow> ('w, CpuResource \<times> error option) io" where
  "GetResources G cgroup =
     io_bind (LoadManager G cgroupRoot cgroup) (\<lambda>err.
       case err of
         Some e \<Rightarrow> ret (zeroCpu, Some (ErrorString (''failed to read cgroup '' @ quoted cgroup)))
       | None \<Rightarrow>
           io_bind (readFile G (path_Join_root (cgroupRoot @ ''/'' @ cgroup @ ''/cpu.max''))) (\<lambda>f. ret
             (case f of
                Inl e \<Rightarrow> (zeroCpu, Some (WrapError ''failed to open file'' ErrCPUMaxFileNotFound))
              | Inr text \<Rightarrow> scan_lines (split_on (CHR 0x0A) text))))"

section \<open>The search for a control group\<close>

definition filepath_Join :: "string \<Rightarrow> string \<Rightarrow> string" where
  "filepath_Join p name = (if p \<noteq> [] \<and> last p = CHR ''/'' then p @ name else p @ ''/'' @ name)"

text \<open>The calls \<open>filepath.Walk\<close> makes: the path, the name, whether it is a directory, the error.\<close>

fun walk :: "string \<Rightarrow> node \<Rightarrow> (string \<times> string \<times> bool \<times> error option) list" where
  "walk path (Node n d e cs) = (path, n, d, e) # concat (map (\<lambda>c. walk (filepath_Join path (node_name c)) c) cs)"

text \<open>What the search sends on its channel: it goes on after a match and stops at an error.\<close>

fun search :: "(string \<Rightarrow> bool) \<Rightarrow> bool \<Rightarrow> (string \<times> string \<times> bool \<times> error option) list \<Rightarrow> string list" where
  "search matchf fullPath [] = []"
| "search matchf fullPath ((path, n, d, e) # es) =
     (if e \<noteq> None then []
      else if d \<and> matchf n then (if fullPath then path else n) # search matchf fullPath es
      else search matchf fullPath es)"

text \<open>
  \<open>GetCGroup\<close> waits for a result or for the end of the search. The channel holds one result: with
  a second match the search waits, with only one it may have ended as well, and \<open>select\<close> picks one
  of two ready channels (\<open>pickEnd\<close>).
\<close>

definition GetCGroup :: "bool \<Rightarrow> 'w cgroup_api \<Rightarrow> string \<Rightarrow> bool \<Rightarrow> ('w, string \<times> error option) io" where
  "GetCGroup pickEnd G rxp fullPath s =
     ret (case search (matchString G rxp) fullPath (walk (cgroupRoot @ ''/'') (cgroupTree G s)) of
            [] \<Rightarrow> ([], Some (ErrorString ''failed to found cgroup''))
          | cgroup # others \<Rightarrow>
              if others = [] \<and> pickEnd then ([], Some (ErrorString ''failed to found cgroup''))
              else (cgroup, None)) s"

definition userSlicePattern :: string where
  "userSlicePattern = ''user'' @ [CHR 0x5C] @ ''.slice/user-'' @ [CHR 0x5C] @ ''d*'' @ [CHR 0x5C] @ ''.slice''"

definition GetRootSlice :: "bool \<Rightarrow> 'w cgroup_api \<Rightarrow> SliceType \<Rightarrow> ('w, string) io" where
  "GetRootSlice pickEnd G sliceType =
     (case sliceType of
        MachineSlice \<Rightarrow> ret ''machine.slice''
      | SystemSlice \<Rightarrow> ret ''system.slice''
      | UserSlice \<Rightarrow>
          io_bind (GetCGroup pickEnd G userSlicePattern False) (\<lambda>(cgroup, err). ret
            (if err \<noteq> None then [] else cgroup)))"

definition resources_New :: "bool \<Rightarrow> 'w cgroup_api \<Rightarrow> 'w ResourceManager" where
  "resources_New pickEnd G =
     \<lparr>rm_Set = Set_resources G, rm_GetCGroup = GetCGroup pickEnd G,
      rm_GetResources = GetResources G, regexpOk = compiles G\<rparr>"

section \<open>The contract of the resource manager\<close>

lemma walk_prefix: "(path, n, d, e) \<in> set (walk p t) \<Longrightarrow> \<exists>q. path = p @ q"
proof (induction p t arbitrary: path n d e rule: walk.induct)
  case (1 p nm dir er cs)
  then consider "path = p" | c where "c \<in> set cs" "(path, n, d, e) \<in> set (walk (filepath_Join p (node_name c)) c)"
    by auto
  then show ?case
  proof cases
    case 2
    from "1.IH" [OF this] show ?thesis by (auto simp: filepath_Join_def split: if_splits)
  qed simp
qed

lemma search_sound:
  "x \<in> set (search f True es) \<Longrightarrow> \<exists>n. (x, n, True, None) \<in> set es \<and> f n"
  by (induction f True es rule: search.induct) (auto split: if_splits)

lemma search_nonempty:
  "\<forall>(p, n, d, e) \<in> set es. e = None \<Longrightarrow> (p, n, True, None) \<in> set es \<Longrightarrow> f n \<Longrightarrow> search f b es \<noteq> []"
  by (induction f b es rule: search.induct) auto

interpretation rm: resource_contract "resources_New pickEnd G" for pickEnd G
proof
  fix p s
  let ?l = "search (matchString G p) True (walk (cgroupRoot @ ''/'') (cgroupTree G s))"
  have "\<exists>q. x = cgroupRoot @ ''/'' @ q" if "x \<in> set ?l" for x
    using search_sound [OF that] walk_prefix by fastforce
  then show "io_post (rm_GetCGroup (resources_New pickEnd G) p True) s
      (\<lambda>(cg, err) s'. err = None \<longrightarrow> (\<exists>q. cg = ''/sys/fs/cgroup/'' @ q))"
    by (auto simp: resources_New_def GetCGroup_def io_post_def cgroupRoot_def split: list.split)
qed

section \<open>Properties\<close>

text \<open>
  C34: With the resource manager of the program, the limit of a job is written to a control group
  that exists: the path is that of a directory below the mount point whose name matches the
  pattern of the job, taken relative to the mount point.
\<close>

theorem resources_written_where_found:
  assumes "compiles G (cgroup_pattern E j)"
    and "GetCGroup pickEnd G (cgroup_pattern E j) True s = (Returns (cg, None), s')"
  shows "\<exists>q n. cg = cgroupRoot @ ''/'' @ q \<and>
    (cg, n, True, None) \<in> set (walk (cgroupRoot @ ''/'') (cgroupTree G s)) \<and>
    matchString G (cgroup_pattern E j) n \<and>
    resources_sync E (resources_New pickEnd G) j s = Set_resources G (path_Join_root q) (targetResources j) s"
proof -
  let ?es = "walk (cgroupRoot @ ''/'') (cgroupTree G s)"
  have "cg \<in> set (search (matchString G (cgroup_pattern E j)) True ?es)" and s': "s' = s"
    using assms(2) by (auto simp: GetCGroup_def split: list.splits if_splits)
  from search_sound [OF this(1)] obtain n
    where n: "(cg, n, True, None) \<in> set ?es" "matchString G (cgroup_pattern E j) n" by blast
  obtain q where "cg = ''/sys/fs/cgroup/'' @ q" and "resources_sync E (resources_New pickEnd G) j s =
      rm_Set (resources_New pickEnd G) (path_Join_root q) (targetResources j) s'"
    using rm.resources_sync_eq [of pickEnd G E j s cg s'] assms by (auto simp: resources_New_def)
  with n s' show ?thesis by (auto simp: cgroupRoot_def resources_New_def)
qed


lemma atoi_decimal: "int n < 2 ^ 63 \<Longrightarrow> atoi (decimal n) = Inr (int n)"
proof -
  assume n: "int n < 2 ^ 63"
  have "is_digit (hd (decimal n))"
    using decimal_digits [of n] by (cases "decimal n") auto
  then have "hd (decimal n) \<noteq> CHR ''-''" "hd (decimal n) \<noteq> CHR ''+''"
    by (auto simp: is_digit_def)
  with n decimal_digits [of n] show ?thesis
    by (simp add: atoi_def digits_value_decimal)
qed

lemma digit_not_space: "is_digit c \<Longrightarrow> \<not> is_space c"
  by (auto simp: is_digit_def is_space_def)

lemma trimSpace_digits: "list_all is_digit ds \<Longrightarrow> trimSpace ds = ds"
proof -
  assume ds: "list_all is_digit ds"
  have d: "dropWhile is_space xs = xs" if "list_all is_digit xs" for xs
    using that by (cases xs) (auto simp: digit_not_space)
  from ds have "list_all is_digit (rev ds)" by (simp add: list_all_iff)
  then show ?thesis using ds by (simp add: trimSpace_def d)
qed

lemma split_on_decimal: "c \<in> {CHR '' '', CHR 0x0A} \<Longrightarrow> split_on c (decimal n) = [decimal n]"
  using decimal_digits [of n] by (intro split_on_none) (auto simp: list_all_iff is_digit_def)

text \<open>
  C35: Reading back a limit. Where \<open>cpu.max\<close> holds a quota and a period in decimal, as it does after
  a limit was written, \<open>GetResources\<close> returns the quota, whatever the period was; the period it
  returns is always 100000. Where it holds \<open>max\<close> the quota is 100000, no limit within one period.
\<close>

theorem cpu_max_read_back:
  assumes "int quota < 2 ^ 63"
  shows "scan_lines (split_on (CHR 0x0A) (decimal quota @ '' '' @ decimal period @ [CHR 0x0A])) =
      (\<lparr>Value1 = word_of_int (int quota), Value2 = 100000\<rparr>, None) \<and>
    scan_lines (split_on (CHR 0x0A) (''max '' @ decimal period @ [CHR 0x0A])) =
      (\<lparr>Value1 = 100000, Value2 = 100000\<rparr>, None)"
proof -
  have nl: "split_on (CHR 0x0A) (xs @ '' '' @ decimal period @ [CHR 0x0A]) = [xs @ '' '' @ decimal period, []]"
    if "CHR 0x0A \<notin> set xs" for xs
  proof -
    have "CHR 0x0A \<notin> set (decimal period)"
      using decimal_digits [of period] by (auto simp: list_all_iff is_digit_def)
    with that have "split_on (CHR 0x0A) (xs @ '' '' @ decimal period) = [xs @ '' '' @ decimal period]"
      by (intro split_on_none) auto
    then show ?thesis
      using split_on_append [of "CHR 0x0A" "xs @ '' '' @ decimal period" "[]"] by simp
  qed
  have sp: "split_on (CHR '' '') (decimal quota @ '' '' @ decimal period) = [decimal quota, decimal period]"
    using split_on_append [of "CHR '' ''" "decimal quota" "decimal period"] by (simp add: split_on_decimal)
  have q: "decimal quota \<noteq> ''max''"
    using decimal_digits [of quota] by (auto simp: is_digit_def)
  have no_nl: "CHR 0x0A \<notin> set (decimal quota)"
    using decimal_digits [of quota] by (auto simp: list_all_iff is_digit_def)
  have "scan_lines (split_on (CHR 0x0A) (decimal quota @ '' '' @ decimal period @ [CHR 0x0A])) =
      (\<lparr>Value1 = word_of_int (int quota), Value2 = 100000\<rparr>, None)"
    unfolding nl [OF no_nl] using assms
    by (simp add: sp [simplified] trimSpace_digits decimal_digits atoi_decimal q)
  moreover have "scan_lines (split_on (CHR 0x0A) (''max '' @ decimal period @ [CHR 0x0A])) =
      (\<lparr>Value1 = 100000, Value2 = 100000\<rparr>, None)"
    using nl [of "''max''"]
    by (simp add: split_on_decimal trimSpace_def is_space_def)
  ultimately show ?thesis by blast
qed

text \<open>A tree with one group below \<open>machine.slice\<close>, for the examples.\<close>

definition mem_cgroup :: "string \<Rightarrow> unit cgroup_api" where
  "mem_cgroup name = \<lparr>LoadManager = (\<lambda>r p. ret None), Update = (\<lambda>p q d. ret None),
     ToggleControllers = (\<lambda>p c. ret None), LoadSystemd = (\<lambda>r p. ret None), DeleteSystemd = (\<lambda>p. ret None),
     NewSystemd = (\<lambda>r p i c. ret None), MkdirAll = (\<lambda>p. ret None),
     readFile = (\<lambda>p. ret (Inr ''max 100000'')),
     cgroupTree = (\<lambda>_. Node ''cgroup'' True None [Node ''machine.slice'' True None [Node name True None []]]),
     matchString = (\<lambda>p n. n = p), compiles = (\<lambda>p. True)\<rparr>"

lemma walk_mem_cgroup:
  "walk (cgroupRoot @ ''/'') (cgroupTree (mem_cgroup name) s) =
     [(''/sys/fs/cgroup/'', ''cgroup'', True, None), (''/sys/fs/cgroup/machine.slice'', ''machine.slice'', True, None),
      (''/sys/fs/cgroup/machine.slice/'' @ name, name, True, None)]"
  by (simp add: mem_cgroup_def cgroupRoot_def filepath_Join_def)


theorem resources_written_where_found_witness:
  "\<exists>q. ''/sys/fs/cgroup/machine.slice/'' @ cgroup_pattern (env_at 0) job_example = cgroupRoot @ ''/'' @ q \<and>
     resources_sync (env_at 0) (resources_New False (mem_cgroup (cgroup_pattern (env_at 0) job_example))) job_example () =
     Set_resources (mem_cgroup (cgroup_pattern (env_at 0) job_example)) (path_Join_root q) (targetResources job_example) ()"
proof -
  let ?p = "cgroup_pattern (env_at 0) job_example"
  have "\<exists>rest. ?p = CHR ''w'' # rest"
    by (simp add: cgroup_pattern_def job_ID_def ID_def job_example_def pod_example_def replaceAll_def)
  then have "?p \<noteq> ''cgroup''" "?p \<noteq> ''machine.slice''" by auto
  then have "GetCGroup False (mem_cgroup ?p) ?p True () = (Returns (''/sys/fs/cgroup/machine.slice/'' @ ?p, None), ())"
    unfolding GetCGroup_def walk_mem_cgroup by (simp add: mem_cgroup_def)
  from resources_written_where_found [OF _ this] show ?thesis by (auto simp: mem_cgroup_def)
qed

theorem cpu_max_read_back_witness:
  "scan_lines (split_on (CHR 0x0A) (decimal 50000 @ '' '' @ decimal 100000 @ [CHR 0x0A])) =
      (\<lparr>Value1 = 50000, Value2 = 100000\<rparr>, None)"
  using cpu_max_read_back [of 50000 100000] by simp

end
