(* ===== verification/Scheduler.thy ===== *)
theory Scheduler
  imports Store Evaluate Resources
begin

text \<open>
  The scheduler (\<open>internal/scheduler/scheduler.go\<close>). Jobs, futures and their goroutines are held
  through pointers: a job or future is an index into a heap, the store holds job indices, and the
  maps of futures hold future indices. A branch of the \<open>select\<close> of \<open>run\<close> is a function on the
  state; the goroutines of the reconcilers run between the branches, and the whole is a step
  relation. The clock stands still within one branch, and one order of map ranges is used.
\<close>

section \<open>The state\<close>

text \<open>
  Where the goroutine is: in its \<open>select\<close>, in the send of the heartbeat branch, returned, or gone
  with the process after a panic of any goroutine.
\<close>

datatype sched_control = InSelect | InHeartbeatSend | HasReturned | Crashed

record 'w Scheduler =
  heap :: "Job list"
  jobs :: "nat Store"
  futures :: "(string, nat) gomap"
  fut_heap :: "(JobState \<times> error option) Future list"
  tasks :: "(nat \<times> nat) list"
  resourceFutures :: "(string, nat) gomap"
  rfut_heap :: "error option Future list"
  rtasks :: "(nat \<times> nat) list"
  profileEvaluationResults :: "ProfileEvaluationResult list"
  executionSync :: bool
  resourceSync :: bool
  evaluationSync :: bool
  sched_ctl :: sched_control
  world :: 'w

definition newScheduler :: "'w \<Rightarrow> 'w Scheduler" where
  "newScheduler w0 = \<lparr>heap = [], jobs = NewStore, futures = [], fut_heap = [], tasks = [],
     resourceFutures = [], rfut_heap = [], rtasks = [], profileEvaluationResults = [],
     executionSync = False, resourceSync = False, evaluationSync = False,
     sched_ctl = InSelect, world = w0\<rparr>"

text \<open>The orders in which the scheduler's own maps are ranged over.\<close>

record orders =
  ord_jobs :: "(string, nat) gomap \<Rightarrow> (string, nat) gomap"
  ord_workloads :: "(string, PodWorkload) gomap \<Rightarrow> (string, PodWorkload) gomap"
  ord_results :: "results_map \<Rightarrow> results_map"

definition set_job :: "nat \<Rightarrow> Job \<Rightarrow> 'w Scheduler \<Rightarrow> 'w Scheduler" where
  "set_job a j s = s\<lparr>heap := (heap s)[a := j]\<rparr>"

abbreviation id_at :: "env \<Rightarrow> 'w Scheduler \<Rightarrow> nat \<Rightarrow> string" where
  "id_at E s a \<equiv> job_ID E (heap s ! a)"

section \<open>New workloads\<close>

definition retire :: "env \<Rightarrow> 'w Scheduler \<Rightarrow> nat \<Rightarrow> 'w Scheduler" where
  "retire E s a = set_job a (SetTargetState E (MarkForDeletion (heap s ! a)) ExitedState) s"

definition add_workload :: "env \<Rightarrow> 'w Scheduler \<Rightarrow> PodWorkload \<Rightarrow> 'w Scheduler" where
  "add_workload E s w =
     (case createJob E w of
        Inl err \<Rightarrow> s
      | Inr j \<Rightarrow> s\<lparr>heap := heap s @ [j], jobs := Add (jobs s) (length (heap s))\<rparr>)"

definition sched_input :: "env \<Rightarrow> orders \<Rightarrow> PodWorkload list option \<Rightarrow> 'w Scheduler \<Rightarrow> 'w Scheduler" where
  "sched_input E Ord opt s =
     (case opt of
        None \<Rightarrow> foldl (retire E) s (ToList (jobs s))
      | Some ws \<Rightarrow>
          (let jobsToRemove = substract (ord_jobs Ord) (id_at E s) (w_ID E) (ToList (jobs s)) ws;
               newWorkloads = substract (ord_workloads Ord) (w_ID E) (id_at E s) ws (ToList (jobs s));
               s1 = foldl (add_workload E) s newWorkloads;
               s2 = s1\<lparr>evaluationSync := True\<rparr>
           in foldl (retire E) s2 jobsToRemove))"

section \<open>Profile results and evaluation\<close>

definition sched_profiles :: "ProfileEvaluationResult list \<Rightarrow> 'w Scheduler \<Rightarrow> 'w Scheduler" where
  "sched_profiles results s =
     (if profileEvaluationResults s = results then s
      else s\<lparr>profileEvaluationResults := results, evaluationSync := True\<rparr>)"

definition evaluate_job :: "env \<Rightarrow> orders \<Rightarrow> 'w Scheduler \<Rightarrow> nat \<Rightarrow> 'w Scheduler" where
  "evaluate_job E Ord s a =
     (let j = heap s ! a in
      if markedForDeletion j then s
      else
        (let result = evaluate (ord_results Ord) (Profiles (workload j)) (profileEvaluationResults s)
         in if Active result
            then (let j1 = SetTargetState E j RunningState
                  in set_job a (case Resource result of
                                  None \<Rightarrow> j1
                                | Some r \<Rightarrow> SetTargetResources j1 r) s)
            else set_job a (SetTargetState E j InactiveState) s))"

definition sched_evaluation :: "env \<Rightarrow> orders \<Rightarrow> 'w Scheduler \<Rightarrow> 'w Scheduler" where
  "sched_evaluation E Ord s =
     (let s1 = s\<lparr>evaluationSync := False\<rparr>
      in (foldl (evaluate_job E Ord) s1 (ToList (jobs s1)))\<lparr>resourceSync := True\<rparr>)"

section \<open>Execution\<close>

definition shouldReconcile :: "Job \<Rightarrow> bool" where
  "shouldReconcile j \<longleftrightarrow>
     (targetState j = RunningState \<and>
        OneOf (currentState j) [ReadyState, InactiveState, ExitedState, UnknownState]) \<or>
     (OneOf (targetState j) [ExitedState, InactiveState] \<and> currentState j = RunningState)"

text \<open>\<open>Reconcile\<close>: a goroutine and its future, registered under the ID of the job.\<close>

definition start_task :: "env \<Rightarrow> nat \<Rightarrow> 'w Scheduler \<Rightarrow> 'w Scheduler" where
  "start_task E a s =
     s\<lparr>fut_heap := fut_heap s @ [NewFuture (ReadyState, None)],
       tasks := tasks s @ [(a, length (fut_heap s))],
       futures := AList.update (id_at E s a) (length (fut_heap s)) (futures s)\<rparr>"

text \<open>A job that has a reconciliation function in progress.\<close>

definition poll_task :: "env \<Rightarrow> nat \<Rightarrow> nat \<Rightarrow> 'w Scheduler \<Rightarrow> 'w Scheduler" where
  "poll_task E a f s =
     (case Poll (ReadyState, None) (fut_heap s ! f) of
        ((state, err), isResolved) \<Rightarrow>
          if isResolved then
            (let s1 = (if err \<noteq> None then s else set_job a (SetCurrentState E (heap s ! a) state) s)
             in s1\<lparr>futures := AList.delete (id_at E s1 a) (futures s1)\<rparr>)
          else s)"

text \<open>What is done with a job once its current state has been set from the executor.\<close>

definition reconcile_job :: "env \<Rightarrow> nat \<Rightarrow> 'w Scheduler \<Rightarrow> 'w Scheduler" where
  "reconcile_job E a s =
     (let j = heap s ! a in
      if markedForDeletion j \<and> OneOf (currentState j) [UnknownState, ExitedState, ReadyState] then
        s\<lparr>jobs := snd (Delete (id_at E s) (jobs s) a), futures := AList.delete (id_at E s a) (futures s)\<rparr>
      else if \<not> shouldReconcile j then s
      else if ShouldRestart j \<and> (case retry j of None \<Rightarrow> False | Some r \<Rightarrow> \<not> Retry_CanReconcile E r) then s
      else if targetState j = RunningState then
        (case cron j of
           None \<Rightarrow> start_task E a s
         | Some c \<Rightarrow>
             if \<not> Cron_CanReconcile E c then s
             else start_task E a (set_job a (j\<lparr>cron := Some (Cron_ComputeNext E c)\<rparr>) s))
      else start_task E a s)"

definition exec_job :: "env \<Rightarrow> 'w Executor \<Rightarrow> nat \<Rightarrow> 'w Scheduler \<Rightarrow> 'w Scheduler" where
  "exec_job E X a s =
     (case map_of (futures s) (id_at E s a) of
        Some f \<Rightarrow> poll_task E a f s
      | None \<Rightarrow>
          (case if_GetState X (workload (heap s ! a)) (world s) of
             (Panics, w') \<Rightarrow> s\<lparr>world := w', sched_ctl := Crashed\<rparr>
           | (Returns (state, err), w') \<Rightarrow>
               if err \<noteq> None then s\<lparr>world := w'\<rparr>
               else reconcile_job E a (set_job a (SetCurrentState E (heap s ! a) state) (s\<lparr>world := w'\<rparr>))))"

text \<open>
  The loop ranges over the window that \<open>ToList\<close> returned before it started, of length \<open>n\<close>, but
  reads each element from the backing array when it gets there.
\<close>

fun exec_loop :: "env \<Rightarrow> 'w Executor \<Rightarrow> nat \<Rightarrow> nat \<Rightarrow> 'w Scheduler \<Rightarrow> 'w Scheduler" where
  "exec_loop E X 0 i s = s"
| "exec_loop E X (Suc n) i s =
     (let s1 = exec_job E X (backing (jobs s) ! i) s
      in if sched_ctl s1 = Crashed then s1 else exec_loop E X n (Suc i) s1)"

definition sched_execution :: "env \<Rightarrow> 'w Executor \<Rightarrow> 'w Scheduler \<Rightarrow> 'w Scheduler" where
  "sched_execution E X s =
     (let s1 = exec_loop E X (Len (jobs s)) 0 (s\<lparr>executionSync := False\<rparr>)
      in if sched_ctl s1 = Crashed then s1 else s1\<lparr>resourceSync := True\<rparr>)"

section \<open>Resources\<close>

definition getJobResources :: "env \<Rightarrow> 'w ResourceManager \<Rightarrow> Job \<Rightarrow> ('w, CpuResource \<times> error option) io" where
  "getJobResources E R j =
     (if \<not> regexpOk R (cgroup_pattern E j) then io_panic
      else
        io_bind (rm_GetCGroup R (cgroup_pattern E j) True) (\<lambda>(cgroup, err).
        case err of
          Some e \<Rightarrow> ret (zeroCpu, Some e)
        | None \<Rightarrow>
            (let parts = split_on (CHR ''/'') cgroup in
             case go_slice parts 4 (int (length parts)) of
               None \<Rightarrow> io_panic
             | Some ps \<Rightarrow>
                 (let cg = ''/'' @ join ''/'' ps in
                  if cg = [] then ret (zeroCpu, Some (ErrorString (''failed to find cgroup for job '' @ quoted (job_ID E j))))
                  else
                    io_bind (rm_GetResources R cg) (\<lambda>(cpu, err). ret
                      (case err of
                         Some e \<Rightarrow> if errors_Is e ErrCPUMaxFileNotFound then (cpu, None) else (cpu, Some e)
                       | None \<Rightarrow> (cpu, None)))))))"

definition start_rtask :: "env \<Rightarrow> nat \<Rightarrow> 'w Scheduler \<Rightarrow> 'w Scheduler" where
  "start_rtask E a s =
     s\<lparr>rfut_heap := rfut_heap s @ [NewFuture None],
       rtasks := rtasks s @ [(a, length (rfut_heap s))],
       resourceFutures := AList.update (id_at E s a) (length (rfut_heap s)) (resourceFutures s)\<rparr>"

definition poll_rtask :: "env \<Rightarrow> nat \<Rightarrow> 'w Scheduler \<Rightarrow> 'w Scheduler" where
  "poll_rtask E a s =
     (case map_of (resourceFutures s) (id_at E s a) of
        None \<Rightarrow> s
      | Some f \<Rightarrow>
          (case Poll None (rfut_heap s ! f) of
             (err, isResolved) \<Rightarrow>
               if isResolved then
                 (let s1 = (if err \<noteq> None then s
                            else set_job a (SetTargetResources (heap s ! a) (targetResources (heap s ! a))) s)
                  in s1\<lparr>resourceFutures := AList.delete (id_at E s1 a) (resourceFutures s1)\<rparr>)
               else s))"

definition resource_job :: "env \<Rightarrow> 'w ResourceManager \<Rightarrow> nat \<Rightarrow> 'w Scheduler \<Rightarrow> 'w Scheduler" where
  "resource_job E R a s =
     (if CpuResource_Equal (targetResources (heap s ! a)) zeroCpu then s
      else
        (let s1 = poll_rtask E a s; j = heap s1 ! a
         in if currentState j \<noteq> RunningState \<or> markedForDeletion j \<or> Kind (workload j) = K8SKind then s1
            else
              (case getJobResources E R j (world s1) of
                 (Panics, w') \<Rightarrow> s1\<lparr>world := w', sched_ctl := Crashed\<rparr>
               | (Returns (r, err), w') \<Rightarrow>
                   if err \<noteq> None then s1\<lparr>world := w'\<rparr>
                   else
                     (let j1 = SetCurrentResources j r; s2 = set_job a j1 (s1\<lparr>world := w'\<rparr>)
                      in if CpuResource_Equal (currentResources j1) (targetResources j1) then s2
                         else start_rtask E a s2))))"

fun resource_loop :: "env \<Rightarrow> 'w ResourceManager \<Rightarrow> nat list \<Rightarrow> 'w Scheduler \<Rightarrow> 'w Scheduler" where
  "resource_loop E R [] s = s"
| "resource_loop E R (a # as) s =
     (let s1 = resource_job E R a s
      in if sched_ctl s1 = Crashed then s1 else resource_loop E R as s1)"

definition sched_resources :: "env \<Rightarrow> 'w ResourceManager \<Rightarrow> 'w Scheduler \<Rightarrow> 'w Scheduler" where
  "sched_resources E R s =
     resource_loop E R (ToList (jobs s)) (s\<lparr>resourceSync := False\<rparr>)"

section \<open>The goroutines of the reconcilers\<close>

text \<open>
  A reconciliation runs to its end: it reads the job as it is then, and the run may have changed
  the labels of the workload. Its result goes into the future, which is then closed.
\<close>

definition remove_nth :: "nat \<Rightarrow> 'a list \<Rightarrow> 'a list" where
  "remove_nth i xs = take i xs @ drop (Suc i) xs"

definition finish_task :: "'w Executor \<Rightarrow> nat \<Rightarrow> 'w Scheduler \<Rightarrow> 'w Scheduler" where
  "finish_task X i s =
     (case tasks s ! i of
        (a, f) \<Rightarrow>
          (case futureWrapper X (heap s ! a) (world s) of
             (Panics, w') \<Rightarrow> s\<lparr>world := w', sched_ctl := Crashed\<rparr>
           | (Returns (r, wl), w') \<Rightarrow>
               (set_job a ((heap s ! a)\<lparr>workload := wl\<rparr>) s)
                 \<lparr>world := w', tasks := remove_nth i (tasks s),
                  fut_heap := (fut_heap s)[f := fut_close (fut_receive r (fut_heap s ! f))]\<rparr>))"

definition finish_rtask :: "env \<Rightarrow> 'w ResourceManager \<Rightarrow> nat \<Rightarrow> 'w Scheduler \<Rightarrow> 'w Scheduler" where
  "finish_rtask E R i s =
     (case rtasks s ! i of
        (a, f) \<Rightarrow>
          (case resource_wrapper E R (heap s ! a) (world s) of
             (Panics, w') \<Rightarrow> s\<lparr>world := w', sched_ctl := Crashed\<rparr>
           | (Returns r, w') \<Rightarrow>
               s\<lparr>world := w', rtasks := remove_nth i (rtasks s),
                 rfut_heap := (rfut_heap s)[f := fut_close (fut_receive r (rfut_heap s ! f))]\<rparr>))"

section \<open>The steps\<close>

definition at_time :: "time \<Rightarrow> env \<Rightarrow> env" where
  "at_time t E = E\<lparr>now := t\<rparr>"

inductive sched_step :: "env \<Rightarrow> orders \<Rightarrow> (env \<Rightarrow> 'w Executor) \<Rightarrow> 'w ResourceManager \<Rightarrow>
    'w Scheduler \<Rightarrow> 'w Scheduler \<Rightarrow> bool" for E Ord X R where
  input: "sched_ctl s = InSelect \<Longrightarrow> sched_step E Ord X R s (sched_input (at_time t E) Ord opt s)"
| profiles: "sched_ctl s = InSelect \<Longrightarrow> sched_step E Ord X R s (sched_profiles results s)"
| execution: "sched_ctl s = InSelect \<Longrightarrow> executionSync s \<Longrightarrow>
    sched_step E Ord X R s (sched_execution (at_time t E) (X (at_time t E)) s)"
| resources: "sched_ctl s = InSelect \<Longrightarrow> resourceSync s \<Longrightarrow>
    sched_step E Ord X R s (sched_resources (at_time t E) R s)"
| evaluation: "sched_ctl s = InSelect \<Longrightarrow> evaluationSync s \<Longrightarrow>
    sched_step E Ord X R s (sched_evaluation (at_time t E) Ord s)"
| heartbeat: "sched_ctl s = InSelect \<Longrightarrow> sched_step E Ord X R s (s\<lparr>sched_ctl := InHeartbeatSend\<rparr>)"
| send: "sched_ctl s = InHeartbeatSend \<Longrightarrow> \<not> executionSync s \<Longrightarrow>
    sched_step E Ord X R s (s\<lparr>executionSync := True, sched_ctl := InSelect\<rparr>)"
| ctx_done: "sched_ctl s = InSelect \<Longrightarrow> sched_step E Ord X R s (s\<lparr>sched_ctl := HasReturned\<rparr>)"
| task: "sched_ctl s \<noteq> Crashed \<Longrightarrow> i < length (tasks s) \<Longrightarrow>
    sched_step E Ord X R s (finish_task (X (at_time t E)) i s)"
| rtask: "sched_ctl s \<noteq> Crashed \<Longrightarrow> i < length (rtasks s) \<Longrightarrow>
    sched_step E Ord X R s (finish_rtask (at_time t E) R i s)"

inductive sched_reaches :: "env \<Rightarrow> orders \<Rightarrow> (env \<Rightarrow> 'w Executor) \<Rightarrow> 'w ResourceManager \<Rightarrow>
    'w Scheduler \<Rightarrow> 'w Scheduler \<Rightarrow> bool" for E Ord X R where
  refl: "sched_reaches E Ord X R s s"
| step: "sched_reaches E Ord X R s s' \<Longrightarrow> sched_step E Ord X R s' s'' \<Longrightarrow> sched_reaches E Ord X R s s''"

section \<open>What the heartbeat reads\<close>

fun status_loop :: "Job list \<Rightarrow> (string, JobState) gomap \<Rightarrow> (string, JobState) gomap" where
  "status_loop [] status = status"
| "status_loop (j # js) status =
     (if Kind (workload j) = PodKind
      then status_loop js (AList.update (Name (workload j)) (currentState j) status)
      else status_loop js status)"

definition GetWorkloadsStatus :: "'w Scheduler \<Rightarrow> (string, JobState) gomap" where
  "GetWorkloadsStatus s = status_loop (map (\<lambda>a. heap s ! a) (ToList (jobs s))) []"

section \<open>The invariant\<close>

text \<open>
  Every pointer is to something allocated, every job is well-formed, and the future of a
  reconciliation that runs is open and registered under the ID of its job.
\<close>

definition task_ok :: "env \<Rightarrow> 'w Scheduler \<Rightarrow> nat \<times> nat \<Rightarrow> bool" where
  "task_ok E s t \<longleftrightarrow> fst t < length (heap s) \<and> snd t < length (fut_heap s) \<and>
     \<not> inputClosed (fut_heap s ! snd t) \<and> map_of (futures s) (id_at E s (fst t)) = Some (snd t)"

definition sched_inv :: "env \<Rightarrow> 'w Scheduler \<Rightarrow> bool" where
  "sched_inv E s \<longleftrightarrow>
     store_wf (jobs s) \<and> (\<forall>a \<in> set (backing (jobs s)). a < length (heap s)) \<and>
     (\<forall>j \<in> set (heap s). job_wf j) \<and>
     (\<forall>t \<in> set (tasks s). task_ok E s t) \<and> distinct (map snd (tasks s)) \<and>
     (\<forall>k f. map_of (futures s) k = Some f \<longrightarrow> f < length (fut_heap s)) \<and>
     (\<forall>(a, f) \<in> set (rtasks s). a < length (heap s) \<and> f < length (rfut_heap s)) \<and>
     (\<forall>k f. map_of (resourceFutures s) k = Some f \<longrightarrow> f < length (rfut_heap s))"

lemma sched_inv_frame [simp]:
  "sched_inv E (s\<lparr>world := w\<rparr>) = sched_inv E s"
  "sched_inv E (s\<lparr>sched_ctl := c\<rparr>) = sched_inv E s"
  "sched_inv E (s\<lparr>executionSync := b\<rparr>) = sched_inv E s"
  "sched_inv E (s\<lparr>resourceSync := b\<rparr>) = sched_inv E s"
  "sched_inv E (s\<lparr>evaluationSync := b\<rparr>) = sched_inv E s"
  "sched_inv E (s\<lparr>profileEvaluationResults := r\<rparr>) = sched_inv E s"
  by (simp_all add: sched_inv_def task_ok_def)

lemma job_ID_at_time [simp]: "job_ID (at_time t E) j = job_ID E j"
  by (simp add: job_ID_def at_time_def)

lemma sched_inv_at_time [simp]: "sched_inv (at_time t E) s = sched_inv E s"
  by (simp add: sched_inv_def task_ok_def)

lemma inv_job_wf: "sched_inv E s \<Longrightarrow> a < length (heap s) \<Longrightarrow> job_wf (heap s ! a)"
  by (simp add: sched_inv_def)

lemma inv_backing: "sched_inv E s \<Longrightarrow> i < len (jobs s) \<Longrightarrow> backing (jobs s) ! i < length (heap s)"
  by (simp add: sched_inv_def store_wf_def)

lemma inv_ToList: "sched_inv E s \<Longrightarrow> a \<in> set (ToList (jobs s)) \<Longrightarrow> a < length (heap s)"
  by (auto simp: sched_inv_def ToList_def dest: in_set_takeD)

lemma set_job_simps [simp]:
  "length (heap (set_job a j s)) = length (heap s)"
  "jobs (set_job a j s) = jobs s" "futures (set_job a j s) = futures s"
  "fut_heap (set_job a j s) = fut_heap s" "tasks (set_job a j s) = tasks s"
  "sched_ctl (set_job a j s) = sched_ctl s" "world (set_job a j s) = world s"
  "resourceFutures (set_job a j s) = resourceFutures s" "rtasks (set_job a j s) = rtasks s"
  "rfut_heap (set_job a j s) = rfut_heap s"
  "a < length (heap s) \<Longrightarrow> heap (set_job a j s) ! a = j"
  "profileEvaluationResults (set_job a j s) = profileEvaluationResults s"
  by (simp_all add: set_job_def)

lemma id_at_set_job:
  "job_ID E j = id_at E s a \<Longrightarrow> id_at E (set_job a j s) b = id_at E s b"
  by (cases "a < length (heap s)") (auto simp: set_job_def nth_list_update list_update_beyond)

lemma inv_set_job [simp]:
  assumes "sched_inv E s" and "job_wf j" and "job_ID E j = id_at E s a"
  shows "sched_inv E (set_job a j s)"
proof -
  have "task_ok E (set_job a j s) t = task_ok E s t" for t
    by (simp add: task_ok_def id_at_set_job assms(3))
  moreover have "\<forall>k \<in> set (heap (set_job a j s)). job_wf k"
    using assms(1,2) set_update_subset_insert [of "heap s" a j] by (auto simp: set_job_def sched_inv_def)
  ultimately show ?thesis using assms(1) by (simp add: sched_inv_def)
qed

lemma inv_start_task:
  assumes inv: "sched_inv E s" and a: "a < length (heap s)" and new: "map_of (futures s) (id_at E s a) = None"
  shows "sched_inv E (start_task E a s)"
proof -
  let ?s = "start_task E a s" and ?n = "length (fut_heap s)"
  have old: "task_ok E ?s t" if "task_ok E s t" for t
    using that new by (auto simp: task_ok_def start_task_def update_conv' nth_append)
  have "task_ok E ?s (a, ?n)"
    using a by (simp add: task_ok_def start_task_def update_conv' NewFuture_def)
  moreover have "?n \<notin> snd ` set (tasks s)"
    using inv by (auto simp: sched_inv_def task_ok_def)
  moreover have "\<forall>k f. map_of (futures ?s) k = Some f \<longrightarrow> f < length (fut_heap ?s)"
    using inv by (auto simp: sched_inv_def start_task_def update_conv' less_Suc_eq split: if_splits)
  ultimately show ?thesis
    using inv old by (simp add: sched_inv_def) (simp add: start_task_def)
qed

lemma inv_forget_future:
  assumes inv: "sched_inv E s" and none: "\<forall>f. map_of (futures s) k = Some f \<longrightarrow> inputClosed (fut_heap s ! f)"
  shows "sched_inv E (s\<lparr>futures := AList.delete k (futures s)\<rparr>)"
proof -
  have "task_ok E (s\<lparr>futures := AList.delete k (futures s)\<rparr>) t" if "t \<in> set (tasks s)" for t
    using that inv none by (auto simp: sched_inv_def task_ok_def delete_conv')
  with inv show ?thesis by (auto simp: sched_inv_def delete_conv' split: if_splits)
qed

lemma inv_retire [simp]:
  "sched_inv E s \<Longrightarrow> a < length (heap s) \<Longrightarrow> sched_inv E (retire E s a)"
  by (simp add: retire_def inv_job_wf)

lemma length_retire [simp]: "length (heap (retire E s a)) = length (heap s)"
  by (simp add: retire_def)

lemma inv_retire_all:
  "sched_inv E s \<Longrightarrow> \<forall>a \<in> set as. a < length (heap s) \<Longrightarrow> sched_inv E (foldl (retire E) s as)"
  by (induction as arbitrary: s) auto

lemma inv_add_workload [simp]:
  assumes inv: "sched_inv E s"
  shows "sched_inv E (add_workload E s w)"
proof (cases "createJob E w")
  case (Inr j)
  let ?s = "add_workload E s w"
  have s: "?s = s\<lparr>heap := heap s @ [j], jobs := Add (jobs s) (length (heap s))\<rparr>"
    by (simp add: add_workload_def Inr)
  have "task_ok E ?s t" if "task_ok E s t" for t
    using that by (auto simp: task_ok_def s nth_append)
  moreover have "set (backing (jobs ?s)) \<subseteq> insert (length (heap s)) (set (backing (jobs s)))"
    by (auto simp: s Add_def dest: in_set_takeD in_set_dropD)
  then have "\<forall>a \<in> set (backing (jobs ?s)). a < length (heap ?s)"
    using inv by (fastforce simp: sched_inv_def s)
  moreover have "job_wf j" using createJob_wf [OF Inr] by simp
  ultimately show ?thesis
    using inv by (auto simp: sched_inv_def s)
qed (simp add: add_workload_def inv)

lemma inv_add_workloads: "sched_inv E s \<Longrightarrow> sched_inv E (foldl (add_workload E) s ws)"
  by (induction ws arbitrary: s) auto

lemma length_add_workloads: "length (heap s) \<le> length (heap (foldl (add_workload E) s ws))"
proof (induction ws arbitrary: s)
  case (Cons w ws)
  have "length (heap s) \<le> length (heap (add_workload E s w))"
    by (auto simp: add_workload_def split: sum.split)
  with Cons show ?case by (metis foldl_Cons order_trans)
qed simp

lemma substract_subset: "is_range rng \<Longrightarrow> set (substract rng ida idb a b) \<subseteq> set a"
  by (rule conjunct1 [OF substract_laws])

lemma inv_sched_input:
  assumes inv: "sched_inv E s" and ord: "is_range (ord_jobs Ord)"
  shows "sched_inv E (sched_input E Ord opt s)"
proof (cases opt)
  case None
  then show ?thesis
    using inv by (auto simp: sched_input_def intro!: inv_retire_all dest: inv_ToList)
next
  case (Some ws)
  let ?s = "foldl (add_workload E) s (substract (ord_workloads Ord) (w_ID E) (id_at E s) ws (ToList (jobs s)))"
  let ?r = "substract (ord_jobs Ord) (id_at E s) (w_ID E) (ToList (jobs s)) ws"
  have "\<forall>a \<in> set ?r. a < length (heap ?s)"
    using substract_subset [OF ord] inv_ToList [OF inv] length_add_workloads [of s E]
    by (meson order_less_le_trans subsetD)
  then show ?thesis
    using inv Some by (simp add: sched_input_def Let_def inv_retire_all inv_add_workloads)
qed

lemma inv_evaluate_job [simp]:
  "sched_inv E s \<Longrightarrow> a < length (heap s) \<Longrightarrow> sched_inv E (evaluate_job E Ord s a)"
  by (auto simp: evaluate_job_def Let_def inv_job_wf split: option.split)

lemma length_evaluate_job [simp]: "length (heap (evaluate_job E Ord s a)) = length (heap s)"
  by (simp add: evaluate_job_def Let_def)

lemma inv_sched_evaluation:
  assumes inv: "sched_inv E s"
  shows "sched_inv E (sched_evaluation E Ord s)"
proof -
  have "sched_inv E (foldl (evaluate_job E Ord) s as)" if "sched_inv E s" "\<forall>a \<in> set as. a < length (heap s)" for s :: "'a Scheduler" and as
    using that by (induction as arbitrary: s) auto
  from this [of "s\<lparr>evaluationSync := False\<rparr>" "ToList (jobs s)"] inv show ?thesis
    by (simp add: sched_evaluation_def Let_def inv_ToList)
qed

lemma inv_poll_task:
  assumes inv: "sched_inv E s" and a: "a < length (heap s)" and f: "map_of (futures s) (id_at E s a) = Some f"
  shows "sched_inv E (poll_task E a f s)"
proof (cases "inputClosed (fut_heap s ! f)")
  case True
  let ?s = "\<lambda>st. set_job a (SetCurrentState E (heap s ! a) st) s"
  have wf: "job_wf (heap s ! a)" using inv a by (rule inv_job_wf)
  have "sched_inv E (s\<lparr>futures := AList.delete (id_at E s a) (futures s)\<rparr>)"
    using inv True f by (intro inv_forget_future) auto
  moreover have "sched_inv E ((?s st)\<lparr>futures := AList.delete (id_at E (?s st) a) (futures (?s st))\<rparr>)" for st
    using inv wf True f by (intro inv_forget_future) (auto simp: id_at_set_job)
  ultimately show ?thesis
    using True by (auto simp: poll_task_def Poll_def Resolved_def Let_def split: prod.splits)
qed (simp add: poll_task_def Poll_def Resolved_def inv)

lemma backing_Delete_subset:
  assumes "store_wf st"
  shows "set (backing (snd (Delete ids st el))) \<subseteq> set (backing st)"
  by (auto simp: Delete_def split: option.splits dest: in_set_takeD in_set_dropD)

lemma inv_delete_job:
  assumes "sched_inv E s"
  shows "sched_inv E (s\<lparr>jobs := snd (Delete ids (jobs s) a)\<rparr>)"
proof -
  have "\<forall>b \<in> set (backing (snd (Delete ids (jobs s) a))). b < length (heap s)"
    using assms backing_Delete_subset [of "jobs s" ids a] by (auto simp: sched_inv_def)
  with assms show ?thesis by (simp add: sched_inv_def task_ok_def)
qed

lemma inv_reconcile_job:
  assumes inv: "sched_inv E s" and a: "a < length (heap s)" and none: "map_of (futures s) (id_at E s a) = None"
  shows "sched_inv E (reconcile_job E a s)"
proof -
  have wf: "job_wf (heap s ! a)" using inv a by (rule inv_job_wf)
  have del: "sched_inv E (s\<lparr>jobs := snd (Delete (id_at E s) (jobs s) a), futures := AList.delete (id_at E s a) (futures s)\<rparr>)"
  proof -
    have "sched_inv E (s\<lparr>jobs := snd (Delete (id_at E s) (jobs s) a)\<rparr>)" by (rule inv_delete_job [OF inv])
    from inv_forget_future [OF this, of "id_at E s a"] none show ?thesis by simp
  qed
  have "sched_inv E (start_task E a (set_job a ((heap s ! a)\<lparr>cron := Some c\<rparr>) s))"
    if "cron (heap s ! a) \<noteq> None" for c
    using inv a none that wf by (intro inv_start_task) (simp_all add: id_at_set_job)
  with inv del inv_start_task [OF inv a none] show ?thesis
    by (simp add: reconcile_job_def Let_def split: option.split)
qed

lemma inv_exec_job:
  assumes inv: "sched_inv E s" and a: "a < length (heap s)"
  shows "sched_inv E (exec_job E X a s)"
proof (cases "map_of (futures s) (id_at E s a)")
  case (Some f)
  then show ?thesis using inv_poll_task [OF inv a Some] by (simp add: exec_job_def)
next
  case None
  let ?s = "\<lambda>st w. set_job a (SetCurrentState E (heap s ! a) st) (s\<lparr>world := w\<rparr>)"
  have wf: "job_wf (heap s ! a)" using inv a by (rule inv_job_wf)
  have "sched_inv E (reconcile_job E a (?s st w))" for st w
    using inv a None wf by (intro inv_reconcile_job) (simp_all add: id_at_set_job)
  with None inv show ?thesis
    by (auto simp: exec_job_def split: prod.split call.split)
qed

lemma length_backing_Delete:
  assumes "store_wf st"
  shows "length (backing (snd (Delete ids st el))) = length (backing st)"
proof (cases "index ids st (ids el)")
  case (Some i)
  then have "i < len st"
    using index_from_Some [of ids 0 "ToList st"] assms by (auto simp: index_def length_ToList)
  with Some assms show ?thesis by (auto simp: Delete_def store_wf_def)
qed (simp add: Delete_def)

lemma exec_job_frame:
  assumes "sched_inv E s"
  shows "length (heap (exec_job E X a s)) = length (heap s)"
    and "length (backing (jobs (exec_job E X a s))) = length (backing (jobs s))"
proof -
  have wf: "store_wf (jobs s)" using assms by (simp add: sched_inv_def)
  have "length (heap (reconcile_job E a t)) = length (heap t)" for t :: "'a Scheduler"
    by (simp add: reconcile_job_def start_task_def Let_def split: option.split)
  then show "length (heap (exec_job E X a s)) = length (heap s)"
    by (simp add: exec_job_def poll_task_def Let_def split: option.split prod.split call.split)
  have "length (backing (jobs (reconcile_job E a t))) = length (backing (jobs t))"
    if "store_wf (jobs t)" for t :: "'a Scheduler"
    using length_backing_Delete [OF that]
    by (simp add: reconcile_job_def start_task_def Let_def split: option.split)
  with wf show "length (backing (jobs (exec_job E X a s))) = length (backing (jobs s))"
    by (simp add: exec_job_def poll_task_def Let_def split: option.split prod.split call.split)
qed

lemma inv_exec_loop:
  "sched_inv E s \<Longrightarrow> n + i \<le> length (backing (jobs s)) \<Longrightarrow> sched_inv E (exec_loop E X n i s)"
proof (induction E X n i s rule: exec_loop.induct)
  case (2 E X n i s)
  let ?a = "backing (jobs s) ! i"
  have "?a < length (heap s)" using 2 by (simp add: sched_inv_def)
  then have "sched_inv E (exec_job E X ?a s)" using 2 by (intro inv_exec_job)
  with 2 show ?case by (simp add: Let_def exec_job_frame)
qed simp

lemma inv_sched_execution: "sched_inv E s \<Longrightarrow> sched_inv E (sched_execution E X s)"
  using inv_exec_loop [of E "s\<lparr>executionSync := False\<rparr>" "Len (jobs s)" 0 X]
  by (simp add: sched_execution_def Let_def Len_def sched_inv_def [of E s] store_wf_def)

lemma inv_start_rtask:
  assumes "sched_inv E s" and "a < length (heap s)"
  shows "sched_inv E (start_rtask E a s)"
proof -
  have "task_ok E (start_rtask E a s) t = task_ok E s t" for t
    by (simp add: task_ok_def start_rtask_def)
  with assms show ?thesis
    by (auto simp: sched_inv_def) (auto simp: start_rtask_def update_conv' less_Suc_eq split: if_splits)
qed

lemma inv_poll_rtask:
  assumes inv: "sched_inv E s" and a: "a < length (heap s)"
  shows "sched_inv E (poll_rtask E a s)"
proof -
  have del: "sched_inv E (t\<lparr>resourceFutures := AList.delete k (resourceFutures s)\<rparr>)"
    if "sched_inv E t" "resourceFutures t = resourceFutures s" for t :: "'a Scheduler" and k
    using that by (auto simp: sched_inv_def task_ok_def delete_conv' split: if_splits)
  show ?thesis
    using inv a by (auto simp: poll_rtask_def Let_def inv_job_wf intro!: del split: option.split prod.split)
qed

lemma poll_rtask_frame [simp]:
  "length (heap (poll_rtask E a s)) = length (heap s)" "sched_ctl (poll_rtask E a s) = sched_ctl s"
  "jobs (poll_rtask E a s) = jobs s"
  by (simp_all add: poll_rtask_def Let_def split: option.split prod.split)

lemma inv_resource_job:
  assumes inv: "sched_inv E s" and a: "a < length (heap s)"
  shows "sched_inv E (resource_job E R a s)"
proof -
  let ?s = "poll_rtask E a s"
  have inv': "sched_inv E ?s" and a': "a < length (heap ?s)" using inv_poll_rtask [OF inv a] a by simp_all
  have wf: "job_wf (heap ?s ! a)" using inv' a' by (rule inv_job_wf)
  have "sched_inv E (start_rtask E a (set_job a (SetCurrentResources (heap ?s ! a) r) (?s\<lparr>world := w\<rparr>)))" for r w
    using inv' a' wf by (intro inv_start_rtask) simp_all
  with inv inv' a' wf show ?thesis
    by (auto simp: resource_job_def Let_def split: prod.split call.split)
qed

lemma length_resource_job [simp]: "length (heap (resource_job E R a s)) = length (heap s)"
  by (simp add: resource_job_def start_rtask_def Let_def split: prod.split call.split)

lemma inv_resource_loop:
  "sched_inv E s \<Longrightarrow> \<forall>a \<in> set as. a < length (heap s) \<Longrightarrow> sched_inv E (resource_loop E R as s)"
  by (induction E R as s rule: resource_loop.induct) (auto simp: Let_def inv_resource_job)

lemma inv_sched_resources: "sched_inv E s \<Longrightarrow> sched_inv E (sched_resources E R s)"
  by (simp add: sched_resources_def inv_resource_loop inv_ToList)

lemma set_remove_nth: "set (remove_nth i xs) \<subseteq> set xs"
  by (auto simp: remove_nth_def dest: in_set_takeD in_set_dropD)

lemma remove_nth_distinct:
  assumes "distinct (map g xs)" and "i < length xs"
  shows "distinct (map g (remove_nth i xs))" and "t \<in> set (remove_nth i xs) \<Longrightarrow> g t \<noteq> g (xs ! i)"
proof -
  have "map g xs = map g (take i xs) @ g (xs ! i) # map g (drop (Suc i) xs)"
    using id_take_nth_drop [OF assms(2)] by (metis list.simps(9) map_append)
  with assms(1) have d: "distinct (map g (take i xs) @ g (xs ! i) # map g (drop (Suc i) xs))" by simp
  then show "distinct (map g (remove_nth i xs))" by (auto simp: remove_nth_def)
  show "g t \<noteq> g (xs ! i)" if "t \<in> set (remove_nth i xs)"
    using that d by (auto simp: remove_nth_def) (metis imageI)+
qed

lemma inv_finish_task:
  assumes inv: "sched_inv E s" and i: "i < length (tasks s)"
  shows "sched_inv E (finish_task X i s)"
proof -
  obtain a f where af: "tasks s ! i = (a, f)" by (cases "tasks s ! i")
  have "(a, f) \<in> set (tasks s)" using i af by (metis nth_mem)
  then have ok: "task_ok E s (a, f)" using inv by (simp add: sched_inv_def)
  have d: "distinct (map snd (tasks s))" using inv by (simp add: sched_inv_def)
  have "sched_inv E ((set_job a ((heap s ! a)\<lparr>workload := wl\<rparr>) s)\<lparr>world := w', tasks := remove_nth i (tasks s),
      fut_heap := (fut_heap s)[f := fut_close (fut_receive r (fut_heap s ! f))]\<rparr>)" (is "sched_inv E ?s") for wl w' r
  proof -
    have "task_ok E ?s t" if t: "t \<in> set (remove_nth i (tasks s))" for t
    proof -
      have ts: "task_ok E s t" using t set_remove_nth inv by (fastforce simp: sched_inv_def)
      have "snd t \<noteq> f" using remove_nth_distinct(2) [OF d i t] af by simp
      with ts ok have "fst t \<noteq> a" by (auto simp: task_ok_def)
      with ts \<open>snd t \<noteq> f\<close> show ?thesis by (simp add: task_ok_def set_job_def)
    qed
    moreover have "job_wf ((heap s ! a)\<lparr>workload := wl\<rparr>)"
      using inv_job_wf [OF inv, of a] ok by (simp add: task_ok_def job_wf_def)
    then have "\<forall>k \<in> set (heap ?s). job_wf k"
      using inv set_update_subset_insert [of "heap s" a] by (fastforce simp: set_job_def sched_inv_def)
    moreover have "distinct (map snd (tasks ?s))" using remove_nth_distinct(1) [OF d i] by simp
    ultimately show ?thesis using inv by (simp add: sched_inv_def)
  qed
  with inv show ?thesis by (simp add: finish_task_def af split: prod.split call.split)
qed

lemma inv_finish_rtask:
  assumes "sched_inv E s"
  shows "sched_inv E (finish_rtask E' R i s)"
proof -
  have "task_ok E (s\<lparr>rtasks := x, rfut_heap := y\<rparr>) t = task_ok E s t" for x y t by (simp add: task_ok_def)
  with assms show ?thesis
    using set_remove_nth [of i "rtasks s"]
    by (auto simp: finish_rtask_def sched_inv_def task_ok_def split: prod.splits call.splits)
qed

lemma inv_step:
  assumes "sched_step E Ord X R s s'" and "is_range (ord_jobs Ord)" and "sched_inv E s"
  shows "sched_inv E s'"
  using assms
proof (induction rule: sched_step.induct)
  case (input s t opt)
  then show ?case using inv_sched_input [of "at_time t E" s Ord opt] by simp
next
  case (profiles s results)
  then show ?case by (simp add: sched_profiles_def)
next
  case (execution s t)
  then show ?case using inv_sched_execution [of "at_time t E" s] by simp
next
  case (resources s t)
  then show ?case using inv_sched_resources [of "at_time t E" s] by simp
next
  case (evaluation s t)
  then show ?case using inv_sched_evaluation [of "at_time t E" s] by simp
qed (simp_all add: inv_finish_task inv_finish_rtask)

lemma inv_new: "sched_inv E (newScheduler w)"
  by (simp add: sched_inv_def newScheduler_def NewStore_def store_wf_def)

lemma inv_reaches:
  "sched_reaches E Ord X R s s' \<Longrightarrow> is_range (ord_jobs Ord) \<Longrightarrow> sched_inv E s \<Longrightarrow> sched_inv E s'"
  by (induction rule: sched_reaches.induct) (auto intro: inv_step)

end
