(* ===== verification/Scheduling.thy ===== *)
theory Scheduling
  imports Scheduler
begin

text \<open>
  What the scheduler guarantees: invariants of every reachable state, what each branch does to a
  job, and that a new workload is deployed. The situations in which the loop does not do what it
  means to are in \<open>Scheduling_Faults\<close>.
\<close>

section \<open>Invariants\<close>


text \<open>
  In every reachable state the store holds allocated jobs only, and each of them has either a
  cron schedule or a retry, never both and never none.
\<close>

theorem reachable_jobs_wf:
  assumes "sched_reaches E Ord X R (newScheduler w) s" and "is_range (ord_jobs Ord)"
    and "a \<in> set (ToList (jobs s))"
  shows "a < length (heap s) \<and> (cron (heap s ! a) = None \<longleftrightarrow> retry (heap s ! a) \<noteq> None)"
proof -
  have inv: "sched_inv E s" using assms(1,2) inv_new by (rule inv_reaches)
  have "a < length (heap s)" using inv assms(3) by (rule inv_ToList)
  with inv_job_wf [OF inv this] show ?thesis by (simp add: job_wf_def)
qed

section \<open>One job in the execution branch\<close>

lemma start_task_simps [simp]:
  "heap (start_task E a s) = heap s" "jobs (start_task E a s) = jobs s"
  "tasks (start_task E a s) = tasks s @ [(a, length (fut_heap s))]"
  "sched_ctl (start_task E a s) = sched_ctl s" "world (start_task E a s) = world s"
  by (simp_all add: start_task_def)

lemma exec_job_None:
  assumes "map_of (futures s) (id_at E s a) = None"
    and "if_GetState X (workload (heap s ! a)) (world s) = (Returns (state, None), w')"
  shows "exec_job E X a s = reconcile_job E a (set_job a (SetCurrentState E (heap s ! a) state) (s\<lparr>world := w'\<rparr>))"
  by (simp add: exec_job_def assms)


section \<open>A new workload is deployed\<close>

lemma substract_single:
  "is_range rng \<Longrightarrow> substract rng ida idb [x] [] = [x]"
  "is_range rng \<Longrightarrow> substract rng ida idb [] ys = []"
  by (simp_all add: substract_def substract_loop_eq is_range_small put_id_def Let_def)

text \<open>The state of the scheduler after it was given one workload and evaluated it.\<close>

definition s_evaluated :: "env \<Rightarrow> Job \<Rightarrow> 'w \<Rightarrow> 'w Scheduler" where
  "s_evaluated E j w0 = (newScheduler w0)\<lparr>heap := [j\<lparr>targetState := RunningState\<rparr>], jobs := Add NewStore 0,
     resourceSync := True\<rparr>"

lemma reaches_evaluated:
  assumes job: "createJob (at_time t E) w = Inr j" and prof: "Profiles w = []"
    and ord: "is_range (ord_jobs Ord)" "is_range (ord_workloads Ord)"
  shows "sched_reaches E Ord X R (newScheduler w0) (s_evaluated E j w0)"
proof -
  let ?E = "at_time t E" and ?s0 = "newScheduler w0"
  let ?s1 = "sched_input ?E Ord (Some [w]) ?s0"
  have wf: "job_wf j" "workload j = w" "\<not> markedForDeletion j" using createJob_wf [OF job] by simp_all
  have s1: "?s1 = ?s0\<lparr>heap := [j], jobs := Add NewStore 0, evaluationSync := True\<rparr>"
    by (simp add: sched_input_def newScheduler_def substract_single ord add_workload_def job)
  have "sched_evaluation ?E Ord ?s1 = s_evaluated E j w0"
    using wf prof unfolding s1
    by (simp add: sched_evaluation_def evaluate_job_def evaluate_def set_job_def SetTargetState_eq
        s_evaluated_def newScheduler_def)
  moreover have "sched_step E Ord X R ?s0 ?s1"
    by (rule sched_step.input) (simp add: newScheduler_def)
  moreover have "sched_step E Ord X R ?s1 (sched_evaluation ?E Ord ?s1)"
    by (rule sched_step.evaluation) (simp_all add: s1, simp add: newScheduler_def)
  ultimately show ?thesis by (metis sched_reaches.intros)
qed

text \<open>The state after the first execution: one reconciliation, of the job that was created.\<close>

definition s_deploying :: "env \<Rightarrow> Job \<Rightarrow> 'w \<Rightarrow> 'w Scheduler" where
  "s_deploying E j w1 = (newScheduler w1)\<lparr>heap := [j\<lparr>targetState := RunningState\<rparr>], jobs := Add NewStore 0,
     resourceSync := True, fut_heap := [NewFuture (ReadyState, None)], tasks := [(0, 0)],
     futures := [(job_ID E j, 0)]\<rparr>"

lemma reaches_deploying:
  assumes job: "createJob (at_time t E) w = Inr j" and spec: "Profiles w = []" "Cron w = []"
    and ord: "is_range (ord_jobs Ord)" "is_range (ord_workloads Ord)"
    and state: "if_GetState (X (at_time t E)) w w0 = (Returns (UnknownState, None), w1)"
  shows "sched_reaches E Ord X R (newScheduler w0) (s_deploying E j w1)"
proof -
  let ?E = "at_time t E" and ?s2 = "s_evaluated E j w0"
  let ?s4 = "?s2\<lparr>executionSync := True\<rparr>"
  have wf: "job_wf j" "workload j = w" "\<not> markedForDeletion j" "currentState j = ReadyState"
    using createJob_wf [OF job] by simp_all
  have cr: "cron j = None" using createJob_retry [OF job spec(2)] wf(1) by (simp add: job_wf_def)
  have "sched_step E Ord X R ?s2 (?s2\<lparr>sched_ctl := InHeartbeatSend\<rparr>)"
    by (rule sched_step.heartbeat) (simp add: s_evaluated_def newScheduler_def)
  moreover have "sched_step E Ord X R (?s2\<lparr>sched_ctl := InHeartbeatSend\<rparr>)
      (?s2\<lparr>sched_ctl := InHeartbeatSend, executionSync := True, sched_ctl := InSelect\<rparr>)"
    by (rule sched_step.send) (simp_all add: s_evaluated_def newScheduler_def)
  moreover have "?s2\<lparr>sched_ctl := InHeartbeatSend, executionSync := True, sched_ctl := InSelect\<rparr> = ?s4"
    by (simp add: s_evaluated_def newScheduler_def)
  ultimately have "sched_reaches E Ord X R (newScheduler w0) ?s4"
    using reaches_evaluated [OF job spec(1) ord] by (metis sched_reaches.step)
  moreover have "sched_step E Ord X R ?s4 (sched_execution ?E (X ?E) ?s4)"
    by (rule sched_step.execution) (simp_all add: s_evaluated_def newScheduler_def)
  moreover have "sched_execution ?E (X ?E) ?s4 = s_deploying E j w1"
  proof -
    have j: "SetCurrentState ?E (j\<lparr>targetState := RunningState\<rparr>) UnknownState = j\<lparr>targetState := RunningState\<rparr>"
      using wf by (simp add: SetCurrentState_eq job_wf_def)
    show ?thesis
      using wf cr state j
      by (simp add: sched_execution_def s_evaluated_def newScheduler_def Len_def Add_def NewStore_def
          exec_job_def set_job_def reconcile_job_def shouldReconcile_def ShouldRestart_def start_task_def
          s_deploying_def Let_def)
  qed
  ultimately show ?thesis by (metis sched_reaches.step)
qed

text \<open>
  C15: A workload without cron and profiles is deployed: from the initial state the scheduler reaches
  a state in which the job of the workload is reconciled towards \<open>RunningState\<close>, provided the
  runtime answers that it does not know the workload yet.
\<close>

theorem workload_deployed:
  assumes "Profiles w = []" and "Cron w = []"
    and "is_range (ord_jobs Ord)" and "is_range (ord_workloads Ord)"
    and "if_GetState (X (at_time t E)) w w0 = (Returns (UnknownState, None), w1)"
  shows "\<exists>s a f. sched_reaches E Ord X R (newScheduler w0) s \<and> (a, f) \<in> set (tasks s) \<and>
    a \<in> set (ToList (jobs s)) \<and> workload (heap s ! a) = w \<and> targetState (heap s ! a) = RunningState"
proof -
  obtain j where job: "createJob (at_time t E) w = Inr j"
    using assms(2) by (auto simp: createJob_def Build_def NewBuilder_def AddHook_def WithConstantRetry_def Let_def)
  have "sched_reaches E Ord X R (newScheduler w0) (s_deploying E j w1)"
    using job assms by (rule reaches_deploying)
  moreover have "workload j = w" using createJob_wf [OF job] by simp
  ultimately show ?thesis
    by (intro exI [of _ "s_deploying E j w1"] exI [of _ 0]) (simp add: s_deploying_def)
qed

text \<open>The parts of the program put together on the in-memory podman, for the examples.\<close>

definition ord_example :: orders where
  "ord_example = \<lparr>ord_jobs = (\<lambda>m. m), ord_workloads = (\<lambda>m. m), ord_results = (\<lambda>m. m)\<rparr>"

definition ex_example :: "env \<Rightarrow> (string \<times> string) list Executor" where
  "ex_example E = executor_New E yaml_example cfg_example"

definition idle_rm :: "'w ResourceManager" where
  "idle_rm = \<lparr>rm_Set = (\<lambda>p r. ret None), rm_GetCGroup = (\<lambda>p b. ret (''/sys/fs/cgroup/web'', None)),
     rm_GetResources = (\<lambda>c. ret (zeroCpu, None)), regexpOk = (\<lambda>p. True)\<rparr>"

lemma ord_example_range [simp]:
  "is_range (ord_jobs ord_example)" "is_range (ord_workloads ord_example)" "is_range (ord_results ord_example)"
  by (simp_all add: ord_example_def)

lemma GetState_example: "if_GetState (ex_example E) pod_example [] = (Returns (UnknownState, None), [])"
  by (simp add: ex_example_def executor_New_podman [OF getExecutor_example] pe_GetState_def pe_List_def
      podman_List_def mem_podman_def io_bind_def)

lemma pod_example_spec [simp]: "Profiles pod_example = []" "Cron pod_example = []"
  by (simp_all add: pod_example_def go_simps)

theorem workload_deployed_witness:
  "\<exists>s a f. sched_reaches (env_at 0) ord_example ex_example idle_rm (newScheduler []) s \<and> (a, f) \<in> set (tasks s) \<and>
    a \<in> set (ToList (jobs s)) \<and> workload (heap s ! a) = pod_example \<and> targetState (heap s ! a) = RunningState"
  by (rule workload_deployed [OF _ _ _ _ GetState_example]) simp_all

lemma createJob_example: "\<exists>j. createJob E pod_example = Inr j"
  by (auto simp: createJob_def Build_def NewBuilder_def AddHook_def WithConstantRetry_def Let_def)

lemma reaches_deploying_example:
  "\<exists>j. job_wf j \<and> workload j = pod_example \<and>
     sched_reaches (env_at 0) ord_example ex_example idle_rm (newScheduler []) (s_deploying (env_at 0) j [])"
proof -
  obtain j where j: "createJob (at_time 0 (env_at 0)) pod_example = Inr j" using createJob_example by blast
  have "sched_reaches (env_at 0) ord_example ex_example idle_rm (newScheduler []) (s_deploying (env_at 0) j [])"
    by (rule reaches_deploying [OF j _ _ _ _ GetState_example]) simp_all
  with createJob_wf [OF j] show ?thesis by blast
qed


theorem reachable_jobs_wf_witness:
  "\<exists>s. sched_reaches (env_at 0) ord_example ex_example idle_rm (newScheduler []) s \<and>
     ToList (jobs s) = [0] \<and> (cron (heap s ! 0) = None \<longleftrightarrow> retry (heap s ! 0) \<noteq> None)"
proof -
  obtain j where r: "sched_reaches (env_at 0) ord_example ex_example idle_rm (newScheduler []) (s_deploying (env_at 0) j [])"
    using reaches_deploying_example by blast
  have l: "ToList (jobs (s_deploying (env_at 0) j [])) = [0]" by (simp add: s_deploying_def)
  from reachable_jobs_wf [OF r, of 0] r l show ?thesis by auto
qed

text \<open>A state with one job, at index 0, and nothing in progress, for the examples.\<close>

definition s_single :: "Job \<Rightarrow> 'w \<Rightarrow> 'w Scheduler" where
  "s_single j w0 = (newScheduler w0)\<lparr>heap := [j], jobs := Add NewStore 0\<rparr>"

lemma s_single_simps [simp]:
  "heap (s_single j w0) = [j]" "jobs (s_single j w0) = Add NewStore 0" "futures (s_single j w0) = []"
  "tasks (s_single j w0) = []" "world (s_single j w0) = w0" "fut_heap (s_single j w0) = []"
  by (simp_all add: s_single_def newScheduler_def)

lemma job_example_wf [simp]: "job_wf job_example"
  by (simp add: job_example_def job_wf_def)

lemma job_example_simps [simp]:
  "workload job_example = pod_example" "targetState job_example = RunningState"
  "currentState job_example = RunningState" "cron job_example = None"
  "markedForDeletion job_example = False" "targetResources job_example = zeroCpu"
  by (simp_all add: job_example_def)

lemma job_wf_update [simp]:
  "job_wf (j\<lparr>currentState := c\<rparr>) = job_wf j" "job_wf (j\<lparr>targetState := c\<rparr>) = job_wf j"
  "job_wf (j\<lparr>markedForDeletion := b\<rparr>) = job_wf j"
  by (simp_all add: job_wf_def)

lemma s_single_inv [simp]: "job_wf j \<Longrightarrow> sched_inv E (s_single j w0)"
  by (simp add: sched_inv_def s_single_def newScheduler_def Add_def NewStore_def store_wf_def)


section \<open>Removal\<close>

text \<open>
  C13: The execution branch removes a job from the store only when it is marked for deletion, has no
  reconciliation in progress and the runtime reports it gone, exited or never started; every other
  job stays, in its place.
\<close>

theorem exec_job_removes:
  assumes "sched_inv E s" and "distinct (map (id_at E s) (ToList (jobs s)))" and "a \<in> set (ToList (jobs s))"
    and "ToList (jobs (exec_job E X a s)) \<noteq> ToList (jobs s)"
  shows "ToList (jobs (exec_job E X a s)) = filter (\<lambda>b. b \<noteq> a) (ToList (jobs s)) \<and>
    markedForDeletion (heap s ! a) \<and> map_of (futures s) (id_at E s a) = None \<and>
    currentState (heap (exec_job E X a s) ! a) \<in> {UnknownState, ExitedState, ReadyState}"
proof -
  have a: "a < length (heap s)" using assms(1,3) by (rule inv_ToList)
  have wf: "job_wf (heap s ! a)" "store_wf (jobs s)" using inv_job_wf [OF assms(1) a] assms(1)
    by (simp_all add: sched_inv_def)
  have none: "map_of (futures s) (id_at E s a) = None"
    using assms(4) by (cases "map_of (futures s) (id_at E s a)")
      (auto simp: exec_job_def poll_task_def Let_def split: prod.splits if_splits)
  obtain state w' where g: "if_GetState X (workload (heap s ! a)) (world s) = (Returns (state, None), w')"
    using assms(4) none by (auto simp: exec_job_def split: prod.splits call.splits if_splits)
  define s1 where "s1 = set_job a (SetCurrentState E (heap s ! a) state) (s\<lparr>world := w'\<rparr>)"
  have ids: "id_at E s1 = id_at E s"
    by (rule ext) (simp add: s1_def id_at_set_job wf)
  have s1: "heap s1 ! a = SetCurrentState E (heap s ! a) state" "jobs s1 = jobs s"
    using a by (simp_all add: s1_def)
  have e: "exec_job E X a s = reconcile_job E a s1" using exec_job_None [OF none g] by (simp add: s1_def)
  have del: "markedForDeletion (heap s1 ! a)" "currentState (heap s1 ! a) \<in> {UnknownState, ExitedState, ReadyState}"
    "jobs (reconcile_job E a s1) = snd (Delete (id_at E s) (jobs s) a)" "heap (reconcile_job E a s1) = heap s1"
    using assms(4) unfolding e
    by (auto simp: reconcile_job_def Let_def s1(2) ids split: if_splits option.splits)
  have "ToList (snd (Delete (id_at E s) (jobs s) a)) = filter (\<lambda>b. id_at E s b \<noteq> id_at E s a) (ToList (jobs s))"
    using wf(2) assms(2) by (simp add: ToList_Delete remove_id_distinct)
  also have "\<dots> = filter (\<lambda>b. b \<noteq> a) (ToList (jobs s))"
    using assms(2,3) by (intro filter_cong) (auto simp: distinct_map inj_on_def)
  finally show ?thesis using del none wf s1 by (simp add: e)
qed

theorem exec_job_removes_witness:
  "ToList (jobs (exec_job (env_at 0) (ex_example (env_at 0)) 0
     (s_single (job_example\<lparr>currentState := ReadyState, markedForDeletion := True\<rparr>) []))) = []"
proof -
  let ?j = "job_example\<lparr>currentState := ReadyState, markedForDeletion := True\<rparr>"
  let ?s = "s_single ?j []"
  have w: "workload ?j = pod_example" by (simp add: job_example_def)
  have "SetCurrentState (env_at 0) ?j UnknownState = ?j" by (simp add: SetCurrentState_eq)
  then have "ToList (jobs (exec_job (env_at 0) (ex_example (env_at 0)) 0 ?s)) \<noteq> ToList (jobs ?s)"
    by (simp add: exec_job_def GetState_example set_job_def reconcile_job_def ToList_Delete Let_def)
  from exec_job_removes [OF _ _ _ this] show ?thesis by simp
qed

section \<open>New configurations\<close>

lemma add_workloads_eq:
  assumes "\<forall>w \<in> set ws. \<exists>j. createJob E w = Inr j" and "store_wf (jobs s)"
  shows "\<exists>js. heap (foldl (add_workload E) s ws) = heap s @ js \<and> map workload js = ws \<and>
    ToList (jobs (foldl (add_workload E) s ws)) =
      ToList (jobs s) @ [length (heap s) ..< length (heap s) + length ws]"
  using assms
proof (induction ws arbitrary: s)
  case (Cons w ws)
  then obtain j where j: "createJob E w = Inr j" by auto
  let ?s = "add_workload E s w"
  have s: "?s = s\<lparr>heap := heap s @ [j], jobs := Add (jobs s) (length (heap s))\<rparr>"
    by (simp add: add_workload_def j)
  have "\<exists>js. heap (foldl (add_workload E) ?s ws) = heap ?s @ js \<and> map workload js = ws \<and>
      ToList (jobs (foldl (add_workload E) ?s ws)) = ToList (jobs ?s) @ [length (heap ?s) ..< length (heap ?s) + length ws]"
    using Cons.prems by (intro Cons.IH) (auto simp: s)
  then obtain js where js: "heap (foldl (add_workload E) ?s ws) = heap ?s @ js" "map workload js = ws"
    "ToList (jobs (foldl (add_workload E) ?s ws)) = ToList (jobs ?s) @ [length (heap ?s) ..< length (heap ?s) + length ws]"
    by blast
  have "heap (foldl (add_workload E) s (w # ws)) = heap s @ (j # js)" using js(1) by (simp add: s)
  moreover have "map workload (j # js) = w # ws" using js(2) createJob_wf [OF j] by simp
  moreover have "ToList (jobs (foldl (add_workload E) s (w # ws))) =
      ToList (jobs s) @ [length (heap s) ..< length (heap s) + length (w # ws)]"
  proof -
    have "[length (heap s) ..< length (heap s) + length (w # ws)] =
        length (heap s) # [Suc (length (heap s)) ..< Suc (length (heap s)) + length ws]"
      by (subst upt_conv_Cons) simp_all
    then show ?thesis using js(3) Cons.prems(2) by (simp add: s del: upt_Suc)
  qed
  ultimately show ?case by (intro exI [of _ "j # js"] conjI)
qed simp

definition retired :: "Job \<Rightarrow> Job" where
  "retired j = j\<lparr>markedForDeletion := True, targetState := ExitedState\<rparr>"

lemma retire_eq: "job_wf (heap s ! a) \<Longrightarrow> retire E s a = set_job a (retired (heap s ! a)) s"
  by (simp add: retire_def retired_def SetTargetState_eq MarkForDeletion_def)

lemma job_wf_retired [simp]: "job_wf (retired j) = job_wf j"
  by (simp add: retired_def job_wf_def)

lemma retired_simps [simp]: "retired (retired j) = retired j" "job_ID E (retired j) = job_ID E j"
  by (simp_all add: retired_def job_ID_def)

lemma foldl_retire:
  assumes "\<forall>j \<in> set (heap s). job_wf j" and "\<forall>a \<in> set as. a < length (heap s)"
  shows "jobs (foldl (retire E) s as) = jobs s \<and> length (heap (foldl (retire E) s as)) = length (heap s) \<and>
    (\<forall>b < length (heap s). heap (foldl (retire E) s as) ! b = (if b \<in> set as then retired (heap s ! b) else heap s ! b))"
  using assms
proof (induction as arbitrary: s)
  case (Cons a as)
  have wf: "job_wf (heap s ! a)" using Cons.prems by simp
  let ?s = "set_job a (retired (heap s ! a)) s"
  have "\<forall>j \<in> set (heap ?s). job_wf j"
    using Cons.prems(1) wf set_update_subset_insert [of "heap s" a] by (fastforce simp: set_job_def)
  then have "jobs (foldl (retire E) ?s as) = jobs ?s \<and> length (heap (foldl (retire E) ?s as)) = length (heap ?s) \<and>
    (\<forall>b < length (heap ?s). heap (foldl (retire E) ?s as) ! b = (if b \<in> set as then retired (heap ?s ! b) else heap ?s ! b))"
    using Cons.prems(2) by (intro Cons.IH) auto
  with Cons.prems(2) show ?case
    by (auto simp: retire_eq [OF wf] set_job_def nth_list_update)
qed simp

lemma input_jobs:
  assumes "sched_inv E s" and "distinct (map (id_at E s) (ToList (jobs s)))"
    and "is_range (ord_jobs Ord)" and "is_range (ord_workloads Ord)"
    and "\<forall>w \<in> set ws. \<exists>j. createJob E w = Inr j"
  shows "id_at E (sched_input E Ord (Some ws) s) ` set (ToList (jobs (sched_input E Ord (Some ws) s))) =
      id_at E s ` set (ToList (jobs s)) \<union> w_ID E ` set ws \<and>
    distinct (map (id_at E (sched_input E Ord (Some ws) s)) (ToList (jobs (sched_input E Ord (Some ws) s)))) \<and>
    (\<forall>a \<in> set (ToList (jobs s)). heap (sched_input E Ord (Some ws) s) ! a =
       (if id_at E s a \<in> w_ID E ` set ws then heap s ! a else retired (heap s ! a)))"
proof -
  let ?L = "ToList (jobs s)" and ?n = "length (heap s)"
  define rem where "rem = substract (ord_jobs Ord) (id_at E s) (w_ID E) ?L ws"
  define new where "new = substract (ord_workloads Ord) (w_ID E) (id_at E s) ws ?L"
  define s1 where "s1 = foldl (add_workload E) s new"
  define s' where "s' = sched_input E Ord (Some ws) s"
  have s': "s' = foldl (retire E) (s1\<lparr>evaluationSync := True\<rparr>) rem"
    by (simp add: s'_def sched_input_def Let_def s1_def rem_def new_def)
  note R = substract_laws [OF assms(3), of "id_at E s" "w_ID E" ?L ws, folded rem_def]
  note N = substract_laws [OF assms(4), of "w_ID E" "id_at E s" ws ?L, folded new_def]
  obtain js where js: "heap s1 = heap s @ js" "map workload js = new" "ToList (jobs s1) = ?L @ [?n ..< ?n + length new]"
    using add_workloads_eq [of new E s] N assms(1,5) unfolding s1_def by (auto simp: sched_inv_def)
  have L: "a < ?n" if "a \<in> set ?L" for a using inv_ToList [OF assms(1) that] .
  have "sched_inv E s1" unfolding s1_def using assms(1) by (rule inv_add_workloads)
  then have F: "jobs s' = jobs s1 \<and> length (heap s') = length (heap s1) \<and>
      (\<forall>b < length (heap s1). heap s' ! b = (if b \<in> set rem then retired (heap s1 ! b) else heap s1 ! b))"
    using foldl_retire [of "s1\<lparr>evaluationSync := True\<rparr>" rem E] R L js(1)
    unfolding s' by (fastforce simp: sched_inv_def)
  have ids: "id_at E s' b = id_at E s1 b" if "b < length (heap s1)" for b using F that by auto
  have old: "id_at E s1 b = id_at E s b" if "b \<in> set ?L" for b using L [OF that] by (simp add: js(1) nth_append)
  have len: "length js = length new" using js(2) by (metis length_map)
  have fresh: "id_at E s1 (?n + k) = w_ID E (new ! k)" if "k < length new" for k
  proof -
    have "workload (js ! k) = new ! k" using that len js(2) by (metis nth_map)
    then show ?thesis using that len by (simp add: js(1) job_ID_def)
  qed
  have oldmap: "map (id_at E s') ?L = map (id_at E s) ?L"
  proof (rule map_cong [OF HOL.refl])
    fix b assume b: "b \<in> set ?L"
    then have "b < length (heap s1)" using L [OF b] by (simp add: js(1))
    then show "id_at E s' b = id_at E s b" using ids old [OF b] by simp
  qed
  have newmap: "map (id_at E s') [?n ..< ?n + length new] = map (w_ID E) new"
    using ids fresh js(1) len by (intro nth_equalityI) auto
  have "map (id_at E s') (ToList (jobs s')) = map (id_at E s) ?L @ map (w_ID E) new"
    using F js(3) oldmap newmap by simp
  moreover have "w_ID E ` set new = w_ID E ` set ws - id_at E s ` set ?L" "distinct (map (w_ID E) new)"
    using N by auto
  ultimately have "id_at E s' ` set (ToList (jobs s')) = id_at E s ` set ?L \<union> w_ID E ` set ws"
    and "distinct (map (id_at E s') (ToList (jobs s')))"
    using assms(2) by (auto simp flip: set_map)
  moreover have rem: "a \<in> set rem \<longleftrightarrow> id_at E s a \<notin> w_ID E ` set ws" if "a \<in> set ?L" for a
  proof
    assume "a \<in> set rem"
    then have "id_at E s a \<in> id_at E s ` set rem" by (rule imageI)
    with R show "id_at E s a \<notin> w_ID E ` set ws" by simp
  next
    assume "id_at E s a \<notin> w_ID E ` set ws"
    with that have "id_at E s a \<in> id_at E s ` set rem" using R by simp
    then obtain b where b: "b \<in> set rem" "id_at E s b = id_at E s a" by auto
    moreover have "b \<in> set ?L" using R b(1) by blast
    ultimately have "b = a" using that assms(2) by (auto simp: distinct_map dest: inj_onD)
    with b(1) show "a \<in> set rem" by simp
  qed
  have "\<forall>a \<in> set ?L. heap s' ! a = (if id_at E s a \<in> w_ID E ` set ws then heap s ! a else retired (heap s ! a))"
  proof
    fix a assume a: "a \<in> set ?L"
    then have "a < length (heap s1)" "heap s1 ! a = heap s ! a" using L [OF a] by (simp_all add: js(1) nth_append)
    with F rem [OF a] show "heap s' ! a = (if id_at E s a \<in> w_ID E ` set ws then heap s ! a else retired (heap s ! a))"
      by simp
  qed
  ultimately show ?thesis unfolding s'_def by blast
qed



text \<open>
  Removing the last workload. When the configuration has no workloads at all, every job of the
  store is marked for deletion with the target \<open>ExitedState\<close>, and no job is added or dropped.
\<close>

theorem sched_input_none:
  assumes "sched_inv E s" and "a \<in> set (ToList (jobs s))"
  shows "heap (sched_input E Ord None s) ! a = retired (heap s ! a) \<and> jobs (sched_input E Ord None s) = jobs s"
proof -
  have "\<forall>j \<in> set (heap s). job_wf j" "\<forall>b \<in> set (ToList (jobs s)). b < length (heap s)"
    using assms(1) inv_ToList [OF assms(1)] by (auto simp: sched_inv_def)
  from foldl_retire [OF this, of E] assms(2) inv_ToList [OF assms] show ?thesis
    by (simp add: sched_input_def)
qed

theorem sched_input_none_witness:
  "markedForDeletion (heap (sched_input (env_at 0) ord_example None (s_single job_example ())) ! 0)"
  using sched_input_none [of "env_at 0" "s_single job_example ()" 0 ord_example] by (simp add: retired_def)

end
