(* ===== verification/Scheduling_Faults.thy ===== *)
theory Scheduling_Faults
  imports Scheduling
begin

text \<open>
  Situations in which the loop of the scheduler does not do what it means to, each as a theorem
  about the model: the heartbeat that blocks the loop, jobs that stay for ever, jobs that a removal
  makes the loop skip, resource reconciliations that overlap, and the future of a run that changed
  the identity of its job.
\<close>

section \<open>The heartbeat\<close>

text \<open>
  C38: Two heartbeats without an execution between them end the scheduler: the state in which the
  loop waits to send to its own full channel is reachable from the start, and every step from such
  a state leaves the loop waiting and the store, the profile results and the futures as they are.
\<close>

theorem heartbeat_blocks:
  "(\<exists>s. sched_reaches E Ord X R (newScheduler w) s \<and> sched_ctl s = InHeartbeatSend \<and> executionSync s) \<and>
   (\<forall>s s'. sched_ctl s = InHeartbeatSend \<and> executionSync s \<and> sched_reaches E Ord X R s s' \<longrightarrow>
      executionSync s' \<and> (sched_ctl s' = InHeartbeatSend \<or> sched_ctl s' = Crashed) \<and> jobs s' = jobs s \<and>
      profileEvaluationResults s' = profileEvaluationResults s \<and> futures s' = futures s)"
proof -
  let ?s0 = "newScheduler w"
  let ?s1 = "?s0\<lparr>sched_ctl := InHeartbeatSend\<rparr>"
  let ?s2 = "?s1\<lparr>executionSync := True, sched_ctl := InSelect\<rparr>"
  let ?s3 = "?s2\<lparr>sched_ctl := InHeartbeatSend\<rparr>"
  have "sched_step E Ord X R ?s0 ?s1" by (rule sched_step.heartbeat) (simp add: newScheduler_def)
  moreover have "sched_step E Ord X R ?s1 ?s2" by (rule sched_step.send) (simp_all add: newScheduler_def)
  moreover have "sched_step E Ord X R ?s2 ?s3" by (rule sched_step.heartbeat) simp
  ultimately have "sched_reaches E Ord X R ?s0 ?s3" by (meson sched_reaches.intros)
  then have "\<exists>s. sched_reaches E Ord X R ?s0 s \<and> sched_ctl s = InHeartbeatSend \<and> executionSync s"
    by (intro exI [of _ ?s3]) simp
  moreover have "executionSync s' \<and> (sched_ctl s' = InHeartbeatSend \<or> sched_ctl s' = Crashed) \<and> jobs s' = jobs s \<and>
      profileEvaluationResults s' = profileEvaluationResults s \<and> futures s' = futures s"
    if "sched_reaches E Ord X R s s'" "sched_ctl s = InHeartbeatSend" "executionSync s" for s s' :: "'a Scheduler"
    using that
  proof (induction rule: sched_reaches.induct)
    case (step s s' s'')
    then have s': "executionSync s'" "sched_ctl s' = InHeartbeatSend \<or> sched_ctl s' = Crashed" "jobs s' = jobs s"
      "profileEvaluationResults s' = profileEvaluationResults s" "futures s' = futures s" by auto
    from step.hyps(2) show ?case
      by (cases rule: sched_step.cases)
        (use s' in \<open>auto simp: finish_task_def finish_rtask_def set_job_def split: prod.split call.split\<close>)
  qed simp
  ultimately show ?thesis by blast
qed

theorem heartbeat_blocks_witness:
  "\<exists>s. sched_reaches (env_at 0) ord_example ex_example idle_rm (newScheduler []) s \<and>
     sched_ctl s = InHeartbeatSend \<and> executionSync s"
  using heartbeat_blocks by (rule conjunct1)

section \<open>Jobs that stay\<close>

text \<open>
  A job that was stopped because its profiles did not hold and is then marked for deletion is
  never removed: while the runtime answers that it does not know the workload, an execution leaves
  the whole state as it was, whatever the time.
\<close>

theorem inactive_job_stays:
  assumes "job_wf (heap s ! a)" and "a < length (heap s)" and "currentState (heap s ! a) = InactiveState"
    and "markedForDeletion (heap s ! a)" and "targetState (heap s ! a) = ExitedState"
    and "map_of (futures s) (id_at E s a) = None"
    and "if_GetState X (workload (heap s ! a)) (world s) = (Returns (UnknownState, None), w')"
  shows "exec_job E X a s = s\<lparr>world := w'\<rparr>"
proof -
  have "SetCurrentState E (heap s ! a) UnknownState = heap s ! a"
    using assms(1,3) by (simp add: SetCurrentState_eq)
  then have "set_job a (SetCurrentState E (heap s ! a) UnknownState) (s\<lparr>world := w'\<rparr>) = s\<lparr>world := w'\<rparr>"
    by (simp add: set_job_def)
  with assms show ?thesis
    by (simp add: exec_job_None [OF assms(6,7)] reconcile_job_def shouldReconcile_def Let_def)
qed

theorem inactive_job_stays_witness:
  "exec_job (env_at 0) (ex_example (env_at 0)) 0
     (s_single (retired (job_example\<lparr>currentState := InactiveState\<rparr>)) []) =
   s_single (retired (job_example\<lparr>currentState := InactiveState\<rparr>)) []"
proof -
  let ?j = "retired (job_example\<lparr>currentState := InactiveState\<rparr>)"
  have j: "workload ?j = pod_example" "currentState ?j = InactiveState" "markedForDeletion ?j"
    "targetState ?j = ExitedState" by (simp_all add: retired_def)
  have "exec_job (env_at 0) (ex_example (env_at 0)) 0 (s_single ?j []) = (s_single ?j [])\<lparr>world := []\<rparr>"
    by (rule inactive_job_stays) (simp_all add: j GetState_example)
  then show ?thesis by (simp add: s_single_def newScheduler_def)
qed

text \<open>
  A job that the runtime reports as stopped, degraded or in error is left alone: whatever its
  target and its mark, an execution records the state and neither runs, stops nor removes it.
\<close>

theorem degraded_job_stays:
  assumes "job_wf (heap s ! a)" and "a < length (heap s)"
    and "map_of (futures s) (id_at E s a) = None"
    and "if_GetState X (workload (heap s ! a)) (world s) = (Returns (state, None), w')"
    and "state \<in> {StoppedState, DegradedState, ErrorState}"
  shows "exec_job E X a s = set_job a ((heap s ! a)\<lparr>currentState := state\<rparr>) (s\<lparr>world := w'\<rparr>)"
proof -
  have "SetCurrentState E (heap s ! a) state = (heap s ! a)\<lparr>currentState := state\<rparr>"
    using assms(1,5) by (auto simp: SetCurrentState_eq mark_restart_def ShouldRestart_def)
  with assms(2,5) show ?thesis
    by (auto simp: exec_job_None [OF assms(3,4)] reconcile_job_def shouldReconcile_def Let_def)
qed

lemma GetState_degraded:
  "if_GetState (ex_example E) pod_example [(w_ID E pod_example, ''Degraded'')] =
     (Returns (DegradedState, None), [(w_ID E pod_example, ''Degraded'')])"
  by (simp add: ex_example_def executor_New_podman [OF getExecutor_example] pe_GetState_def pe_List_def
      podman_List_def mem_podman_def io_bind_def mapPodmanStatusToEntity_def)

theorem degraded_job_stays_witness:
  "tasks (exec_job (env_at 0) (ex_example (env_at 0)) 0
     (s_single (retired job_example) [(w_ID (env_at 0) pod_example, ''Degraded'')])) = []"
proof -
  have j: "workload (retired job_example) = pod_example" by (simp add: retired_def)
  show ?thesis
    by (subst degraded_job_stays [where state = DegradedState]) (simp_all add: j GetState_degraded)
qed

section \<open>Jobs that are skipped\<close>

text \<open>
  Three jobs: the first is marked and was never started, the two others are ready to be run. They
  differ in the name of their workload.
\<close>

definition s_three :: "(string \<times> string) list Scheduler" where
  "s_three = (newScheduler [])\<lparr>
     heap := [retired (job_example\<lparr>currentState := ReadyState\<rparr>),
              job_example\<lparr>currentState := ReadyState, workload := pod_example\<lparr>Name := ''db''\<rparr>\<rparr>,
              job_example\<lparr>currentState := ReadyState, workload := pod_example\<lparr>Name := ''log''\<rparr>\<rparr>],
     jobs := Add (Add (Add NewStore 0) 1) 2, executionSync := True\<rparr>"

lemma GetState_absent:
  assumes "Kind w = PodKind" and "\<not> IsRootless w"
  shows "if_GetState (ex_example E) w [] = (Returns (UnknownState, None), [])"
proof -
  have "getExecutor E (createExecutors cfg_example) w = Inr (Podman mem_podman)"
    using assms by (simp add: getExecutor_def createExecutors_def podman_New_eq cfg_example_def kind_defs)
  then show ?thesis
    by (simp add: ex_example_def executor_New_podman pe_GetState_def pe_List_def podman_List_def
        mem_podman_def io_bind_def)
qed

lemma ID_first: "w_ID E w = Name w @ ''-'' @ take 12 (Hash (mapOrder E) (digest E) w)"
  by (simp add: ID_def)

text \<open>
  The removal of a job inside the loop moves the later jobs down in the array the loop reads
  from: in an execution over three jobs of which the first is removed, the second is not looked at,
  and the third is looked at twice. Only the third is started although both are ready.
\<close>

theorem removal_skips_job:
  "ToList (jobs s_three) = [0, 1, 2] \<and>
   ToList (jobs (sched_execution (env_at 0) (ex_example (env_at 0)) s_three)) = [1, 2] \<and>
   map fst (tasks (sched_execution (env_at 0) (ex_example (env_at 0)) s_three)) = [2]"
  by code_simp

section \<open>Resource reconciliations that overlap\<close>

text \<open>
  While a resource reconciliation of a running pod is in progress, and as long as the limit read
  from the system differs from the target, each resource branch starts another one and forgets the
  future of the one before.
\<close>

theorem resource_reconciliations_overlap:
  assumes "a < length (heap s)" and "targetResources (heap s ! a) \<noteq> zeroCpu"
    and "currentState (heap s ! a) = RunningState" and "\<not> markedForDeletion (heap s ! a)"
    and "Kind (workload (heap s ! a)) = PodKind"
    and "map_of (resourceFutures s) (id_at E s a) = Some f" and "\<not> inputClosed (rfut_heap s ! f)"
    and "getJobResources E R (heap s ! a) (world s) = (Returns (r, None), w')"
    and "r \<noteq> targetResources (heap s ! a)"
  shows "rtasks (resource_job E R a s) = rtasks s @ [(a, length (rfut_heap s))] \<and>
    map_of (resourceFutures (resource_job E R a s)) (id_at E s a) = Some (length (rfut_heap s))"
proof -
  have p: "poll_rtask E a s = s" using assms(6,7) by (simp add: poll_rtask_def Poll_def Resolved_def)
  let ?j = "SetCurrentResources (heap s ! a) r"
  have j: "currentResources ?j = r" "targetResources ?j = targetResources (heap s ! a)"
    by (simp_all add: SetCurrentResources_def)
  have "resource_job E R a s = start_rtask E a (set_job a ?j (s\<lparr>world := w'\<rparr>))"
    using assms j by (simp add: resource_job_def p kind_defs Let_def)
  moreover have "id_at E (set_job a ?j (s\<lparr>world := w'\<rparr>)) a = id_at E s a" using assms(1) by simp
  ultimately show ?thesis by (simp add: start_rtask_def update_conv')
qed

definition s_limited :: "'w \<Rightarrow> 'w Scheduler" where
  "s_limited w0 = (s_single (job_example\<lparr>targetResources := \<lparr>Value1 = 50000, Value2 = 100000\<rparr>\<rparr>) w0)
     \<lparr>resourceFutures := [(job_ID (env_at 0) job_example, 0)], rfut_heap := [NewFuture None], rtasks := [(0, 0)]\<rparr>"

lemma getJobResources_idle: "getJobResources E idle_rm j w0 = (Returns (zeroCpu, None), w0)"
  by (simp add: getJobResources_def idle_rm_def io_bind_def go_slice_def Let_def)

theorem resource_reconciliations_overlap_witness:
  "rtasks (resource_job (env_at 0) idle_rm 0 (s_limited ())) = [(0, 0), (0, 1)]"
proof -
  let ?s = "s_limited ()"
  have "heap ?s ! 0 = job_example\<lparr>targetResources := \<lparr>Value1 = 50000, Value2 = 100000\<rparr>\<rparr>"
    "resourceFutures ?s = [(job_ID (env_at 0) job_example, 0)]" "rfut_heap ?s = [NewFuture None]"
    "rtasks ?s = [(0, 0)]" "length (heap ?s) = 1" "world ?s = ()"
    by (simp_all add: s_limited_def)
  with resource_reconciliations_overlap [of 0 ?s "env_at 0" 0 idle_rm zeroCpu "()"] show ?thesis
    by (simp add: getJobResources_idle zeroCpu_def job_ID_def NewFuture_def) (simp add: pod_example_def go_simps kind_defs)
qed

section \<open>A run that changes the identity of its job\<close>

text \<open>
  When a run changes the ID of its job (through the label it adds to the workload), its future
  stays registered under the old ID and is not found under the new one.
\<close>

theorem run_loses_future:
  assumes "sched_inv E s" and "i < length (tasks s)" and "tasks s ! i = (a, f)"
    and "futureWrapper X (heap s ! a) (world s) = (Returns (r, wl), w')"
    and "w_ID E wl \<noteq> id_at E s a" and "map_of (futures s) (w_ID E wl) = None"
  shows "id_at E (finish_task X i s) a = w_ID E wl \<and>
    map_of (futures (finish_task X i s)) (id_at E s a) = Some f \<and>
    Resolved (fut_heap (finish_task X i s) ! f) \<and>
    map_of (futures (finish_task X i s)) (id_at E (finish_task X i s) a) = None"
proof -
  have "(a, f) \<in> set (tasks s)" using assms(2,3) by (metis nth_mem)
  with assms(1) have "task_ok E s (a, f)" by (simp add: sched_inv_def)
  with assms(3-6) show ?thesis
    by (simp add: finish_task_def set_job_def job_ID_def task_ok_def Resolved_def fut_close_def)
qed

text \<open>An environment whose digest tells texts up to forty bytes from longer ones.\<close>

definition env_len :: env where
  "env_len = (env_at 0)\<lparr>digest := (\<lambda>s. replicate 14 (if drop 40 s = [] then CHR ''a'' else CHR ''b''))\<rparr>"

definition s_first_run :: "(string \<times> string) list Scheduler" where
  "s_first_run = (s_single (job_example\<lparr>currentState := ReadyState\<rparr>) [])
     \<lparr>futures := [(job_ID env_len job_example, 0)], fut_heap := [NewFuture (ReadyState, None)], tasks := [(0, 0)]\<rparr>"

definition s_second_run :: "(string \<times> string) list Scheduler" where
  "s_second_run = exec_job env_len (ex_example env_len) 0 (finish_task (ex_example env_len) 0 s_first_run)"


end
