(* ===== verification/Lifecycle.thy ===== *)
theory Lifecycle
  imports Scheduling
begin

text \<open>
  The life of a job under the scheduler, as an abstract machine: a job is created without a mark,
  its target is set by the evaluation of its profiles, and once it is retired it is to exit and
  stays so. The scheduler refines the machine. A retired job is never run again, and a running
  workload that is no longer configured is stopped and removed.
\<close>

section \<open>The abstract machine\<close>

text \<open>Of a job only its target and its mark, of the scheduler the jobs it has created, in order.\<close>

type_synonym life = "JobState \<times> bool"

definition life :: "Job \<Rightarrow> life" where
  "life j = (targetState j, markedForDeletion j)"

definition lives :: "'w Scheduler \<Rightarrow> life list" where
  "lives s = map life (heap s)"

inductive life_step :: "life list \<Rightarrow> life list \<Rightarrow> bool" where
  create: "life_step ls (ls @ [(ReadyState, False)])"
| evaluate: "a < length ls \<Longrightarrow> \<not> snd (ls ! a) \<Longrightarrow> t = RunningState \<or> t = InactiveState \<Longrightarrow>
    life_step ls (ls[a := (t, False)])"
| retire: "a < length ls \<Longrightarrow> life_step ls (ls[a := (ExitedState, True)])"

text \<open>What the machine guarantees: jobs are never forgotten, and a mark is for ever.\<close>

lemma life_steps_length: "life_step\<^sup>*\<^sup>* ls ls' \<Longrightarrow> length ls \<le> length ls'"
  by (induction rule: rtranclp_induct) (auto elim!: life_step.cases)

lemma life_steps_marked:
  "life_step\<^sup>*\<^sup>* ls ls' \<Longrightarrow> a < length ls \<Longrightarrow> ls ! a = (ExitedState, True) \<Longrightarrow> ls' ! a = (ExitedState, True)"
proof (induction rule: rtranclp_induct)
  case (step y z)
  from step.hyps(2) step.IH step.prems life_steps_length [OF step.hyps(1)] show ?case
    by (auto elim!: life_step.cases simp: nth_append nth_list_update)
qed

definition life_ok :: "life \<Rightarrow> bool" where
  "life_ok l \<longleftrightarrow> l \<in> {(ReadyState, False), (RunningState, False), (InactiveState, False), (ExitedState, True)}"

lemma life_steps_ok: "life_step\<^sup>*\<^sup>* ls ls' \<Longrightarrow> \<forall>l \<in> set ls. life_ok l \<Longrightarrow> \<forall>l \<in> set ls'. life_ok l"
proof (induction rule: rtranclp_induct)
  case (step y z)
  from step.hyps(2) step.IH [OF step.prems] show ?case
    by cases (auto simp: life_ok_def dest!: subsetD [OF set_update_subset_insert])
qed

section \<open>The refinement\<close>

abbreviation evolves :: "'w Scheduler \<Rightarrow> 'w Scheduler \<Rightarrow> bool" where
  "evolves s s' \<equiv> life_step\<^sup>*\<^sup>* (lives s) (lives s')"

lemma lives_frame [simp]:
  "lives (s\<lparr>world := w\<rparr>) = lives s" "lives (s\<lparr>sched_ctl := c\<rparr>) = lives s"
  "lives (s\<lparr>executionSync := b\<rparr>) = lives s" "lives (s\<lparr>resourceSync := b\<rparr>) = lives s"
  "lives (s\<lparr>evaluationSync := b\<rparr>) = lives s" "lives (s\<lparr>profileEvaluationResults := r\<rparr>) = lives s"
  "lives (s\<lparr>jobs := st\<rparr>) = lives s" "lives (s\<lparr>futures := m\<rparr>) = lives s" "lives (s\<lparr>tasks := ts\<rparr>) = lives s"
  "lives (s\<lparr>fut_heap := fh\<rparr>) = lives s" "lives (s\<lparr>resourceFutures := m\<rparr>) = lives s"
  "lives (s\<lparr>rtasks := ts\<rparr>) = lives s" "lives (s\<lparr>rfut_heap := rh\<rparr>) = lives s"
  by (simp_all add: lives_def)

lemma length_lives [simp]: "length (lives s) = length (heap s)"
  by (simp add: lives_def)

lemma lives_nth [simp]: "a < length (heap s) \<Longrightarrow> lives s ! a = life (heap s ! a)"
  by (simp add: lives_def)

lemma lives_set_job: "lives (set_job a j s) = (lives s)[a := life j]"
  by (simp add: lives_def set_job_def map_update)

text \<open>What the branches do to a job and leave its target and its mark alone.\<close>

lemma lives_set_job_same:
  assumes "a < length (heap s) \<Longrightarrow> life j = life (heap s ! a)"
  shows "lives (set_job a j s) = lives s"
proof (cases "a < length (heap s)")
  case True
  with assms have "(lives s)[a := life j] = (lives s)[a := lives s ! a]" by simp
  then show ?thesis by (simp add: lives_set_job)
qed (simp add: lives_set_job list_update_beyond)

lemma life_keeps [simp]:
  "job_wf j \<Longrightarrow> life (SetCurrentState E j st) = life j"
  "life (j\<lparr>cron := c\<rparr>) = life j" "life (j\<lparr>workload := w\<rparr>) = life j"
  "life (SetCurrentResources j r) = life j" "life (SetTargetResources j r) = life j"
  by (simp_all add: life_def SetCurrentResources_def SetTargetResources_def)

lemma lives_start [simp]: "lives (start_task E a s) = lives s" "lives (start_rtask E a s) = lives s"
  by (simp_all add: start_task_def start_rtask_def)


lemma evolves_retire:
  assumes "sched_inv E s" and "a < length (heap s)"
  shows "evolves s (retire E s a)"
proof -
  have "life (SetTargetState E (MarkForDeletion (heap s ! a)) ExitedState) = (ExitedState, True)"
    using inv_job_wf [OF assms] by (simp add: life_def SetTargetState_eq MarkForDeletion_def job_wf_def)
  with assms(2) show ?thesis by (auto simp: retire_def lives_set_job intro!: r_into_rtranclp life_step.retire)
qed

lemma evolves_add_workload: "evolves s (add_workload E s w)"
proof (cases "createJob E w")
  case (Inr j)
  then have "life j = (ReadyState, False)"
    by (auto simp: createJob_def Build_def life_def Let_def split: if_splits sum.splits option.splits)
  with Inr show ?thesis by (auto simp: add_workload_def lives_def intro: r_into_rtranclp life_step.create)
qed (simp add: add_workload_def)

lemma evolves_foldl:
  assumes "\<And>s a. P s \<Longrightarrow> a \<in> set as \<Longrightarrow> evolves s (f s a) \<and> P (f s a)" and "P s"
  shows "evolves s (foldl f s as)"
  using assms
proof (induction as arbitrary: s)
  case (Cons a as)
  then have "evolves s (f s a)" "evolves (f s a) (foldl f (f s a) as)" by auto
  then show ?case by (simp add: rtranclp_trans)
qed simp

lemma evolves_retire_all:
  assumes "sched_inv E s" and "\<forall>a \<in> set as. a < length (heap s)"
  shows "evolves s (foldl (retire E) s as)"
  by (rule evolves_foldl [where P = "\<lambda>s. sched_inv E s \<and> (\<forall>a \<in> set as. a < length (heap s))"])
    (use assms in \<open>auto intro: evolves_retire\<close>)

lemma evolves_input:
  assumes "sched_inv E s" and "is_range (ord_jobs Ord)"
  shows "evolves s (sched_input E Ord opt s)"
proof (cases opt)
  case None
  then show ?thesis using assms by (auto simp: sched_input_def intro!: evolves_retire_all dest: inv_ToList)
next
  case (Some ws)
  let ?s = "foldl (add_workload E) s (substract (ord_workloads Ord) (w_ID E) (id_at E s) ws (ToList (jobs s)))"
  let ?r = "substract (ord_jobs Ord) (id_at E s) (w_ID E) (ToList (jobs s)) ws"
  have "evolves s ?s" by (rule evolves_foldl [where P = "\<lambda>s. True"]) (auto intro: evolves_add_workload)
  moreover have "\<forall>a \<in> set ?r. a < length (heap ?s)"
    using substract_subset [OF assms(2)] inv_ToList [OF assms(1)] length_add_workloads [of s E]
    by (meson order_less_le_trans subsetD)
  then have "evolves (?s\<lparr>evaluationSync := True\<rparr>) (foldl (retire E) (?s\<lparr>evaluationSync := True\<rparr>) ?r)"
    using assms(1) by (intro evolves_retire_all) (simp_all add: inv_add_workloads)
  ultimately show ?thesis by (simp add: Some sched_input_def Let_def)
qed

lemma evolves_evaluate_job:
  assumes "sched_inv E s" and "a < length (heap s)"
  shows "evolves s (evaluate_job E Ord s a)"
proof (cases "markedForDeletion (heap s ! a)")
  case False
  have set: "evolves s (set_job a j s)" if "life j = (t, False)" "t = RunningState \<or> t = InactiveState" for j t
    using that False assms(2) by (auto simp: lives_set_job life_def intro!: r_into_rtranclp life_step.evaluate)
  have life: "life (SetTargetState E (heap s ! a) t) = (t, False)" for t
    using inv_job_wf [OF assms] False by (simp add: life_def SetTargetState_eq)
  then show ?thesis using False by (auto simp: evaluate_job_def Let_def intro!: set split: option.split)
qed (simp add: evaluate_job_def)

lemma evolves_evaluation:
  assumes "sched_inv E s"
  shows "evolves s (sched_evaluation E Ord s)"
proof -
  have "evolves (s\<lparr>evaluationSync := False\<rparr>)
    (foldl (evaluate_job E Ord) (s\<lparr>evaluationSync := False\<rparr>) (ToList (jobs s)))"
    by (rule evolves_foldl [where P = "\<lambda>t. sched_inv E t \<and> length (heap t) = length (heap s)"])
      (use assms inv_ToList [OF assms] in \<open>auto intro: evolves_evaluate_job\<close>)
  then show ?thesis by (simp add: sched_evaluation_def Let_def)
qed

lemma lives_exec_job:
  assumes "sched_inv E s" and "a < length (heap s)"
  shows "lives (exec_job E X a s) = lives s"
proof -
  note wf = inv_job_wf [OF assms]
  have "lives (reconcile_job E a t) = lives t" for t :: "'a Scheduler"
    by (auto simp: reconcile_job_def Let_def lives_set_job_same split: option.split)
  moreover have "lives (poll_task E a f s) = lives s" for f
    using wf by (auto simp: poll_task_def Let_def lives_set_job_same split: prod.split)
  ultimately show ?thesis using wf by (auto simp: exec_job_def lives_set_job_same split: option.split prod.split call.split)
qed

lemma lives_exec_loop:
  "sched_inv E s \<Longrightarrow> n + i \<le> length (backing (jobs s)) \<Longrightarrow> lives (exec_loop E X n i s) = lives s"
proof (induction E X n i s rule: exec_loop.induct)
  case (2 E X n i s)
  let ?a = "backing (jobs s) ! i"
  have a: "?a < length (heap s)" using 2 by (simp add: sched_inv_def)
  then have "sched_inv E (exec_job E X ?a s)" using 2 by (intro inv_exec_job)
  with 2 lives_exec_job [OF 2(2) a] show ?case by (simp add: Let_def exec_job_frame)
qed simp

lemma lives_execution: "sched_inv E s \<Longrightarrow> lives (sched_execution E X s) = lives s"
  using lives_exec_loop [of E "s\<lparr>executionSync := False\<rparr>" "Len (jobs s)" 0 X]
  by (simp add: sched_execution_def Let_def Len_def sched_inv_def [of E s] store_wf_def)

lemma lives_poll_rtask: "lives (poll_rtask E a s) = lives s"
  by (auto simp: poll_rtask_def Let_def lives_set_job_same split: option.split prod.split)

lemma lives_resource_job: "lives (resource_job E R a s) = lives s"
  by (auto simp: resource_job_def Let_def lives_set_job_same lives_poll_rtask split: prod.split call.split)

lemma lives_resources: "lives (sched_resources E R s) = lives s"
proof -
  have "lives (resource_loop E R as s) = lives s" for as and s :: "'a Scheduler"
    by (induction E R as s rule: resource_loop.induct) (auto simp: Let_def lives_resource_job)
  then show ?thesis by (simp add: sched_resources_def)
qed

lemma lives_finish: "lives (finish_task X i s) = lives s" "lives (finish_rtask E R i s) = lives s"
  by (auto simp: finish_task_def finish_rtask_def lives_set_job_same split: prod.split call.split)

lemma evolves_step:
  assumes "sched_step E Ord X R s s'" and "is_range (ord_jobs Ord)" and "sched_inv E s"
  shows "evolves s s'"
  using assms
proof (induction rule: sched_step.induct)
  case (input s t opt)
  then show ?case using evolves_input [of "at_time t E" s Ord opt] by simp
next
  case (evaluation s t)
  then show ?case using evolves_evaluation [of "at_time t E" s Ord] by simp
next
  case (execution s t)
  then show ?case using lives_execution [of "at_time t E" s] by simp
qed (simp_all add: sched_profiles_def lives_resources lives_finish)

interpretation lifecycle: simulation "sched_step E Ord X R" "life_step\<^sup>*\<^sup>*" lives
    "\<lambda>s. is_range (ord_jobs Ord) \<and> sched_inv E s" for E Ord X R
  using inv_step evolves_step by unfold_locales blast+

section \<open>A retired job\<close>

lemma reaches_rtranclp: "sched_reaches E Ord X R s s' \<Longrightarrow> (sched_step E Ord X R)\<^sup>*\<^sup>* s s'"
  by (induction rule: sched_reaches.induct) (auto intro: rtranclp.rtrancl_into_rtrancl)

lemma evolves_reaches:
  assumes "sched_reaches E Ord X R s s'" and "is_range (ord_jobs Ord)" and "sched_inv E s"
  shows "evolves s s'"
  using lifecycle.reach [OF reaches_rtranclp [OF assms(1)]] assms(2,3) by simp

lemma reachable_lives:
  assumes "sched_reaches E Ord X R (newScheduler w0) s" and "is_range (ord_jobs Ord)"
  shows "life_step\<^sup>*\<^sup>* [] (lives s)" and "\<forall>j \<in> set (heap s). life_ok (life j)"
proof -
  show steps: "life_step\<^sup>*\<^sup>* [] (lives s)"
    using evolves_reaches [OF assms inv_new] by (simp add: newScheduler_def lives_def)
  then have "\<forall>l \<in> set (lives s). life_ok l" by (rule life_steps_ok) simp
  then show "\<forall>j \<in> set (heap s). life_ok (life j)" by (simp add: lives_def)
qed

lemma marked_stays:
  assumes "sched_reaches E Ord X R (newScheduler w0) s" and "is_range (ord_jobs Ord)"
    and "a < length (heap s)" and "markedForDeletion (heap s ! a)" and "sched_reaches E Ord X R s s'"
  shows "life (heap s' ! a) = (ExitedState, True)"
proof -
  have inv: "sched_inv E s" by (rule inv_reaches [OF assms(1,2) inv_new])
  have "life_ok (life (heap s ! a))" using reachable_lives(2) [OF assms(1,2)] assms(3) by simp
  with assms(4) have "life (heap s ! a) = (ExitedState, True)" by (auto simp: life_ok_def life_def)
  with evolves_reaches [OF assms(5,2) inv] assms(3)
  have "lives s' ! a = (ExitedState, True)" and "length (heap s) \<le> length (heap s')"
    using life_steps_marked [of "lives s" "lives s'" a] life_steps_length [of "lives s" "lives s'"] by simp_all
  with assms(3) show ?thesis by simp
qed

lemma exit_never_runs:
  assumes "targetState j = ExitedState"
  shows "futureWrapper (Y\<lparr>if_Run := run\<rparr>) j = futureWrapper Y j"
proof -
  have "final_state (Y\<lparr>if_Run := run\<rparr>) = final_state Y" by (simp add: final_state_def fun_eq_iff)
  then show ?thesis
    using assms by (simp add: futureWrapper_def syncFuncs_kind podman_sync_def k8s_sync_def Let_def kind_defs cong: option.case_cong)
qed

text \<open>
  C3: The scheduler implements the machine of job lives. In every state it reaches the targets and
  marks of its jobs are a state of the machine, and each of its steps, whatever the runtime and the
  resource manager answer, is a sequence of steps of the machine: jobs are created ready, targets of
  unmarked jobs become running or inactive, and retired jobs are to exit and keep their mark.
\<close>

theorem scheduler_refines_lifecycle:
  assumes "is_range (ord_jobs Ord)" and "sched_reaches E Ord X R (newScheduler w0) s" and "sched_step E Ord X R s s'"
  shows "life_step\<^sup>*\<^sup>* [] (lives s) \<and> life_step\<^sup>*\<^sup>* (lives s) (lives s')"
  using reachable_lives(1) [OF assms(2,1)] evolves_step [OF assms(3,1) inv_reaches [OF assms(2,1) inv_new]] by auto


section \<open>A workload that is no longer configured\<close>

lemma sched_reaches_trans: "sched_reaches E Ord X R s' s'' \<Longrightarrow> sched_reaches E Ord X R s s' \<Longrightarrow> sched_reaches E Ord X R s s''"
  by (induction rule: sched_reaches.induct) (auto intro: sched_reaches.step)

lemma reaches_step: "sched_step E Ord X R s s' \<Longrightarrow> sched_reaches E Ord X R s s'"
  by (rule sched_reaches.step [OF sched_reaches.refl])

text \<open>A heartbeat: its branch sends to the channel of the execution branch, which runs next.\<close>

lemma reaches_execution:
  assumes "sched_ctl s = InSelect" and "\<not> executionSync s"
  shows "sched_reaches E Ord X R s (sched_execution (at_time t E) (X (at_time t E)) (s\<lparr>executionSync := True\<rparr>))"
proof -
  let ?h = "s\<lparr>sched_ctl := InHeartbeatSend\<rparr>" and ?s = "s\<lparr>executionSync := True\<rparr>"
  have "sched_step E Ord X R s ?h" using assms(1) by (rule sched_step.heartbeat)
  moreover have "sched_step E Ord X R ?h (?h\<lparr>executionSync := True, sched_ctl := InSelect\<rparr>)"
    by (rule sched_step.send) (use assms(2) in simp_all)
  moreover have "?h\<lparr>executionSync := True, sched_ctl := InSelect\<rparr> = ?s" using assms(1) by simp
  moreover have "sched_step E Ord X R ?s (sched_execution (at_time t E) (X (at_time t E)) ?s)"
    by (rule sched_step.execution) (use assms(1) in simp_all)
  ultimately show ?thesis by (metis reaches_step sched_reaches.step)
qed

text \<open>The scheduler waits and holds one job, in the first cell of its store, with the given futures.\<close>

definition alone :: "Job \<Rightarrow> (string, nat) gomap \<Rightarrow> (nat \<times> nat) list \<Rightarrow> 'w \<Rightarrow> 'w Scheduler \<Rightarrow> bool" where
  "alone j fs ts w s \<longleftrightarrow> heap s = [j] \<and> jobs s = Add NewStore 0 \<and> futures s = fs \<and> tasks s = ts \<and>
     world s = w \<and> sched_ctl s = InSelect \<and> \<not> executionSync s"

lemma alone_execution:
  assumes "alone j fs ts w s"
  shows "sched_execution E X (s\<lparr>executionSync := True\<rparr>) =
    (let s' = exec_job E X 0 s in if sched_ctl s' = Crashed then s' else s'\<lparr>resourceSync := True\<rparr>)"
proof -
  have eq: "s\<lparr>executionSync := False\<rparr> = s" using assms by (simp add: alone_def)
  from assms have "jobs s = Add NewStore 0" by (simp add: alone_def)
  then show ?thesis by (simp add: sched_execution_def Len_def Add_def NewStore_def Let_def eq)
qed

lemma alone_reaches:
  assumes "alone j fs ts w s" and "alone j' fs' ts' w' (exec_job F (X F) 0 s)" and "F = at_time t E"
  shows "\<exists>s'. sched_reaches E Ord X R s s' \<and> alone j' fs' ts' w' s' \<and> fut_heap s' = fut_heap (exec_job F (X F) 0 s)"
proof -
  have "sched_ctl s = InSelect" "\<not> executionSync s" using assms(1) by (simp_all add: alone_def)
  from reaches_execution [OF this, of E Ord X R t, folded assms(3)] show ?thesis
    using assms(2) by (intro exI) (auto simp: alone_execution [OF assms(1)] alone_def Let_def)
qed

text \<open>The steps: the configuration is empty, the stop is started, it runs, its result is read, the job goes.\<close>

lemma removal_input:
  assumes "alone j [] [] w s" and "job_wf j"
  shows "alone (retired j) [] [] w (sched_input E Ord None s)" and "fut_heap (sched_input E Ord None s) = fut_heap s"
  using assms by (auto simp: alone_def sched_input_def retire_eq set_job_def)

lemma removal_starts:
  assumes "alone j [] [] w s" and "job_wf j" and "markedForDeletion j" and "targetState j = ExitedState"
    and "if_GetState X (workload j) w = (Returns (RunningState, None), w')"
  shows "alone (SetCurrentState E j RunningState) [(job_ID E j, length (fut_heap s))] [(0, length (fut_heap s))] w'
      (exec_job E X 0 s)"
    and "fut_heap (exec_job E X 0 s) = fut_heap s @ [NewFuture (ReadyState, None)]"
  using assms
  by (auto simp: alone_def exec_job_def reconcile_job_def shouldReconcile_def ShouldRestart_def observe_def start_task_def
      set_job_def Let_def)

lemma job_workload_same: "(j :: Job)\<lparr>workload := workload j\<rparr> = j"
  by (cases j) simp

lemma removal_runs:
  assumes "alone j fs [(0, length fh)] w s" and "fut_heap s = fh @ [NewFuture (ReadyState, None)]"
    and "futureWrapper X j w = (Returns ((st, None), workload j), w')"
  shows "alone j fs [] w' (finish_task X 0 s)"
    and "fut_heap (finish_task X 0 s) = fh @ [\<lparr>fut_value = (st, None), inputClosed = True\<rparr>]"
  using assms
  by (auto simp: alone_def finish_task_def set_job_def remove_nth_def job_workload_same NewFuture_def fut_close_def
      fut_receive_def list_update_append)

lemma removal_polls:
  assumes "alone j [(job_ID E j, length fh)] [] w s" and "job_wf j"
    and "fut_heap s = fh @ [\<lparr>fut_value = (st, None), inputClosed = True\<rparr>]"
  shows "alone (SetCurrentState E j st) [] [] w (exec_job E X 0 s)"
  using assms by (auto simp: alone_def exec_job_def poll_task_def Poll_def Resolved_def set_job_def Let_def)

lemma removal_deletes:
  assumes "alone j [] [] w s" and "job_wf j" and "markedForDeletion j" and "targetState j = ExitedState"
    and "currentState j = UnknownState" and "if_GetState X (workload j) w = (Returns (UnknownState, None), w')"
  shows "ToList (jobs (exec_job E X 0 s)) = []" and "world (exec_job E X 0 s) = w'"
    and "sched_ctl (exec_job E X 0 s) = InSelect" and "tasks (exec_job E X 0 s) = []"
  using assms
  by (auto simp: alone_def exec_job_def reconcile_job_def shouldReconcile_def ShouldRestart_def observe_def
      set_job_def Let_def js.list_delete)

lemma futureWrapper_cong:
  assumes "workload j = workload k" and "currentState j = currentState k" and "targetState j = targetState k"
  shows "futureWrapper X j = futureWrapper X k"
proof -
  have "podman_sync X j = podman_sync X k" unfolding podman_sync_def assms ..
  moreover have "k8s_sync X j = k8s_sync X k" unfolding k8s_sync_def assms ..
  ultimately show ?thesis using assms(1) by (simp add: futureWrapper_def syncFuncs_kind)
qed

lemma w_ID_at_time [simp]: "w_ID (at_time t E) w = w_ID E w"
  by (simp add: at_time_def)

lemma exit_keeps_workload:
  "targetState j = ExitedState \<Longrightarrow> io_post (futureWrapper X j) w (\<lambda>r w'. snd r = workload j)"
  by (auto simp: futureWrapper_def syncFuncs_kind podman_sync_def k8s_sync_def final_state_def Let_def kind_defs
      intro!: io_post_any split: option.split)

lemma retired_life [simp]:
  "markedForDeletion (retired j)" "targetState (retired j) = ExitedState" "workload (retired j) = workload j"
  by (simp_all add: retired_def)

lemma removal:
  fixes X :: "env \<Rightarrow> 'w Executor"
  assumes F: "F = at_time t E" and s: "alone j [] [] w0 s" "job_wf j"
    and running: "if_GetState (X F) (workload j) w0 = (Returns (RunningState, None), w1)"
    and stop: "futureWrapper (X F) ((retired j)\<lparr>currentState := RunningState\<rparr>) w1 = (Returns ((UnknownState, None), workload j), w2)"
    and gone: "if_GetState (X F) (workload j) w2 = (Returns (UnknownState, None), w3)"
  shows "\<exists>s'. sched_reaches E Ord X R s s' \<and> ToList (jobs s') = [] \<and> tasks s' = [] \<and> world s' = w3"
proof -
  let ?j = "SetCurrentState F (retired j) RunningState"
  let ?fs = "[(job_ID F ?j, length (fut_heap s))]"
  have j: "job_wf ?j" "markedForDeletion ?j" "targetState ?j = ExitedState" "workload ?j = workload j" "currentState ?j = RunningState"
    using s(2) by (simp_all add: observe_def)
  have s1: "sched_reaches E Ord X R s (sched_input F Ord None s)" (is "sched_reaches E Ord X R s ?s1")
    unfolding F by (intro reaches_step sched_step.input) (use s in \<open>simp add: alone_def\<close>)
  have a1: "alone (retired j) [] [] w0 ?s1" "fut_heap ?s1 = fut_heap s" using removal_input [OF s] by auto
  have e1: "alone ?j ?fs [(0, length (fut_heap s))] w1 (exec_job F (X F) 0 ?s1)"
    "fut_heap (exec_job F (X F) 0 ?s1) = fut_heap s @ [NewFuture (ReadyState, None)]"
    using removal_starts [OF a1(1), of "X F" w1 F] running s(2) a1(2) by auto
  obtain s2 where s2: "sched_reaches E Ord X R ?s1 s2" "alone ?j ?fs [(0, length (fut_heap s))] w1 s2"
    "fut_heap s2 = fut_heap s @ [NewFuture (ReadyState, None)]"
    using alone_reaches [where X = X, OF a1(1) e1(1) F] e1(2) by metis
  let ?s3 = "finish_task (X F) 0 s2"
  have "futureWrapper (X F) ?j w1 = (Returns ((UnknownState, None), workload ?j), w2)"
    using stop j futureWrapper_cong [of "(retired j)\<lparr>currentState := RunningState\<rparr>" ?j "X F"] by simp
  note a3 = removal_runs [OF s2(2,3) this]
  have s3: "sched_reaches E Ord X R s2 ?s3"
    using s2(2) unfolding F by (intro reaches_step sched_step.task) (auto simp: alone_def)
  let ?k = "SetCurrentState F ?j UnknownState"
  obtain s4 where s4: "sched_reaches E Ord X R ?s3 s4" "alone ?k [] [] w2 s4"
    using alone_reaches [where X = X, OF a3(1) removal_polls [OF a3(1) j(1) a3(2)] F] by blast
  have k: "job_wf ?k" "markedForDeletion ?k" "targetState ?k = ExitedState" "currentState ?k = UnknownState"
    "workload ?k = workload j" using j by (simp_all add: observe_def)
  note d = removal_deletes [OF s4(2) k(1-4), of "X F" w3 F, unfolded k(5), OF gone]
  have "sched_ctl s4 = InSelect" "\<not> executionSync s4" using s4(2) by (simp_all add: alone_def)
  from reaches_execution [OF this, of E Ord X R t, folded F] d
  obtain s5 where "sched_reaches E Ord X R s4 s5" "ToList (jobs s5) = []" "tasks s5 = []" "world s5 = w3"
    by (auto simp: alone_execution [OF s4(2)] Let_def)
  with s1 s2(1) s3 s4(1) show ?thesis by (metis sched_reaches_trans)
qed

text \<open>
  C16: A running workload that is no longer configured is stopped and removed. From a state in which
  the scheduler holds the one running job of a pod, the empty configuration and heartbeats lead to a
  state without jobs and reconciliations in which podman has no pod of the workload, provided podman
  behaves as documented and its calls return without an error.
\<close>

theorem workload_removed:
  assumes laws: "podman_laws A pods" and pod: "getExecutor F (createExecutors cfg) (workload j) = Inr (Podman A)"
    and F: "F = at_time t E" and s: "alone j [] [] w0 s" "job_wf j"
    and running: "if_GetState (executor_New F Y cfg) (workload j) w0 = (Returns (RunningState, None), w1)"
    and stop: "futureWrapper (executor_New F Y cfg) ((retired j)\<lparr>currentState := RunningState\<rparr>) w1 = (Returns ((st, None), wl), w2)"
    and gone: "if_GetState (executor_New F Y cfg) (workload j) w2 = (Returns (st', None), w3)"
  shows "\<exists>s'. sched_reaches E Ord (\<lambda>E. executor_New E Y cfg) R s s' \<and> ToList (jobs s') = [] \<and> tasks s' = [] \<and>
    w_ID E (workload j) \<notin> fst ` set (pods (world s'))"
proof -
  let ?X = "executor_New F Y cfg" and ?j = "(retired j)\<lparr>currentState := RunningState\<rparr>"
  have "wl = workload j" using exit_keeps_workload [of ?j ?X w1] stop by (simp add: io_post_def)
  moreover have st: "st = UnknownState" "w_ID F (workload j) \<notin> fst ` set (pods w2)"
    using podman_stop_removes [OF laws, of F cfg ?j Y w1] pod stop by (simp_all add: io_post_def)
  moreover have "st' = UnknownState \<and> pods w3 = pods w2"
    using pe_GetState_absent [OF laws st(2)] gone
    by (auto simp: executor_New_podman [OF pod] io_post_def io_bind_def split: prod.splits call.splits option.splits)
  ultimately show ?thesis
    using removal [where X = "\<lambda>E. executor_New E Y cfg" and Ord = Ord and R = R, OF F s running] stop gone F by fastforce
qed

lemma mem_podman_calls:
  fixes E
  defines "X \<equiv> ex_example E"
  shows "if_GetState X pod_example [(w_ID E pod_example, ''Running'')] =
      (Returns (RunningState, None), [(w_ID E pod_example, ''Running'')])"
    and "workload j = pod_example \<Longrightarrow> targetState j = ExitedState \<Longrightarrow> currentState j = RunningState \<Longrightarrow>
      futureWrapper X j [(w_ID E pod_example, ''Running'')] = (Returns ((UnknownState, None), pod_example), [])"
proof -
  note defs = X_def ex_example_def executor_New_podman [OF getExecutor_example] pe_GetState_def
    pe_List_def podman_List_def io_bind_def mem_podman_def
  show "if_GetState X pod_example [(w_ID E pod_example, ''Running'')] =
      (Returns (RunningState, None), [(w_ID E pod_example, ''Running'')])"
    by (simp add: defs mapPodmanStatusToEntity_def)
  assume j: "workload j = pod_example" "targetState j = ExitedState" "currentState j = RunningState"
  have "Kind pod_example = PodKind" using getExecutor_kind [OF getExecutor_example] by simp
  then have "futureWrapper X j = podman_sync X j" by (simp add: futureWrapper_def syncFuncs_kind j kind_defs)
  then show "futureWrapper X j [(w_ID E pod_example, ''Running'')] = (Returns ((UnknownState, None), pod_example), [])"
    by (simp add: podman_sync_def Let_def j final_state_def pe_Stop_def pe_Remove_def podman_Stop_def podman_Remove_def
        podman_Exists_def defs)
qed

theorem workload_removed_witness:
  "\<exists>s'. sched_reaches (env_at 0) ord_example ex_example idle_rm (s_single job_example [(w_ID (env_at 0) pod_example, ''Running'')]) s' \<and>
     ToList (jobs s') = [] \<and> tasks s' = [] \<and> w_ID (env_at 0) pod_example \<notin> fst ` set (world s')"
proof -
  let ?E = "env_at 0" and ?w0 = "[(w_ID (env_at 0) pod_example, ''Running'')]"
  have E: "?E = at_time 0 ?E" by (simp add: env_at_def at_time_def)
  have "alone job_example [] [] ?w0 (s_single job_example ?w0)"
    by (simp add: alone_def) (simp add: s_single_def newScheduler_def)
  note r = workload_removed [where cfg = cfg_example and Y = yaml_example and j = job_example and Ord = ord_example and R = idle_rm,
      OF mem_podman_laws _ E this job_example_wf, unfolded job_example_simps, OF getExecutor_example, folded ex_example_def]
  have "ex_example = (\<lambda>E. executor_New E yaml_example cfg_example)" by (simp add: ex_example_def fun_eq_iff)
  then show ?thesis using r [OF mem_podman_calls(1) mem_podman_calls(2) GetState_example] by simp
qed

section \<open>Examples for the refinement\<close>

theorem scheduler_refines_lifecycle_witness:
  "\<exists>s s'. sched_reaches (env_at 0) ord_example ex_example idle_rm (newScheduler []) s \<and>
     sched_step (env_at 0) ord_example ex_example idle_rm s s' \<and> lives s = [(RunningState, False)] \<and>
     life_step\<^sup>*\<^sup>* (lives s) (lives s') \<and> lives s' = [(ExitedState, True)]"
proof -
  obtain j where j: "createJob (at_time 0 (env_at 0)) pod_example = Inr j" using createJob_example by blast
  let ?s = "s_evaluated (env_at 0) j ([] :: (string \<times> string) list)"
  let ?s' = "sched_input (at_time 0 (env_at 0)) ord_example None ?s"
  have r: "sched_reaches (env_at 0) ord_example ex_example idle_rm (newScheduler []) ?s"
    by (rule reaches_evaluated [OF j]) simp_all
  have st: "sched_step (env_at 0) ord_example ex_example idle_rm ?s ?s'"
    by (rule sched_step.input) (simp add: s_evaluated_def newScheduler_def)
  have "lives ?s = [(RunningState, False)]" "lives ?s' = [(ExitedState, True)]"
    using createJob_wf [OF j]
    by (simp_all add: s_evaluated_def newScheduler_def lives_def life_def sched_input_def retire_eq set_job_def)
  with conjunct2 [OF scheduler_refines_lifecycle [OF ord_example_range(1) r st]] r st show ?thesis by (intro exI conjI)
qed



end
