(* ===== verification/Json.thy ===== *)
theory Json
  imports Go_Prelude "HOL-Library.List_Lexorder"
begin

text \<open>
  What the sources use of \<open>encoding/json\<close> to print values (\<open>json.Marshal\<close> in the methods
  \<open>String\<close> of \<open>internal/entity\<close>): booleans, integers, strings, slices, maps with their keys in
  order, \<open>null\<close> for nil, structs with their fields in the order of declaration. A string is the
  list of its bytes; the strings of a configuration come out of \<open>json.Unmarshal\<close>, which yields
  valid UTF-8 only, so that the replacement of invalid bytes is left out. The locales say of an
  encoder that a text it starts determines the value and the rest of the text.
\<close>

section \<open>Printing\<close>

definition json_bool :: "bool \<Rightarrow> string" where
  "json_bool b = (if b then ''true'' else ''false'')"

definition json_int :: "int \<Rightarrow> string" where
  "json_int i = (if i < 0 then CHR ''-'' # decimal (nat (- i)) else decimal (nat i))"

text \<open>
  One byte of a string: quote, backslash, line feed, carriage return and tab have short escapes,
  the other control characters and \<open><\<close>, \<open>>\<close>, \<open>&\<close> are written \<open>\u00xx\<close>.
\<close>

definition escape :: "char \<Rightarrow> string" where
  "escape c =
     (if c = CHR 0x22 \<or> c = CHR 0x5C then [CHR 0x5C, c]
      else if c = CHR 0x0A then [CHR 0x5C, CHR ''n'']
      else if c = CHR 0x0D then [CHR 0x5C, CHR ''r'']
      else if c = CHR 0x09 then [CHR 0x5C, CHR ''t'']
      else if c < CHR '' '' \<or> c = CHR ''<'' \<or> c = CHR ''>'' \<or> c = CHR ''&''
      then CHR 0x5C # ''u00'' @ [hex_digit (of_char c div 16), hex_digit (of_char c mod 16)]
      else [c])"

text \<open>The line and paragraph separators U+2028 and U+2029 are escaped as well.\<close>

fun json_body :: "string \<Rightarrow> string" where
  "json_body [] = []"
| "json_body (c # s) =
     (if c = CHR 0xE2 \<and> take 2 s = [CHR 0x80, CHR 0xA8] then CHR 0x5C # ''u2028'' @ json_body (drop 2 s)
      else if c = CHR 0xE2 \<and> take 2 s = [CHR 0x80, CHR 0xA9] then CHR 0x5C # ''u2029'' @ json_body (drop 2 s)
      else escape c @ json_body s)"

definition json_string :: "string \<Rightarrow> string" where
  "json_string s = CHR 0x22 # json_body s @ [CHR 0x22]"

definition json_nil :: "('a \<Rightarrow> string) \<Rightarrow> 'a option \<Rightarrow> string" where
  "json_nil enc v = (case v of None \<Rightarrow> ''null'' | Some x \<Rightarrow> enc x)"

definition json_list :: "('a \<Rightarrow> string) \<Rightarrow> 'a list \<Rightarrow> string" where
  "json_list enc xs = ''['' @ join '','' (map enc xs) @ '']''"

definition json_entry :: "('v \<Rightarrow> string) \<Rightarrow> string \<times> 'v \<Rightarrow> string" where
  "json_entry enc kv = json_string (fst kv) @ '':'' @ enc (snd kv)"

definition sorted_entries :: "(string, 'v) gomap \<Rightarrow> (string, 'v) gomap" where
  "sorted_entries m = sort_key fst m"

definition json_entries :: "('v \<Rightarrow> string) \<Rightarrow> (string \<times> 'v) list \<Rightarrow> string" where
  "json_entries enc es = ''{'' @ join '','' (map (json_entry enc) es) @ ''}''"

definition json_map :: "('v \<Rightarrow> string) \<Rightarrow> (string, 'v) gomap \<Rightarrow> string" where
  "json_map enc m = json_entries enc (sorted_entries m)"

text \<open>A struct: the names of its fields and their printed values.\<close>

definition json_field :: "string \<times> string \<Rightarrow> string" where
  "json_field f = CHR 0x22 # fst f @ [CHR 0x22] @ '':'' @ snd f"

definition json_struct :: "(string \<times> string) list \<Rightarrow> string" where
  "json_struct fs = ''{'' @ join '','' (map json_field fs) @ ''}''"

section \<open>Reading a string back\<close>

definition unhex :: "char \<Rightarrow> nat" where
  "unhex c = (if CHR ''a'' \<le> c then of_char c - 87 else of_char c - 48)"

definition unescape :: "char \<Rightarrow> char" where
  "unescape c = (if c = CHR ''n'' then CHR 0x0A else if c = CHR ''r'' then CHR 0x0D
     else if c = CHR ''t'' then CHR 0x09 else c)"

definition unicode :: "string \<Rightarrow> string" where
  "unicode ds =
     (if take 3 ds = ''202'' then [CHR 0xE2, CHR 0x80, char_of (0xA0 + unhex (ds ! 3))]
      else [char_of (16 * unhex (ds ! 2) + unhex (ds ! 3))])"

function unbody :: "string \<Rightarrow> (string \<times> string) option" where
  "unbody s =
     (if s = [] then None
      else if hd s = CHR 0x22 then Some ([], tl s)
      else if hd s = CHR 0x5C \<and> hd (tl s) = CHR ''u'' then
        map_option (apfst ((@) (unicode (take 4 (drop 2 s))))) (unbody (drop 6 s))
      else if hd s = CHR 0x5C then map_option (apfst ((#) (unescape (hd (tl s))))) (unbody (drop 2 s))
      else map_option (apfst ((#) (hd s))) (unbody (tl s)))"
  by pat_completeness auto
termination by (relation "measure length") auto

declare unbody.simps [simp del]

lemma unhex_hex_digit: "n < 16 \<Longrightarrow> unhex (hex_digit n) = n"
  by (auto simp: unhex_def hex_digit_def less_eq_char_def)

lemma unbody_escape: "unbody (escape c @ r) = map_option (apfst ((#) c)) (unbody r)"
proof -
  have u: "unicode (CHR ''0'' # CHR ''0'' # hex_digit (of_char c div 16) # [hex_digit (of_char c mod 16)]) = [c]"
  proof -
    have "(of_char c :: nat) < 256" by simp
    then have "(of_char c :: nat) div 16 < 16" by presburger
    then show ?thesis by (simp add: unicode_def unhex_hex_digit)
  qed
  have "(@) [x] = (#) x" for x :: char by auto
  then show ?thesis
    by (subst unbody.simps) (simp add: escape_def unescape_def u)
qed

lemma separator_chars: "char_of (168 :: nat) = CHR 0xA8" "char_of (169 :: nat) = CHR 0xA9"
  by code_simp+

lemma unbody_body: "unbody (json_body s @ CHR 0x22 # r) = Some (s, r)"
proof (induction s rule: json_body.induct)
  case 1
  then show ?case by (simp add: unbody.simps)
next
  case (2 c s)
  consider (ls) "c = CHR 0xE2" "take 2 s = [CHR 0x80, CHR 0xA8]"
    | (ps) "c = CHR 0xE2" "take 2 s = [CHR 0x80, CHR 0xA9]"
    | (other) "\<not> (c = CHR 0xE2 \<and> take 2 s = [CHR 0x80, CHR 0xA8])"
              "\<not> (c = CHR 0xE2 \<and> take 2 s = [CHR 0x80, CHR 0xA9])"
    by blast
  then show ?case
  proof cases
    case ls
    then obtain t where "s = CHR 0x80 # CHR 0xA8 # t" by (cases s rule: list.exhaust; cases "tl s") auto
    with ls 2 show ?thesis by (subst unbody.simps) (simp add: unicode_def unhex_def separator_chars)
  next
    case ps
    then obtain t where "s = CHR 0x80 # CHR 0xA9 # t" by (cases s rule: list.exhaust; cases "tl s") auto
    with ps 2 show ?thesis by (subst unbody.simps) (simp add: unicode_def unhex_def separator_chars)
  next
    case other
    with 2(3) show ?thesis by (auto simp: unbody_escape)
  qed
qed

lemma json_string_uniq: "json_string k @ r = json_string k' @ s \<Longrightarrow> k = k' \<and> r = s"
proof -
  assume "json_string k @ r = json_string k' @ s"
  then have "json_body k @ CHR 0x22 # r = json_body k' @ CHR 0x22 # s" by (simp add: json_string_def)
  with unbody_body [of k r] have "unbody (json_body k' @ CHR 0x22 # s) = Some (k, r)" by argo
  with unbody_body [of k' s] show ?thesis by simp
qed

section \<open>Printed values determine what was printed\<close>

text \<open>The rest of a text cannot continue a number.\<close>

definition no_digit :: "string \<Rightarrow> bool" where
  "no_digit r \<longleftrightarrow> r = [] \<or> \<not> is_digit (hd r)"

lemma no_digit_simps [simp]: "no_digit []" "no_digit (c # r) \<longleftrightarrow> \<not> is_digit c"
  by (simp_all add: no_digit_def)

lemma not_digits [simp]:
  "\<not> is_digit CHR '',''" "\<not> is_digit CHR '']''" "\<not> is_digit CHR ''}''" "\<not> is_digit CHR ''{''" "\<not> is_digit CHR '':''"
  by (simp_all add: is_digit_def)

locale json_code =
  fixes enc :: "'a \<Rightarrow> string"
  assumes starts: "enc x \<noteq> [] \<and> hd (enc x) \<notin> {CHR '']'', CHR ''}'', CHR '',''}"
    and uniq: "enc x @ r = enc y @ s \<Longrightarrow> no_digit r \<Longrightarrow> no_digit s \<Longrightarrow> x = y \<and> r = s"
begin

lemma enc_Cons: "\<exists>c t. enc x = c # t \<and> c \<notin> {CHR '']'', CHR ''}'', CHR '',''}"
  using starts [of x] by (cases "enc x") auto

lemma enc_eq: "enc x = enc y \<longleftrightarrow> x = y"
  using uniq [of x "[]" y "[]"] by auto

text \<open>Two sequences between the same brackets.\<close>

lemma elements_uniq:
  assumes "c \<in> {CHR '']'', CHR ''}''}"
    and "join '','' (map enc xs) @ c # r = join '','' (map enc ys) @ c # s"
  shows "xs = ys \<and> r = s"
  using assms(2)
proof (induction xs arbitrary: ys)
  case Nil
  show ?case
  proof (cases ys)
    case (Cons y ys')
    obtain d t where "enc y = d # t" "d \<notin> {CHR '']'', CHR ''}'', CHR '',''}" using enc_Cons by blast
    with Nil Cons assms(1) show ?thesis by (cases ys') auto
  qed (use Nil in simp)
next
  case (Cons x xs)
  obtain d t where x: "enc x = d # t" "d \<notin> {CHR '']'', CHR ''}'', CHR '',''}" using enc_Cons by blast
  show ?case
  proof (cases ys)
    case Nil
    with Cons.prems x assms(1) show ?thesis by (cases xs) auto
  next
    case ys: (Cons y ys')
    define after where "after zs u = (if zs = [] then c # u else '','' @ join '','' (map enc zs) @ c # u)" for zs :: "'a list" and u
    have split: "join '','' (map enc (z # zs)) @ c # u = enc z @ after zs u" for z zs u
      by (cases zs) (simp_all add: after_def)
    have nd: "no_digit (after zs u)" for zs u using assms(1) by (auto simp: after_def)
    from Cons.prems have "enc x @ after xs r = enc y @ after ys' s"
      by (simp only: ys split)
    then have "x = y" and rest: "after xs r = after ys' s" using uniq nd by blast+
    moreover have "xs = ys' \<and> r = s"
    proof (cases "xs = [] \<or> ys' = []")
      case True
      with rest assms(1) show ?thesis by (auto simp: after_def split: if_splits)
    next
      case False
      with rest have "join '','' (map enc xs) @ c # r = join '','' (map enc ys') @ c # s"
        by (simp add: after_def)
      then show ?thesis by (rule Cons.IH)
    qed
    ultimately show ?thesis using ys by simp
  qed
qed

lemma list_code: "json_code (json_list enc)"
proof
  fix xs ys r s
  assume "json_list enc xs @ r = json_list enc ys @ s"
  then show "xs = ys \<and> r = s" using elements_uniq [of "CHR '']''" xs r ys s] by (simp add: json_list_def)
qed (simp add: json_list_def)

lemma nil_code: "(\<And>x. hd (enc x) \<noteq> CHR ''n'') \<Longrightarrow> json_code (json_nil enc)"
proof
  assume n: "\<And>x. hd (enc x) \<noteq> CHR ''n''"
  have null: "''null'' @ r \<noteq> enc x @ s" for r s x
    using n [of x] enc_Cons [of x] by auto
  have null': "enc x @ s \<noteq> ''null'' @ r" for r s x
    using null [of r x s] by metis
  fix v w r s
  show "json_nil enc v \<noteq> [] \<and> hd (json_nil enc v) \<notin> {CHR '']'', CHR ''}'', CHR '',''}"
    using starts by (auto simp: json_nil_def split: option.split)
  assume e: "json_nil enc v @ r = json_nil enc w @ s" and "no_digit r" "no_digit s"
  then show "v = w \<and> r = s"
    using null [of r _ s] null' [of _ r s] uniq [of _ r _ s]
    by (cases v; cases w) (auto simp: json_nil_def)
qed

lemma entry_code: "json_code (json_entry enc)"
proof
  fix kv kv' r s
  assume "json_entry enc kv @ r = json_entry enc kv' @ s" and nd: "no_digit r" "no_digit s"
  then have "json_string (fst kv) @ '':'' @ enc (snd kv) @ r = json_string (fst kv') @ '':'' @ enc (snd kv') @ s"
    by (simp add: json_entry_def)
  from json_string_uniq [OF this] have "fst kv = fst kv'" "enc (snd kv) @ r = enc (snd kv') @ s" by simp_all
  with uniq nd show "kv = kv' \<and> r = s" by (metis prod.expand)
qed (simp add: json_entry_def json_string_def)

lemma entries_code: "json_code (json_entries enc)"
proof
  fix es es' r s
  assume "json_entries enc es @ r = json_entries enc es' @ s"
  then show "es = es' \<and> r = s"
    using json_code.elements_uniq [OF entry_code, of "CHR ''}''" es r es' s] by (simp add: json_entries_def)
qed (simp add: json_entries_def)

text \<open>A value inside a text.\<close>

lemma field_uniq: "enc x @ c # r = enc y @ c # s \<Longrightarrow> \<not> is_digit c \<Longrightarrow> x = y \<and> r = s"
  using uniq [of x "c # r" y "c # s"] by simp

end

interpretation js: json_code json_string
proof
  show "json_string s \<noteq> [] \<and> hd (json_string s) \<notin> {CHR '']'', CHR ''}'', CHR '',''}" for s
    by (simp add: json_string_def)
qed (rule json_string_uniq)

interpretation jb: json_code json_bool
  by unfold_locales (auto simp: json_bool_def split: if_splits)

lemma digits_uniq:
  assumes "list_all is_digit xs" and "list_all is_digit ys" and "no_digit r" and "no_digit s"
    and "xs @ r = ys @ s"
  shows "xs = ys \<and> r = s"
proof -
  have "takeWhile is_digit (zs @ u) = zs" if "list_all is_digit zs" "no_digit u" for zs u
    using that by (induction zs) (cases u; auto simp: list_all_iff)+
  with assms have "xs = ys" by metis
  with assms(5) show ?thesis by simp
qed

lemma decimal_inj [simp]: "decimal m = decimal n \<longleftrightarrow> m = n"
  by (metis digits_value_decimal of_nat_eq_iff)

lemma decimal_not_minus: "decimal n @ r \<noteq> CHR ''-'' # s"
  using decimal_digits [of n] decimal_nonempty [of n]
  by (cases "decimal n") (auto simp: is_digit_def)

interpretation ji: json_code json_int
proof
  fix i j r s
  show "json_int i \<noteq> [] \<and> hd (json_int i) \<notin> {CHR '']'', CHR ''}'', CHR '',''}"
    using decimal_digits [of "nat i"] decimal_nonempty [of "nat i"]
    by (cases "decimal (nat i)") (auto simp: json_int_def is_digit_def)
  assume "json_int i @ r = json_int j @ s" and nd: "no_digit r" "no_digit s"
  then show "i = j \<and> r = s"
  proof (cases "i < 0"; cases "j < 0")
    assume e: "json_int i @ r = json_int j @ s" and "i < 0" "j < 0"
    then have "decimal (nat (- i)) @ r = decimal (nat (- j)) @ s" by (simp add: json_int_def)
    from digits_uniq [OF decimal_digits decimal_digits nd this] \<open>i < 0\<close> \<open>j < 0\<close>
    show ?thesis by (simp add: eq_nat_nat_iff)
  next
    assume e: "json_int i @ r = json_int j @ s" and "\<not> i < 0" "\<not> j < 0"
    then have "decimal (nat i) @ r = decimal (nat j) @ s" by (simp add: json_int_def)
    from digits_uniq [OF decimal_digits decimal_digits nd this] \<open>\<not> i < 0\<close> \<open>\<not> j < 0\<close>
    show ?thesis by (simp add: eq_nat_nat_iff)
  next
    assume e: "json_int i @ r = json_int j @ s" and "i < 0" "\<not> j < 0"
    then show ?thesis using decimal_not_minus [of "nat j" s] by (metis append_Cons json_int_def)
  next
    assume e: "json_int i @ r = json_int j @ s" and "\<not> i < 0" "j < 0"
    then show ?thesis using decimal_not_minus [of "nat i" r] by (metis append_Cons json_int_def)
  qed
qed

lemma sorted_entries_map_of:
  assumes "wf_map m" and "wf_map m'" and "sorted_entries m = sorted_entries m'"
  shows "map_of m = map_of m'"
proof -
  have "map_of (sorted_entries x) = map_of x" if "wf_map x" for x :: "(string, 'a) gomap"
  proof -
    have "mset (map fst (sorted_entries x)) = mset (map fst x)" by (simp add: sorted_entries_def)
    then have "distinct (map fst (sorted_entries x))"
      using that mset_eq_imp_distinct_iff unfolding wf_map_def by blast
    with that show ?thesis by (simp add: map_of_inject_set wf_map_def sorted_entries_def)
  qed
  with assms show ?thesis by metis
qed

end
