(* ===== verification/Hardware.thy ===== *)
theory Hardware
  imports Go_Prelude
begin

text \<open>
  The description of the device (\<open>internal/entity/hardware.go\<close>, \<open>enrol.go\<close>, \<open>registration.go\<close>
  and the mounts of \<open>configuration.go\<close>) and what \<open>internal/configuration/hardware.go\<close> reports of
  it. Field names carry a prefix of their struct.
\<close>

record Boot =
  boot_CurrentBootMode :: string
  boot_PxeInterface :: string

record CPU =
  cpu_Architecture :: string
  cpu_Count :: int64
  cpu_Flags :: "string list option"
  cpu_Frequency :: float64
  cpu_ModelName :: string

record IoPerf =
  SyncDuration :: int64

record Disk =
  disk_Bootable :: bool
  disk_ByID :: string
  disk_ByPath :: string
  disk_DriveType :: string
  disk_Hctl :: string
  disk_ID :: string
  disk_IoPerf :: "IoPerf option"
  disk_IsInstallationMedia :: bool
  disk_Model :: string
  disk_Name :: string
  disk_Path :: string
  disk_Serial :: string
  disk_SizeBytes :: int64
  disk_Smart :: string
  disk_Vendor :: string
  disk_Wwn :: string

record Gpu =
  gpu_Address :: string
  gpu_DeviceID :: string
  gpu_Name :: string
  gpu_Vendor :: string
  gpu_VendorID :: string

record HostDevice =
  hd_DeviceType :: string
  hd_Gid :: int64
  hd_Major :: int64
  hd_Minor :: int64
  hd_Path :: string
  hd_UID :: int64

record Interface =
  ifc_Biosdevname :: string
  ifc_ClientID :: string
  ifc_Flags :: "string list option"
  ifc_HasCarrier :: bool
  ifc_IPV4Addresses :: "string list option"
  ifc_IPV6Addresses :: "string list option"
  ifc_MacAddress :: string
  ifc_Mtu :: int64
  ifc_Name :: string
  ifc_Product :: string
  ifc_SpeedMbps :: int64
  ifc_Vendor :: string

record Memory =
  PhysicalBytes :: int64
  UsableBytes :: int64

record Mount =
  mount_Device :: string
  mount_Directory :: string
  mount_Options :: string
  mount_Type :: string

record SystemVendor =
  sv_Manufacturer :: string
  sv_ProductName :: string
  sv_SerialNumber :: string
  sv_Virtual :: bool

record HardwareInfo =
  hw_Boot :: Boot
  hw_CPU :: CPU
  hw_Disks :: "Disk list option"
  hw_Gpus :: "Gpu list option"
  hw_HostDevices :: "HostDevice list option"
  hw_Hostname :: string
  hw_Interfaces :: "Interface list option"
  hw_Memory :: Memory
  hw_Mounts :: "Mount list option"
  hw_SystemVendor :: SystemVendor

record EnrolmentInfoFeatures =
  ef_Hardware :: HardwareInfo
  ef_ModelName :: string

record EnrolementInfo =
  ei_Features :: EnrolmentInfoFeatures
  ei_TargetNamespace :: string

record RegistrationInfo =
  ri_CertificateRequest :: string
  ri_Hardware :: HardwareInfo

record RegistrationResponse =
  SignedCSR :: string

text \<open>\<open>GetHardwareInformation\<close> returns the zero value: the code that reads the device is commented out.\<close>

definition GetHardwareInformation :: HardwareInfo where
  "GetHardwareInformation =
     \<lparr>hw_Boot = \<lparr>boot_CurrentBootMode = [], boot_PxeInterface = []\<rparr>,
      hw_CPU = \<lparr>cpu_Architecture = [], cpu_Count = 0, cpu_Flags = None, cpu_Frequency = 0, cpu_ModelName = []\<rparr>,
      hw_Disks = None, hw_Gpus = None, hw_HostDevices = None, hw_Hostname = [], hw_Interfaces = None,
      hw_Memory = \<lparr>PhysicalBytes = 0, UsableBytes = 0\<rparr>, hw_Mounts = None,
      hw_SystemVendor = \<lparr>sv_Manufacturer = [], sv_ProductName = [], sv_SerialNumber = [], sv_Virtual = False\<rparr>\<rparr>"

end
