(* ===== verification/Configuration.thy ===== *)
theory Configuration
  imports Json Hardware Profile Job
begin

text \<open>
  The configuration of the device (\<open>internal/entity/configuration.go\<close>,
  \<open>heartbeat_configuration.go\<close>, \<open>heartbeat.go\<close>): its data, the text a configuration is
  printed and hashed as, and what that text determines. The configuration manager that compares
  the hashes is in \<open>Conf_Manager\<close>.
\<close>

section \<open>Data\<close>

datatype Scope = FullScope | DeltaScope

fun Scope_String :: "Scope \<Rightarrow> string" where
  "Scope_String FullScope = ''full_scope''"
| "Scope_String DeltaScope = ''delta''"

record HardwareProfileConfiguration =
  hp_Include :: bool
  hp_Scope :: Scope

record HeartbeatConfiguration =
  HardwareProfile :: HardwareProfileConfiguration
  Period :: duration

record OsInformation =
  AutomaticallyUpgrade :: bool
  CommitID :: string
  HostedObjectsURL :: string

record DeviceConfiguration =
  dc_Heartbeat :: HeartbeatConfiguration
  dc_Mounts :: "Mount list option"
  dc_OsInformation :: OsInformation
  dc_Profiles :: "(string, (string, string) gomap) gomap option"

record DeviceConfigurationMessage =
  msg_Configuration :: DeviceConfiguration
  msg_DeviceID :: string
  msg_Version :: string
  msg_Workloads :: "PodWorkload list option"
  msg_Interval :: duration

datatype Status = Deploying | Running | Crashed | Stopped

fun Status_String :: "Status \<Rightarrow> string" where
  "Status_String Deploying = ''deploying''"
| "Status_String Running = ''running''"
| "Status_String Crashed = ''crashed''"
| "Status_String Stopped = ''stopped''"

datatype HearbeatStatus = Up | Degraded

fun HearbeatStatus_String :: "HearbeatStatus \<Rightarrow> string" where
  "HearbeatStatus_String Up = ''up''"
| "HearbeatStatus_String Degraded = ''degraded''"

datatype EventType = Info | Warn

fun EventType_String :: "EventType \<Rightarrow> string" where
  "EventType_String Info = ''info''"
| "EventType_String Warn = ''warn''"

record EventInfo =
  ev_Message :: string
  ev_Reason :: string
  ev_Type :: EventType

record UpgradeStatus =
  CurrentCommitID :: string
  LastUpgradeStatus :: string
  LastUpgradeTime :: string

text \<open>The zero \<open>time.Time\<close> is time 0 here.\<close>

record WorkloadStatus =
  LastDataUpload :: time
  ws_Name :: string
  ws_Status :: Status

record Heartbeat =
  hb_Events :: "EventInfo list option"
  hb_Hardware :: "HardwareInfo option"
  hb_Status :: HearbeatStatus
  hb_Upgrade :: "UpgradeStatus option"
  hb_Version :: string
  hb_Workloads :: "WorkloadStatus list option"

section \<open>Printing\<close>

text \<open>\<open>time.Duration.String\<close>: the fraction without trailing zeros, and the largest units that fit.\<close>

fun pad_digits :: "nat \<Rightarrow> nat \<Rightarrow> string" where
  "pad_digits 0 u = []"
| "pad_digits (Suc p) u = pad_digits p (u div 10) @ [char_of (48 + u mod 10)]"

definition fmtFrac :: "nat \<Rightarrow> nat \<Rightarrow> string" where
  "fmtFrac u prec =
     (let ds = rev (dropWhile (\<lambda>c. c = CHR ''0'') (rev (pad_digits prec u)))
      in if ds = [] then [] else ''.'' @ ds)"

definition fmt_units :: "nat \<Rightarrow> string" where
  "fmt_units u =
     (if u = 0 then ''0s''
      else if u < 1000 then decimal u @ ''ns''
      else if u < 1000000 then decimal (u div 1000) @ fmtFrac u 3 @ [CHR 0xC2, CHR 0xB5, CHR ''s'']
      else if u < 1000000000 then decimal (u div 1000000) @ fmtFrac u 6 @ ''ms''
      else
        (let s = u div 1000000000; m = s div 60; h = m div 60
         in (if 0 < h then decimal h @ ''h'' else []) @
            (if 0 < m then decimal (m mod 60) @ ''m'' else []) @
            decimal (s mod 60) @ fmtFrac u 9 @ ''s''))"

definition duration_String :: "duration \<Rightarrow> string" where
  "duration_String d = (if d < 0 then CHR ''-'' # fmt_units (nat (- d)) else fmt_units (nat d))"

fun Scope_int :: "Scope \<Rightarrow> int" where
  "Scope_int FullScope = 0"
| "Scope_int DeltaScope = 1"

definition json_HardwareProfile :: "HardwareProfileConfiguration \<Rightarrow> string" where
  "json_HardwareProfile h =
     json_struct [(''Include'', json_bool (hp_Include h)), (''Scope'', json_int (Scope_int (hp_Scope h)))]"

definition json_Heartbeat :: "HeartbeatConfiguration \<Rightarrow> string" where
  "json_Heartbeat h =
     json_struct [(''HardwareProfile'', json_HardwareProfile (HardwareProfile h)), (''Period'', json_int (Period h))]"

definition json_Mount :: "Mount \<Rightarrow> string" where
  "json_Mount m =
     json_struct [(''Device'', json_string (mount_Device m)), (''Directory'', json_string (mount_Directory m)),
       (''Options'', json_string (mount_Options m)), (''Type'', json_string (mount_Type m))]"

definition json_Os :: "OsInformation \<Rightarrow> string" where
  "json_Os i =
     json_struct [(''AutomaticallyUpgrade'', json_bool (AutomaticallyUpgrade i)),
       (''CommitID'', json_string (CommitID i)), (''HostedObjectsURL'', json_string (HostedObjectsURL i))]"

definition DeviceConfiguration_String :: "DeviceConfiguration \<Rightarrow> string" where
  "DeviceConfiguration_String d =
     json_struct [(''Heartbeat'', json_Heartbeat (dc_Heartbeat d)),
       (''Mounts'', json_nil (json_list json_Mount) (dc_Mounts d)),
       (''OsInformation'', json_Os (dc_OsInformation d)),
       (''Profiles'', json_nil (json_map (json_map json_string)) (dc_Profiles d))]"

definition json_Condition :: "WorkloadCondition \<Rightarrow> string" where
  "json_Condition c =
     json_struct [(''Name'', json_string (wc_Name c)), (''CPU'', json_nil json_int (map_option (sint \<circ> snd) (wc_CPU c)))]"

definition json_Profile :: "WorkloadProfile \<Rightarrow> string" where
  "json_Profile p =
     json_struct [(''Name'', json_string (wp_Name p)), (''Conditions'', json_list json_Condition (wp_Conditions p))]"

definition PodWorkload_String :: "PodWorkload \<Rightarrow> string" where
  "PodWorkload_String p =
     json_struct [(''Name'', json_string (Name p)), (''WKind'', json_string (WKind p)),
       (''Namespace'', json_string (Namespace p)), (''CronSpec'', json_string (CronSpec p)),
       (''Rootless'', json_bool (Rootless p)), (''Annotations'', json_nil (json_map json_string) (Annotations p)),
       (''Secrets'', json_nil (json_map json_string) (Secrets p)),
       (''Configmaps'', json_nil (json_list json_string) (Configmaps p)),
       (''ImageRegistryAuth'', json_string (ImageRegistryAuth p)),
       (''Labels'', json_nil (json_map json_string) (Labels p)),
       (''WorkloadProfiles'', json_nil (json_list json_Profile) (WorkloadProfiles p)),
       (''Specification'', json_string (Specification p))]"

text \<open>\<open>AnsibleWorkload\<close> has a kind, a text and a hash, but no ID: it is not a \<open>Workload\<close> of the scheduler.\<close>

record AnsibleWorkload =
  Playbook :: string

definition Ansible_Kind :: "AnsibleWorkload \<Rightarrow> WorkloadKind" where
  "Ansible_Kind a = AnsibleKind"

definition Ansible_String :: "AnsibleWorkload \<Rightarrow> string" where
  "Ansible_String a = json_struct [(''Playbook'', json_string (Playbook a))]"

definition Ansible_Hash :: "(string \<Rightarrow> string) \<Rightarrow> AnsibleWorkload \<Rightarrow> string" where
  "Ansible_Hash sha a = sha (Playbook a)"

definition DeviceConfigurationMessage_String :: "DeviceConfigurationMessage \<Rightarrow> string" where
  "DeviceConfigurationMessage_String m =
     json_struct [(''Configuration'', DeviceConfiguration_String (msg_Configuration m)),
       (''DeviceID'', json_string (msg_DeviceID m)), (''Version'', json_string (msg_Version m)),
       (''Workloads'', json_nil (json_list PodWorkload_String) (msg_Workloads m)),
       (''WorkloadsMonitoringInterval'', json_int (msg_Interval m))]"

definition Job_String :: "env \<Rightarrow> Job \<Rightarrow> string" where
  "Job_String E j =
     json_struct [(''id'', json_string (job_ID E j)), (''workload'', json_string (PodWorkload_String (workload j))),
       (''current_state'', json_string (JobState_String (currentState j))),
       (''target_state'', json_string (JobState_String (targetState j)))]"

section \<open>Hashes\<close>

text \<open>
  \<open>Hash\<close> sorts the workloads of the message by their ID. The slice of its receiver is the slice of
  the caller, which is sorted afterwards as well.
\<close>

definition sort_workloads :: "env \<Rightarrow> DeviceConfigurationMessage \<Rightarrow> DeviceConfigurationMessage" where
  "sort_workloads E m =
     m\<lparr>msg_Workloads := map_option (sort_key (ID (mapOrder E) (digest E))) (msg_Workloads m)\<rparr>"

definition message_text :: "env \<Rightarrow> DeviceConfigurationMessage \<Rightarrow> string" where
  "message_text E m =
     msg_DeviceID m @ msg_Version m @ duration_String (msg_Interval m) @
     DeviceConfiguration_String (msg_Configuration m) @
     concat (map PodWorkload_String (elems (msg_Workloads (sort_workloads E m))))"

definition message_Hash :: "env \<Rightarrow> DeviceConfigurationMessage \<Rightarrow> string" where
  "message_Hash E m = digest E (message_text E m)"

text \<open>The directive \<open>%+v\<close> for a struct of the operating system and for a map of maps, keys in order.\<close>

definition fmt_Os :: "OsInformation \<Rightarrow> string" where
  "fmt_Os i = ''{AutomaticallyUpgrade:'' @ fmt_bool (AutomaticallyUpgrade i) @ '' CommitID:'' @ CommitID i @
     '' HostedObjectsURL:'' @ HostedObjectsURL i @ ''}''"

definition fmt_v_map :: "('v \<Rightarrow> string) \<Rightarrow> (string, 'v) gomap \<Rightarrow> string" where
  "fmt_v_map f m = ''map['' @ join '' '' (map (\<lambda>(k, v). k @ '':'' @ f v) (sorted_entries m)) @ '']''"

definition DeviceConfiguration_Hash :: "env \<Rightarrow> DeviceConfiguration \<Rightarrow> string" where
  "DeviceConfiguration_Hash E d =
     digest E (json_Heartbeat (dc_Heartbeat d) @ fmt_Os (dc_OsInformation d) @
       concat (map (\<lambda>m. mount_Device m @ mount_Directory m @ mount_Options m @ mount_Type m) (elems (dc_Mounts d))) @
       fmt_v_map (fmt_v_map (\<lambda>s. s)) (elems (dc_Profiles d)))"

section \<open>The text that is hashed determines the configuration\<close>

text \<open>
  A map is printed by its entries in the order of their keys; its normal form has them in that
  order. The address of a CPU limit is not printed.
\<close>

definition norm_Condition :: "WorkloadCondition \<Rightarrow> string \<times> int64 option" where
  "norm_Condition c = (wc_Name c, map_option snd (wc_CPU c))"

definition norm_Profile :: "WorkloadProfile \<Rightarrow> string \<times> (string \<times> int64 option) list" where
  "norm_Profile p = (wp_Name p, map norm_Condition (wp_Conditions p))"

definition norm_profiles :: "(string, (string, string) gomap) gomap \<Rightarrow> (string, (string, string) gomap) gomap" where
  "norm_profiles ps = map (\<lambda>(n, cs). (n, sorted_entries cs)) (sorted_entries ps)"

definition norm_configuration :: "DeviceConfiguration \<Rightarrow> DeviceConfiguration" where
  "norm_configuration d = d\<lparr>dc_Profiles := map_option norm_profiles (dc_Profiles d)\<rparr>"

lemma json_map_map:
  "json_map (json_map enc) m = json_entries (json_entries enc) (map (\<lambda>(n, cs). (n, sorted_entries cs)) (sorted_entries m))"
proof -
  have "json_entry (json_map enc) = json_entry (json_entries enc) \<circ> (\<lambda>e. (fst e, sorted_entries (snd e)))"
    by (rule ext) (simp add: json_entry_def json_map_def)
  then show ?thesis
    by (simp add: json_map_def [of "json_map enc"] json_entries_def [of "json_map enc"]
        json_entries_def [of "json_entries enc"] case_prod_unfold)
qed

lemmas struct_simps = json_struct_def json_field_def

lemma json_HardwareProfile_uniq:
  "json_HardwareProfile h @ r = json_HardwareProfile h' @ s \<Longrightarrow> h = h' \<and> r = s"
  by (cases h; cases h'; cases "hp_Scope h"; cases "hp_Scope h'")
    (auto simp: json_HardwareProfile_def struct_simps dest!: jb.field_uniq ji.field_uniq)

lemma json_Heartbeat_uniq: "json_Heartbeat h @ r = json_Heartbeat h' @ s \<Longrightarrow> h = h' \<and> r = s"
  by (cases h; cases h') (auto simp: json_Heartbeat_def struct_simps dest!: json_HardwareProfile_uniq ji.field_uniq)

lemma json_Os_uniq: "json_Os h @ r = json_Os h' @ s \<Longrightarrow> h = h' \<and> r = s"
  by (cases h; cases h') (auto simp: json_Os_def struct_simps dest!: js.field_uniq jb.field_uniq)

interpretation jmount: json_code json_Mount
  by unfold_locales (auto simp: json_Mount_def struct_simps dest!: js.field_uniq intro!: Mount.equality)

interpretation jansible: json_code Ansible_String
  by unfold_locales (auto simp: Ansible_String_def struct_simps dest!: js.field_uniq intro!: AnsibleWorkload.equality)

interpretation jmounts: json_code "json_nil (json_list json_Mount)"
  by (rule json_code.nil_code [OF jmount.list_code]) (simp add: json_list_def)

interpretation jentries: json_code "json_entries json_string"
  by (rule js.entries_code)

interpretation jprofiles: json_code "json_nil (json_entries (json_entries json_string))"
  by (rule json_code.nil_code [OF jentries.entries_code]) (simp add: json_entries_def)

lemma json_nil_map_map:
  "json_nil (json_map (json_map json_string)) ps = json_nil (json_entries (json_entries json_string)) (map_option norm_profiles ps)"
  by (cases ps) (simp_all add: json_nil_def json_map_map norm_profiles_def)

lemma DeviceConfiguration_String_uniq:
  "DeviceConfiguration_String d @ r = DeviceConfiguration_String d' @ s \<Longrightarrow>
     norm_configuration d = norm_configuration d' \<and> r = s"
  by (cases d; cases d')
    (auto simp: DeviceConfiguration_String_def struct_simps json_nil_map_map norm_configuration_def
      dest!: json_Heartbeat_uniq jmounts.field_uniq json_Os_uniq jprofiles.field_uniq)

text \<open>What a workload prints as: its maps in the order of their keys, no addresses.\<close>

definition norm_workload where
  "norm_workload p =
     ((Name p, WKind p, Namespace p, CronSpec p, Rootless p),
      (map_option sorted_entries (Annotations p), map_option sorted_entries (Secrets p),
       map_option sorted_entries (Labels p)),
      (Configmaps p, ImageRegistryAuth p, map_option (map norm_Profile) (WorkloadProfiles p), Specification p))"

lemma sint_inj [simp]: "sint (a :: int64) = sint b \<longleftrightarrow> a = b"
  by (metis of_int_sint scast_id)

definition json_norm_Condition :: "string \<times> int64 option \<Rightarrow> string" where
  "json_norm_Condition c = json_struct [(''Name'', json_string (fst c)), (''CPU'', json_nil (json_int \<circ> sint) (snd c))]"

definition json_norm_Profile :: "string \<times> (string \<times> int64 option) list \<Rightarrow> string" where
  "json_norm_Profile p = json_struct [(''Name'', json_string (fst p)), (''Conditions'', json_list json_norm_Condition (snd p))]"

lemma json_Condition_norm: "json_Condition = json_norm_Condition \<circ> norm_Condition"
proof
  show "json_Condition c = (json_norm_Condition \<circ> norm_Condition) c" for c
    by (cases "wc_CPU c") (simp_all add: json_Condition_def json_norm_Condition_def norm_Condition_def json_nil_def)
qed

lemma json_Profile_norm: "json_Profile = json_norm_Profile \<circ> norm_Profile"
  by (rule ext) (simp add: json_Profile_def json_norm_Profile_def norm_Profile_def json_list_def json_Condition_norm)

interpretation jint64: json_code "json_int \<circ> (sint :: int64 \<Rightarrow> int)"
proof
  fix x y :: int64 and r s
  assume "(json_int \<circ> sint) x @ r = (json_int \<circ> sint) y @ s" "no_digit r" "no_digit s"
  then have "sint x = sint y \<and> r = s" by (intro ji.uniq) simp_all
  then show "x = y \<and> r = s" by simp
qed (use ji.starts in simp)

interpretation jlimit: json_code "json_nil (json_int \<circ> (sint :: int64 \<Rightarrow> int))"
proof (rule jint64.nil_code)
  show "hd ((json_int \<circ> sint) x) \<noteq> CHR ''n''" for x :: int64
    using decimal_digits [of "nat (sint x)"] decimal_nonempty [of "nat (sint x)"]
    by (cases "decimal (nat (sint x))") (auto simp: json_int_def is_digit_def)
qed

interpretation jcondition: json_code json_norm_Condition
  by unfold_locales
    (auto simp: json_norm_Condition_def struct_simps prod_eq_iff dest!: js.field_uniq jlimit.field_uniq)

interpretation jconditions: json_code "json_list json_norm_Condition"
  by (rule jcondition.list_code)

interpretation jprofile: json_code json_norm_Profile
  by unfold_locales
    (auto simp: json_norm_Profile_def struct_simps prod_eq_iff dest!: js.field_uniq jconditions.field_uniq)

interpretation jprofile_list: json_code "json_nil (json_list json_norm_Profile)"
  by (rule json_code.nil_code [OF jprofile.list_code]) (simp add: json_list_def)

interpretation jmap: json_code "json_nil (json_entries json_string)"
  by (rule jentries.nil_code) (simp add: json_entries_def)

interpretation jstrings: json_code "json_nil (json_list json_string)"
  by (rule json_code.nil_code [OF js.list_code]) (simp add: json_list_def)

lemma json_nil_norms:
  "json_nil (json_map json_string) m = json_nil (json_entries json_string) (map_option sorted_entries m)"
  "json_nil (json_list json_Profile) ps = json_nil (json_list json_norm_Profile) (map_option (map norm_Profile) ps)"
  by (cases m; simp add: json_nil_def json_map_def)
    (cases ps; simp add: json_nil_def json_list_def json_Profile_norm)

lemma PodWorkload_String_uniq:
  assumes "PodWorkload_String p @ r = PodWorkload_String p' @ s"
  shows "norm_workload p = norm_workload p' \<and> r = s"
  using assms
  by (auto simp: PodWorkload_String_def struct_simps json_nil_norms norm_workload_def
      dest!: js.field_uniq jb.field_uniq jmap.field_uniq jstrings.field_uniq jprofile_list.field_uniq)

lemma workload_texts_uniq:
  "concat (map PodWorkload_String ps) = concat (map PodWorkload_String ps') \<Longrightarrow>
     map norm_workload ps = map norm_workload ps'"
proof (induction ps arbitrary: ps')
  case Nil
  then show ?case by (cases ps') (auto simp: PodWorkload_String_def struct_simps)
next
  case (Cons p ps)
  then obtain p' qs where ps': "ps' = p' # qs" by (cases ps') (auto simp: PodWorkload_String_def struct_simps)
  with Cons.prems have "PodWorkload_String p @ concat (map PodWorkload_String ps) =
      PodWorkload_String p' @ concat (map PodWorkload_String qs)" by simp
  from PodWorkload_String_uniq [OF this] Cons.IH show ?case by (simp add: ps')
qed

text \<open>A printed duration has no brace, so that the configuration starts at the first one.\<close>

lemma no_brace_digits: "list_all is_digit ds \<Longrightarrow> CHR ''{'' \<notin> set ds"
  by (auto simp: list_all_iff is_digit_def)

lemma pad_digits_digits: "list_all is_digit (pad_digits p u)"
  by (induction p u rule: pad_digits.induct) (simp_all add: is_digit_char_of)

lemma no_brace_fmtFrac: "CHR ''{'' \<notin> set (fmtFrac u p)"
proof -
  have "set (rev (dropWhile (\<lambda>c. c = CHR ''0'') (rev (pad_digits p u)))) \<subseteq> set (pad_digits p u)"
    by (metis set_dropWhileD set_rev subsetI)
  then show ?thesis
    using no_brace_digits [OF pad_digits_digits, of p u] by (auto simp: fmtFrac_def Let_def)
qed

lemma no_brace_duration: "CHR ''{'' \<notin> set (duration_String d)"
  by (auto simp: duration_String_def fmt_units_def Let_def
      dest: no_brace_digits [OF decimal_digits, THEN notE] no_brace_fmtFrac [THEN notE])

lemma split_at_brace:
  assumes "CHR ''{'' \<notin> set d" and "CHR ''{'' \<notin> set d'" and "d @ CHR ''{'' # r = d' @ CHR ''{'' # s"
  shows "d = d' \<and> r = s"
proof -
  have "takeWhile (\<lambda>c. c \<noteq> CHR ''{'') (x @ CHR ''{'' # y) = x" if "CHR ''{'' \<notin> set x" for x y
    using that by (induction x) auto
  with assms have "d = d'" by metis
  with assms(3) show ?thesis by simp
qed

lemma message_text_uniq:
  assumes "msg_DeviceID m = msg_DeviceID m'" and "msg_Version m = msg_Version m'"
    and "message_text E m = message_text E m'"
  shows "duration_String (msg_Interval m) = duration_String (msg_Interval m') \<and>
    norm_configuration (msg_Configuration m) = norm_configuration (msg_Configuration m') \<and>
    map norm_workload (elems (msg_Workloads (sort_workloads E m))) =
    map norm_workload (elems (msg_Workloads (sort_workloads E m')))"
proof -
  let ?W = "\<lambda>m. concat (map PodWorkload_String (elems (msg_Workloads (sort_workloads E m))))"
  let ?C = "\<lambda>m. DeviceConfiguration_String (msg_Configuration m)"
  have brace: "\<exists>t. ?C m = CHR ''{'' # t" for m by (simp add: DeviceConfiguration_String_def struct_simps)
  obtain t t' where t: "?C m = CHR ''{'' # t" "?C m' = CHR ''{'' # t'" using brace by metis
  have "duration_String (msg_Interval m) @ CHR ''{'' # (t @ ?W m) =
      duration_String (msg_Interval m') @ CHR ''{'' # (t' @ ?W m')"
    using assms t by (simp add: message_text_def)
  from split_at_brace [OF no_brace_duration no_brace_duration this]
  have d: "duration_String (msg_Interval m) = duration_String (msg_Interval m')"
    and e: "?C m @ ?W m = ?C m' @ ?W m'" using t by simp_all
  with DeviceConfiguration_String_uniq [OF e] workload_texts_uniq show ?thesis by blast
qed

end
