(* ===== verification/Mapper.thy ===== *)
theory Mapper
  imports Configuration
begin

text \<open>
  The translation between the entities and the messages of the operator
  (\<open>internal/client/http/mapper.go\<close>). The message types are those of the package \<open>models\<close> of
  \<open>flotta-operator\<close>, with the fields that the code reads or writes and a prefix of the struct. A
  pointer that may be nil is an option; a function that dereferences a nil pointer panics and
  returns None here.
\<close>

section \<open>Messages of the operator\<close>

record models_Boot =
  mb_CurrentBootMode :: string
  mb_PxeInterface :: string

record models_CPU =
  mc_Architecture :: string
  mc_Count :: int64
  mc_Flags :: "string list"
  mc_Frequency :: float64
  mc_ModelName :: string

record models_IoPerf =
  mio_SyncDuration :: int64

record models_Disk =
  md_Bootable :: bool
  md_ByID :: string
  md_ByPath :: string
  md_DriveType :: string
  md_Hctl :: string
  md_ID :: string
  md_IoPerf :: "models_IoPerf option"
  md_IsInstallationMedia :: bool
  md_Model :: string
  md_Name :: string
  md_Path :: string
  md_Serial :: string
  md_SizeBytes :: int64
  md_Smart :: string
  md_Vendor :: string
  md_Wwn :: string

record models_Gpu =
  mg_Address :: string
  mg_DeviceID :: string
  mg_Name :: string
  mg_Vendor :: string
  mg_VendorID :: string

record models_HostDevice =
  mh_DeviceType :: string
  mh_Gid :: int64
  mh_Major :: int64
  mh_Minor :: int64
  mh_Path :: string
  mh_UID :: int64

record models_Interface =
  mi_Biosdevname :: string
  mi_ClientID :: string
  mi_Flags :: "string list option"
  mi_HasCarrier :: bool
  mi_IPV4Addresses :: "string list option"
  mi_IPV6Addresses :: "string list option"
  mi_MacAddress :: string
  mi_Mtu :: int64
  mi_Name :: string
  mi_Product :: string
  mi_SpeedMbps :: int64
  mi_Vendor :: string

record models_Memory =
  mm_PhysicalBytes :: int64
  mm_UsableBytes :: int64

record models_Mount =
  mt_Device :: string
  mt_Directory :: string
  mt_Options :: string
  mt_Type :: string

record models_SystemVendor =
  ms_Manufacturer :: string
  ms_ProductName :: string
  ms_SerialNumber :: string
  ms_Virtual :: bool

record models_HardwareInfo =
  mhw_Boot :: "models_Boot option"
  mhw_CPU :: "models_CPU option"
  mhw_Disks :: "models_Disk list"
  mhw_Gpus :: "models_Gpu list"
  mhw_HostDevices :: "models_HostDevice list"
  mhw_Hostname :: string
  mhw_Interfaces :: "models_Interface list"
  mhw_Memory :: "models_Memory option"
  mhw_Mounts :: "models_Mount list"
  mhw_SystemVendor :: "models_SystemVendor option"

record models_EnrolmentInfo =
  mei_Hardware :: "models_HardwareInfo option"
  mei_ModelName :: string
  mei_TargetNamespace :: "string option"

record models_RegistrationInfo =
  mri_CertificateRequest :: string
  mri_Hardware :: "models_HardwareInfo option"

record models_WorkloadStatus =
  mws_LastDataUpload :: time
  mws_Name :: string
  mws_Status :: string

record models_EventInfo =
  mev_Message :: string
  mev_Reason :: string
  mev_Type :: string

record models_UpgradeStatus =
  mus_CurrentCommitID :: string
  mus_LastUpgradeStatus :: string
  mus_LastUpgradeTime :: string

record models_Heartbeat =
  mhb_Events :: "models_EventInfo list"
  mhb_Hardware :: "models_HardwareInfo option"
  mhb_Status :: string
  mhb_Upgrade :: "models_UpgradeStatus option"
  mhb_Version :: string
  mhb_Workloads :: "models_WorkloadStatus list"

text \<open>The configuration the operator sends. A resource carries its address.\<close>

record models_WorkloadCondition =
  mwc_CPU :: "(nat \<times> int64) option"
  mwc_Name :: string

record models_WorkloadProfile =
  mwp_Conditions :: "models_WorkloadCondition option list"
  mwp_Name :: string

record models_Workload =
  mw_Annotations :: "(string, string) gomap option"
  mw_Configmaps :: "string list option"
  mw_Cron :: string
  mw_ImageRegistries :: "string option"
  mw_Kind :: string
  mw_Labels :: "(string, string) gomap option"
  mw_Name :: string
  mw_Namespace :: string
  mw_Profiles :: "models_WorkloadProfile option list"
  mw_Rootless :: bool
  mw_Specification :: string

record models_Condition =
  mcd_Expression :: string
  mcd_Name :: string

record models_Profile =
  mp_Conditions :: "models_Condition option list"
  mp_Name :: string

record models_HardwareProfile =
  mhp_Include :: bool
  mhp_Scope :: string

record models_HeartbeatConfiguration =
  mhc_HardwareProfile :: "models_HardwareProfile option"
  mhc_PeriodSeconds :: int64

record models_DeviceConfiguration =
  mdc_Heartbeat :: "models_HeartbeatConfiguration option"
  mdc_Profiles :: "models_Profile option list"

record models_Configuration =
  mcf_Configuration :: "models_DeviceConfiguration option"
  mcf_DeviceID :: string
  mcf_Version :: string
  mcf_Workloads :: "models_Workload option list"
  mcf_Interval :: int64

section \<open>Hardware\<close>

definition disk_model :: "Disk \<Rightarrow> models_Disk option" where
  "disk_model d =
     (case disk_IoPerf d of
        None \<Rightarrow> None
      | Some p \<Rightarrow> Some
          \<lparr>md_Bootable = disk_Bootable d, md_ByID = disk_ByID d, md_ByPath = disk_ByPath d,
           md_DriveType = disk_DriveType d, md_Hctl = disk_Hctl d, md_ID = disk_ID d,
           md_IoPerf = Some \<lparr>mio_SyncDuration = SyncDuration p\<rparr>,
           md_IsInstallationMedia = disk_IsInstallationMedia d, md_Model = disk_Model d,
           md_Name = disk_Name d, md_Path = disk_Path d, md_Serial = disk_Serial d,
           md_SizeBytes = disk_SizeBytes d, md_Smart = disk_Smart d, md_Vendor = disk_Vendor d,
           md_Wwn = disk_Wwn d\<rparr>)"

definition gpu_model :: "Gpu \<Rightarrow> models_Gpu" where
  "gpu_model g = \<lparr>mg_Address = gpu_Address g, mg_DeviceID = gpu_DeviceID g, mg_Name = gpu_Name g,
     mg_Vendor = gpu_Vendor g, mg_VendorID = gpu_VendorID g\<rparr>"

definition hostDevice_model :: "HostDevice \<Rightarrow> models_HostDevice" where
  "hostDevice_model h = \<lparr>mh_DeviceType = hd_DeviceType h, mh_Gid = hd_Gid h, mh_Major = hd_Major h,
     mh_Minor = hd_Minor h, mh_Path = hd_Path h, mh_UID = hd_UID h\<rparr>"

definition interface_model :: "Interface \<Rightarrow> models_Interface" where
  "interface_model i = \<lparr>mi_Biosdevname = ifc_Biosdevname i, mi_ClientID = ifc_ClientID i,
     mi_Flags = ifc_Flags i, mi_HasCarrier = ifc_HasCarrier i, mi_IPV4Addresses = ifc_IPV4Addresses i,
     mi_IPV6Addresses = ifc_IPV6Addresses i, mi_MacAddress = ifc_MacAddress i, mi_Mtu = ifc_Mtu i,
     mi_Name = ifc_Name i, mi_Product = ifc_Product i, mi_SpeedMbps = ifc_SpeedMbps i, mi_Vendor = ifc_Vendor i\<rparr>"

definition mount_model :: "Mount \<Rightarrow> models_Mount" where
  "mount_model m = \<lparr>mt_Device = mount_Device m, mt_Directory = mount_Directory m,
     mt_Options = mount_Options m, mt_Type = mount_Type m\<rparr>"

text \<open>A loop that stops at the first element on which its body panics.\<close>

fun map_panic :: "('a \<Rightarrow> 'b option) \<Rightarrow> 'a list \<Rightarrow> 'b list option" where
  "map_panic f [] = Some []"
| "map_panic f (x # xs) =
     (case f x of None \<Rightarrow> None | Some y \<Rightarrow> (case map_panic f xs of None \<Rightarrow> None | Some ys \<Rightarrow> Some (y # ys)))"

definition hardwareEntity2Model :: "HardwareInfo \<Rightarrow> models_HardwareInfo option" where
  "hardwareEntity2Model e =
     (case map_panic disk_model (elems (hw_Disks e)) of
        None \<Rightarrow> None
      | Some disks \<Rightarrow> Some
          \<lparr>mhw_Boot = Some \<lparr>mb_CurrentBootMode = boot_CurrentBootMode (hw_Boot e),
                           mb_PxeInterface = boot_PxeInterface (hw_Boot e)\<rparr>,
           mhw_CPU = Some \<lparr>mc_Architecture = cpu_Architecture (hw_CPU e), mc_Count = cpu_Count (hw_CPU e),
                          mc_Flags = elems (cpu_Flags (hw_CPU e)), mc_Frequency = cpu_Frequency (hw_CPU e),
                          mc_ModelName = cpu_ModelName (hw_CPU e)\<rparr>,
           mhw_Disks = disks,
           mhw_Gpus = map gpu_model (elems (hw_Gpus e)),
           mhw_HostDevices = map hostDevice_model (elems (hw_HostDevices e)),
           mhw_Hostname = hw_Hostname e,
           mhw_Interfaces = map interface_model (elems (hw_Interfaces e)),
           mhw_Memory = Some \<lparr>mm_PhysicalBytes = PhysicalBytes (hw_Memory e), mm_UsableBytes = UsableBytes (hw_Memory e)\<rparr>,
           mhw_Mounts = map mount_model (elems (hw_Mounts e)),
           mhw_SystemVendor = Some \<lparr>ms_Manufacturer = sv_Manufacturer (hw_SystemVendor e),
                                   ms_ProductName = sv_ProductName (hw_SystemVendor e),
                                   ms_SerialNumber = sv_SerialNumber (hw_SystemVendor e),
                                   ms_Virtual = sv_Virtual (hw_SystemVendor e)\<rparr>\<rparr>)"

definition enrolInfoEntity2Model :: "EnrolementInfo \<Rightarrow> models_EnrolmentInfo option" where
  "enrolInfoEntity2Model e =
     map_option (\<lambda>h. \<lparr>mei_Hardware = Some h, mei_ModelName = [], mei_TargetNamespace = Some (ei_TargetNamespace e)\<rparr>)
       (hardwareEntity2Model (ef_Hardware (ei_Features e)))"

definition registerInfoEntity2Model :: "RegistrationInfo \<Rightarrow> models_RegistrationInfo option" where
  "registerInfoEntity2Model e =
     map_option (\<lambda>h. \<lparr>mri_CertificateRequest = ri_CertificateRequest e, mri_Hardware = Some h\<rparr>)
       (hardwareEntity2Model (ri_Hardware e))"

definition heartbeatEntity2Model :: "Heartbeat \<Rightarrow> models_Heartbeat option" where
  "heartbeatEntity2Model e =
     (case hb_Hardware e of
        None \<Rightarrow> None
      | Some hw \<Rightarrow> map_option (\<lambda>h.
          \<lparr>mhb_Events = map (\<lambda>ev. \<lparr>mev_Message = ev_Message ev, mev_Reason = ev_Reason ev,
                                  mev_Type = EventType_String (ev_Type ev)\<rparr>) (elems (hb_Events e)),
           mhb_Hardware = Some h,
           mhb_Status = HearbeatStatus_String (hb_Status e),
           mhb_Upgrade = Some \<lparr>mus_CurrentCommitID = [], mus_LastUpgradeStatus = [], mus_LastUpgradeTime = []\<rparr>,
           mhb_Version = hb_Version e,
           mhb_Workloads = map (\<lambda>w. \<lparr>mws_LastDataUpload = LastDataUpload w, mws_Name = ws_Name w,
                                     mws_Status = Status_String (ws_Status w)\<rparr>) (elems (hb_Workloads e))\<rparr>)
          (hardwareEntity2Model hw))"

section \<open>Configurations\<close>

text \<open>\<open>time.Duration(int(x) * int(time.Second))\<close>: the product wraps around at 64 bits.\<close>

definition seconds :: "int64 \<Rightarrow> duration" where
  "seconds x = sint (x * word_of_int second)"

fun add_conditions :: "models_Condition option list \<Rightarrow> (string, string) gomap \<Rightarrow> (string, string) gomap option" where
  "add_conditions [] m = Some m"
| "add_conditions (None # cs) m = None"
| "add_conditions (Some c # cs) m = add_conditions cs (AList.update (mcd_Name c) (mcd_Expression c) m)"

fun add_profiles :: "models_Profile option list \<Rightarrow> (string, (string, string) gomap) gomap \<Rightarrow>
    (string, (string, string) gomap) gomap option" where
  "add_profiles [] m = Some m"
| "add_profiles (None # ps) m = None"
| "add_profiles (Some p # ps) m =
     (case add_conditions (mp_Conditions p) [] of
        None \<Rightarrow> None
      | Some cs \<Rightarrow> add_profiles ps (AList.update (mp_Name p) cs m))"

definition workload_condition :: "models_WorkloadCondition option \<Rightarrow> WorkloadCondition option" where
  "workload_condition c = map_option (\<lambda>c. \<lparr>wc_Name = mwc_Name c, wc_CPU = mwc_CPU c\<rparr>) c"

definition workload_profile :: "models_WorkloadProfile option \<Rightarrow> WorkloadProfile option" where
  "workload_profile p =
     (case p of
        None \<Rightarrow> None
      | Some p \<Rightarrow> map_option (\<lambda>cs. \<lparr>wp_Name = mwp_Name p, wp_Conditions = cs\<rparr>)
          (map_panic workload_condition (mwp_Conditions p)))"

definition workload_entity :: "models_Workload option \<Rightarrow> PodWorkload option" where
  "workload_entity w =
     (case w of
        None \<Rightarrow> None
      | Some w \<Rightarrow> map_option (\<lambda>ps.
          \<lparr>Name = mw_Name w, WKind = (if mw_Kind w = ''k8s'' then K8SKind else PodKind),
           Namespace = mw_Namespace w, CronSpec = mw_Cron w, Rootless = mw_Rootless w,
           Annotations = mw_Annotations w, Secrets = None, Configmaps = mw_Configmaps w,
           ImageRegistryAuth = (case mw_ImageRegistries w of None \<Rightarrow> [] | Some f \<Rightarrow> f),
           Labels = mw_Labels w, WorkloadProfiles = (if mw_Profiles w = [] then None else Some ps),
           Specification = mw_Specification w\<rparr>)
          (map_panic workload_profile (mw_Profiles w)))"

definition configurationModel2Entity :: "models_Configuration \<Rightarrow> DeviceConfigurationMessage option" where
  "configurationModel2Entity m =
     Option.bind (mcf_Configuration m) (\<lambda>c.
     Option.bind (mdc_Heartbeat c) (\<lambda>h.
     Option.bind (mhc_HardwareProfile h) (\<lambda>hp.
     Option.bind (add_profiles (mdc_Profiles c) []) (\<lambda>ps.
     Option.bind (map_panic workload_entity (mcf_Workloads m)) (\<lambda>ws. Some
       \<lparr>msg_Configuration =
          \<lparr>dc_Heartbeat = \<lparr>HardwareProfile = \<lparr>hp_Include = mhp_Include hp, hp_Scope = FullScope\<rparr>,
                           Period = seconds (mhc_PeriodSeconds h)\<rparr>,
           dc_Mounts = None,
           dc_OsInformation = \<lparr>AutomaticallyUpgrade = False, CommitID = [], HostedObjectsURL = []\<rparr>,
           dc_Profiles = Some ps\<rparr>,
        msg_DeviceID = mcf_DeviceID m, msg_Version = [], msg_Workloads = Some ws,
        msg_Interval = seconds (mcf_Interval m)\<rparr>)))))"

section \<open>What the translation keeps\<close>

text \<open>
  Reading a hardware message back. A nil slice comes back empty, and the performance of a disk is
  always present.
\<close>

definition disk_of :: "models_Disk \<Rightarrow> Disk" where
  "disk_of d = \<lparr>disk_Bootable = md_Bootable d, disk_ByID = md_ByID d, disk_ByPath = md_ByPath d,
     disk_DriveType = md_DriveType d, disk_Hctl = md_Hctl d, disk_ID = md_ID d,
     disk_IoPerf = map_option (\<lambda>p. \<lparr>SyncDuration = mio_SyncDuration p\<rparr>) (md_IoPerf d),
     disk_IsInstallationMedia = md_IsInstallationMedia d, disk_Model = md_Model d, disk_Name = md_Name d,
     disk_Path = md_Path d, disk_Serial = md_Serial d, disk_SizeBytes = md_SizeBytes d,
     disk_Smart = md_Smart d, disk_Vendor = md_Vendor d, disk_Wwn = md_Wwn d\<rparr>"

definition gpu_of :: "models_Gpu \<Rightarrow> Gpu" where
  "gpu_of g = \<lparr>gpu_Address = mg_Address g, gpu_DeviceID = mg_DeviceID g, gpu_Name = mg_Name g,
     gpu_Vendor = mg_Vendor g, gpu_VendorID = mg_VendorID g\<rparr>"

definition hostDevice_of :: "models_HostDevice \<Rightarrow> HostDevice" where
  "hostDevice_of h = \<lparr>hd_DeviceType = mh_DeviceType h, hd_Gid = mh_Gid h, hd_Major = mh_Major h,
     hd_Minor = mh_Minor h, hd_Path = mh_Path h, hd_UID = mh_UID h\<rparr>"

definition interface_of :: "models_Interface \<Rightarrow> Interface" where
  "interface_of i = \<lparr>ifc_Biosdevname = mi_Biosdevname i, ifc_ClientID = mi_ClientID i,
     ifc_Flags = mi_Flags i, ifc_HasCarrier = mi_HasCarrier i, ifc_IPV4Addresses = mi_IPV4Addresses i,
     ifc_IPV6Addresses = mi_IPV6Addresses i, ifc_MacAddress = mi_MacAddress i, ifc_Mtu = mi_Mtu i,
     ifc_Name = mi_Name i, ifc_Product = mi_Product i, ifc_SpeedMbps = mi_SpeedMbps i, ifc_Vendor = mi_Vendor i\<rparr>"

definition mount_of :: "models_Mount \<Rightarrow> Mount" where
  "mount_of m = \<lparr>mount_Device = mt_Device m, mount_Directory = mt_Directory m,
     mount_Options = mt_Options m, mount_Type = mt_Type m\<rparr>"

definition hardware_of :: "models_HardwareInfo \<Rightarrow> HardwareInfo" where
  "hardware_of m =
     (let b = the (mhw_Boot m); c = the (mhw_CPU m); mem = the (mhw_Memory m); v = the (mhw_SystemVendor m)
      in \<lparr>hw_Boot = \<lparr>boot_CurrentBootMode = mb_CurrentBootMode b, boot_PxeInterface = mb_PxeInterface b\<rparr>,
          hw_CPU = \<lparr>cpu_Architecture = mc_Architecture c, cpu_Count = mc_Count c, cpu_Flags = Some (mc_Flags c),
                    cpu_Frequency = mc_Frequency c, cpu_ModelName = mc_ModelName c\<rparr>,
          hw_Disks = Some (map disk_of (mhw_Disks m)), hw_Gpus = Some (map gpu_of (mhw_Gpus m)),
          hw_HostDevices = Some (map hostDevice_of (mhw_HostDevices m)), hw_Hostname = mhw_Hostname m,
          hw_Interfaces = Some (map interface_of (mhw_Interfaces m)),
          hw_Memory = \<lparr>PhysicalBytes = mm_PhysicalBytes mem, UsableBytes = mm_UsableBytes mem\<rparr>,
          hw_Mounts = Some (map mount_of (mhw_Mounts m)),
          hw_SystemVendor = \<lparr>sv_Manufacturer = ms_Manufacturer v, sv_ProductName = ms_ProductName v,
                             sv_SerialNumber = ms_SerialNumber v, sv_Virtual = ms_Virtual v\<rparr>\<rparr>)"

definition fill_slices :: "HardwareInfo \<Rightarrow> HardwareInfo" where
  "fill_slices e = e\<lparr>hw_CPU := (hw_CPU e)\<lparr>cpu_Flags := Some (elems (cpu_Flags (hw_CPU e)))\<rparr>,
     hw_Disks := Some (elems (hw_Disks e)), hw_Gpus := Some (elems (hw_Gpus e)),
     hw_HostDevices := Some (elems (hw_HostDevices e)), hw_Interfaces := Some (elems (hw_Interfaces e)),
     hw_Mounts := Some (elems (hw_Mounts e))\<rparr>"

lemma map_panic_eq_Some: "map_panic f xs = Some ys \<longleftrightarrow> list_all2 (\<lambda>x y. f x = Some y) xs ys"
proof (induction xs arbitrary: ys)
  case (Cons x xs)
  show ?case by (auto simp: list_all2_Cons1 Cons.IH [symmetric] split: option.split)
qed auto

lemma map_panic_None: "map_panic f xs = None \<longleftrightarrow> list_ex (\<lambda>x. f x = None) xs"
  by (induction xs) (auto split: option.split)

lemma map_panic_defined: "(\<exists>ys. map_panic f xs = Some ys) \<longleftrightarrow> (\<forall>x \<in> set xs. f x \<noteq> None)"
  by (induction xs) (auto split: option.splits)

lemma of_model_inverse [simp]:
  "gpu_of (gpu_model g) = g" "hostDevice_of (hostDevice_model h) = h"
  "interface_of (interface_model i) = i" "mount_of (mount_model t) = t"
  by (simp_all add: gpu_of_def gpu_model_def hostDevice_of_def hostDevice_model_def interface_of_def
      interface_model_def mount_of_def mount_model_def)

lemma disk_of_model: "disk_model d = Some m \<Longrightarrow> disk_of m = d"
  by (cases "disk_IoPerf d") (auto simp: disk_model_def disk_of_def)

lemma disks_of_models:
  assumes "map_panic disk_model ds = Some ms"
  shows "map disk_of ms = ds"
  using assms unfolding map_panic_eq_Some
  by (induction rule: list_all2_induct) (simp_all add: disk_of_model)

lemma map_of_models [simp]:
  "map (gpu_of \<circ> gpu_model) gs = gs" "map (hostDevice_of \<circ> hostDevice_model) hs = hs"
  "map (interface_of \<circ> interface_model) is = is" "map (mount_of \<circ> mount_model) ts = ts"
  by (simp_all add: map_idI)

text \<open>
  C28: Nothing of the hardware is lost on its way to the operator: when every disk has its performance
  measured, the message that is built reads back as the description it was built from, with empty
  slices for nil ones; when a disk has none, the translation panics.
\<close>

theorem hardware_roundtrip:
  "(\<exists>m. hardwareEntity2Model e = Some m \<and> hardware_of m = fill_slices e) \<longleftrightarrow>
     list_all (\<lambda>d. disk_IoPerf d \<noteq> None) (elems (hw_Disks e))"
proof -
  have "(\<exists>ms. map_panic disk_model (elems (hw_Disks e)) = Some ms) \<longleftrightarrow>
      list_all (\<lambda>d. disk_IoPerf d \<noteq> None) (elems (hw_Disks e))"
    by (auto simp: map_panic_defined list_all_iff disk_model_def split: option.split)
  moreover have "(\<exists>m. hardwareEntity2Model e = Some m \<and> hardware_of m = fill_slices e) \<longleftrightarrow>
      (\<exists>ms. map_panic disk_model (elems (hw_Disks e)) = Some ms)"
    by (cases "map_panic disk_model (elems (hw_Disks e))")
      (auto simp: hardwareEntity2Model_def hardware_of_def fill_slices_def Let_def dest: disks_of_models)
  ultimately show ?thesis by simp
qed

section \<open>Periods\<close>

lemma seconds_exact:
  assumes "\<bar>sint x\<bar> \<le> 9223372036"
  shows "seconds x = sint x * second"
proof -
  have s: "sint (word_of_int second :: int64) = second"
    by (simp add: second_def)
  have "seconds x = signed_take_bit 63 (sint x * second)"
    by (simp add: seconds_def sint_word_mult s)
  also have "\<dots> = sint x * second"
    using assms by (intro signed_take_bit_int_eq_self) (simp_all add: second_def)
  finally show ?thesis .
qed

lemma seconds_range: "- (2 ^ 63) \<le> seconds x \<and> seconds x < 2 ^ 63"
  using sint_greater_eq [of "x * word_of_int second"] sint_less [of "x * word_of_int second"] by (simp add: seconds_def)

lemma seconds_exact_iff: "seconds x = sint x * second \<longleftrightarrow> \<bar>sint x\<bar> \<le> 9223372036"
  using seconds_exact [of x] seconds_range [of x] by (auto simp: second_def)

lemma configurationModel2Entity_Some:
  assumes "configurationModel2Entity m = Some e"
  obtains c h hp ps ws where "mcf_Configuration m = Some c" "mdc_Heartbeat c = Some h"
    "mhc_HardwareProfile h = Some hp" "add_profiles (mdc_Profiles c) [] = Some ps"
    "map_panic workload_entity (mcf_Workloads m) = Some ws"
    "dc_Profiles (msg_Configuration e) = Some ps" "msg_Workloads e = Some ws"
    "Period (dc_Heartbeat (msg_Configuration e)) = seconds (mhc_PeriodSeconds h)"
    "msg_Interval e = seconds (mcf_Interval m)" "msg_DeviceID e = mcf_DeviceID m" "msg_Version e = []"
  using assms by (auto simp: configurationModel2Entity_def bind_eq_Some_conv)

text \<open>
  C30: The heartbeat period is the number of seconds the operator sent exactly when that number is at
  most 9223372036 in absolute value; beyond, the multiplication wraps around, and 9223372037
  seconds become a negative period.
\<close>

theorem period_bounds:
  assumes "configurationModel2Entity m = Some e" and "mcf_Configuration m = Some c" and "mdc_Heartbeat c = Some h"
  shows "(Period (dc_Heartbeat (msg_Configuration e)) = sint (mhc_PeriodSeconds h) * second \<longleftrightarrow>
      \<bar>sint (mhc_PeriodSeconds h)\<bar> \<le> 9223372036) \<and>
    (mhc_PeriodSeconds h = 9223372037 \<longrightarrow> Period (dc_Heartbeat (msg_Configuration e)) < 0)"
proof -
  have p: "Period (dc_Heartbeat (msg_Configuration e)) = seconds (mhc_PeriodSeconds h)"
    using assms by (auto elim: configurationModel2Entity_Some)
  have "seconds 9223372037 < 0" by (simp add: seconds_def second_def)
  with p show ?thesis by (auto simp: seconds_exact_iff)
qed

definition models_example :: models_Configuration where
  "models_example = \<lparr>mcf_Configuration = Some \<lparr>mdc_Heartbeat = Some
       \<lparr>mhc_HardwareProfile = Some \<lparr>mhp_Include = True, mhp_Scope = ''full''\<rparr>, mhc_PeriodSeconds = 5\<rparr>,
      mdc_Profiles = [Some \<lparr>mp_Conditions = [Some \<lparr>mcd_Expression = ''cpu < 10'', mcd_Name = ''low''\<rparr>], mp_Name = ''perf''\<rparr>]\<rparr>,
     mcf_DeviceID = ''dev'', mcf_Version = ''1'', mcf_Workloads = [], mcf_Interval = 15\<rparr>"

theorem period_bounds_witness:
  "\<exists>e. configurationModel2Entity models_example = Some e \<and> Period (dc_Heartbeat (msg_Configuration e)) = 5 * second"
proof -
  obtain e where e: "configurationModel2Entity models_example = Some e"
    by (simp add: models_example_def configurationModel2Entity_def)
  moreover have "Period (dc_Heartbeat (msg_Configuration e)) = 5 * second"
    using period_bounds [OF e, of "the (mcf_Configuration models_example)"] by (simp add: models_example_def)
  ultimately show ?thesis by blast
qed

section \<open>Well-formed configurations\<close>

text \<open>
  What the other components rely on: maps with distinct keys, a kind of workload that an executor
  exists for, durations of 64 bits.
\<close>

definition wf_message :: "DeviceConfigurationMessage \<Rightarrow> bool" where
  "wf_message e \<longleftrightarrow>
     wf_map (elems (dc_Profiles (msg_Configuration e))) \<and>
     list_all (\<lambda>p. wf_map (snd p)) (elems (dc_Profiles (msg_Configuration e))) \<and>
     list_all (\<lambda>w. WKind w \<in> {PodKind, K8SKind}) (elems (msg_Workloads e)) \<and>
     (\<forall>d \<in> {Period (dc_Heartbeat (msg_Configuration e)), msg_Interval e}. - (2 ^ 63) \<le> d \<and> d < 2 ^ 63)"

lemma add_conditions_wf: "add_conditions cs m = Some m' \<Longrightarrow> wf_map m \<Longrightarrow> wf_map m'"
  by (induction cs m rule: add_conditions.induct) auto

lemma add_profiles_wf:
  "add_profiles ps m = Some m' \<Longrightarrow> wf_map m \<Longrightarrow> list_all (\<lambda>p. wf_map (snd p)) m \<Longrightarrow>
     wf_map m' \<and> list_all (\<lambda>p. wf_map (snd p)) m'"
proof (induction ps m rule: add_profiles.induct)
  case (3 p ps m)
  then obtain cs where cs: "add_conditions (mp_Conditions p) [] = Some cs" by (auto split: option.splits)
  then have wf: "wf_map cs" by (auto intro: add_conditions_wf)
  have "list_all (\<lambda>p. wf_map (snd p)) (AList.update (mp_Name p) cs m)"
    using "3.prems"(3) wf by (auto simp: list_all_iff dest!: set_update_cases)
  with 3 cs show ?case by auto
qed auto

lemma workload_entity_kind: "workload_entity w = Some p \<Longrightarrow> WKind p \<in> {PodKind, K8SKind}"
  by (auto simp: workload_entity_def split: option.splits)



lemma add_conditions_None: "add_conditions cs x = None \<longleftrightarrow> list_ex (\<lambda>c. c = None) cs"
  by (induction cs x rule: add_conditions.induct) auto

lemma workload_profile_None:
  "workload_profile p = None \<longleftrightarrow> (case p of None \<Rightarrow> True | Some p \<Rightarrow> list_ex (\<lambda>c. c = None) (mwp_Conditions p))"
  by (cases p) (simp_all add: workload_profile_def map_panic_None workload_condition_def)

lemma workload_entity_None:
  "workload_entity w = None \<longleftrightarrow>
     (case w of
        None \<Rightarrow> True
      | Some w \<Rightarrow> list_ex (\<lambda>p. case p of None \<Rightarrow> True | Some p \<Rightarrow> list_ex (\<lambda>c. c = None) (mwp_Conditions p)) (mw_Profiles w))"
  by (cases w) (simp_all add: workload_entity_def map_panic_None workload_profile_None)

text \<open>
  The translation of a configuration panics exactly when the message lacks the configuration, the
  heartbeat section or its hardware profile, or has a nil entry in one of its lists.
\<close>

theorem configuration_panics:
  "configurationModel2Entity m = None \<longleftrightarrow>
     (case mcf_Configuration m of
        None \<Rightarrow> True
      | Some c \<Rightarrow>
          (case mdc_Heartbeat c of None \<Rightarrow> True | Some h \<Rightarrow> mhc_HardwareProfile h = None) \<or>
          list_ex (\<lambda>p. case p of None \<Rightarrow> True | Some p \<Rightarrow> list_ex (\<lambda>c. c = None) (mp_Conditions p)) (mdc_Profiles c)) \<or>
     list_ex (\<lambda>w. case w of
         None \<Rightarrow> True
       | Some w \<Rightarrow> list_ex (\<lambda>p. case p of
             None \<Rightarrow> True
           | Some p \<Rightarrow> list_ex (\<lambda>c. c = None) (mwp_Conditions p)) (mw_Profiles w)) (mcf_Workloads m)"
proof -
  have ps: "add_profiles ps x = None \<longleftrightarrow>
      list_ex (\<lambda>p. case p of None \<Rightarrow> True | Some p \<Rightarrow> list_ex (\<lambda>c. c = None) (mp_Conditions p)) ps" for ps x
  proof (induction ps x rule: add_profiles.induct)
    case (3 p ps x)
    then show ?case
      using add_conditions_None [of "mp_Conditions p" "[]"] by (cases "add_conditions (mp_Conditions p) []") auto
  qed auto
  show ?thesis
    by (cases "mcf_Configuration m")
      (auto simp: configurationModel2Entity_def ps map_panic_None workload_entity_None bind_eq_None_conv
        split: option.split)
qed

end
