(* ===== verification/Certificate.thy ===== *)
theory Certificate
  imports Go_Prelude
begin

text \<open>
  The certificate manager (\<open>internal/certificate/manager.go\<close>). The packages \<open>crypto/x509\<close>,
  \<open>crypto/ecdsa\<close>, \<open>crypto/rsa\<close> and \<open>encoding/pem\<close> are the fields of a record \<open>crypto\<close>; what the
  theorems rely on is that encoding and decoding are inverse (\<open>crypto_ok\<close>). A private key is of one
  of the two types the code tells apart. The source of randomness is an argument.
\<close>

section \<open>What the code calls\<close>

datatype PrivateKey = ECKey string | RSAKey string

record x509_Certificate =
  x_Raw :: string
  x_Signature :: string
  x_CommonName :: string

record 'pool crypto =
  SystemCertPool :: "error + 'pool"
  AppendCertsFromPEM :: "'pool \<Rightarrow> string \<Rightarrow> 'pool"
  pem_Decode :: "string \<Rightarrow> (string \<times> string) option"
  pem_Encode :: "string \<Rightarrow> string \<Rightarrow> string"
  ParseCertificate :: "string \<Rightarrow> error + x509_Certificate"
  ParseECPrivateKey :: "string \<Rightarrow> error + string"
  ParsePKCS1PrivateKey :: "string \<Rightarrow> error + string"
  MarshalECPrivateKey :: "string \<Rightarrow> string"
  MarshalPKCS1PrivateKey :: "string \<Rightarrow> string"
  GenerateECKey :: "nat \<Rightarrow> error + string"
  GenerateRSAKey :: "nat \<Rightarrow> nat \<Rightarrow> error + string"
  CreateCertificateRequest :: "nat \<Rightarrow> string \<Rightarrow> PrivateKey \<Rightarrow> error + string"

definition ecPrivateKeyBlockType :: string where
  "ecPrivateKeyBlockType = ''EC PRIVATE KEY''"

definition rsaPrivateKeyBlockType :: string where
  "rsaPrivateKeyBlockType = ''RSA PRIVATE KEY''"

lemma block_types_neq [simp]:
  "ecPrivateKeyBlockType \<noteq> rsaPrivateKeyBlockType" "rsaPrivateKeyBlockType \<noteq> ecPrivateKeyBlockType"
  by (simp_all add: ecPrivateKeyBlockType_def rsaPrivateKeyBlockType_def)

section \<open>The manager\<close>

record 'pool cert_Manager =
  cert :: "x509_Certificate option"
  privateKey :: "PrivateKey option"
  privateKeyType :: string
  rootCA :: 'pool

definition parse_key :: "'pool crypto \<Rightarrow> string \<Rightarrow> string \<Rightarrow> error + PrivateKey" where
  "parse_key C kt bytes =
     (if kt = ecPrivateKeyBlockType then map_sum id ECKey (ParseECPrivateKey C bytes)
      else if kt = rsaPrivateKeyBlockType then map_sum id RSAKey (ParsePKCS1PrivateKey C bytes)
      else Inl (ErrorString ''unknown block type''))"

definition SetCertificate :: "'pool crypto \<Rightarrow> string \<Rightarrow> string \<Rightarrow> 'pool cert_Manager \<Rightarrow>
    error option \<times> 'pool cert_Manager" where
  "SetCertificate C certPEM keyPEM c =
     (case pem_Decode C certPEM of
        None \<Rightarrow> (Some (ErrorString ''cannot decode certificate from pem''), c)
      | Some (_, bytes) \<Rightarrow>
          (case ParseCertificate C bytes of
             Inl err \<Rightarrow> (Some (WrapError ''cannot parse certificate'' err), c)
           | Inr newCert \<Rightarrow>
               (case pem_Decode C keyPEM of
                  None \<Rightarrow> (Some (ErrorString ''cannot private key''), c)
                | Some (kt, kbytes) \<Rightarrow>
                    (case parse_key C kt kbytes of
                       Inl err \<Rightarrow> (Some (WrapError ''cannot decode private key'' err), c)
                     | Inr key \<Rightarrow> (None, c\<lparr>cert := Some newCert, privateKey := Some key, privateKeyType := kt\<rparr>)))))"

definition cert_New :: "'pool crypto \<Rightarrow> string list \<Rightarrow> string \<Rightarrow> string \<Rightarrow> error + 'pool cert_Manager" where
  "cert_New C caRootBlock certPEM keyPEM =
     (case SystemCertPool C of
        Inl err \<Rightarrow> Inl (WrapError ''cannot copy system certificate pool'' err)
      | Inr pool \<Rightarrow>
          (case SetCertificate C certPEM keyPEM
               \<lparr>cert = None, privateKey = None, privateKeyType = [],
                rootCA = foldl (AppendCertsFromPEM C) pool caRootBlock\<rparr> of
             (Some err, _) \<Rightarrow> Inl err
           | (None, c) \<Rightarrow> Inr c))"

text \<open>Both dereference the certificate, which is None only if it was never set.\<close>

definition Signature :: "'pool cert_Manager \<Rightarrow> string option" where
  "Signature c = map_option x_Signature (cert c)"

definition CommonName :: "'pool cert_Manager \<Rightarrow> string option" where
  "CommonName c = map_option x_CommonName (cert c)"

definition GetCertificates :: "'pool cert_Manager \<Rightarrow> 'pool \<times> x509_Certificate option \<times> PrivateKey option" where
  "GetCertificates c = (rootCA c, cert c, privateKey c)"

definition generateKey :: "'pool crypto \<Rightarrow> nat \<Rightarrow> string \<Rightarrow> error + PrivateKey" where
  "generateKey C rand keyType =
     (if keyType = ecPrivateKeyBlockType then map_sum id ECKey (GenerateECKey C rand)
      else if keyType = rsaPrivateKeyBlockType then map_sum id RSAKey (GenerateRSAKey C rand 4096)
      else Inl (ErrorString ''unknown algorithm to create the key''))"

definition marshalKeyToPem :: "'pool crypto \<Rightarrow> PrivateKey option \<Rightarrow> string" where
  "marshalKeyToPem C key =
     (case key of
        Some (ECKey k) \<Rightarrow> pem_Encode C ecPrivateKeyBlockType (MarshalECPrivateKey C k)
      | Some (RSAKey k) \<Rightarrow> pem_Encode C rsaPrivateKeyBlockType (MarshalPKCS1PrivateKey C k)
      | None \<Rightarrow> [])"

definition GenerateCSR :: "'pool crypto \<Rightarrow> nat \<Rightarrow> string \<Rightarrow> 'pool cert_Manager \<Rightarrow> error + string \<times> string" where
  "GenerateCSR C rand deviceID c =
     (case generateKey C rand (privateKeyType c) of
        Inl err \<Rightarrow> Inl err
      | Inr key \<Rightarrow>
          (case CreateCertificateRequest C rand deviceID key of
             Inl err \<Rightarrow> Inl err
           | Inr csr \<Rightarrow> Inr (pem_Encode C ''CERTIFICATE REQUEST'' csr, marshalKeyToPem C (Some key))))"

text \<open>
  The files: creating one, writing to it (the errors of which are ignored), and \<open>ioutil.WriteFile\<close>
  with mode 0600.
\<close>

record 'w file_api =
  os_Create :: "string \<Rightarrow> ('w, error option) io"
  file_Write :: "string \<Rightarrow> string \<Rightarrow> ('w, unit) io"
  os_WriteFile :: "string \<Rightarrow> string \<Rightarrow> ('w, error option) io"

definition WriteCertificate :: "'pool crypto \<Rightarrow> 'w file_api \<Rightarrow> string \<Rightarrow> string \<Rightarrow> 'pool cert_Manager \<Rightarrow>
    ('w, error option) io" where
  "WriteCertificate C F certPath keyPath c =
     io_bind (os_Create F certPath) (\<lambda>err.
       case err of
         Some e \<Rightarrow> ret (Some e)
       | None \<Rightarrow>
           (case cert c of
              None \<Rightarrow> io_panic
            | Some x \<Rightarrow>
                io_bind (file_Write F certPath (pem_Encode C ''CERTIFICATE'' (x_Raw x))) (\<lambda>_.
                  os_WriteFile F keyPath (marshalKeyToPem C (privateKey c)))))"

section \<open>Properties\<close>

text \<open>The certificate and its key are set, and the recorded type is the type of the key.\<close>

definition cert_inv :: "'pool cert_Manager \<Rightarrow> bool" where
  "cert_inv c \<longleftrightarrow> cert c \<noteq> None \<and>
     (case privateKey c of
        None \<Rightarrow> False
      | Some (ECKey _) \<Rightarrow> privateKeyType c = ecPrivateKeyBlockType
      | Some (RSAKey _) \<Rightarrow> privateKeyType c = rsaPrivateKeyBlockType)"

lemma parse_key_type:
  "parse_key C kt bytes = Inr key \<Longrightarrow>
     (case key of ECKey _ \<Rightarrow> kt = ecPrivateKeyBlockType | RSAKey _ \<Rightarrow> kt = rsaPrivateKeyBlockType)"
  by (cases "ParseECPrivateKey C bytes"; cases "ParsePKCS1PrivateKey C bytes")
    (auto simp: parse_key_def split: if_splits)

lemma SetCertificate_cases:
  "(\<exists>e. SetCertificate C cp kp c = (Some e, c)) \<or>
   (\<exists>x key kt. SetCertificate C cp kp c = (None, c\<lparr>cert := Some x, privateKey := Some key, privateKeyType := kt\<rparr>) \<and>
      (case key of ECKey _ \<Rightarrow> kt = ecPrivateKeyBlockType | RSAKey _ \<Rightarrow> kt = rsaPrivateKeyBlockType))"
  by (auto simp: SetCertificate_def split: option.split sum.split dest!: parse_key_type)

lemma SetCertificate_inv:
  assumes "fst (SetCertificate C cp kp d) = None"
  shows "cert_inv (snd (SetCertificate C cp kp d))"
proof -
  obtain x key kt where
    "SetCertificate C cp kp d = (None, d\<lparr>cert := Some x, privateKey := Some key, privateKeyType := kt\<rparr>)"
    "case key of ECKey _ \<Rightarrow> kt = ecPrivateKeyBlockType | RSAKey _ \<Rightarrow> kt = rsaPrivateKeyBlockType"
    using assms SetCertificate_cases [of C cp kp d] by auto
  then show ?thesis by (cases key) (simp_all add: cert_inv_def)
qed

lemma cert_New_inv: "cert_New C cas cp kp = Inr c \<Longrightarrow> cert_inv c"
  using SetCertificate_inv [of C cp kp]
  by (auto simp: cert_New_def split: sum.splits prod.splits option.splits) (metis fst_conv snd_conv)


text \<open>Encoding and decoding are inverse, as the packages document.\<close>

definition crypto_ok :: "'pool crypto \<Rightarrow> bool" where
  "crypto_ok C \<longleftrightarrow>
     (\<forall>t b. pem_Decode C (pem_Encode C t b) = Some (t, b)) \<and>
     (\<forall>k. ParseECPrivateKey C (MarshalECPrivateKey C k) = Inr k) \<and>
     (\<forall>k. ParsePKCS1PrivateKey C (MarshalPKCS1PrivateKey C k) = Inr k)"

lemma parse_marshalled_key:
  "crypto_ok C \<Longrightarrow> \<exists>t b. pem_Decode C (marshalKeyToPem C (Some key)) = Some (t, b) \<and> parse_key C t b = Inr key"
  by (cases key) (auto simp: crypto_ok_def marshalKeyToPem_def parse_key_def)

lemma csr_key_set:
  assumes "crypto_ok C" and "cert_inv c" and "GenerateCSR C rand name c = Inr (csr, keyPEM)"
    and "pem_Decode C certPEM = Some (t, b)" and "ParseCertificate C b = Inr x"
  shows "\<exists>key. generateKey C rand (privateKeyType c) = Inr key \<and>
    SetCertificate C certPEM keyPEM c = (None, c\<lparr>cert := Some x, privateKey := Some key\<rparr>)"
proof -
  obtain key where key: "generateKey C rand (privateKeyType c) = Inr key" "keyPEM = marshalKeyToPem C (Some key)"
    using assms(3) by (auto simp: GenerateCSR_def split: sum.splits)
  obtain t' b' where k: "pem_Decode C keyPEM = Some (t', b')" "parse_key C t' b' = Inr key"
    using parse_marshalled_key [OF assms(1)] key(2) by blast
  have "t' = privateKeyType c"
    using parse_key_type [OF k(2)] key(1)
    by (cases key) (auto simp: generateKey_def map_sum_def split: if_splits sum.splits)
  then have "SetCertificate C certPEM keyPEM c = (None, c\<lparr>cert := Some x, privateKey := Some key\<rparr>)"
    using assms(4,5) k by (simp add: SetCertificate_def)
  with key(1) show ?thesis by blast
qed

text \<open>
  C32: The key of a certificate request is the key of the certificate that answers it. When the
  operator's certificate decodes, setting it with the key \<open>GenerateCSR\<close> returned succeeds: the
  manager then holds that certificate and the generated key, of the type it had before.
\<close>

theorem csr_key_accepted:
  assumes "crypto_ok C" and "cert_inv c" and "GenerateCSR C rand name c = Inr (csr, keyPEM)"
    and "pem_Decode C certPEM = Some (t, b)" and "ParseCertificate C b = Inr x"
  shows "\<exists>key. generateKey C rand (privateKeyType c) = Inr key \<and>
    SetCertificate C certPEM keyPEM c = (None, c\<lparr>cert := Some x, privateKey := Some key\<rparr>)"
  using assms by (rule csr_key_set)

text \<open>An instance of the packages: a block is the length of its type in unary, its type and its bytes.\<close>

definition crypto_example :: "unit crypto" where
  "crypto_example = \<lparr>SystemCertPool = Inr (), AppendCertsFromPEM = (\<lambda>p _. p),
     pem_Decode = (\<lambda>s. let n = length (takeWhile (\<lambda>c. c = CHR ''1'') s); r = drop (Suc n) s
       in if length s \<le> n then None else Some (take n r, drop n r)),
     pem_Encode = (\<lambda>t b. replicate (length t) (CHR ''1'') @ CHR ''0'' # t @ b),
     ParseCertificate = (\<lambda>b. if b = [] then Inl (ErrorString ''x509: malformed certificate'')
       else Inr \<lparr>x_Raw = b, x_Signature = b, x_CommonName = b\<rparr>),
     ParseECPrivateKey = Inr, ParsePKCS1PrivateKey = Inr,
     MarshalECPrivateKey = id, MarshalPKCS1PrivateKey = id,
     GenerateECKey = (\<lambda>r. Inr (decimal r)), GenerateRSAKey = (\<lambda>r _. Inr (decimal r)),
     CreateCertificateRequest = (\<lambda>_ n _. Inr n)\<rparr>"

definition manager_example :: "unit cert_Manager" where
  "manager_example = \<lparr>cert = Some \<lparr>x_Raw = ''c'', x_Signature = ''c'', x_CommonName = ''c''\<rparr>,
     privateKey = Some (ECKey ''k''), privateKeyType = ecPrivateKeyBlockType, rootCA = ()\<rparr>"

lemma takeWhile_replicate_neq: "x \<noteq> y \<Longrightarrow> takeWhile (\<lambda>c. c = x) (replicate n x @ y # r) = replicate n x"
  by (induction n) auto

lemma pem_example: "pem_Decode crypto_example (pem_Encode crypto_example t b) = Some (t, b)"
  by (simp add: crypto_example_def takeWhile_replicate_neq Let_def)

lemma crypto_example_simps [simp]:
  "b \<noteq> [] \<Longrightarrow> ParseCertificate crypto_example b = Inr \<lparr>x_Raw = b, x_Signature = b, x_CommonName = b\<rparr>"
  "ParseECPrivateKey crypto_example b = Inr b"
  by (simp_all add: crypto_example_def)

lemma crypto_example_ok: "crypto_ok crypto_example"
  unfolding crypto_ok_def by (intro conjI allI pem_example) (simp_all add: crypto_example_def)


theorem csr_key_accepted_witness:
  "\<exists>csr keyPEM. GenerateCSR crypto_example 7 ''dev'' manager_example = Inr (csr, keyPEM) \<and>
     fst (SetCertificate crypto_example (pem_Encode crypto_example ''CERTIFICATE'' ''d'') keyPEM manager_example) = None"
proof -
  have inv: "cert_inv manager_example" by (simp add: cert_inv_def manager_example_def)
  obtain csr keyPEM where g: "GenerateCSR crypto_example 7 ''dev'' manager_example = Inr (csr, keyPEM)"
    by (simp add: GenerateCSR_def generateKey_def crypto_example_def manager_example_def)
  from csr_key_accepted [OF crypto_example_ok inv g pem_example [of "''CERTIFICATE''" "''d''"] crypto_example_simps(1)] g show ?thesis by auto
qed

end
