(* ===== verification/Client.thy ===== *)
theory Client
  imports Mapper Certificate
begin

text \<open>
  The HTTP client of the worker (\<open>internal/client/http\<close>: \<open>request.go\<close>, \<open>client.go\<close>, \<open>utils.go\<close>,
  \<open>log_wrapper.go\<close>). The state of a call is the client and the network behind it. The network,
  \<open>encoding/json\<close> on the messages of the operator, the identifiers of \<open>uuid\<close>, the validation of
  requests and \<open>tls.X509KeyPair\<close> are the fields of a record \<open>http_api\<close>. The certificate manager is
  shared with the controller and is an argument of each call.
\<close>

section \<open>Requests\<close>

datatype requestType = postDataMessageForDeviceType | getDataMessageForDeviceType

datatype actionType = enrolActionType | registerActionType | heartbeatActionType | configurationActionType

text \<open>The body of a request is an \<open>interface{}\<close>; nil, or one of the three types that are asserted.\<close>

datatype rb_body = NoBody | EnrolBody EnrolementInfo | RegisterBody RegistrationInfo | HeartbeatBody Heartbeat

record RequestBuilder =
  rb_action :: actionType
  rb_requestType :: requestType
  rb_body :: rb_body
  rb_url :: string
  rb_header :: "(string, string) gomap"

definition newRequestBuilder :: RequestBuilder where
  "newRequestBuilder = \<lparr>rb_action = enrolActionType, rb_requestType = postDataMessageForDeviceType,
     rb_body = NoBody, rb_url = [], rb_header = []\<rparr>"

definition rb_Type :: "requestType \<Rightarrow> RequestBuilder \<Rightarrow> RequestBuilder" where
  "rb_Type t rb = rb\<lparr>rb_requestType := t\<rparr>"

definition rb_Action :: "actionType \<Rightarrow> RequestBuilder \<Rightarrow> RequestBuilder" where
  "rb_Action a rb = rb\<lparr>rb_action := a\<rparr>"

definition rb_Url :: "string \<Rightarrow> RequestBuilder \<Rightarrow> RequestBuilder" where
  "rb_Url url rb = rb\<lparr>rb_url := url\<rparr>"

definition rb_Body :: "rb_body \<Rightarrow> RequestBuilder \<Rightarrow> RequestBuilder" where
  "rb_Body b rb = rb\<lparr>rb_body := b\<rparr>"

definition rb_Header :: "string \<Rightarrow> string \<Rightarrow> RequestBuilder \<Rightarrow> RequestBuilder" where
  "rb_Header key v rb = rb\<lparr>rb_header := AList.update key v (rb_header rb)\<rparr>"

lemmas builder_defs = newRequestBuilder_def rb_Type_def rb_Action_def rb_Url_def rb_Body_def rb_Header_def

datatype Content =
    EnrolContent models_EnrolmentInfo
  | RegistrationContent models_RegistrationInfo
  | HeartbeatContent models_Heartbeat

record models_Message =
  Directive :: string
  Content :: Content
  MessageID :: string
  MType :: string

record Request =
  r_Method :: string
  r_URL :: string
  r_Body :: "string option"
  r_Header :: "(string, string) gomap"

text \<open>Reading the body of a response may fail.\<close>

record Response =
  StatusCode :: int
  resp_Body :: "error + string"

datatype json = JNull | JBool bool | JNum float64 | JStr string | JList "json list" | JObj "(string \<times> json) list"

record 'pool tls_Config =
  RootCAs :: 'pool
  Certificates :: "string list"

datatype 'pool RoundTripper = Transport "'pool tls_Config option" | LogTransportWrapper "'pool RoundTripper"

text \<open>
  \<open>http_Do\<close> is \<open>http.Client.Do\<close> on a transport, the default one when there is none;
  \<open>checkRequest\<close> is the validation of \<open>http.NewRequestWithContext\<close>.
\<close>

record ('pool, 'w) http_api =
  crypto_of :: "'pool crypto"
  X509KeyPair :: "string \<Rightarrow> string \<Rightarrow> error + string"
  uuid :: "'w \<Rightarrow> string"
  json_Marshal :: "models_Message \<Rightarrow> error + string"
  json_Unmarshal :: "string \<Rightarrow> error + json"
  json_Marshal_map :: "(string \<times> json) list \<Rightarrow> error + string"
  json_Unmarshal_configuration :: "string \<Rightarrow> error + models_Configuration"
  checkRequest :: "string \<Rightarrow> string \<Rightarrow> error option"
  http_Do :: "'pool RoundTripper option \<Rightarrow> Request \<Rightarrow> ('w, error + Response) io"

definition request_method :: "requestType \<Rightarrow> string" where
  "request_method t = (case t of postDataMessageForDeviceType \<Rightarrow> ''POST'' | getDataMessageForDeviceType \<Rightarrow> ''GET'')"

text \<open>
  The message of a request: an error when the body has the wrong type, None for a panic of the
  translation.
\<close>

definition request_data :: "string \<Rightarrow> RequestBuilder \<Rightarrow> (error + models_Message option) option" where
  "request_data mid rb =
     (case rb_action rb of
        enrolActionType \<Rightarrow>
          (case rb_body rb of
             EnrolBody i \<Rightarrow> map_option (\<lambda>m. Inr (Some \<lparr>Directive = ''enrolment'', Content = EnrolContent m,
                 MessageID = mid, MType = ''command''\<rparr>)) (enrolInfoEntity2Model i)
           | _ \<Rightarrow> Some (Inl (ErrorString ''EnrolmentInfo type body is required for this type of request'')))
      | registerActionType \<Rightarrow>
          (case rb_body rb of
             RegisterBody i \<Rightarrow> map_option (\<lambda>m. Inr (Some \<lparr>Directive = ''registration'', Content = RegistrationContent m,
                 MessageID = mid, MType = ''command''\<rparr>)) (registerInfoEntity2Model i)
           | _ \<Rightarrow> Some (Inl (ErrorString ''RegistrationInfo type body is required for this type of request'')))
      | heartbeatActionType \<Rightarrow>
          (case rb_body rb of
             HeartbeatBody i \<Rightarrow> map_option (\<lambda>m. Inr (Some \<lparr>Directive = ''heartbeat'', Content = HeartbeatContent m,
                 MessageID = mid, MType = []\<rparr>)) (heartbeatEntity2Model i)
           | _ \<Rightarrow> Some (Inl (ErrorString ''Heartbeat type body is required for this type of request'')))
      | configurationActionType \<Rightarrow> Some (Inr None))"

definition Build_request :: "('pool, 'w) http_api \<Rightarrow> string \<Rightarrow> RequestBuilder \<Rightarrow> (error + Request) option" where
  "Build_request A mid rb =
     (let method = request_method (rb_requestType rb);
          finish = (\<lambda>body. case checkRequest A method (rb_url rb) of
             Some err \<Rightarrow> Inl (WrapError ''cannot create request'' err)
           | None \<Rightarrow> Inr \<lparr>r_Method = method, r_URL = rb_url rb, r_Body = body, r_Header = rb_header rb\<rparr>)
      in (case request_data mid rb of
            None \<Rightarrow> None
          | Some (Inl err) \<Rightarrow> Some (Inl err)
          | Some (Inr None) \<Rightarrow> Some (finish None)
          | Some (Inr (Some data)) \<Rightarrow> Some
              (case json_Marshal A data of
                 Inl err \<Rightarrow> Inl (WrapError ''cannot marshal for enrol action type'' err)
               | Inr payload \<Rightarrow> finish (Some payload))))"

section \<open>The client and its transport\<close>

record 'pool http_Client =
  certificateSignature :: string
  serverURL :: string
  transportWrappers :: "('pool RoundTripper \<Rightarrow> 'pool RoundTripper) list"
  transport :: "'pool RoundTripper option"

definition rootUrl :: string where
  "rootUrl = ''/api/flotta-management/v1''"

definition certificateKey :: string where
  "certificateKey = ''certificate''"

text \<open>\<open>url.Parse\<close> is an argument; \<open>certManager\<close> may be nil.\<close>

definition client_New :: "(string \<Rightarrow> error + string) \<Rightarrow> string \<Rightarrow> 'pool cert_Manager option \<Rightarrow> error + 'pool http_Client" where
  "client_New urlParse path certManager =
     (case certManager of
        None \<Rightarrow> Inl (ErrorString ''Certificate manager is missing'')
      | Some _ \<Rightarrow>
          (case urlParse path of
             Inl err \<Rightarrow> Inl (ErrorString ''Server address error'')
           | Inr url \<Rightarrow> Inr \<lparr>certificateSignature = [], serverURL = url, transportWrappers = [], transport = None\<rparr>))"

text \<open>None: the certificate is nil and its field \<open>Raw\<close> is read.\<close>

definition createTLSConfig :: "('pool, 'w) http_api \<Rightarrow> 'pool cert_Manager \<Rightarrow> (error + 'pool tls_Config) option" where
  "createTLSConfig A cm =
     (case GetCertificates cm of (caRoot, x, key) \<Rightarrow>
        map_option (\<lambda>x.
          (case X509KeyPair A (pem_Encode (crypto_of A) ''CERTIFICATE'' (x_Raw x)) (marshalKeyToPem (crypto_of A) key) of
             Inl err \<Rightarrow> Inl (WrapError ''cannot create x509 key pair'' err)
           | Inr cc \<Rightarrow> Inr \<lparr>RootCAs = caRoot, Certificates = [cc]\<rparr>)) x)"

text \<open>The wrappers are applied from the last to the first.\<close>

definition wrap_all :: "('pool RoundTripper \<Rightarrow> 'pool RoundTripper) list \<Rightarrow> 'pool RoundTripper \<Rightarrow> 'pool RoundTripper" where
  "wrap_all ws t = foldr (\<lambda>w t. w t) ws t"

definition createTransport :: "('pool, 'w) http_api \<Rightarrow> ('pool RoundTripper \<Rightarrow> 'pool RoundTripper) list \<Rightarrow> 'pool cert_Manager \<Rightarrow>
    ('pool RoundTripper \<times> error option) option" where
  "createTransport A ws cm =
     map_option (\<lambda>r. case r of
         Inl err \<Rightarrow> (wrap_all ws (Transport None), Some err)
       | Inr config \<Rightarrow> (wrap_all ws (Transport (Some config)), None)) (createTLSConfig A cm)"

definition getClient :: "('pool, 'w) http_api \<Rightarrow> 'pool cert_Manager \<Rightarrow> ('pool http_Client \<times> 'w, error + 'pool RoundTripper option) io" where
  "getClient A cm s =
     (case s of (c, w) \<Rightarrow>
        (case Signature cm of
           None \<Rightarrow> (Panics, s)
         | Some sig \<Rightarrow>
             if certificateSignature c \<noteq> sig then
               (case createTransport A (transportWrappers c) cm of
                  None \<Rightarrow> (Panics, s)
                | Some (t, Some err) \<Rightarrow> (Returns (Inl err), s)
                | Some (t, None) \<Rightarrow>
                    (Returns (Inr (Some t)), (c\<lparr>certificateSignature := sig, transport := Some t\<rparr>, w)))
             else (Returns (Inr (transport c)), s)))"

definition lift_net :: "('w, 'a) io \<Rightarrow> ('pool http_Client \<times> 'w, 'a) io" where
  "lift_net m s = (case s of (c, w) \<Rightarrow> (case m w of (r, w') \<Rightarrow> (r, (c, w'))))"

definition client_do :: "('pool, 'w) http_api \<Rightarrow> 'pool cert_Manager \<Rightarrow> Request \<Rightarrow> ('pool http_Client \<times> 'w, error + Response) io" where
  "client_do A cm request =
     io_bind (getClient A cm) (\<lambda>r.
       case r of
         Inl err \<Rightarrow> ret (Inl err)
       | Inr t \<Rightarrow> lift_net (http_Do A t request))"

section \<open>Responses\<close>

text \<open>
  \<open>extractData\<close>: the type assertion \<open>d.(T)\<close> is the argument \<open>assertT\<close>, and the transformation may
  be nil. The message is decoded into its content, \<open>JNull\<close> when it has none.
\<close>

definition extractData :: "('pool, 'w) http_api \<Rightarrow> (json \<Rightarrow> 't option) \<Rightarrow> Response \<Rightarrow> string \<Rightarrow>
    ('t \<Rightarrow> error + 's) option \<Rightarrow> error + 's" where
  "extractData A assertT response extractKey transformFunc =
     (case transformFunc of
        None \<Rightarrow> Inl (ErrorString ''tranformFunc is missing'')
      | Some f \<Rightarrow>
          (case resp_Body response of
             Inl err \<Rightarrow> Inl (WrapError ''cannot read response body'' err)
           | Inr data \<Rightarrow>
               (case json_Unmarshal A data of
                  Inl err \<Rightarrow> Inl (WrapError ''cannot read marshal body into message response'' err)
                | Inr (JObj content) \<Rightarrow>
                    (case (if extractKey \<noteq> [] then map_of content extractKey else Some (JObj content)) of
                       None \<Rightarrow> Inl (ErrorString ''cannot find configuration data in payload'')
                     | Some d \<Rightarrow>
                         (case assertT d of
                            None \<Rightarrow> Inl (ErrorString ''cannot extract data from content. wrong type'')
                          | Some res \<Rightarrow>
                              (case f res of
                                 Inl err \<Rightarrow> Inl (WrapError ''error applying transformation function'' err)
                               | Inr r \<Rightarrow> Inr r)))
                | Inr _ \<Rightarrow> Inl (ErrorString ''payload content is not a map''))))"

definition assert_string :: "json \<Rightarrow> string option" where
  "assert_string d = (case d of JStr s \<Rightarrow> Some s | _ \<Rightarrow> None)"

definition assert_map :: "json \<Rightarrow> (string \<times> json) list option" where
  "assert_map d = (case d of JObj m \<Rightarrow> Some m | _ \<Rightarrow> None)"

definition transformToConfiguration :: "('pool, 'w) http_api \<Rightarrow> (string \<times> json) list \<Rightarrow> error + models_Configuration" where
  "transformToConfiguration A data =
     (case json_Marshal_map A data of
        Inl err \<Rightarrow> Inl (WrapError ''cannot marshal data'' err)
      | Inr j \<Rightarrow>
          (case json_Unmarshal_configuration A j of
             Inl err \<Rightarrow> Inl (WrapError ''cannot unmarshal configuration'' err)
           | Inr r \<Rightarrow> Inr r))"

section \<open>Operations\<close>

definition data_url :: "'pool http_Client \<Rightarrow> string \<Rightarrow> string \<Rightarrow> string" where
  "data_url c deviceID dir = serverURL c @ ''/'' @ rootUrl @ ''/data/'' @ deviceID @ ''/'' @ dir"

text \<open>
  Building a request and sending it: the two errors are wrapped with a text of the operation, and
  \<open>k\<close> goes on with the response.
\<close>

definition send_request :: "('pool, 'w) http_api \<Rightarrow> 'pool cert_Manager \<Rightarrow> ('pool http_Client \<Rightarrow> RequestBuilder) \<Rightarrow>
    string \<Rightarrow> string \<Rightarrow> (error \<Rightarrow> 'a) \<Rightarrow> (Response \<Rightarrow> ('pool http_Client \<times> 'w, 'a) io) \<Rightarrow> ('pool http_Client \<times> 'w, 'a) io" where
  "send_request A cm mk createText sendText fail k s =
     (case Build_request A (uuid A (snd s)) (mk (fst s)) of
        None \<Rightarrow> (Panics, s)
      | Some (Inl err) \<Rightarrow> (Returns (fail (WrapError createText err)), s)
      | Some (Inr request) \<Rightarrow>
          io_bind (client_do A cm request) (\<lambda>r.
            case r of
              Inl err \<Rightarrow> ret (fail (WrapError sendText err))
            | Inr response \<Rightarrow> k response) s)"

definition client_Enrol :: "('pool, 'w) http_api \<Rightarrow> 'pool cert_Manager \<Rightarrow> string \<Rightarrow> EnrolementInfo \<Rightarrow>
    ('pool http_Client \<times> 'w, error option) io" where
  "client_Enrol A cm deviceID enrolInfo =
     send_request A cm
       (\<lambda>c. rb_Body (EnrolBody enrolInfo) (rb_Url (data_url c deviceID ''out'')
          (rb_Header ''Content-Type'' ''application/json'' (rb_Action enrolActionType
            (rb_Type postDataMessageForDeviceType newRequestBuilder)))))
       ''cannot create enrollment request'' ''cannot enrol device'' Some
       (\<lambda>response. ret (if StatusCode response \<ge> 400 then Some (ErrorString ''cannot enrol device. code'') else None))"

definition client_Register :: "('pool, 'w) http_api \<Rightarrow> 'pool cert_Manager \<Rightarrow> string \<Rightarrow> RegistrationInfo \<Rightarrow>
    ('pool http_Client \<times> 'w, error + RegistrationResponse) io" where
  "client_Register A cm deviceID registerInfo =
     send_request A cm
       (\<lambda>c. rb_Body (RegisterBody registerInfo) (rb_Url (data_url c deviceID ''out'')
          (rb_Header ''Content-Type'' ''application/json'' (rb_Action registerActionType
            (rb_Type postDataMessageForDeviceType newRequestBuilder)))))
       ''cannot create registration request'' ''cannot register device'' Inl
       (\<lambda>response. ret
          (case extractData A assert_string response certificateKey (Some Inr) of
             Inl err \<Rightarrow> Inl err
           | Inr data \<Rightarrow> Inr \<lparr>SignedCSR = data\<rparr>))"

definition client_Heartbeat :: "('pool, 'w) http_api \<Rightarrow> 'pool cert_Manager \<Rightarrow> string \<Rightarrow> Heartbeat \<Rightarrow>
    ('pool http_Client \<times> 'w, error option) io" where
  "client_Heartbeat A cm deviceID heartbeat =
     send_request A cm
       (\<lambda>c. rb_Header ''Content-Type'' ''application/json'' (rb_Body (HeartbeatBody heartbeat)
          (rb_Url (data_url c deviceID ''out'') (rb_Action heartbeatActionType
            (rb_Type postDataMessageForDeviceType newRequestBuilder)))))
       ''cannot create heartbeat request'' ''cannot send heartbeat'' Some
       (\<lambda>response. ret (if StatusCode response \<ge> 400 then Some (ErrorString ''cannot send heartbeat. code'') else None))"

definition client_GetConfiguration :: "('pool, 'w) http_api \<Rightarrow> 'pool cert_Manager \<Rightarrow> string \<Rightarrow>
    ('pool http_Client \<times> 'w, error + DeviceConfigurationMessage) io" where
  "client_GetConfiguration A cm deviceID =
     send_request A cm
       (\<lambda>c. rb_Url (data_url c deviceID ''in'')
          (rb_Header ''Content-Type'' ''application/json'' (rb_Action configurationActionType
            (rb_Type getDataMessageForDeviceType newRequestBuilder))))
       ''cannot create configuration request'' ''cannot get configuration'' Inl
       (\<lambda>response.
          (case extractData A assert_map response [] (Some (transformToConfiguration A)) of
             Inl err \<Rightarrow> ret (Inl err)
           | Inr data \<Rightarrow>
               (case configurationModel2Entity data of
                  None \<Rightarrow> io_panic
                | Some e \<Rightarrow> ret (Inr e))))"

section \<open>The logging transport\<close>

text \<open>
  \<open>logTransportWrapper.RoundTrip\<close>: a body is read, closed, logged and replaced by a reader of what
  was read. A reader is the result of reading it to its end and of closing it. The wrapper is never
  installed: the lines of \<open>New\<close> that would are commented out.
\<close>

record Body =
  read_all :: "error + string"
  close_err :: "error option"

definition mem_body :: "string \<Rightarrow> Body" where
  "mem_body s = \<lparr>read_all = Inr s, close_err = None\<rparr>"

definition read_close :: "Body \<Rightarrow> error + string" where
  "read_close b =
     (case read_all b of
        Inl err \<Rightarrow> Inl err
      | Inr s \<Rightarrow> (case close_err b of Some err \<Rightarrow> Inl err | None \<Rightarrow> Inr s))"

type_synonym log_request = "string \<times> Body option"
type_synonym log_response = "int \<times> Body option"

definition log_RoundTrip :: "(log_request \<Rightarrow> ('w, log_response option \<times> error option) io) \<Rightarrow>
    log_request \<Rightarrow> ('w, log_response option \<times> error option) io" where
  "log_RoundTrip nxt request =
     (case (case snd request of None \<Rightarrow> Inr None | Some b \<Rightarrow> map_sum id (Some \<circ> mem_body) (read_close b)) of
        Inl err \<Rightarrow> ret (None, Some err)
      | Inr body \<Rightarrow>
          io_bind (nxt (fst request, body)) (\<lambda>(response, err).
            case err of
              Some e \<Rightarrow> ret (response, Some e)
            | None \<Rightarrow>
                (case response of
                   None \<Rightarrow> io_panic
                 | Some (status, None) \<Rightarrow> ret (Some (status, None), None)
                 | Some (status, Some b) \<Rightarrow>
                     (case read_close b of
                        Inl e \<Rightarrow> ret (Some (status, Some b), Some e)
                      | Inr s \<Rightarrow> ret (Some (status, Some (mem_body s)), None)))))"

text \<open>
  What the wrapper logs of a request and of a response. The order in which the header is ranged over,
  \<open>mime.ParseMediaType\<close> and the text of an error are arguments. A header has a list of values per
  key; the media type is parsed, and then the body is logged whatever it is.
\<close>

datatype log_entry = Debug string | Debugw string "(string \<times> string) list" | Errorf string

type_synonym http_Header = "(string, string list) gomap"

record log_api =
  headerOrder :: "http_Header \<Rightarrow> http_Header"
  ParseMediaType :: "string \<Rightarrow> error + string"
  errText :: "error \<Rightarrow> string"

record logged_Request =
  lr_Method :: string
  lr_URL :: string
  lr_Host :: string
  lr_Header :: http_Header

record logged_Response =
  ls_Proto :: string
  ls_Status :: string
  ls_Header :: http_Header

definition header_Get :: "http_Header \<Rightarrow> string \<Rightarrow> string" where
  "header_Get h key = (case map_of h key of Some (v # _) \<Rightarrow> v | _ \<Rightarrow> [])"

definition log_header :: "log_api \<Rightarrow> http_Header \<Rightarrow> log_entry list" where
  "log_header L header =
     concat (map (\<lambda>(k, values). map (\<lambda>v. Debugw ''Response header'' [(''key'', k), (''value'', v)]) values) (headerOrder L header))"

definition logBody :: "log_api \<Rightarrow> http_Header \<Rightarrow> string \<Rightarrow> log_entry list" where
  "logBody L header body =
     (let contentType = header_Get header ''Content-Type''
      in (if contentType \<noteq> [] then
            (case ParseMediaType L contentType of
               Inl err \<Rightarrow> [Errorf (''Can'' @ [CHR 0x27] @ ''t parse content type '' @ quoted contentType @ '': '' @ errText L err)]
             | Inr mediaType \<Rightarrow> [])
          else []) @ [Debug body])"

definition logRequest :: "log_api \<Rightarrow> logged_Request \<Rightarrow> string option \<Rightarrow> log_entry list" where
  "logRequest L request body =
     Debug (''Request method is: '' @ lr_Method request) # Debug (''Request URL is: '' @ lr_URL request) #
     (if lr_Host request \<noteq> [] then [Debug (''Request host: '' @ lr_Host request)] else []) @
     log_header L (lr_Header request) @
     (case body of None \<Rightarrow> [] | Some b \<Rightarrow> Debug ''Request body follows'' # logBody L (lr_Header request) b)"

definition logResponse :: "log_api \<Rightarrow> logged_Response \<Rightarrow> string option \<Rightarrow> log_entry list" where
  "logResponse L response body =
     Debug (''Response protocol is: '' @ ls_Proto response) # Debug (''Response status is: '' @ ls_Status response) #
     log_header L (ls_Header response) @
     (case body of None \<Rightarrow> [] | Some b \<Rightarrow> Debug ''Response body follows'' # logBody L (ls_Header response) b)"

section \<open>Properties\<close>

text \<open>A body is logged as it is and last, a header with one entry per key and value in any order.\<close>

lemma log_body_last:
  "last (logRequest L req (Some b)) = Debug b" "last (logResponse L resp (Some b)) = Debug b"
  by (simp_all add: logRequest_def logResponse_def logBody_def Let_def)

lemma log_header_set:
  assumes "\<And>m. set (headerOrder L m) = set m"
  shows "set (log_header L h) = {Debugw ''Response header'' [(''key'', k), (''value'', v)] | k v vs. (k, vs) \<in> set h \<and> v \<in> set vs}"
  using assms by (auto simp: log_header_def)

text \<open>The logging transport does not change what is sent and received, when the bodies can be read.\<close>

lemma log_RoundTrip_transparent:
  assumes "read_close b = Inr s" and "nxt (req, Some (mem_body s)) w = (Returns (Some (status, Some rb), None), w')"
    and "read_close rb = Inr t"
  shows "log_RoundTrip nxt (req, Some b) w = (Returns (Some (status, Some (mem_body t)), None), w')"
  using assms by (simp add: log_RoundTrip_def io_bind_def)

text \<open>No error of the client is of the type that the controller looks for.\<close>

definition plain :: "error \<Rightarrow> bool" where
  "plain e \<longleftrightarrow> (\<forall>x. e \<noteq> UnauthorizedAccessError x)"

lemma plain_simps [simp]: "plain (ErrorString m)" "plain (WrapError m e)"
  by (simp_all add: plain_def)

lemma extractData_plain: "extractData A f r k t = Inl e \<Longrightarrow> plain e"
  by (auto simp: extractData_def split: option.splits sum.splits json.splits if_splits)

lemma send_request_post:
  assumes "\<And>m e. P (fail (WrapError m e))" and "\<And>r s. io_post (k r) s (\<lambda>x _. P x)"
  shows "io_post (send_request A cm mk ct st fail k) s (\<lambda>x _. P x)"
proof -
  have "io_post (io_bind (client_do A cm req) (\<lambda>r. case r of
      Inl err \<Rightarrow> ret (fail (WrapError st err)) | Inr response \<Rightarrow> k response)) s (\<lambda>x _. P x)" for req
    unfolding io_post_bind by (rule io_post_mono [OF io_post_True]) (use assms in \<open>auto split: sum.split\<close>)
  then show ?thesis
    using assms(1) by (auto simp: send_request_def io_post_def split: option.splits sum.splits)
qed

text \<open>
  Whatever the operator answers, an error status 401 included, none of the four operations
  returns an \<open>UnauthorizedAccessError\<close>.
\<close>

theorem client_errors_plain:
  "io_post (client_Enrol A cm d ei) s (\<lambda>r _. pred_option plain r) \<and>
   io_post (client_Register A cm d ri) s (\<lambda>r _. case r of Inl e \<Rightarrow> plain e | Inr _ \<Rightarrow> True) \<and>
   io_post (client_Heartbeat A cm d hb) s (\<lambda>r _. pred_option plain r) \<and>
   io_post (client_GetConfiguration A cm d) s (\<lambda>r _. case r of Inl e \<Rightarrow> plain e | Inr _ \<Rightarrow> True)"
  unfolding client_Enrol_def client_Register_def client_Heartbeat_def client_GetConfiguration_def
  by (intro conjI send_request_post)
    (auto split: sum.split option.split dest: extractData_plain)


text \<open>The network with another status in every response.\<close>

definition with_status :: "(int \<Rightarrow> int) \<Rightarrow> ('pool, 'w) http_api \<Rightarrow> ('pool, 'w) http_api" where
  "with_status f A = A\<lparr>http_Do := (\<lambda>t r w. apfst (map_call (map_sum id
     (\<lambda>resp. resp\<lparr>StatusCode := f (StatusCode resp)\<rparr>))) (http_Do A t r w))\<rparr>"

lemma with_status_simps [simp]:
  "crypto_of (with_status f A) = crypto_of A" "X509KeyPair (with_status f A) = X509KeyPair A"
  "uuid (with_status f A) = uuid A" "json_Marshal (with_status f A) = json_Marshal A"
  "json_Unmarshal (with_status f A) = json_Unmarshal A" "json_Marshal_map (with_status f A) = json_Marshal_map A"
  "json_Unmarshal_configuration (with_status f A) = json_Unmarshal_configuration A"
  "checkRequest (with_status f A) = checkRequest A"
  by (simp_all add: with_status_def)

lemma http_Do_with_status:
  "http_Do (with_status f A) t r w =
     apfst (map_call (map_sum id (\<lambda>resp. resp\<lparr>StatusCode := f (StatusCode resp)\<rparr>))) (http_Do A t r w)"
  by (simp add: with_status_def)

lemma with_status_cong:
  "Build_request (with_status f A) = Build_request A" "getClient (with_status f A) = getClient A"
  "extractData (with_status f A) = extractData A" "transformToConfiguration (with_status f A) = transformToConfiguration A"
  unfolding Build_request_def getClient_def createTransport_def createTLSConfig_def
    extractData_def transformToConfiguration_def with_status_simps
  by (rule HOL.refl)+

lemma client_do_with_status:
  "client_do (with_status f A) cm req s =
     apfst (map_call (map_sum id (\<lambda>resp. resp\<lparr>StatusCode := f (StatusCode resp)\<rparr>))) (client_do A cm req s)"
  by (auto simp: client_do_def io_bind_def with_status_cong lift_net_def http_Do_with_status
      split: prod.splits call.splits sum.splits)

lemma send_request_with_status:
  assumes "\<And>r. k (r\<lparr>StatusCode := f (StatusCode r)\<rparr>) = k r"
  shows "send_request (with_status f A) cm mk ct st fail k = send_request A cm mk ct st fail k"
proof
  fix s
  show "send_request (with_status f A) cm mk ct st fail k s = send_request A cm mk ct st fail k s"
    by (auto simp: send_request_def with_status_cong io_bind_def client_do_with_status assms
        split: option.splits sum.splits prod.splits call.splits)
qed

lemma send_request_error_status:
  assumes "\<And>m e. fail (WrapError m e) \<noteq> None" and "\<And>r s. 400 \<le> StatusCode r \<Longrightarrow> io_post (k r) s (\<lambda>x _. x \<noteq> None)"
  shows "io_post (send_request (with_status (max 400) A) cm mk ct st fail k) s (\<lambda>x _. x \<noteq> None)"
proof -
  have "io_post (client_do (with_status (max 400) A) cm req) s
      (\<lambda>r _. case r of Inl _ \<Rightarrow> True | Inr resp \<Rightarrow> 400 \<le> StatusCode resp)" for req
  proof -
    obtain r t where r: "client_do A cm req s = (r, t)" by (cases "client_do A cm req s")
    show ?thesis
    proof (cases r)
      case (Returns x)
      with r show ?thesis by (cases x) (simp_all add: client_do_with_status io_post_def)
    qed (use r in \<open>simp add: client_do_with_status io_post_def\<close>)
  qed
  then have "io_post (io_bind (client_do (with_status (max 400) A) cm req) (\<lambda>r. case r of
      Inl err \<Rightarrow> ret (fail (WrapError st err)) | Inr response \<Rightarrow> k response)) s (\<lambda>x _. x \<noteq> None)" for req
    unfolding io_post_bind by (rule io_post_mono) (use assms in \<open>auto split: sum.splits\<close>)
  then show ?thesis
    using assms(1) by (auto simp: send_request_def io_post_def split: option.splits sum.splits)
qed

text \<open>
  \<open>Register\<close> and \<open>GetConfiguration\<close> do not look at the status of the response: whatever statuses
  the operator answers with, they return the same. \<open>Enrol\<close> and \<open>Heartbeat\<close> do: with statuses of 400
  or more only, they never succeed.
\<close>

theorem status_handling:
  "client_Register (with_status f A) cm d ri = client_Register A cm d ri \<and>
   client_GetConfiguration (with_status f A) cm d = client_GetConfiguration A cm d \<and>
   io_post (client_Enrol (with_status (max 400) A) cm d ei) s (\<lambda>r _. r \<noteq> None) \<and>
   io_post (client_Heartbeat (with_status (max 400) A) cm d hb) s (\<lambda>r _. r \<noteq> None)"
  unfolding client_Register_def client_GetConfiguration_def client_Enrol_def client_Heartbeat_def with_status_cong
  by (intro conjI send_request_with_status send_request_error_status) (simp_all add: extractData_def)

section \<open>The transport is that of the current certificate\<close>

definition client_inv :: "('pool, 'w) http_api \<Rightarrow> 'pool http_Client \<Rightarrow> bool" where
  "client_inv A c \<longleftrightarrow>
     (transport c = None \<and> certificateSignature c = []) \<or>
     (\<exists>cm t. transport c = Some t \<and> Signature cm = Some (certificateSignature c) \<and>
        createTransport A (transportWrappers c) cm = Some (t, None))"

lemma getClient_cases:
  assumes "client_inv A c"
  shows "case getClient A cm (c, w) of
      (Panics, s) \<Rightarrow> s = (c, w)
    | (Returns (Inl e), s) \<Rightarrow> s = (c, w)
    | (Returns (Inr t), s) \<Rightarrow> client_inv A (fst s) \<and> snd s = w \<and> transport (fst s) = t \<and>
        Signature cm = Some (certificateSignature (fst s))"
proof (cases "Signature cm")
  case None
  then show ?thesis by (simp add: getClient_def)
next
  case (Some sig)
  show ?thesis
  proof (cases "certificateSignature c = sig")
    case True
    with Some assms show ?thesis by (simp add: getClient_def)
  next
    case False
    show ?thesis
    proof (cases "createTransport A (transportWrappers c) cm")
      case None
      with False Some show ?thesis by (simp add: getClient_def)
    next
      case t: (Some r)
      obtain x err where r: "r = (x, err)" by fastforce
      show ?thesis
      proof (cases err)
        case None
        with False Some t r show ?thesis
          by (auto simp: getClient_def client_inv_def)
      qed (use False Some t r in \<open>simp add: getClient_def\<close>)
    qed
  qed
qed

lemma client_do_sends:
  assumes "client_inv A c" and "Signature cm \<noteq> Some []" and "client_do A cm req (c, w) = (r, (c', w'))"
  shows "client_inv A c' \<and>
    (w' = w \<and> (r = Panics \<or> (\<exists>e. r = Returns (Inl e))) \<or>
     (\<exists>t cm\<^sub>0. Signature cm\<^sub>0 = Signature cm \<and> createTransport A (transportWrappers c') cm\<^sub>0 = Some (t, None) \<and>
        http_Do A (Some t) req w = (r, w')))"
proof -
  obtain g s where g: "getClient A cm (c, w) = (g, s)" by (cases "getClient A cm (c, w)")
  note cases = getClient_cases [OF assms(1), where cm = cm and w = w, unfolded g]
  consider (panics) "g = Panics" | (err) e where "g = Returns (Inl e)" | (ok) t where "g = Returns (Inr t)"
    by (metis call.exhaust sum.exhaust)
  then show ?thesis
  proof cases
    case panics
    with cases assms g show ?thesis by (auto simp: client_do_def io_bind_def)
  next
    case err
    with cases assms g show ?thesis by (auto simp: client_do_def io_bind_def)
  next
    case ok
    obtain c1 where s: "s = (c1, w)" using cases ok by (cases s) auto
    with ok cases have c1: "client_inv A c1" "transport c1 = t" "Signature cm = Some (certificateSignature c1)" by auto
    from ok s g assms(3) have "c' = c1" "http_Do A t req w = (r, w')"
      by (auto simp: client_do_def io_bind_def lift_net_def split: prod.splits)
    moreover obtain t' cm\<^sub>0 where "t = Some t'" "Signature cm\<^sub>0 = Signature cm"
      "createTransport A (transportWrappers c1) cm\<^sub>0 = Some (t', None)"
      using c1 assms(2) by (auto simp: client_inv_def)
    ultimately show ?thesis using c1(1) by blast
  qed
qed

text \<open>
  A request either fails before anything is sent, or goes out over a transport that was made from
  a certificate with the signature of the current one; and the client stays in a state of which
  this holds.
\<close>

theorem client_do_current:
  assumes "client_inv A c" and "Signature cm \<noteq> Some []" and "client_do A cm req (c, w) = (r, (c', w'))"
  shows "client_inv A c' \<and>
    (w' = w \<and> (r = Panics \<or> (\<exists>e. r = Returns (Inl e))) \<or>
     (\<exists>t cm\<^sub>0. Signature cm\<^sub>0 = Signature cm \<and> createTransport A (transportWrappers c') cm\<^sub>0 = Some (t, None) \<and>
        http_Do A (Some t) req w = (r, w')))"
  by (rule client_do_sends [OF assms])

text \<open>A client that has just been made, and a network that answers every request with status 401.\<close>

definition client_example :: "unit http_Client" where
  "client_example = \<lparr>certificateSignature = [], serverURL = ''http://op'', transportWrappers = [], transport = None\<rparr>"

definition api_example :: "(unit, nat) http_api" where
  "api_example = \<lparr>crypto_of = crypto_example, X509KeyPair = (\<lambda>c k. Inr c), uuid = decimal,
     json_Marshal = (\<lambda>m. Inr (MessageID m)), json_Unmarshal = (\<lambda>s. Inr (JObj [(''certificate'', JStr s)])),
     json_Marshal_map = (\<lambda>_. Inr []), json_Unmarshal_configuration = (\<lambda>_. Inr models_example),
     checkRequest = (\<lambda>_ _. None),
     http_Do = (\<lambda>t r w. (Returns (Inr \<lparr>StatusCode = 401, resp_Body = Inr ''x''\<rparr>), Suc w))\<rparr>"

definition request_example :: Request where
  "request_example = \<lparr>r_Method = ''GET'', r_URL = ''u'', r_Body = None, r_Header = []\<rparr>"

theorem client_do_current_witness:
  "\<exists>c' t cm\<^sub>0. client_inv api_example c' \<and> Signature cm\<^sub>0 = Signature manager_example \<and>
     createTransport api_example (transportWrappers c') cm\<^sub>0 = Some (t, None)"
proof -
  have inv: "client_inv api_example client_example" by (simp add: client_inv_def client_example_def)
  have sig: "Signature manager_example \<noteq> Some []" by (simp add: Signature_def manager_example_def)
  obtain c' where d: "client_do api_example manager_example request_example (client_example, 0) =
      (Returns (Inr \<lparr>StatusCode = 401, resp_Body = Inr ''x''\<rparr>), (c', Suc 0))"
    by (simp add: client_do_def getClient_def io_bind_def createTransport_def createTLSConfig_def GetCertificates_def
        Signature_def manager_example_def client_example_def api_example_def lift_net_def)
  from client_do_current [OF inv sig d] show ?thesis by auto
qed

end
