(* ===== verification/Conf_Manager.thy ===== *)
theory Conf_Manager
  imports Configuration
begin

text \<open>
  The configuration manager (\<open>internal/configuration/manager.go\<close>). A call of \<open>SetConfiguration\<close> is
  the list of the messages it sends, in order, and the manager afterwards: the sends may block and
  are steps of the controller (theory \<open>Controller\<close>). The two orders are those of the ranges over
  the profiles and over the conditions of a profile.
\<close>

section \<open>Messages\<close>

datatype MessageKind = WorkloadConfigurationMessage | ProfileConfigurationMessage

text \<open>\<open>Option[[]Workload]\<close> and \<open>Option[map[string]DeviceProfile]\<close>, the two payloads that are sent.\<close>

datatype Payload = WorkloadsPayload "PodWorkload list option" | ProfilesPayload "profiles option"

record Message =
  m_Kind :: MessageKind
  m_Payload :: Payload

datatype conf_send = ToScheduler Message | ToStateManager Message

section \<open>The manager\<close>

record conf_Manager =
  cm_conf :: DeviceConfigurationMessage
  cm_hardware :: HardwareInfo
  cm_statusReader :: "(unit \<Rightarrow> (string, JobState) gomap) option"

definition defaultConfiguration :: DeviceConfigurationMessage where
  "defaultConfiguration =
     \<lparr>msg_Configuration =
        \<lparr>dc_Heartbeat = \<lparr>HardwareProfile = \<lparr>hp_Include = True, hp_Scope = FullScope\<rparr>, Period = 1 * second\<rparr>,
         dc_Mounts = None,
         dc_OsInformation = \<lparr>AutomaticallyUpgrade = False, CommitID = [], HostedObjectsURL = []\<rparr>,
         dc_Profiles = None\<rparr>,
      msg_DeviceID = [], msg_Version = [], msg_Workloads = None, msg_Interval = 0\<rparr>"

definition conf_New :: conf_Manager where
  "conf_New = \<lparr>cm_conf = defaultConfiguration, cm_hardware = GetHardwareInformation, cm_statusReader = None\<rparr>"

definition SetWorkloadStatusReader :: "(unit \<Rightarrow> (string, JobState) gomap) \<Rightarrow> conf_Manager \<Rightarrow> conf_Manager" where
  "SetWorkloadStatusReader r c = c\<lparr>cm_statusReader := Some r\<rparr>"

record conf_ranges =
  profilesOrder :: "(string \<times> (string, string) gomap) list \<Rightarrow> (string \<times> (string, string) gomap) list"
  conditionsOrder :: "(string \<times> string) list \<Rightarrow> (string \<times> string) list"
  statusOrder :: "(string \<times> JobState) list \<Rightarrow> (string \<times> JobState) list"

text \<open>
  The inner loop: an expression that does not parse ends it with \<open>break\<close>, and the conditions
  collected so far are kept.
\<close>

fun create_conditions :: "(string \<times> string) list \<Rightarrow> ProfileCondition list" where
  "create_conditions [] = []"
| "create_conditions ((name, ex) # cs) =
     (case interpreter_New ex of
        Inl err \<Rightarrow> []
      | Inr intr \<Rightarrow> \<lparr>pc_Name = name, RequiredVariables = [], Expression = intr\<rparr> # create_conditions cs)"

definition create_profile :: "conf_ranges \<Rightarrow> string \<Rightarrow> (string, string) gomap \<Rightarrow> DeviceProfile" where
  "create_profile R name conditions =
     \<lparr>dp_Name = name, dp_Conditions = create_conditions (conditionsOrder R conditions)\<rparr>"

fun create_loop :: "conf_ranges \<Rightarrow> (string \<times> (string, string) gomap) list \<Rightarrow> profiles \<Rightarrow> profiles" where
  "create_loop R [] ps = ps"
| "create_loop R ((name, conditions) # rest) ps =
     create_loop R rest (AList.update name (create_profile R name conditions) ps)"

text \<open>The error it returns is always nil.\<close>

definition createDeviceProfiles ::
    "conf_ranges \<Rightarrow> (string, (string, string) gomap) gomap \<Rightarrow> profiles option \<times> error option" where
  "createDeviceProfiles R confProfiles =
     (if length confProfiles = 0 then (None, None)
      else
        (let ps = create_loop R (profilesOrder R confProfiles) []
         in (if length ps = 0 then None else Some ps, None)))"

definition SetConfiguration ::
    "env \<Rightarrow> conf_ranges \<Rightarrow> DeviceConfigurationMessage \<Rightarrow> conf_Manager \<Rightarrow> conf_send list \<times> conf_Manager" where
  "SetConfiguration E R newConf c =
     (let newConf' = sort_workloads E newConf; c' = c\<lparr>cm_conf := sort_workloads E (cm_conf c)\<rparr>
      in if message_Hash E newConf = message_Hash E (cm_conf c) then ([], c')
         else
           (let ws = elems (msg_Workloads newConf');
                o1 = (if length ws = 0 then None else Some ws);
                (deviceProfiles, err) = createDeviceProfiles R (elems (dc_Profiles (msg_Configuration newConf')))
            in (ToScheduler \<lparr>m_Kind = WorkloadConfigurationMessage, m_Payload = WorkloadsPayload o1\<rparr> #
                (case err of
                   Some e \<Rightarrow> []
                 | None \<Rightarrow> [ToStateManager \<lparr>m_Kind = ProfileConfigurationMessage,
                                           m_Payload = ProfilesPayload deviceProfiles\<rparr>]),
                c'\<lparr>cm_conf := newConf'\<rparr>)))"

definition status_of :: "JobState \<Rightarrow> Status" where
  "status_of state =
     (case state of
        RunningState \<Rightarrow> Running
      | InactiveState \<Rightarrow> Stopped | UnknownState \<Rightarrow> Stopped | ReadyState \<Rightarrow> Stopped
      | _ \<Rightarrow> Crashed)"

definition statusMapper :: "conf_ranges \<Rightarrow> (string, JobState) gomap \<Rightarrow> WorkloadStatus list" where
  "statusMapper R ws =
     map (\<lambda>(name, state). \<lparr>LastDataUpload = 0, ws_Name = name, ws_Status = status_of state\<rparr>) (statusOrder R ws)"

definition Heartbeat_of :: "conf_ranges \<Rightarrow> conf_Manager \<Rightarrow> Heartbeat" where
  "Heartbeat_of R c =
     \<lparr>hb_Events = None, hb_Hardware = Some (cm_hardware c), hb_Status = Up, hb_Upgrade = None, hb_Version = [],
      hb_Workloads = Some (statusMapper R (case cm_statusReader c of None \<Rightarrow> [] | Some r \<Rightarrow> r ()))\<rparr>"

section \<open>Device profiles\<close>

lemma map_of_create_loop:
  "distinct (map fst xs) \<Longrightarrow>
     map_of (create_loop R xs ps) n =
       (case map_of xs n of None \<Rightarrow> map_of ps n | Some cs \<Rightarrow> Some (create_profile R n cs))"
  by (induction R xs ps rule: create_loop.induct) (force simp: update_conv' split: option.split)+

lemma wf_create_loop: "wf_map ps \<Longrightarrow> wf_map (create_loop R xs ps)"
  by (induction R xs ps rule: create_loop.induct) auto

definition parses :: "string \<times> string \<Rightarrow> bool" where
  "parses c \<longleftrightarrow> (case interpreter_New (snd c) of Inl _ \<Rightarrow> False | Inr _ \<Rightarrow> True)"

lemma create_conditions_takeWhile:
  "map (\<lambda>c. (pc_Name c, Inr (Expression c))) (create_conditions cs) =
     map (\<lambda>(n, ex). (n, interpreter_New ex)) (takeWhile parses cs)"
  by (induction cs rule: create_conditions.induct) (auto simp: parses_def split: sum.split)

lemma create_profile_all:
  assumes "is_range (conditionsOrder R)" and "\<forall>c \<in> set cs. parses c"
  shows "mset (map (\<lambda>c. (pc_Name c, Inr (Expression c))) (dp_Conditions (create_profile R n cs))) =
    mset (map (\<lambda>(n, ex). (n, interpreter_New ex)) cs)"
proof -
  have tw: "takeWhile parses (conditionsOrder R cs) = conditionsOrder R cs"
    using assms by (simp add: takeWhile_eq_all_conv is_range_set)
  show ?thesis
    by (simp add: create_profile_def create_conditions_takeWhile tw is_range_mset [OF assms(1)])
qed

text \<open>
  C20: Profiles whose expressions all parse: one device profile per configured name, with exactly the
  configured conditions and the parsed form of each, whatever order the two maps are visited in.
\<close>

theorem createDeviceProfiles_spec:
  assumes "is_range (profilesOrder R)" and "is_range (conditionsOrder R)"
    and "wf_map ps" and "ps \<noteq> []" and "\<forall>(n, cs) \<in> set ps. \<forall>c \<in> set cs. parses c"
  shows "\<exists>dps. createDeviceProfiles R ps = (Some dps, None) \<and> wf_map dps \<and> fst ` set dps = fst ` set ps \<and>
    (\<forall>(n, cs) \<in> set ps. \<exists>d. map_of dps n = Some d \<and> dp_Name d = n \<and>
       mset (map (\<lambda>c. (pc_Name c, Inr (Expression c))) (dp_Conditions d)) =
       mset (map (\<lambda>(n, ex). (n, interpreter_New ex)) cs))"
proof -
  define xs where "xs = profilesOrder R ps"
  define dps where "dps = create_loop R xs []"
  have xs: "set xs = set ps" "distinct (map fst xs)"
  proof -
    show "set xs = set ps" using assms(1) by (simp add: xs_def is_range_set)
    have "mset (map fst xs) = mset (map fst ps)" using assms(1) by (simp add: xs_def is_range_mset)
    then show "distinct (map fst xs)" using assms(3) mset_eq_imp_distinct_iff unfolding wf_map_def by blast
  qed
  have lookup: "map_of dps n = Some (create_profile R n cs)" if "(n, cs) \<in> set ps" for n cs
  proof -
    have "map_of xs n = Some cs" using that xs by simp
    then show ?thesis by (simp add: dps_def map_of_create_loop [OF xs(2)])
  qed
  have names: "fst ` set dps = fst ` set ps"
  proof -
    have "dom (map_of dps) = dom (map_of xs)"
      by (auto simp: dps_def map_of_create_loop [OF xs(2)] split: option.splits)
    then show ?thesis using xs by (simp add: dom_map_of_conv_image_fst)
  qed
  then have "dps \<noteq> []" using assms(4) by auto
  then have "createDeviceProfiles R ps = (Some dps, None)"
    using assms(4) by (simp add: createDeviceProfiles_def dps_def xs_def)
  moreover have "wf_map dps" by (simp add: dps_def wf_create_loop)
  moreover have "\<exists>d. map_of dps n = Some d \<and> dp_Name d = n \<and>
       mset (map (\<lambda>c. (pc_Name c, Inr (Expression c))) (dp_Conditions d)) =
       mset (map (\<lambda>(n, ex). (n, interpreter_New ex)) cs)" if "(n, cs) \<in> set ps" for n cs
  proof -
    have "\<forall>c \<in> set cs. parses c" using assms(5) that by blast
    then show ?thesis
      using create_profile_all [OF assms(2), of cs n] lookup [OF that] by (simp add: create_profile_def)
  qed
  ultimately show ?thesis using names by (intro exI [of _ dps]) auto
qed

definition ranges_id :: conf_ranges where
  "ranges_id = \<lparr>profilesOrder = (\<lambda>m. m), conditionsOrder = (\<lambda>m. m), statusOrder = (\<lambda>m. m)\<rparr>"

definition profile_example :: "(string, (string, string) gomap) gomap" where
  "profile_example = [(''perf'', [(''low'', ''cpu < 10'')])]"

lemma profile_example_parses: "parses (''low'', ''cpu < 10'')"
  by code_simp

theorem createDeviceProfiles_spec_witness:
  "\<exists>dps. createDeviceProfiles ranges_id profile_example = (Some dps, None) \<and> wf_map dps \<and> fst ` set dps = {''perf''}"
  using createDeviceProfiles_spec [of ranges_id profile_example] profile_example_parses
  by (auto simp: ranges_id_def profile_example_def wf_map_def)

text \<open>
  One expression that does not parse costs the conditions visited after it, and no error is
  returned: of the two conditions of this profile the valid one is kept in one order of the range
  and lost in the other.
\<close>

theorem invalid_condition_drops_others:
  "map (\<lambda>p. map pc_Name (dp_Conditions (snd p)))
     (the (fst (createDeviceProfiles R [(''perf'', [(''low'', ''cpu < 10''), (''bad'', ''cpu <'')])]))) =
   (if conditionsOrder R [(''low'', ''cpu < 10''), (''bad'', ''cpu <'')] = [(''low'', ''cpu < 10''), (''bad'', ''cpu <'')]
    then [[''low'']] else [[]]) \<and>
   snd (createDeviceProfiles R [(''perf'', [(''low'', ''cpu < 10''), (''bad'', ''cpu <'')])]) = None"
  if "is_range (profilesOrder R)" and "is_range (conditionsOrder R)"
proof -
  let ?cs = "[(''low'', ''cpu < 10''), (''bad'', ''cpu <'')]"
  have p: "profilesOrder R [(''perf'', ?cs)] = [(''perf'', ?cs)]" using that(1) by (rule is_range_small) simp
  have "mset (conditionsOrder R ?cs) = mset ?cs" using that(2) by (rule is_range_mset)
  then have c: "conditionsOrder R ?cs = ?cs \<or> conditionsOrder R ?cs = rev ?cs"
    by (rule mset_two)
  have ok: "map pc_Name (create_conditions ?cs) = [''low'']" "create_conditions (rev ?cs) = []" by code_simp+
  show ?thesis
    using c by (auto simp: createDeviceProfiles_def p create_profile_def ok [simplified])
qed

theorem invalid_condition_drops_others_witness:
  "map (\<lambda>p. map pc_Name (dp_Conditions (snd p)))
     (the (fst (createDeviceProfiles (ranges_id\<lparr>conditionsOrder := rev\<rparr>)
        [(''perf'', [(''low'', ''cpu < 10''), (''bad'', ''cpu <'')])]))) = [[]]"
  using invalid_condition_drops_others [of "ranges_id\<lparr>conditionsOrder := rev\<rparr>"] by (simp add: ranges_id_def)

section \<open>New configurations\<close>

lemma sort_workloads_idem [simp]: "sort_workloads E (sort_workloads E m) = sort_workloads E m"
  by (cases "msg_Workloads m") (simp_all add: sort_workloads_def sort_key_id_if_sorted)

lemma message_text_sorted [simp]: "message_text E (sort_workloads E m) = message_text E m"
proof -
  have "elems (msg_Workloads (sort_workloads E (sort_workloads E m))) = elems (msg_Workloads (sort_workloads E m))"
    by simp
  then show ?thesis by (simp add: message_text_def) (simp add: sort_workloads_def)
qed

lemma message_Hash_sorted [simp]: "message_Hash E (sort_workloads E m) = message_Hash E m"
  by (simp add: message_Hash_def)

lemma SetConfiguration_same:
  "message_Hash E newConf = message_Hash E (cm_conf c) \<Longrightarrow>
     SetConfiguration E R newConf c = ([], c\<lparr>cm_conf := sort_workloads E (cm_conf c)\<rparr>)"
  by (simp add: SetConfiguration_def Let_def)

lemma createDeviceProfiles_no_error [simp]: "snd (createDeviceProfiles R ps) = None"
  by (simp add: createDeviceProfiles_def Let_def)

lemma sorted_workloads_mset: "mset (elems (msg_Workloads (sort_workloads E m))) = mset (elems (msg_Workloads m))"
  by (cases "msg_Workloads m") (simp_all add: sort_workloads_def)

lemma sorted_workloads: "sorted (map (ID (mapOrder E) (digest E)) (elems (msg_Workloads (sort_workloads E m))))"
  by (cases "msg_Workloads m") (simp_all add: sort_workloads_def)

lemma SetConfiguration_new:
  assumes "message_Hash E newConf \<noteq> message_Hash E (cm_conf c)"
  defines "ws \<equiv> elems (msg_Workloads (sort_workloads E newConf))"
  shows "SetConfiguration E R newConf c =
    ([ToScheduler \<lparr>m_Kind = WorkloadConfigurationMessage,
        m_Payload = WorkloadsPayload (if ws = [] then None else Some ws)\<rparr>,
      ToStateManager \<lparr>m_Kind = ProfileConfigurationMessage,
        m_Payload = ProfilesPayload (fst (createDeviceProfiles R (elems (dc_Profiles (msg_Configuration newConf)))))\<rparr>],
     c\<lparr>cm_conf := sort_workloads E newConf\<rparr>)"
proof -
  let ?ps = "elems (dc_Profiles (msg_Configuration newConf))"
  have "msg_Configuration (sort_workloads E newConf) = msg_Configuration newConf" by (simp add: sort_workloads_def)
  moreover obtain ps where "createDeviceProfiles R ?ps = (ps, None)"
    using createDeviceProfiles_no_error [of R ?ps] by (cases "createDeviceProfiles R ?ps") auto
  ultimately show ?thesis using assms(1) by (simp add: SetConfiguration_def Let_def ws_def)
qed



definition conf_example :: DeviceConfigurationMessage where
  "conf_example = defaultConfiguration\<lparr>msg_DeviceID := ''dev'', msg_Workloads := Some [pod_example]\<rparr>"

lemma conf_example_new: "message_Hash (env_at 0) conf_example \<noteq> message_Hash (env_at 0) (cm_conf conf_New)"
  by (simp add: message_Hash_def env_at_def message_text_def conf_example_def conf_New_def
      defaultConfiguration_def sort_workloads_def duration_String_def fmt_units_def)


text \<open>
  C22: No change is missed. When \<open>SetConfiguration\<close> sends nothing for a message of the same device and
  version, and the digest tells the two texts apart that were hashed, then the two messages have
  the same printed interval, the same heartbeat period, mounts, system and profiles, and the same
  workloads, up to the order of maps and the addresses of CPU limits.
\<close>

theorem SetConfiguration_misses_nothing:
  assumes "msg_DeviceID newConf = msg_DeviceID (cm_conf c)" and "msg_Version newConf = msg_Version (cm_conf c)"
    and "digest E (message_text E newConf) = digest E (message_text E (cm_conf c)) \<Longrightarrow>
      message_text E newConf = message_text E (cm_conf c)"
    and "fst (SetConfiguration E R newConf c) = []"
  shows "duration_String (msg_Interval newConf) = duration_String (msg_Interval (cm_conf c)) \<and>
    norm_configuration (msg_Configuration newConf) = norm_configuration (msg_Configuration (cm_conf c)) \<and>
    image_mset norm_workload (mset (elems (msg_Workloads newConf))) =
    image_mset norm_workload (mset (elems (msg_Workloads (cm_conf c))))"
proof -
  have "message_Hash E newConf = message_Hash E (cm_conf c)"
    using assms(4) SetConfiguration_new [of E newConf c R] by (cases "message_Hash E newConf = message_Hash E (cm_conf c)") auto
  with assms(3) have "message_text E newConf = message_text E (cm_conf c)" by (simp add: message_Hash_def)
  from message_text_uniq [OF assms(1,2) this] show ?thesis
    by (metis mset_map sorted_workloads_mset)
qed

theorem SetConfiguration_misses_nothing_witness:
  "fst (SetConfiguration (env_at 0) ranges_id conf_example (conf_New\<lparr>cm_conf := conf_example\<rparr>)) = [] \<and>
   norm_configuration (msg_Configuration conf_example) = norm_configuration (msg_Configuration conf_example)"
proof -
  have "fst (SetConfiguration (env_at 0) ranges_id conf_example (conf_New\<lparr>cm_conf := conf_example\<rparr>)) = []"
    by (subst SetConfiguration_same) simp_all
  with SetConfiguration_misses_nothing [of conf_example "conf_New\<lparr>cm_conf := conf_example\<rparr>" "env_at 0" ranges_id]
  show ?thesis by simp
qed

text \<open>
  Two messages that differ can have one hash: the identifier of the device and the version are
  written one after the other without a separator.
\<close>

theorem message_Hash_ambiguous:
  "message_Hash E (m\<lparr>msg_DeviceID := ''dev1'', msg_Version := ''2''\<rparr>) =
     message_Hash E (m\<lparr>msg_DeviceID := ''dev'', msg_Version := ''12''\<rparr>)"
  by (simp add: message_Hash_def message_text_def sort_workloads_def)

section \<open>Heartbeats\<close>

text \<open>
  A heartbeat reports one status for each entry of the status reader, in any order, running for
  a running job, stopped for one that is inactive, unknown or ready, and crashed for every other;
  without a reader it reports no workload at all.
\<close>

theorem Heartbeat_spec:
  assumes "is_range (statusOrder R)"
  shows "mset (map (\<lambda>s. (ws_Name s, ws_Status s)) (elems (hb_Workloads (Heartbeat_of R (SetWorkloadStatusReader r c))))) =
      mset (map (\<lambda>(n, s). (n, if s = RunningState then Running
         else if s \<in> {InactiveState, UnknownState, ReadyState} then Stopped else Crashed)) (r ())) \<and>
    hb_Workloads (Heartbeat_of R conf_New) = Some []"
proof -
  have st: "status_of s = (if s = RunningState then Running
         else if s \<in> {InactiveState, UnknownState, ReadyState} then Stopped else Crashed)" for s
    by (cases s) (simp_all add: status_of_def)
  have "statusOrder R [] = []" using is_range_small [OF assms, of "[]"] by simp
  then show ?thesis
    by (simp add: Heartbeat_of_def statusMapper_def SetWorkloadStatusReader_def conf_New_def
        is_range_mset [OF assms] comp_def case_prod_unfold st)
qed

theorem Heartbeat_spec_witness:
  "mset (map (\<lambda>s. (ws_Name s, ws_Status s))
     (elems (hb_Workloads (Heartbeat_of ranges_id (SetWorkloadStatusReader (\<lambda>_. [(''web'', ExitedState)]) conf_New))))) =
   {#(''web'', Crashed)#}"
  using Heartbeat_spec [of ranges_id "\<lambda>_. [(''web'', ExitedState)]" conf_New]
  by (simp add: ranges_id_def)

end
