(* ===== verification/Settings.thy ===== *)
theory Settings
  imports Certificate
begin

text \<open>
  The settings of the process (\<open>configuration/config.go\<close>) and the command line
  (\<open>cmd/root.go\<close>). The package \<open>viper\<close> is the record \<open>viper_api\<close> on a state of its own; what the
  theorems rely on is that a value that was set is found again (\<open>viper_ok\<close>). The flags of the
  command are a list, in the order \<open>VisitAll\<close> visits them.
\<close>

section \<open>Viper and flags\<close>

record 'v viper_api =
  viper_New :: 'v
  IsSet :: "'v \<Rightarrow> string \<Rightarrow> bool"
  GetString :: "'v \<Rightarrow> string \<Rightarrow> string"
  GetDuration :: "'v \<Rightarrow> string \<Rightarrow> duration"
  viper_Set :: "string \<Rightarrow> string \<Rightarrow> 'v \<Rightarrow> 'v"
  BindEnv :: "string \<Rightarrow> string \<Rightarrow> 'v \<Rightarrow> 'v"
  ReadInConfig :: "string \<Rightarrow> 'v \<Rightarrow> error + 'v"

record Flag =
  f_Name :: string
  f_Changed :: bool
  f_Value :: string

definition prefix :: string where "prefix = ''EDGE_DEVICE''"
definition key_caRoot :: string where "key_caRoot = ''CA_ROOT''"
definition key_certFile :: string where "key_certFile = ''CERT''"
definition key_privateKey :: string where "key_privateKey = ''KEY''"
definition key_server :: string where "key_server = ''SERVER''"
definition key_namespace :: string where "key_namespace = ''NAMESPACE''"
definition key_deviceID :: string where "key_deviceID = ''DEVICE_ID''"
definition key_xdg_runtime_dir :: string where "key_xdg_runtime_dir = ''XDG_RUNTIME_DIR''"
definition key_kubeConfig :: string where "key_kubeConfig = ''KUBECONFIG''"
definition key_gracefulShutdown :: string where "key_gracefulShutdown = ''GRACEFUL_SHUTDOWN''"
definition defaultGracefulShutdown :: duration where "defaultGracefulShutdown = 5 * second"
definition defaultNamespace :: string where "defaultNamespace = ''default''"
definition defaultHttpTimeout :: duration where "defaultHttpTimeout = 5 * second"

text \<open>\<open>strings.ToUpper\<close> on ASCII text.\<close>

definition toUpper :: "string \<Rightarrow> string" where
  "toUpper s = map (\<lambda>c. if CHR ''a'' \<le> c \<and> c \<le> CHR ''z'' then char_of (of_char c - (32 :: nat)) else c) s"

definition bind_flag :: "'v viper_api \<Rightarrow> Flag \<Rightarrow> 'v \<Rightarrow> Flag \<times> 'v" where
  "bind_flag V f v =
     (let dash = CHR ''-'' \<in> set (f_Name f);
          name' = replaceAll (f_Name f) (CHR ''-'') (CHR ''_'');
          v' = (if dash then BindEnv V (f_Name f) (prefix @ ''_'' @ toUpper name') v else v);
          flagName = (if dash then name' else f_Name f)
      in if \<not> f_Changed f \<and> IsSet V v' flagName
         then (f\<lparr>f_Value := GetString V v' flagName, f_Changed := True\<rparr>, v')
         else if f_Changed f \<and> \<not> IsSet V v' flagName then (f, viper_Set V flagName (f_Value f) v')
         else (f, v'))"

fun bindFlags :: "'v viper_api \<Rightarrow> Flag list \<Rightarrow> 'v \<Rightarrow> Flag list \<times> 'v" where
  "bindFlags V [] v = ([], v)"
| "bindFlags V (f # fs) v =
     (let (f', v') = bind_flag V f v; (fs', v'') = bindFlags V fs v' in (f' # fs', v''))"

definition InitConfiguration :: "'v viper_api \<Rightarrow> Flag list \<Rightarrow> string \<Rightarrow> error option \<times> Flag list \<times> 'v" where
  "InitConfiguration V flags configFile =
     (if length configFile > 0 then
        (case ReadInConfig V configFile (viper_New V) of
           Inl err \<Rightarrow> (Some (ErrorString ''fail to read config file''), flags, viper_New V)
         | Inr v \<Rightarrow> (None, bindFlags V flags v))
      else (None, bindFlags V flags (viper_New V)))"

section \<open>Getters\<close>

definition GetGracefulShutdownDuration :: "'v viper_api \<Rightarrow> 'v \<Rightarrow> duration" where
  "GetGracefulShutdownDuration V v =
     (if \<not> IsSet V v key_gracefulShutdown then defaultGracefulShutdown else GetDuration V v key_gracefulShutdown)"

definition GetHttpRequestTimeout :: duration where
  "GetHttpRequestTimeout = defaultHttpTimeout"

definition GetTargetNamespace :: "'v viper_api \<Rightarrow> 'v \<Rightarrow> string" where
  "GetTargetNamespace V v = (if \<not> IsSet V v key_namespace then defaultNamespace else GetString V v key_namespace)"

text \<open>\<open>machineID\<close> is what \<open>machineid.ID()\<close> returns and \<open>fresh\<close> what \<open>uuid.New()\<close> would.\<close>

definition GetDeviceID :: "'v viper_api \<Rightarrow> error + string \<Rightarrow> string \<Rightarrow> 'v \<Rightarrow> string \<times> 'v" where
  "GetDeviceID V machineID fresh v =
     (if \<not> IsSet V v key_deviceID then
        (let i = (case machineID of Inl _ \<Rightarrow> fresh | Inr i \<Rightarrow> i) in (i, viper_Set V key_deviceID i v))
      else (GetString V v key_deviceID, v))"

definition GetCARootFile :: "'v viper_api \<Rightarrow> 'v \<Rightarrow> string" where
  "GetCARootFile V v = GetString V v key_caRoot"

definition GetCertificateFile :: "'v viper_api \<Rightarrow> 'v \<Rightarrow> string" where
  "GetCertificateFile V v = GetString V v key_certFile"

definition GetPrivateKey :: "'v viper_api \<Rightarrow> 'v \<Rightarrow> string" where
  "GetPrivateKey V v = GetString V v key_privateKey"

definition GetServerAddress :: "'v viper_api \<Rightarrow> 'v \<Rightarrow> string" where
  "GetServerAddress V v = GetString V v key_server"

definition GetXDGRuntimeDir :: "'v viper_api \<Rightarrow> (string \<Rightarrow> string) \<Rightarrow> 'v \<Rightarrow> string" where
  "GetXDGRuntimeDir V getenv v =
     (if IsSet V v key_xdg_runtime_dir then GetString V v key_xdg_runtime_dir else getenv ''XDG_RUNTIME_DIR'')"

definition GetKubeConfig :: "'v viper_api \<Rightarrow> 'v \<Rightarrow> string" where
  "GetKubeConfig V v = GetString V v key_kubeConfig"

text \<open>\<open>GetRepoRetryConfig\<close> sets none of the fields: the intervals are 0.\<close>

record RetryConfig =
  InitialInterval :: duration
  Multiplier :: float64
  MaxInterval :: duration
  MaxElapsedTime :: duration

definition GetRepoRetryConfig :: RetryConfig where
  "GetRepoRetryConfig = \<lparr>InitialInterval = 0, Multiplier = 0, MaxInterval = 0, MaxElapsedTime = 0\<rparr>"

section \<open>The command line\<close>

text \<open>The flags of the command with their defaults, in the order of their names.\<close>

definition root_flags :: "Flag list" where
  "root_flags = map (\<lambda>(n, d). \<lparr>f_Name = n, f_Changed = False, f_Value = d\<rparr>)
     [(''ca-root'', []), (''cert'', []), (''config'', ''c''), (''key'', []), (''log-level'', ''info''),
      (''namespace'', ''default''), (''server'', [])]"

definition flag_value :: "Flag list \<Rightarrow> string \<Rightarrow> string" where
  "flag_value fs n = (case find (\<lambda>f. f_Name f = n) fs of None \<Rightarrow> [] | Some f \<Rightarrow> f_Value f)"

text \<open>\<open>os.ReadFile\<close> is an argument.\<close>

definition initCertificateManager ::
    "'pool crypto \<Rightarrow> (string \<Rightarrow> error + string) \<Rightarrow> string \<Rightarrow> string \<Rightarrow> string \<Rightarrow> error + 'pool cert_Manager" where
  "initCertificateManager C readFile caroot certFile keyFile =
     (case readFile caroot of
        Inl err \<Rightarrow> Inl err
      | Inr ca \<Rightarrow>
          (case readFile certFile of
             Inl err \<Rightarrow> Inl err
           | Inr crt \<Rightarrow>
               (case readFile keyFile of
                  Inl err \<Rightarrow> Inl err
                | Inr key \<Rightarrow> cert_New C [ca] crt key)))"

section \<open>Properties\<close>

text \<open>What viper documents: a value that was set is found, and no other key is touched.\<close>

definition viper_ok :: "'v viper_api \<Rightarrow> bool" where
  "viper_ok V \<longleftrightarrow>
     (\<forall>v k x. IsSet V (viper_Set V k x v) k \<and> GetString V (viper_Set V k x v) k = x) \<and>
     (\<forall>v k x k'. toUpper k \<noteq> toUpper k' \<longrightarrow>
        IsSet V (viper_Set V k x v) k' = IsSet V v k' \<and> GetString V (viper_Set V k x v) k' = GetString V v k')"

text \<open>
  The identifier of the device does not change: once it was asked for, every later call returns
  the same, whatever the machine reports then and whatever identifier would be made up, and
  whatever other keys were set in between.
\<close>

theorem GetDeviceID_stable:
  assumes "viper_ok V" and "GetDeviceID V mach fresh v = (i, v')" and "toUpper k \<noteq> toUpper key_deviceID"
  shows "GetDeviceID V mach' fresh' v' = (i, v') \<and>
    fst (GetDeviceID V mach' fresh' (viper_Set V k x v')) = i"
  using assms unfolding GetDeviceID_def viper_ok_def Let_def
  by (cases "IsSet V v key_deviceID") auto

text \<open>An instance of viper: an association list that ignores the case of keys.\<close>

definition viper_example :: "(string, string) gomap viper_api" where
  "viper_example = \<lparr>viper_New = [], IsSet = (\<lambda>v k. map_of v (toUpper k) \<noteq> None),
     GetString = (\<lambda>v k. case map_of v (toUpper k) of None \<Rightarrow> [] | Some x \<Rightarrow> x), GetDuration = (\<lambda>_ _. 0),
     viper_Set = (\<lambda>k x v. AList.update (toUpper k) x v), BindEnv = (\<lambda>_ _ v. v),
     ReadInConfig = (\<lambda>_ _. Inl (ErrorString ''no such file''))\<rparr>"

lemma viper_example_ok: "viper_ok viper_example"
  by (simp add: viper_ok_def viper_example_def update_conv')

theorem GetDeviceID_stable_witness:
  "GetDeviceID viper_example (Inr ''m'') ''u'' [] = (''m'', [(''DEVICE_ID'', ''m'')]) \<and>
   fst (GetDeviceID viper_example (Inl (ErrorString ''e'')) ''w'' [(''SERVER'', ''s''), (''DEVICE_ID'', ''m'')]) = ''m''"
proof -
  have g: "GetDeviceID viper_example (Inr ''m'') ''u'' [] = (''m'', [(''DEVICE_ID'', ''m'')])" by code_simp
  have k: "toUpper ''SERVER'' \<noteq> toUpper key_deviceID" by code_simp
  have "fst (GetDeviceID viper_example (Inl (ErrorString ''e'')) ''w'' [(''SERVER'', ''s''), (''DEVICE_ID'', ''m'')]) = ''m''"
    by code_simp
  with g GetDeviceID_stable [OF viper_example_ok g k] show ?thesis by blast
qed

text \<open>
  Without the flag \<open>--config\<close> the name of the configuration file is \<open>c\<close>, the default of the flag.
  When there is no such file, \<open>InitConfiguration\<close> returns before the flags are bound, an error that
  the command ignores: the server address is then what the environment says, whatever the flags of
  the command line are.
\<close>

theorem command_line_ignored:
  assumes "ReadInConfig V ''c'' (viper_New V) = Inl err" and "flag_value flags ''config'' = flag_value root_flags ''config''"
  shows "case InitConfiguration V flags (flag_value flags ''config'') of (e, flags', v) \<Rightarrow>
    e \<noteq> None \<and> flags' = flags \<and> GetServerAddress V v = GetString V (viper_New V) key_server"
proof -
  have "flag_value root_flags ''config'' = ''c''" by code_simp
  with assms show ?thesis by (simp add: InitConfiguration_def GetServerAddress_def)
qed

theorem command_line_ignored_witness:
  "GetServerAddress viper_example (snd (snd (InitConfiguration viper_example
     (map (\<lambda>f. if f_Name f = ''server'' then f\<lparr>f_Changed := True, f_Value := ''https://op''\<rparr> else f) root_flags) ''c''))) = []"
proof -
  let ?fs = "map (\<lambda>f. if f_Name f = ''server'' then f\<lparr>f_Changed := True, f_Value := ''https://op''\<rparr> else f) root_flags"
  have r: "ReadInConfig viper_example ''c'' (viper_New viper_example) = Inl (ErrorString ''no such file'')"
    by (simp add: viper_example_def)
  have f: "flag_value ?fs ''config'' = flag_value root_flags ''config''" "flag_value ?fs ''config'' = ''c''" by code_simp+
  have "GetString viper_example (viper_New viper_example) key_server = []" by code_simp
  with command_line_ignored [OF r f(1)] show ?thesis by (simp add: f(2) split: prod.splits)
qed

end
