(* ===== verification/Controller.thy ===== *)
theory Controller
  imports Client Conf_Manager Settings
begin

text \<open>
  The controller of the worker (\<open>internal/edge/controller.go\<close>, \<open>errors.go\<close>). The goroutine \<open>run\<close>
  is a step relation: a step is one branch of its \<open>select\<close>, the completion of a channel send it
  waits in, one action of one of the two goroutines of the branch \<open>op\<close>, or a tick of the clock. A
  channel of capacity one is whether it is full, and \<open>enrol\<close> and \<open>register\<close> are None when the
  variable is nil. The label of a step is the message handed to the profile manager, or the one that
  the scheduler takes out of its channel.
\<close>

section \<open>The client interface\<close>

record ('pool, 'w) edge_client =
  e_Enrol :: "'pool cert_Manager \<Rightarrow> string \<Rightarrow> EnrolementInfo \<Rightarrow> ('w, error option) io"
  e_Register :: "'pool cert_Manager \<Rightarrow> string \<Rightarrow> RegistrationInfo \<Rightarrow> ('w, error + RegistrationResponse) io"
  e_Heartbeat :: "'pool cert_Manager \<Rightarrow> string \<Rightarrow> Heartbeat \<Rightarrow> ('w, error option) io"
  e_GetConfiguration :: "'pool cert_Manager \<Rightarrow> string \<Rightarrow> ('w, error + DeviceConfigurationMessage) io"

definition http_client :: "('pool, 'w) http_api \<Rightarrow> ('pool, 'pool http_Client \<times> 'w) edge_client" where
  "http_client A = \<lparr>e_Enrol = client_Enrol A, e_Register = client_Register A, e_Heartbeat = client_Heartbeat A,
     e_GetConfiguration = client_GetConfiguration A\<rparr>"

text \<open>What the controller calls, besides the managers it holds.\<close>

record ('pool, 'v, 'w) ctl_env =
  client :: "('pool, 'w) edge_client"
  ccrypto :: "'pool crypto"
  files :: "'w file_api"
  viper :: "'v viper_api"
  machineID :: "error + string"
  freshID :: "'w \<Rightarrow> string"
  random :: "'w \<Rightarrow> nat"
  cenv :: env
  ranges :: conf_ranges

section \<open>State\<close>

text \<open>
  Where the goroutine for the configuration is: in \<open>GetConfiguration\<close>, in the send of a new period,
  before \<open>SetConfiguration\<close>, inside of it with messages still to send, or finished.
\<close>

datatype conf_goroutine =
    Getting
  | SendingPeriod DeviceConfigurationMessage
  | Setting DeviceConfigurationMessage
  | Sending "conf_send list" conf_Manager
  | ConfDone

record op_state =
  hbDone :: bool
  confG :: conf_goroutine
  firstErr :: "error option"

datatype ctl_control = CSelect | ToEnrol | ToRegister | ToOp | InOp op_state | CPanicked

record ('pool, 'v, 'w) Controller =
  ctl :: ctl_control
  enrolCh :: "bool option"
  registerCh :: "bool option"
  opCh :: bool
  configurationCh :: "duration option"
  tickerC :: bool
  tickerOn :: bool
  tickerPeriod :: duration
  cancelled :: bool
  doneCh :: bool
  confM :: conf_Manager
  certM :: "'pool cert_Manager"
  settings :: 'v
  schedulerCh :: "Message list"
  cworld :: 'w

definition ctl_init :: "conf_Manager \<Rightarrow> 'pool cert_Manager \<Rightarrow> 'v \<Rightarrow> 'w \<Rightarrow> ('pool, 'v, 'w) Controller" where
  "ctl_init c cm v w = \<lparr>ctl = CSelect, enrolCh = Some False, registerCh = None, opCh = False,
     configurationCh = None, tickerC = False, tickerOn = True,
     tickerPeriod = Period (dc_Heartbeat (msg_Configuration (cm_conf c))), cancelled = False, doneCh = False,
     confM = c, certM = cm, settings = v, schedulerCh = [], cworld = w\<rparr>"

section \<open>The branches\<close>

text \<open>\<open>config.GetDeviceID()\<close>, which may store a new identifier.\<close>

definition deviceID_of :: "('pool, 'v, 'w) ctl_env \<Rightarrow> ('pool, 'v, 'w) Controller \<Rightarrow> string \<times> ('pool, 'v, 'w) Controller" where
  "deviceID_of P s =
     (case GetDeviceID (viper P) (machineID P) (freshID P (cworld s)) (settings s) of (i, v) \<Rightarrow> (i, s\<lparr>settings := v\<rparr>))"

definition on_enrol :: "('pool, 'v, 'w) ctl_env \<Rightarrow> ('pool, 'v, 'w) Controller \<Rightarrow> ('pool, 'v, 'w) Controller" where
  "on_enrol P s =
     (let enrolInfo = \<lparr>ei_Features = \<lparr>ef_Hardware = cm_hardware (confM s), ef_ModelName = []\<rparr>,
                       ei_TargetNamespace = GetTargetNamespace (viper P) (settings s)\<rparr>;
          (i, s') = deviceID_of P s
      in (case e_Enrol (client P) (certM s') i enrolInfo (cworld s') of
            (Panics, w) \<Rightarrow> s'\<lparr>cworld := w, ctl := CPanicked\<rparr>
          | (Returns (Some err), w) \<Rightarrow> s'\<lparr>cworld := w\<rparr>
          | (Returns None, w) \<Rightarrow> s'\<lparr>cworld := w, enrolCh := None, registerCh := Some False\<rparr>))"

text \<open>
  The name in the certificate request is the literal \<open>deviceID\<close>. The error of \<open>SetCertificate\<close> is
  not looked at.
\<close>

definition on_register :: "('pool, 'v, 'w) ctl_env \<Rightarrow> ('pool, 'v, 'w) Controller \<Rightarrow> ('pool, 'v, 'w) Controller" where
  "on_register P s =
     (case GenerateCSR (ccrypto P) (random P (cworld s)) ''deviceID'' (certM s) of
        Inl err \<Rightarrow> s
      | Inr (csr, key) \<Rightarrow>
          (let registerInfo = \<lparr>ri_CertificateRequest = csr, ri_Hardware = cm_hardware (confM s)\<rparr>;
               (i, s') = deviceID_of P s
           in (case e_Register (client P) (certM s') i registerInfo (cworld s') of
                 (Panics, w) \<Rightarrow> s'\<lparr>cworld := w, ctl := CPanicked\<rparr>
               | (Returns (Inl err), w) \<Rightarrow> s'\<lparr>cworld := w\<rparr>
               | (Returns (Inr res), w) \<Rightarrow>
                   (let cm = snd (SetCertificate (ccrypto P) (SignedCSR res) key (certM s'));
                        s'' = s'\<lparr>certM := cm\<rparr>
                    in (case WriteCertificate (ccrypto P) (files P) (GetCertificateFile (viper P) (settings s''))
                              (GetPrivateKey (viper P) (settings s'')) cm w of
                          (Panics, w') \<Rightarrow> s''\<lparr>cworld := w', ctl := CPanicked\<rparr>
                        | (Returns (Some err), w') \<Rightarrow> s''\<lparr>cworld := w'\<rparr>
                        | (Returns None, w') \<Rightarrow> s''\<lparr>cworld := w', registerCh := None\<rparr>)))))"

definition on_tick :: "('pool, 'v, 'w) Controller \<Rightarrow> ('pool, 'v, 'w) Controller" where
  "on_tick s =
     (if enrolCh s \<noteq> None then s\<lparr>ctl := ToEnrol\<rparr>
      else if registerCh s \<noteq> None then s\<lparr>ctl := ToRegister\<rparr>
      else s\<lparr>ctl := ToOp\<rparr>)"

text \<open>\<open>ticker.Reset\<close> panics when the period is not positive.\<close>

definition on_configuration :: "duration \<Rightarrow> ('pool, 'v, 'w) Controller \<Rightarrow> ('pool, 'v, 'w) Controller" where
  "on_configuration p s =
     (if p \<le> 0 then s\<lparr>ctl := CPanicked\<rparr> else s\<lparr>tickerOn := True, tickerPeriod := p\<rparr>)"

definition keep_first :: "error option \<Rightarrow> error option \<Rightarrow> error option" where
  "keep_first old new = (case old of None \<Rightarrow> new | Some _ \<Rightarrow> old)"

text \<open>The goroutine of the heartbeat. Its error is wrapped.\<close>

definition op_heartbeat :: "('pool, 'v, 'w) ctl_env \<Rightarrow> op_state \<Rightarrow> ('pool, 'v, 'w) Controller \<Rightarrow> ('pool, 'v, 'w) Controller" where
  "op_heartbeat P g s =
     (let (i, s') = deviceID_of P s
      in (case e_Heartbeat (client P) (certM s') i (Heartbeat_of (ranges P) (confM s')) (cworld s') of
            (Panics, w) \<Rightarrow> s'\<lparr>cworld := w, ctl := CPanicked\<rparr>
          | (Returns r, w) \<Rightarrow>
              s'\<lparr>cworld := w, ctl := InOp (g\<lparr>hbDone := True,
                firstErr := keep_first (firstErr g) (map_option (WrapError ''cannot send heartbeat'') r)\<rparr>)\<rparr>))"

text \<open>The goroutine of the configuration, up to its first channel send.\<close>

definition op_getConfiguration :: "('pool, 'v, 'w) ctl_env \<Rightarrow> op_state \<Rightarrow> ('pool, 'v, 'w) Controller \<Rightarrow> ('pool, 'v, 'w) Controller" where
  "op_getConfiguration P g s =
     (let (i, s') = deviceID_of P s
      in (case e_GetConfiguration (client P) (certM s') i (cworld s') of
            (Panics, w) \<Rightarrow> s'\<lparr>cworld := w, ctl := CPanicked\<rparr>
          | (Returns (Inl err), w) \<Rightarrow>
              s'\<lparr>cworld := w, ctl := InOp (g\<lparr>confG := ConfDone,
                firstErr := keep_first (firstErr g) (Some (WrapError ''cannot get configuration'' err))\<rparr>)\<rparr>
          | (Returns (Inr m), w) \<Rightarrow>
              s'\<lparr>cworld := w, ctl := InOp (g\<lparr>confG :=
                (if Period (dc_Heartbeat (msg_Configuration m)) \<noteq> Period (dc_Heartbeat (msg_Configuration (cm_conf (confM s'))))
                 then SendingPeriod m else Setting m)\<rparr>)\<rparr>))"

text \<open>After \<open>g.Wait()\<close>: the type switch on the first error.\<close>

definition is_unauthorized :: "error \<Rightarrow> bool" where
  "is_unauthorized e = (case e of UnauthorizedAccessError _ \<Rightarrow> True | _ \<Rightarrow> False)"

definition op_finish :: "op_state \<Rightarrow> ('pool, 'v, 'w) Controller \<Rightarrow> ('pool, 'v, 'w) Controller" where
  "op_finish g s =
     (case firstErr g of
        None \<Rightarrow> s\<lparr>ctl := CSelect\<rparr>
      | Some e \<Rightarrow> if is_unauthorized e then s\<lparr>ctl := CSelect, enrolCh := Some False\<rparr> else s\<lparr>ctl := CSelect\<rparr>)"

section \<open>Steps\<close>

datatype ctl_label = Quiet | Profiled Message | Scheduled Message

inductive ctl_step :: "('pool, 'v, 'w) ctl_env \<Rightarrow> ('pool, 'v, 'w) Controller \<Rightarrow> ctl_label \<Rightarrow> ('pool, 'v, 'w) Controller \<Rightarrow> bool"
  for P where
  clock: "tickerOn s \<Longrightarrow> ctl s \<noteq> CPanicked \<Longrightarrow> ctl_step P s Quiet (s\<lparr>tickerC := True\<rparr>)"
| sel_enrol: "ctl s = CSelect \<Longrightarrow> enrolCh s = Some True \<Longrightarrow> ctl_step P s Quiet (on_enrol P (s\<lparr>enrolCh := Some False\<rparr>))"
| sel_register: "ctl s = CSelect \<Longrightarrow> registerCh s = Some True \<Longrightarrow>
    ctl_step P s Quiet (on_register P (s\<lparr>registerCh := Some False\<rparr>))"
| sel_op: "ctl s = CSelect \<Longrightarrow> opCh s \<Longrightarrow>
    ctl_step P s Quiet (s\<lparr>opCh := False, ctl := InOp \<lparr>hbDone = False, confG = Getting, firstErr = None\<rparr>\<rparr>)"
| heartbeat: "ctl s = InOp g \<Longrightarrow> \<not> hbDone g \<Longrightarrow> ctl_step P s Quiet (op_heartbeat P g s)"
| heartbeat_cancelled: "ctl s = InOp g \<Longrightarrow> \<not> hbDone g \<Longrightarrow> firstErr g \<noteq> None \<Longrightarrow>
    ctl_step P s Quiet (s\<lparr>ctl := InOp (g\<lparr>hbDone := True\<rparr>)\<rparr>)"
| get_configuration: "ctl s = InOp g \<Longrightarrow> confG g = Getting \<Longrightarrow> ctl_step P s Quiet (op_getConfiguration P g s)"
| get_cancelled: "ctl s = InOp g \<Longrightarrow> confG g = Getting \<Longrightarrow> firstErr g \<noteq> None \<Longrightarrow>
    ctl_step P s Quiet (s\<lparr>ctl := InOp (g\<lparr>confG := ConfDone\<rparr>)\<rparr>)"
| send_period: "ctl s = InOp g \<Longrightarrow> confG g = SendingPeriod m \<Longrightarrow> configurationCh s = None \<Longrightarrow>
    ctl_step P s Quiet (s\<lparr>configurationCh := Some (Period (dc_Heartbeat (msg_Configuration m))),
      ctl := InOp (g\<lparr>confG := Setting m\<rparr>)\<rparr>)"
| set_configuration: "ctl s = InOp g \<Longrightarrow> confG g = Setting m \<Longrightarrow>
    SetConfiguration (cenv P) (ranges P) m (confM s) = (sends, c) \<Longrightarrow>
    ctl_step P s Quiet (s\<lparr>ctl := InOp (g\<lparr>confG := Sending sends c\<rparr>)\<rparr>)"
| send_scheduler: "ctl s = InOp g \<Longrightarrow> confG g = Sending (ToScheduler msg # rest) c \<Longrightarrow> length (schedulerCh s) < 10 \<Longrightarrow>
    ctl_step P s Quiet (s\<lparr>schedulerCh := schedulerCh s @ [msg], ctl := InOp (g\<lparr>confG := Sending rest c\<rparr>)\<rparr>)"
| send_profiles: "ctl s = InOp g \<Longrightarrow> confG g = Sending (ToStateManager msg # rest) c \<Longrightarrow>
    ctl_step P s (Profiled msg) (s\<lparr>ctl := InOp (g\<lparr>confG := Sending rest c\<rparr>)\<rparr>)"
| set_done: "ctl s = InOp g \<Longrightarrow> confG g = Sending [] c \<Longrightarrow>
    ctl_step P s Quiet (s\<lparr>confM := c, ctl := InOp (g\<lparr>confG := ConfDone\<rparr>)\<rparr>)"
| op_done: "ctl s = InOp g \<Longrightarrow> hbDone g \<Longrightarrow> confG g = ConfDone \<Longrightarrow> ctl_step P s Quiet (op_finish g s)"
| sel_configuration: "ctl s = CSelect \<Longrightarrow> configurationCh s = Some p \<Longrightarrow>
    ctl_step P s Quiet (on_configuration p (s\<lparr>configurationCh := None\<rparr>))"
| sel_tick: "ctl s = CSelect \<Longrightarrow> tickerC s \<Longrightarrow> ctl_step P s Quiet (on_tick (s\<lparr>tickerC := False\<rparr>))"
| send_enrol: "ctl s = ToEnrol \<Longrightarrow> enrolCh s = Some False \<Longrightarrow> ctl_step P s Quiet (s\<lparr>enrolCh := Some True, ctl := CSelect\<rparr>)"
| send_register: "ctl s = ToRegister \<Longrightarrow> registerCh s = Some False \<Longrightarrow>
    ctl_step P s Quiet (s\<lparr>registerCh := Some True, ctl := CSelect\<rparr>)"
| send_op: "ctl s = ToOp \<Longrightarrow> \<not> opCh s \<Longrightarrow> ctl_step P s Quiet (s\<lparr>opCh := True, ctl := CSelect\<rparr>)"
| cancel: "ctl s \<noteq> CPanicked \<Longrightarrow> ctl_step P s Quiet (s\<lparr>cancelled := True\<rparr>)"
| sel_ctx_done: "ctl s = CSelect \<Longrightarrow> cancelled s \<Longrightarrow> ctl_step P s Quiet (s\<lparr>tickerOn := False\<rparr>)"
| shutdown: "ctl s \<noteq> CPanicked \<Longrightarrow> \<not> doneCh s \<Longrightarrow> ctl_step P s Quiet (s\<lparr>doneCh := True\<rparr>)"
| sel_done: "ctl s = CSelect \<Longrightarrow> doneCh s \<Longrightarrow> ctl_step P s Quiet (s\<lparr>doneCh := False, tickerOn := False\<rparr>)"
| scheduler_recv: "ctl s \<noteq> CPanicked \<Longrightarrow> schedulerCh s = msg # rest \<Longrightarrow> ctl_step P s (Scheduled msg) (s\<lparr>schedulerCh := rest\<rparr>)"

definition ctl_move :: "('pool, 'v, 'w) ctl_env \<Rightarrow> ('pool, 'v, 'w) Controller \<Rightarrow> ('pool, 'v, 'w) Controller \<Rightarrow> bool" where
  "ctl_move P s s' \<longleftrightarrow> (\<exists>l. ctl_step P s l s')"

abbreviation ctl_reaches :: "('pool, 'v, 'w) ctl_env \<Rightarrow> ('pool, 'v, 'w) Controller \<Rightarrow> ('pool, 'v, 'w) Controller \<Rightarrow> bool" where
  "ctl_reaches P \<equiv> (ctl_move P)\<^sup>*\<^sup>*"

lemma ctl_moveI: "ctl_step P s l s' \<Longrightarrow> ctl_move P s s'"
  by (auto simp: ctl_move_def)

section \<open>Enrolment as a state machine\<close>

text \<open>
  The specification: a device enrols, then registers, then works, and no step leads back. The
  phase of the controller is read off its channel variables.
\<close>

datatype phase = Unenrolled | Enrolled | Registered

inductive phase_step :: "phase \<Rightarrow> phase \<Rightarrow> bool" where
  enrol: "phase_step Unenrolled Enrolled"
| register: "phase_step Enrolled Registered"

definition phase_of :: "('pool, 'v, 'w) Controller \<Rightarrow> phase" where
  "phase_of s = (if enrolCh s \<noteq> None then Unenrolled else if registerCh s \<noteq> None then Enrolled else Registered)"

definition plain_first :: "error option \<Rightarrow> bool" where
  "plain_first e \<longleftrightarrow> (case e of None \<Rightarrow> True | Some x \<Rightarrow> \<not> is_unauthorized x)"

definition ctl_inv :: "('pool, 'v, 'w) Controller \<Rightarrow> bool" where
  "ctl_inv s \<longleftrightarrow>
     (enrolCh s \<noteq> None \<longrightarrow> registerCh s = None) \<and>
     (opCh s \<longrightarrow> phase_of s = Registered) \<and>
     length (schedulerCh s) \<le> 10 \<and>
     (case ctl s of
        ToEnrol \<Rightarrow> phase_of s = Unenrolled
      | ToRegister \<Rightarrow> phase_of s = Enrolled
      | ToOp \<Rightarrow> phase_of s = Registered
      | InOp g \<Rightarrow> phase_of s = Registered \<and> plain_first (firstErr g)
      | _ \<Rightarrow> True)"

text \<open>What a branch can change.\<close>

lemma deviceID_of_settings: "\<exists>i v. deviceID_of P s = (i, s\<lparr>settings := v\<rparr>)"
  by (auto simp: deviceID_of_def split: prod.split)

lemma on_enrol_cases:
  "\<exists>v w. on_enrol P s = s\<lparr>settings := v, cworld := w, ctl := CPanicked\<rparr> \<or>
     on_enrol P s = s\<lparr>settings := v, cworld := w\<rparr> \<or>
     on_enrol P s = s\<lparr>settings := v, cworld := w, enrolCh := None, registerCh := Some False\<rparr>"
proof -
  obtain i v where d: "deviceID_of P s = (i, s\<lparr>settings := v\<rparr>)" using deviceID_of_settings [of P s] by auto
  define info where "info = \<lparr>ei_Features = \<lparr>ef_Hardware = cm_hardware (confM s), ef_ModelName = []\<rparr>,
                       ei_TargetNamespace = GetTargetNamespace (viper P) (settings s)\<rparr>"
  obtain r w where e: "e_Enrol (client P) (certM s) i info (cworld s) = (r, w)"
    by (cases "e_Enrol (client P) (certM s) i info (cworld s)")
  show ?thesis
    by (rule exI [of _ v], rule exI [of _ w], cases r rule: call.exhaust; simp add: on_enrol_def d Let_def e [unfolded info_def])
      (simp split: option.split)
qed

lemma on_register_cases:
  "on_register P s = s \<or>
   (\<exists>v w cm. on_register P s = s\<lparr>settings := v, certM := cm, cworld := w, ctl := CPanicked\<rparr> \<or>
      on_register P s = s\<lparr>settings := v, certM := cm, cworld := w\<rparr> \<or>
      on_register P s = s\<lparr>settings := v, certM := cm, cworld := w, registerCh := None\<rparr>)"
proof (cases "GenerateCSR (ccrypto P) (random P (cworld s)) ''deviceID'' (certM s)")
  case (Inr r)
  obtain csr key where g: "GenerateCSR (ccrypto P) (random P (cworld s)) ''deviceID'' (certM s) = Inr (csr, key)"
    using Inr by (cases r) simp
  obtain i v where d: "deviceID_of P s = (i, s\<lparr>settings := v\<rparr>)" using deviceID_of_settings [of P s] by auto
  define info where "info = \<lparr>ri_CertificateRequest = csr, ri_Hardware = cm_hardware (confM s)\<rparr>"
  obtain q w where e: "e_Register (client P) (certM s) i info (cworld s) = (q, w)"
    by (cases "e_Register (client P) (certM s) i info (cworld s)")
  have same: "s\<lparr>settings := v, cworld := w, ctl := CPanicked\<rparr> = s\<lparr>settings := v, certM := certM s, cworld := w, ctl := CPanicked\<rparr>"
    "s\<lparr>settings := v, cworld := w\<rparr> = s\<lparr>settings := v, certM := certM s, cworld := w\<rparr>" by simp_all
  consider (panics) "q = Panics" | (err) x where "q = Returns (Inl x)" | (ok) res where "q = Returns (Inr res)"
    by (metis call.exhaust sum.exhaust)
  then show ?thesis
  proof cases
    case panics
    then show ?thesis by (simp add: on_register_def g d Let_def e [unfolded info_def]) (metis same(1))
  next
    case err
    then show ?thesis by (simp add: on_register_def g d Let_def e [unfolded info_def]) (metis same(2))
  next
    case ok
    define cm where "cm = snd (SetCertificate (ccrypto P) (SignedCSR res) key (certM s))"
    obtain u w' where wr: "WriteCertificate (ccrypto P) (files P) (GetCertificateFile (viper P) v)
        (GetPrivateKey (viper P) v) cm w = (u, w')" by (cases "WriteCertificate (ccrypto P) (files P)
          (GetCertificateFile (viper P) v) (GetPrivateKey (viper P) v) cm w")
    have "on_register P s = (case u of
        Panics \<Rightarrow> s\<lparr>settings := v, certM := cm, cworld := w', ctl := CPanicked\<rparr>
      | Returns (Some err) \<Rightarrow> s\<lparr>settings := v, certM := cm, cworld := w'\<rparr>
      | Returns None \<Rightarrow> s\<lparr>settings := v, certM := cm, cworld := w', registerCh := None\<rparr>)"
      using ok by (simp add: on_register_def g d Let_def e [unfolded info_def] wr [unfolded cm_def] cm_def split: call.split option.split)
    then show ?thesis by (cases u rule: call.exhaust) (fastforce split: option.splits)+
  qed
qed (simp add: on_register_def)

lemma op_heartbeat_cases:
  "\<exists>v w r. op_heartbeat P g s = s\<lparr>settings := v, cworld := w, ctl := CPanicked\<rparr> \<or>
     op_heartbeat P g s = s\<lparr>settings := v, cworld := w, ctl := InOp (g\<lparr>hbDone := True,
       firstErr := keep_first (firstErr g) (map_option (WrapError ''cannot send heartbeat'') r)\<rparr>)\<rparr>"
proof -
  obtain i v where d: "deviceID_of P s = (i, s\<lparr>settings := v\<rparr>)" using deviceID_of_settings [of P s] by auto
  obtain r w where e: "e_Heartbeat (client P) (certM s) i (Heartbeat_of (ranges P) (confM s)) (cworld s) = (r, w)"
    by (cases "e_Heartbeat (client P) (certM s) i (Heartbeat_of (ranges P) (confM s)) (cworld s)")
  show ?thesis
    by (rule exI [of _ v], rule exI [of _ w], cases r) (auto simp: op_heartbeat_def d Let_def e)
qed

lemma op_getConfiguration_cases:
  "\<exists>v w x. op_getConfiguration P g s = s\<lparr>settings := v, cworld := w, ctl := CPanicked\<rparr> \<or>
     op_getConfiguration P g s = s\<lparr>settings := v, cworld := w, ctl := InOp (g\<lparr>confG := ConfDone,
       firstErr := keep_first (firstErr g) (Some (WrapError ''cannot get configuration'' x))\<rparr>)\<rparr> \<or>
     (\<exists>c. op_getConfiguration P g s = s\<lparr>settings := v, cworld := w, ctl := InOp (g\<lparr>confG := c\<rparr>)\<rparr>)"
proof -
  obtain i v where d: "deviceID_of P s = (i, s\<lparr>settings := v\<rparr>)" using deviceID_of_settings [of P s] by auto
  obtain r w where e: "e_GetConfiguration (client P) (certM s) i (cworld s) = (r, w)"
    by (cases "e_GetConfiguration (client P) (certM s) i (cworld s)")
  consider (panics) "r = Panics" | (err) x where "r = Returns (Inl x)" | (ok) m where "r = Returns (Inr m)"
    by (metis call.exhaust sum.exhaust)
  then show ?thesis
    by cases (auto simp: op_getConfiguration_def d Let_def e)
qed

lemma is_unauthorized_simps [simp]: "\<not> is_unauthorized (WrapError m e)" "\<not> is_unauthorized (ErrorString m)"
  by (simp_all add: is_unauthorized_def)

lemma plain_first_simps [simp]:
  "plain_first None" "plain_first (Some (WrapError m x))"
  "plain_first old \<Longrightarrow> plain_first (keep_first old (map_option (WrapError m) r))"
  "plain_first old \<Longrightarrow> plain_first (keep_first old (Some (WrapError m x)))"
  by (auto simp: plain_first_def keep_first_def split: option.splits)

lemma phase_iff:
  "phase_of s = Unenrolled \<longleftrightarrow> enrolCh s \<noteq> None"
  "phase_of s = Enrolled \<longleftrightarrow> enrolCh s = None \<and> registerCh s \<noteq> None"
  "phase_of s = Registered \<longleftrightarrow> enrolCh s = None \<and> registerCh s = None"
  by (auto simp: phase_of_def)

lemma phase_of_cong: "enrolCh s' = enrolCh s \<Longrightarrow> registerCh s' = registerCh s \<Longrightarrow> phase_of s' = phase_of s"
  by (simp add: phase_of_def)

lemma ctl_inv_cong:
  assumes "ctl_inv s" and "ctl s' = ctl s" "enrolCh s' = enrolCh s" "registerCh s' = registerCh s" "opCh s' = opCh s"
    and "length (schedulerCh s') \<le> 10"
  shows "ctl_inv s' \<and> (phase_of s' = phase_of s \<or> phase_step (phase_of s) (phase_of s'))"
  using assms phase_of_cong [of s' s] by (cases "ctl s") (auto simp: ctl_inv_def)

lemmas ctl_inv_simps = ctl_inv_def phase_iff

lemma ctl_inv_step:
  assumes "ctl_inv s" and "ctl_step P s l s'"
  shows "ctl_inv s' \<and> (phase_of s' = phase_of s \<or> phase_step (phase_of s) (phase_of s'))"
  using assms(2)
proof cases
  case sel_enrol
  then show ?thesis using assms(1) on_enrol_cases [of P "s\<lparr>enrolCh := Some False\<rparr>"]
    by (auto simp: ctl_inv_def phase_of_def phase_step.simps)
next
  case sel_register
  then show ?thesis using assms(1) on_register_cases [of P "s\<lparr>registerCh := Some False\<rparr>"]
    by (auto simp: ctl_inv_def phase_of_def phase_step.simps)
next
  case (heartbeat g)
  then show ?thesis using assms(1) op_heartbeat_cases [of P g s]
    by (auto simp: ctl_inv_simps intro!: phase_of_cong)
next
  case (get_configuration g)
  then show ?thesis using assms(1) op_getConfiguration_cases [of P g s]
    by (auto simp: ctl_inv_simps intro!: phase_of_cong)
next
  case (op_done g)
  then have "op_finish g s = s\<lparr>ctl := CSelect\<rparr>"
    using assms(1) by (auto simp: ctl_inv_def op_finish_def plain_first_def split: option.split)
  then show ?thesis using op_done assms(1) by (auto simp: ctl_inv_simps intro!: phase_of_cong)
next
  case sel_tick
  then show ?thesis using assms(1) by (auto simp: ctl_inv_simps on_tick_def intro!: phase_of_cong)
next
  case sel_configuration
  then show ?thesis using assms(1) by (auto simp: ctl_inv_simps on_configuration_def intro!: phase_of_cong)
next
  case send_enrol
  then show ?thesis using assms(1) by (auto simp: ctl_inv_def phase_of_def)
next
  case send_register
  then show ?thesis using assms(1) by (auto simp: ctl_inv_def phase_of_def)
next
  case clock
  with assms(1) show ?thesis by (intro ctl_inv_cong) (simp_all add: ctl_inv_def)
next
  case cancel
  with assms(1) show ?thesis by (intro ctl_inv_cong) (simp_all add: ctl_inv_def)
next
  case shutdown
  with assms(1) show ?thesis by (intro ctl_inv_cong) (simp_all add: ctl_inv_def)
next
  case scheduler_recv
  with assms(1) show ?thesis by (intro ctl_inv_cong) (simp_all add: ctl_inv_def)
qed (use assms(1) in \<open>auto simp: ctl_inv_simps intro!: phase_of_cong\<close>)

text \<open>The certificate of the controller changes by \<open>SetCertificate\<close> only, so that it is never lost.\<close>

lemma SetCertificate_keeps: "cert_inv c \<Longrightarrow> cert_inv (snd (SetCertificate C cp kp c))"
  using SetCertificate_inv [of C cp kp c] SetCertificate_cases [of C cp kp c] by auto

lemma certM_deviceID [simp]: "deviceID_of P s = (i, s') \<Longrightarrow> certM s' = certM s"
  using deviceID_of_settings [of P s] by auto

lemma certM_on_register: "cert_inv (certM s) \<Longrightarrow> cert_inv (certM (on_register P s))"
  by (auto simp: on_register_def Let_def SetCertificate_keeps split: sum.split prod.split call.split option.split)

lemma cert_inv_step:
  assumes "ctl_step P s l s'" and "cert_inv (certM s)"
  shows "cert_inv (certM s')"
  using assms(1)
proof cases
  case sel_enrol
  then show ?thesis using assms(2) on_enrol_cases [of P "s\<lparr>enrolCh := Some False\<rparr>"] by auto
next
  case sel_register
  then show ?thesis using assms(2) certM_on_register [of "s\<lparr>registerCh := Some False\<rparr>"] by simp
next
  case (heartbeat g)
  then show ?thesis using assms(2) op_heartbeat_cases [of P g s] by auto
next
  case (get_configuration g)
  then show ?thesis using assms(2) op_getConfiguration_cases [of P g s] by auto
qed (use assms(2) in \<open>auto simp: on_tick_def on_configuration_def op_finish_def split: option.split\<close>)

interpretation enrolment: simulation "ctl_move P" phase_step phase_of ctl_inv
  using ctl_inv_step by unfold_locales (auto simp: ctl_move_def)

lemma ctl_init_inv: "ctl_inv (ctl_init c cm v w)"
  by (simp add: ctl_inv_def ctl_init_def)


text \<open>
  C39: A device that was enrolled is never enrolled again, whatever errors its rounds end with: an
  \<open>UnauthorizedAccessError\<close> of the client reaches the type switch only inside another error.
\<close>

theorem never_enrols_again:
  assumes "ctl_reaches P (ctl_init c cm v w) s" and "phase_of s \<noteq> Unenrolled" and "ctl_reaches P s s'"
  shows "phase_of s' \<noteq> Unenrolled"
proof -
  have later: "phase_step\<^sup>*\<^sup>* a b \<Longrightarrow> a \<noteq> Unenrolled \<Longrightarrow> b \<noteq> Unenrolled" for a b
    by (induction rule: rtranclp_induct) (auto simp: phase_step.simps)
  have "ctl_inv s" using enrolment.reach [OF assms(1) ctl_init_inv] by simp
  with enrolment.reach [OF assms(3)] have "phase_step\<^sup>*\<^sup>* (phase_of s) (phase_of s')" by simp
  with later assms(2) show ?thesis by blast
qed

end
