(* ===== verification/Controller_Runs.thy ===== *)
theory Controller_Runs
  imports Controller
begin

text \<open>
  Runs of the controller: a device that the operator accepts is enrolled and registered; a round
  with a new configuration delivers it to the scheduler and to the profile manager; and the ways a
  run can go wrong.
\<close>

section \<open>Runs\<close>

text \<open>A run with the messages it hands to the profile manager.\<close>

inductive ctl_run :: "('pool, 'v, 'w) ctl_env \<Rightarrow> ('pool, 'v, 'w) Controller \<Rightarrow> Message list \<Rightarrow> ('pool, 'v, 'w) Controller \<Rightarrow> bool"
  for P where
  run_Nil: "ctl_run P s [] s"
| run_quiet: "ctl_step P s Quiet s' \<Longrightarrow> ctl_run P s' ms s'' \<Longrightarrow> ctl_run P s ms s''"
| run_sends: "ctl_step P s (Profiled m) s' \<Longrightarrow> ctl_run P s' ms s'' \<Longrightarrow> ctl_run P s (m # ms) s''"

lemma ctl_run_reaches: "ctl_run P s ms s' \<Longrightarrow> ctl_reaches P s s'"
  by (induction rule: ctl_run.induct) (auto intro: converse_rtranclp_into_rtranclp ctl_moveI)

lemma ctl_run_append: "ctl_run P s ms s' \<Longrightarrow> ctl_run P s' ms' s'' \<Longrightarrow> ctl_run P s (ms @ ms') s''"
  by (induction rule: ctl_run.induct) (auto intro: ctl_run.intros)

lemma ctl_run_step: "ctl_step P s Quiet s' \<Longrightarrow> ctl_run P s [] s'"
  by (auto intro: ctl_run.intros)

lemma run_eq: "s = s' \<Longrightarrow> ctl_run P s [] s'"
  by (auto intro: ctl_run.intros)

lemma ctl_same: "ctl s = c \<Longrightarrow> s\<lparr>ctl := c\<rparr> = s"
  by simp

lemma tick_run:
  assumes "ctl s = CSelect" and "tickerOn s"
  shows "ctl_run P s [] (on_tick (s\<lparr>tickerC := False\<rparr>))"
proof (rule run_quiet [OF ctl_step.clock])
  show "ctl_run P (s\<lparr>tickerC := True\<rparr>) [] (on_tick (s\<lparr>tickerC := False\<rparr>))"
    by (rule run_quiet [OF ctl_step.sel_tick]) (use assms in \<open>simp_all add: run_eq\<close>)
qed (use assms in simp_all)

lemma enrol_run:
  assumes "ctl s = CSelect" and "tickerOn s" and "enrolCh s = Some False"
  shows "ctl_run P s [] (on_enrol P (s\<lparr>tickerC := False\<rparr>))"
proof -
  let ?t = "s\<lparr>tickerC := False\<rparr>"
  have same: "?t\<lparr>enrolCh := Some True, ctl := CSelect\<rparr>\<lparr>enrolCh := Some False\<rparr> = ?t" using assms by simp
  have "ctl_run P (?t\<lparr>ctl := ToEnrol\<rparr>) [] (on_enrol P ?t)"
  proof (rule run_quiet [OF ctl_step.send_enrol])
    show "ctl_run P (?t\<lparr>ctl := ToEnrol\<rparr>\<lparr>enrolCh := Some True, ctl := CSelect\<rparr>) [] (on_enrol P ?t)"
      by (rule run_quiet [OF ctl_step.sel_enrol]) (use same in \<open>simp_all add: run_eq\<close>)
  qed (use assms in simp_all)
  moreover have "ctl_run P s [] (?t\<lparr>ctl := ToEnrol\<rparr>)" using tick_run [OF assms(1,2)] assms(3) by (simp add: on_tick_def)
  ultimately show ?thesis using ctl_run_append by fastforce
qed

lemma register_run:
  assumes "ctl s = CSelect" and "tickerOn s" and "enrolCh s = None" and "registerCh s = Some False"
  shows "ctl_run P s [] (on_register P (s\<lparr>tickerC := False\<rparr>))"
proof -
  let ?t = "s\<lparr>tickerC := False\<rparr>"
  have same: "?t\<lparr>registerCh := Some True, ctl := CSelect\<rparr>\<lparr>registerCh := Some False\<rparr> = ?t" using assms by simp
  have "ctl_run P (?t\<lparr>ctl := ToRegister\<rparr>) [] (on_register P ?t)"
  proof (rule run_quiet [OF ctl_step.send_register])
    show "ctl_run P (?t\<lparr>ctl := ToRegister\<rparr>\<lparr>registerCh := Some True, ctl := CSelect\<rparr>) [] (on_register P ?t)"
      by (rule run_quiet [OF ctl_step.sel_register]) (use same in \<open>simp_all add: run_eq\<close>)
  qed (use assms in simp_all)
  moreover have "ctl_run P s [] (?t\<lparr>ctl := ToRegister\<rparr>)"
    using tick_run [OF assms(1,2)] assms(3,4) by (simp add: on_tick_def)
  ultimately show ?thesis using ctl_run_append by fastforce
qed

lemma op_run:
  assumes "ctl s = CSelect" and "tickerOn s" and "phase_of s = Registered" and "\<not> opCh s"
  shows "ctl_run P s [] (s\<lparr>tickerC := False, ctl := InOp \<lparr>hbDone = False, confG = Getting, firstErr = None\<rparr>\<rparr>)"
proof -
  let ?t = "s\<lparr>tickerC := False\<rparr>" and ?g = "\<lparr>hbDone = False, confG = Getting, firstErr = None\<rparr>"
  have same: "?t\<lparr>opCh := True, ctl := CSelect\<rparr>\<lparr>opCh := False, ctl := InOp ?g\<rparr> = ?t\<lparr>ctl := InOp ?g\<rparr>" using assms by simp
  have "ctl_run P (?t\<lparr>ctl := ToOp\<rparr>) [] (?t\<lparr>ctl := InOp ?g\<rparr>)"
  proof (rule run_quiet [OF ctl_step.send_op])
    show "ctl_run P (?t\<lparr>ctl := ToOp\<rparr>\<lparr>opCh := True, ctl := CSelect\<rparr>) [] (?t\<lparr>ctl := InOp ?g\<rparr>)"
      by (rule run_quiet [OF ctl_step.sel_op]) (use same in \<open>simp_all add: run_eq\<close>)
  qed (use assms in simp_all)
  moreover have "ctl_run P s [] (?t\<lparr>ctl := ToOp\<rparr>)"
    using tick_run [OF assms(1,2)] assms(3) by (simp add: on_tick_def phase_iff)
  ultimately show ?thesis using ctl_run_append by fastforce
qed

section \<open>A device that is accepted\<close>

lemma on_enrol_accepted:
  assumes "\<And>cm i e w. \<exists>w'. e_Enrol (client P) cm i e w = (Returns None, w')"
  shows "\<exists>v w. on_enrol P s = s\<lparr>settings := v, cworld := w, enrolCh := None, registerCh := Some False\<rparr>"
proof -
  obtain i v where d: "deviceID_of P s = (i, s\<lparr>settings := v\<rparr>)" using deviceID_of_settings [of P s] by auto
  obtain w where "e_Enrol (client P) (certM s) i \<lparr>ei_Features = \<lparr>ef_Hardware = cm_hardware (confM s), ef_ModelName = []\<rparr>,
      ei_TargetNamespace = GetTargetNamespace (viper P) (settings s)\<rparr> (cworld s) = (Returns None, w)"
    using assms by blast
  then show ?thesis by (auto simp: on_enrol_def d)
qed

text \<open>
  What registration needs: a certificate request can be made, the operator answers with a
  certificate that decodes, and the two files can be written.
\<close>

definition registers :: "('pool, 'v, 'w) ctl_env \<Rightarrow> 'pool cert_Manager \<Rightarrow> RegistrationResponse \<Rightarrow> x509_Certificate \<Rightarrow> bool" where
  "registers P cm res x \<longleftrightarrow>
     crypto_ok (ccrypto P) \<and> cert_inv cm \<and>
     (\<forall>r. \<exists>csr key. GenerateCSR (ccrypto P) r ''deviceID'' cm = Inr (csr, key)) \<and>
     (\<exists>t b. pem_Decode (ccrypto P) (SignedCSR res) = Some (t, b) \<and> ParseCertificate (ccrypto P) b = Inr x) \<and>
     (\<forall>cm i r w. \<exists>w'. e_Register (client P) cm i r w = (Returns (Inr res), w')) \<and>
     (\<forall>p w. \<exists>w'. os_Create (files P) p w = (Returns None, w')) \<and>
     (\<forall>p b w. \<exists>w'. file_Write (files P) p b w = (Returns (), w')) \<and>
     (\<forall>p b w. \<exists>w'. os_WriteFile (files P) p b w = (Returns None, w'))"

lemma WriteCertificate_ok:
  assumes "registers P cm res x" and "cert c \<noteq> None"
  shows "\<exists>w'. WriteCertificate (ccrypto P) (files P) cp kp c w = (Returns None, w')"
proof -
  obtain y where y: "cert c = Some y" using assms(2) by blast
  obtain w1 where w1: "os_Create (files P) cp w = (Returns None, w1)"
    using assms(1) unfolding registers_def by blast
  obtain w2 where w2: "file_Write (files P) cp (pem_Encode (ccrypto P) ''CERTIFICATE'' (x_Raw y)) w1 = (Returns (), w2)"
    using assms(1) unfolding registers_def by blast
  show ?thesis
    using assms(1) by (simp add: WriteCertificate_def io_bind_def w1 y w2 registers_def)
qed

lemma on_register_accepted:
  assumes "registers P (certM s) res x"
  shows "\<exists>v w cm. on_register P s = s\<lparr>settings := v, certM := cm, cworld := w, registerCh := None\<rparr> \<and> cert cm = Some x \<and> cert_inv cm"
proof -
  note r = assms [unfolded registers_def]
  obtain csr key where g: "GenerateCSR (ccrypto P) (random P (cworld s)) ''deviceID'' (certM s) = Inr (csr, key)"
    using r by blast
  obtain t b where x: "pem_Decode (ccrypto P) (SignedCSR res) = Some (t, b)" "ParseCertificate (ccrypto P) b = Inr x"
    using r by blast
  obtain i v where d: "deviceID_of P s = (i, s\<lparr>settings := v\<rparr>)" using deviceID_of_settings [of P s] by auto
  obtain w where e: "e_Register (client P) (certM s) i \<lparr>ri_CertificateRequest = csr, ri_Hardware = cm_hardware (confM s)\<rparr>
      (cworld s) = (Returns (Inr res), w)" using r by blast
  define cm where "cm = snd (SetCertificate (ccrypto P) (SignedCSR res) key (certM s))"
  obtain k where set: "SetCertificate (ccrypto P) (SignedCSR res) key (certM s) =
      (None, (certM s)\<lparr>cert := Some x, privateKey := Some k\<rparr>)"
    using csr_key_set [OF _ _ g x] r by blast
  then have cm: "cert cm = Some x" "cert_inv cm"
    using SetCertificate_inv [of "ccrypto P" "SignedCSR res" key "certM s"] by (simp_all add: cm_def)
  then obtain w' where "WriteCertificate (ccrypto P) (files P) (GetCertificateFile (viper P) v) (GetPrivateKey (viper P) v) cm w =
      (Returns None, w')" using WriteCertificate_ok [OF assms, of cm] by blast
  then have "on_register P s = s\<lparr>settings := v, certM := cm, cworld := w', registerCh := None\<rparr>"
    by (simp add: on_register_def g d e cm_def)
  with cm show ?thesis by blast
qed

lemma accepted_run:
  assumes "\<And>cm i e w. \<exists>w'. e_Enrol (client P) cm i e w = (Returns None, w')" and "registers P cm res x"
  shows "\<exists>s. ctl_run P (ctl_init c cm v w) [] s \<and> ctl s = CSelect \<and> phase_of s = Registered \<and>
    cert (certM s) = Some x \<and> cert_inv (certM s) \<and> confM s = c"
proof -
  let ?s0 = "ctl_init c cm v w"
  obtain v1 w1 where e: "on_enrol P (?s0\<lparr>tickerC := False\<rparr>) =
      ?s0\<lparr>tickerC := False, settings := v1, cworld := w1, enrolCh := None, registerCh := Some False\<rparr>" (is "_ = ?s1")
    using on_enrol_accepted [OF assms(1), of "?s0\<lparr>tickerC := False\<rparr>"] by auto
  have r1: "ctl_run P ?s0 [] ?s1" using enrol_run [of ?s0 P] e by (simp add: ctl_init_def)
  have "registers P (certM (?s1\<lparr>tickerC := False\<rparr>)) res x" using assms(2) by (simp add: ctl_init_def)
  from on_register_accepted [OF this] obtain v2 w2 cm2 where r: "on_register P (?s1\<lparr>tickerC := False\<rparr>) =
      ?s1\<lparr>tickerC := False, settings := v2, certM := cm2, cworld := w2, registerCh := None\<rparr>" (is "_ = ?s2")
    and cm2: "cert cm2 = Some x" "cert_inv cm2" by auto
  have "ctl_run P ?s1 [] ?s2" using register_run [of ?s1 P] r by (simp add: ctl_init_def)
  with r1 have "ctl_run P ?s0 [] ?s2" using ctl_run_append [of P ?s0 "[]" ?s1 "[]" ?s2] by simp
  then show ?thesis
    by (rule exI [of _ ?s2, OF conjI]) (simp add: cm2 phase_iff ctl_init_def)
qed


section \<open>A round with a new configuration\<close>

abbreviation period_of :: "DeviceConfigurationMessage \<Rightarrow> duration" where
  "period_of m \<equiv> Period (dc_Heartbeat (msg_Configuration m))"

lemma op_getConfiguration_new:
  assumes "\<And>cm i w. \<exists>w'. e_GetConfiguration (client P) cm i w = (Returns (Inr m), w')"
  shows "\<exists>v w. op_getConfiguration P g s = s\<lparr>settings := v, cworld := w, ctl := InOp (g\<lparr>confG :=
    (if period_of m \<noteq> period_of (cm_conf (confM s)) then SendingPeriod m else Setting m)\<rparr>)\<rparr>"
proof -
  obtain i v where d: "deviceID_of P s = (i, s\<lparr>settings := v\<rparr>)" using deviceID_of_settings [of P s] by auto
  obtain w where "e_GetConfiguration (client P) (certM s) i (cworld s) = (Returns (Inr m), w)" using assms by blast
  then have "op_getConfiguration P g s = s\<lparr>settings := v, cworld := w, ctl := InOp (g\<lparr>confG :=
    (if period_of m \<noteq> period_of (cm_conf (confM s)) then SendingPeriod m else Setting m)\<rparr>)\<rparr>"
    by (simp add: op_getConfiguration_def d)
  then show ?thesis by blast
qed

text \<open>The configuration goroutine, from its request to the call of \<open>SetConfiguration\<close>.\<close>

lemma get_run:
  assumes "ctl s = InOp g" and "confG g = Getting" and "configurationCh s = None"
    and "\<And>cm i w. \<exists>w'. e_GetConfiguration (client P) cm i w = (Returns (Inr m), w')"
  shows "\<exists>v w. ctl_run P s [] (s\<lparr>settings := v, cworld := w,
    configurationCh := (if period_of m \<noteq> period_of (cm_conf (confM s)) then Some (period_of m) else None),
    ctl := InOp (g\<lparr>confG := Setting m\<rparr>)\<rparr>)"
proof -
  obtain v w where o: "op_getConfiguration P g s = s\<lparr>settings := v, cworld := w, ctl := InOp (g\<lparr>confG :=
    (if period_of m \<noteq> period_of (cm_conf (confM s)) then SendingPeriod m else Setting m)\<rparr>)\<rparr>"
    using op_getConfiguration_new [OF assms(4)] by blast
  have get: "ctl_run P s [] (op_getConfiguration P g s)"
    using assms(1,2) by (intro ctl_run_step ctl_step.get_configuration)
  show ?thesis
  proof (cases "period_of m = period_of (cm_conf (confM s))")
    case True
    have "s\<lparr>settings := v, cworld := w, configurationCh := None, ctl := InOp (g\<lparr>confG := Setting m\<rparr>)\<rparr> =
        s\<lparr>settings := v, cworld := w, ctl := InOp (g\<lparr>confG := Setting m\<rparr>)\<rparr>"
      using assms(3) by (intro Controller.equality) simp_all
    with get o True show ?thesis by (intro exI [of _ v] exI [of _ w]) simp
  next
    case False
    let ?u = "s\<lparr>settings := v, cworld := w, ctl := InOp (g\<lparr>confG := SendingPeriod m\<rparr>)\<rparr>"
    let ?e = "s\<lparr>settings := v, cworld := w, configurationCh := Some (period_of m), ctl := InOp (g\<lparr>confG := Setting m\<rparr>)\<rparr>"
    have "ctl_step P ?u Quiet ?e"
      using ctl_step.send_period [of ?u "g\<lparr>confG := SendingPeriod m\<rparr>" m P] assms(3) by simp
    then have "ctl_run P ?u [] ?e" by (rule ctl_run_step)
    with get o False have "ctl_run P s ([] @ []) ?e" by (intro ctl_run_append [of P s "[]" ?u]) simp_all
    with False show ?thesis by (intro exI [of _ v] exI [of _ w]) simp
  qed
qed

lemma set_run:
  assumes "ctl s = InOp g" and "confG g = Setting m" and "length (schedulerCh s) < 10"
    and "SetConfiguration (cenv P) (ranges P) m (confM s) = ([ToScheduler wm, ToStateManager pm], c)"
  shows "ctl_run P s [pm] (s\<lparr>schedulerCh := schedulerCh s @ [wm], confM := c, ctl := InOp (g\<lparr>confG := ConfDone\<rparr>)\<rparr>)"
proof -
  let ?s1 = "s\<lparr>ctl := InOp (g\<lparr>confG := Sending [ToScheduler wm, ToStateManager pm] c\<rparr>)\<rparr>"
  let ?s2 = "s\<lparr>schedulerCh := schedulerCh s @ [wm], ctl := InOp (g\<lparr>confG := Sending [ToStateManager pm] c\<rparr>)\<rparr>"
  let ?s3 = "s\<lparr>schedulerCh := schedulerCh s @ [wm], ctl := InOp (g\<lparr>confG := Sending [] c\<rparr>)\<rparr>"
  let ?s4 = "s\<lparr>schedulerCh := schedulerCh s @ [wm], confM := c, ctl := InOp (g\<lparr>confG := ConfDone\<rparr>)\<rparr>"
  have "ctl_step P s Quiet ?s1" using ctl_step.set_configuration [OF assms(1,2,4)] by simp
  moreover have "ctl_step P ?s1 Quiet ?s2"
    using ctl_step.send_scheduler [of ?s1 "g\<lparr>confG := Sending [ToScheduler wm, ToStateManager pm] c\<rparr>" wm "[ToStateManager pm]" c P]
      assms(3) by simp
  moreover have "ctl_step P ?s2 (Profiled pm) ?s3"
    using ctl_step.send_profiles [of ?s2 "g\<lparr>confG := Sending [ToStateManager pm] c\<rparr>" pm "[]" c P] by simp
  moreover have "ctl_step P ?s3 Quiet ?s4"
    using ctl_step.set_done [of ?s3 "g\<lparr>confG := Sending [] c\<rparr>" c P] by simp
  ultimately show ?thesis by (meson run_Nil run_quiet run_sends)
qed

lemma heartbeat_run:
  assumes "ctl s = InOp g" and "\<not> hbDone g" and "firstErr g = None"
    and "\<And>cm i h w. \<exists>w'. e_Heartbeat (client P) cm i h w = (Returns None, w')"
  shows "\<exists>v w. ctl_run P s [] (s\<lparr>settings := v, cworld := w, ctl := InOp (g\<lparr>hbDone := True\<rparr>)\<rparr>)"
proof -
  obtain i v where d: "deviceID_of P s = (i, s\<lparr>settings := v\<rparr>)" using deviceID_of_settings [of P s] by auto
  obtain w where e: "e_Heartbeat (client P) (certM s) i (Heartbeat_of (ranges P) (confM s)) (cworld s) = (Returns None, w)"
    using assms(4) by blast
  have "op_heartbeat P g s = s\<lparr>settings := v, cworld := w, ctl := InOp (g\<lparr>hbDone := True\<rparr>)\<rparr>"
    using assms(3) by (simp add: op_heartbeat_def d e keep_first_def)
  moreover have "ctl_run P s [] (op_heartbeat P g s)"
    using assms by (intro ctl_run_step ctl_step.heartbeat)
  ultimately show ?thesis by auto
qed

text \<open>
  A registered controller between two rounds, with room in its channels; and an operator that takes
  heartbeats and answers with one configuration.
\<close>

definition idle :: "('pool, 'v, 'w) Controller \<Rightarrow> bool" where
  "idle s \<longleftrightarrow> ctl s = CSelect \<and> tickerOn s \<and> phase_of s = Registered \<and> \<not> opCh s \<and>
     configurationCh s = None \<and> length (schedulerCh s) < 10"

definition answers :: "('pool, 'v, 'w) ctl_env \<Rightarrow> DeviceConfigurationMessage \<Rightarrow> bool" where
  "answers P m \<longleftrightarrow>
     (\<forall>cm i h w. \<exists>w'. e_Heartbeat (client P) cm i h w = (Returns None, w')) \<and>
     (\<forall>cm i w. \<exists>w'. e_GetConfiguration (client P) cm i w = (Returns (Inr m), w'))"

lemma round_run:
  assumes "idle s" and "answers P m"
    and set: "SetConfiguration (cenv P) (ranges P) m (confM s) = ([ToScheduler wm, ToStateManager pm], c)"
  shows "\<exists>s'. ctl_run P s [pm] s' \<and> ctl s' = CSelect \<and> phase_of s' = Registered \<and> confM s' = c \<and>
    schedulerCh s' = schedulerCh s @ [wm] \<and>
    configurationCh s' = (if period_of m \<noteq> period_of (cm_conf (confM s)) then Some (period_of m) else None)"
proof -
  let ?cc = "if period_of m \<noteq> period_of (cm_conf (confM s)) then Some (period_of m) else None"
  let ?g = "\<lparr>hbDone = False, confG = Getting, firstErr = None\<rparr>"
  let ?s1 = "s\<lparr>tickerC := False, ctl := InOp ?g\<rparr>"
  have s: "ctl s = CSelect" "tickerOn s" "phase_of s = Registered" "\<not> opCh s" "configurationCh s = None"
    "length (schedulerCh s) < 10" using assms(1) by (simp_all add: idle_def)
  have hb: "\<And>cm i h w. \<exists>w'. e_Heartbeat (client P) cm i h w = (Returns None, w')"
    and get: "\<And>cm i w. \<exists>w'. e_GetConfiguration (client P) cm i w = (Returns (Inr m), w')"
    using assms(2) by (simp_all add: answers_def)
  have r1: "ctl_run P s [] ?s1" using op_run [OF s(1-4)] .
  obtain v1 w1 where r2: "ctl_run P ?s1 [] (?s1\<lparr>settings := v1, cworld := w1, ctl := InOp (?g\<lparr>hbDone := True\<rparr>)\<rparr>)"
    (is "ctl_run P _ _ ?s2") using heartbeat_run [of ?s1 ?g P, OF _ _ _ hb] by auto
  obtain v2 w2 where r3: "ctl_run P ?s2 [] (?s2\<lparr>settings := v2, cworld := w2, configurationCh := ?cc,
      ctl := InOp (?g\<lparr>hbDone := True, confG := Setting m\<rparr>)\<rparr>)" (is "ctl_run P _ _ ?s3")
    using get_run [of ?s2 "?g\<lparr>hbDone := True\<rparr>" P m, OF _ _ _ get] s(5) by auto
  have r4: "ctl_run P ?s3 [pm] (?s3\<lparr>schedulerCh := schedulerCh ?s3 @ [wm], confM := c,
      ctl := InOp (?g\<lparr>hbDone := True, confG := ConfDone\<rparr>)\<rparr>)" (is "ctl_run P _ _ ?s4")
    using set_run [of ?s3 "?g\<lparr>hbDone := True, confG := Setting m\<rparr>" m P wm pm c] s(6) set by simp
  let ?s5 = "?s4\<lparr>ctl := CSelect\<rparr>"
  have "ctl_step P ?s4 Quiet (op_finish (?g\<lparr>hbDone := True, confG := ConfDone\<rparr>) ?s4)"
    by (rule ctl_step.op_done) simp_all
  then have "ctl_run P ?s4 [] ?s5" by (simp add: op_finish_def ctl_run_step)
  with r1 r2 r3 r4 have "ctl_run P s ([] @ [] @ [] @ [pm] @ []) ?s5" by (meson ctl_run_append)
  then show ?thesis using s(3) by (intro exI [of _ ?s5]) (simp add: phase_iff)
qed

text \<open>
  A round with a new configuration, when the operator answers and the channels have room: the
  controller comes back to its \<open>select\<close> with the configuration in force, the workloads in the
  channel of the scheduler, the device profiles handed to the profile manager, and a new heartbeat
  period, if there is one, in the channel that resets the ticker.
\<close>

theorem round_delivers:
  assumes "idle s" and "answers P m" and "message_Hash (cenv P) m \<noteq> message_Hash (cenv P) (cm_conf (confM s))"
  shows "\<exists>s' wm pm. SetConfiguration (cenv P) (ranges P) m (confM s) = ([ToScheduler wm, ToStateManager pm], confM s') \<and>
    ctl_run P s [pm] s' \<and> ctl s' = CSelect \<and> phase_of s' = Registered \<and>
    schedulerCh s' = schedulerCh s @ [wm] \<and>
    configurationCh s' = (if period_of m \<noteq> period_of (cm_conf (confM s)) then Some (period_of m) else None)"
proof -
  obtain wm pm c where set: "SetConfiguration (cenv P) (ranges P) m (confM s) = ([ToScheduler wm, ToStateManager pm], c)"
    using SetConfiguration_new [OF assms(3)] by blast
  from round_run [OF assms(1,2) set] show ?thesis unfolding set by blast
qed

section \<open>Faults\<close>

text \<open>
  The goroutine waits for itself. The branch of the ticker sends on channels of capacity one that
  only the same loop receives: when a second tick is taken before the first was acted on, the
  controller never leaves the send. This can happen right after the start, with any client.
\<close>

theorem controller_blocks:
  "\<exists>s. ctl_reaches P (ctl_init c cm v w) s \<and> (\<forall>s'. ctl_reaches P s s' \<longrightarrow> ctl s' = ToEnrol)"
proof -
  let ?i = "ctl_init c cm v w"
  have i: "ctl ?i = CSelect" "tickerOn ?i" "enrolCh ?i = Some False" "\<not> tickerC ?i" by (simp_all add: ctl_init_def)
  let ?s1 = "?i\<lparr>tickerC := False, ctl := ToEnrol\<rparr>"
  let ?s2 = "?i\<lparr>tickerC := False, enrolCh := Some True, ctl := CSelect\<rparr>"
  let ?s3 = "?i\<lparr>enrolCh := Some True, tickerC := False, ctl := ToEnrol\<rparr>"
  have "ctl_run P ?i [] ?s1" using tick_run [OF i(1,2)] i(3) by (simp add: on_tick_def)
  moreover have "ctl_step P ?s1 Quiet ?s2" using ctl_step.send_enrol [of ?s1 P] i(3) by simp
  moreover have "ctl_run P ?s2 [] ?s3" using tick_run [of ?s2 P] i(2) by (simp add: on_tick_def)
  ultimately have "ctl_run P ?i ([] @ [] @ []) ?s3" by (meson ctl_run_append ctl_run_step)
  then have "ctl_reaches P ?i ?s3" by (intro ctl_run_reaches) simp
  moreover have "ctl_reaches P ?s3 s' \<Longrightarrow> ctl s' = ToEnrol \<and> enrolCh s' = Some True" for s'
  proof (induction rule: rtranclp_induct)
    case (step s s')
    then obtain l where "ctl_step P s l s'" by (auto simp: ctl_move_def)
    then show ?case using step.IH by cases auto
  qed simp
  ultimately show ?thesis by blast
qed

text \<open>
  A heartbeat period that is not positive brings the process down: the ticker is reset with it, which
  panics. The operator need only send such a configuration once.
\<close>

theorem nonpositive_period_panics:
  assumes "idle s" and "answers P m" and "message_Hash (cenv P) m \<noteq> message_Hash (cenv P) (cm_conf (confM s))"
    and "period_of m \<le> 0" and "0 < period_of (cm_conf (confM s))"
  shows "\<exists>s'. ctl_reaches P s s' \<and> ctl s' = CPanicked"
proof -
  obtain wm pm c where "SetConfiguration (cenv P) (ranges P) m (confM s) = ([ToScheduler wm, ToStateManager pm], c)"
    using SetConfiguration_new [OF assms(3)] by blast
  from round_run [OF assms(1,2) this] obtain s' where r: "ctl_run P s [pm] s'" "ctl s' = CSelect"
    and p: "configurationCh s' = Some (period_of m)" using assms(4,5) by auto
  have "ctl_step P s' Quiet (on_configuration (period_of m) (s'\<lparr>configurationCh := None\<rparr>))"
    using r(2) p by (rule ctl_step.sel_configuration)
  then have "ctl_move P s' (s'\<lparr>configurationCh := None, ctl := CPanicked\<rparr>)"
    using assms(4) by (simp add: on_configuration_def ctl_moveI)
  with ctl_run_reaches [OF r(1)] have "ctl_reaches P s (s'\<lparr>configurationCh := None, ctl := CPanicked\<rparr>)"
    by (rule rtranclp.rtrancl_into_rtrancl)
  then show ?thesis by force
qed

text \<open>
  A certificate that does not decode counts as a registration: the error of \<open>SetCertificate\<close> is
  not looked at, the files are written with the old certificate, and the controller goes on as
  registered.
\<close>

theorem registers_without_certificate:
  assumes "GenerateCSR (ccrypto P) (random P (cworld s)) ''deviceID'' (certM s) = Inr (csr, key)"
    and "\<And>cm i r w. \<exists>w'. e_Register (client P) cm i r w = (Returns (Inr res), w')"
    and "fst (SetCertificate (ccrypto P) (SignedCSR res) key (certM s)) \<noteq> None"
    and "\<And>cp kp w. \<exists>w'. WriteCertificate (ccrypto P) (files P) cp kp (certM s) w = (Returns None, w')"
  shows "registerCh (on_register P s) = None \<and> certM (on_register P s) = certM s"
proof -
  obtain i v where d: "deviceID_of P s = (i, s\<lparr>settings := v\<rparr>)" using deviceID_of_settings [of P s] by auto
  obtain w where e: "e_Register (client P) (certM s) i \<lparr>ri_CertificateRequest = csr, ri_Hardware = cm_hardware (confM s)\<rparr>
      (cworld s) = (Returns (Inr res), w)" using assms(2) by blast
  have same: "snd (SetCertificate (ccrypto P) (SignedCSR res) key (certM s)) = certM s"
    using SetCertificate_cases [of "ccrypto P" "SignedCSR res" key "certM s"] assms(3) by auto
  obtain w' where "WriteCertificate (ccrypto P) (files P) (GetCertificateFile (viper P) v) (GetPrivateKey (viper P) v)
      (certM s) w = (Returns None, w')" using assms(4) by blast
  with same show ?thesis by (simp add: on_register_def assms(1) d e)
qed

section \<open>An accepting operator\<close>

definition client_accepts :: "string \<Rightarrow> DeviceConfigurationMessage \<Rightarrow> (unit, 'w) edge_client" where
  "client_accepts crt m = \<lparr>e_Enrol = (\<lambda>_ _ _. ret None), e_Register = (\<lambda>_ _ _. ret (Inr \<lparr>SignedCSR = crt\<rparr>)),
     e_Heartbeat = (\<lambda>_ _ _. ret None), e_GetConfiguration = (\<lambda>_ _. ret (Inr m))\<rparr>"

definition ctl_example :: "string \<Rightarrow> DeviceConfigurationMessage \<Rightarrow> (unit, (string, string) gomap, 'w) ctl_env" where
  "ctl_example crt m = \<lparr>client = client_accepts crt m, ccrypto = crypto_example,
     files = \<lparr>os_Create = (\<lambda>_. ret None), file_Write = (\<lambda>_ _. ret ()), os_WriteFile = (\<lambda>_ _. ret None)\<rparr>,
     viper = viper_example, machineID = Inr ''m'', freshID = (\<lambda>_. ''u''), random = (\<lambda>_. 7), cenv = env_at 0,
     ranges = ranges_id\<rparr>"

abbreviation crt_example :: string where
  "crt_example \<equiv> pem_Encode crypto_example ''CERTIFICATE'' ''d''"

abbreviation x_example :: x509_Certificate where
  "x_example \<equiv> \<lparr>x_Raw = ''d'', x_Signature = ''d'', x_CommonName = ''d''\<rparr>"

lemma ctl_example_simps [simp]:
  "client (ctl_example crt m) = client_accepts crt m" "ccrypto (ctl_example crt m) = crypto_example"
  "cenv (ctl_example crt m) = env_at 0" "ranges (ctl_example crt m) = ranges_id"
  by (simp_all add: ctl_example_def)

lemma manager_example_inv: "cert_inv manager_example"
  by (simp add: cert_inv_def manager_example_def)

lemma GenerateCSR_example: "\<exists>csr key. GenerateCSR crypto_example r name manager_example = Inr (csr, key)"
  by (simp add: GenerateCSR_def generateKey_def crypto_example_def manager_example_def)

lemma registers_example: "registers (ctl_example crt_example m) manager_example \<lparr>SignedCSR = crt_example\<rparr> x_example"
  using crypto_example_ok manager_example_inv GenerateCSR_example pem_example [of "''CERTIFICATE''" "''d''"]
  by (auto simp: registers_def client_accepts_def ctl_example_def)

lemma answers_example: "answers (ctl_example crt m) m"
  by (simp add: answers_def client_accepts_def)

lemma Enrol_example: "\<exists>w'. e_Enrol (client (ctl_example crt m)) cm i e w = (Returns None, w')"
  by (simp add: client_accepts_def)

abbreviation start_example :: "(unit, (string, string) gomap, unit) Controller" where
  "start_example \<equiv> ctl_init conf_New manager_example [] ()"


lemma registered_example:
  obtains s where "ctl_reaches (ctl_example crt_example m) start_example s" "phase_of s = Registered"
  using accepted_run [OF Enrol_example registers_example [of m], where c = conf_New and v = "[]" and w = "()"] ctl_run_reaches by blast


theorem never_enrols_again_witness:
  "\<exists>s. ctl_reaches (ctl_example crt_example conf_example) start_example s \<and> phase_of s \<noteq> Unenrolled"
proof -
  obtain s where s: "ctl_reaches (ctl_example crt_example conf_example) start_example s" "phase_of s = Registered"
    by (rule registered_example)
  then have "phase_of s \<noteq> Unenrolled" by simp
  with never_enrols_again [OF s(1) this, of s] s show ?thesis by blast
qed

definition idle_example :: "(unit, (string, string) gomap, unit) Controller" where
  "idle_example = start_example\<lparr>enrolCh := None\<rparr>"

lemma idle_example: "idle idle_example" "cm_conf (confM idle_example) = cm_conf conf_New"
  by (simp_all add: idle_def idle_example_def ctl_init_def phase_iff)

theorem round_delivers_witness:
  "\<exists>s' wm pm. ctl_run (ctl_example crt_example conf_example) idle_example [pm] s' \<and> ctl s' = CSelect \<and> schedulerCh s' = [wm]"
proof -
  have "message_Hash (cenv (ctl_example crt_example conf_example)) conf_example \<noteq>
      message_Hash (cenv (ctl_example crt_example conf_example)) (cm_conf (confM idle_example))"
    using conf_example_new by (simp add: idle_example(2))
  from round_delivers [OF idle_example(1) answers_example this] show ?thesis
    by (auto simp: idle_example_def ctl_init_def)
qed

theorem controller_blocks_witness:
  "\<exists>s. ctl_reaches (ctl_example crt_example conf_example) start_example s \<and> ctl s = ToEnrol"
  using controller_blocks [of "ctl_example crt_example conf_example" conf_New manager_example "[]" "()"] by blast

definition conf_zero :: DeviceConfigurationMessage where
  "conf_zero = conf_example\<lparr>msg_Configuration := (msg_Configuration conf_example)\<lparr>dc_Heartbeat :=
     (dc_Heartbeat (msg_Configuration conf_example))\<lparr>Period := 0\<rparr>\<rparr>\<rparr>"

lemma conf_zero_new: "message_Hash (env_at 0) conf_zero \<noteq> message_Hash (env_at 0) (cm_conf conf_New)"
  by (simp add: message_Hash_def env_at_def message_text_def conf_zero_def conf_example_def conf_New_def
      defaultConfiguration_def sort_workloads_def duration_String_def fmt_units_def)

theorem nonpositive_period_panics_witness:
  "\<exists>s'. ctl_reaches (ctl_example crt_example conf_zero) idle_example s' \<and> ctl s' = CPanicked"
proof -
  have h: "message_Hash (cenv (ctl_example crt_example conf_zero)) conf_zero \<noteq>
      message_Hash (cenv (ctl_example crt_example conf_zero)) (cm_conf (confM idle_example))"
    using conf_zero_new by (simp add: idle_example(2))
  have "period_of conf_zero \<le> 0" "0 < period_of (cm_conf (confM idle_example))"
    by (simp_all add: conf_zero_def idle_example(2) conf_New_def defaultConfiguration_def second_def)
  from nonpositive_period_panics [OF idle_example(1) answers_example h this] show ?thesis .
qed

theorem registers_without_certificate_witness:
  "registerCh (on_register (ctl_example [] conf_example) idle_example) = None \<and>
   certM (on_register (ctl_example [] conf_example) idle_example) = manager_example"
proof -
  let ?P = "ctl_example [] conf_example :: (unit, (string, string) gomap, unit) ctl_env"
  have cm: "certM idle_example = manager_example" by (simp add: idle_example_def ctl_init_def)
  obtain csr key where g: "GenerateCSR (ccrypto ?P) (random ?P (cworld idle_example)) ''deviceID'' (certM idle_example) = Inr (csr, key)"
    using GenerateCSR_example cm by (metis ctl_example_simps(2))
  have r: "\<exists>w'. e_Register (client ?P) c i q w = (Returns (Inr \<lparr>SignedCSR = []\<rparr>), w')" for c i q w
    by (simp add: client_accepts_def)
  have "pem_Decode crypto_example [] = None" by (simp add: crypto_example_def)
  then have e: "fst (SetCertificate (ccrypto ?P) (SignedCSR \<lparr>SignedCSR = []\<rparr>) key (certM idle_example)) \<noteq> None"
    by (simp add: SetCertificate_def)
  have w: "\<exists>w'. WriteCertificate (ccrypto ?P) (files ?P) cp kp (certM idle_example) w = (Returns None, w')" for cp kp w
    by (simp add: cm WriteCertificate_def io_bind_def manager_example_def ctl_example_def)
  from registers_without_certificate [OF g r e w] cm show ?thesis by simp
qed

end
