(* ===== verification/Worker.thy ===== *)
theory Worker
  imports Scheduling Controller_Runs
begin

text \<open>
  The worker as a whole (\<open>cmd/root.go\<close>): the controller, the scheduler with the goroutine of its
  \<open>Start\<close> that takes messages out of \<open>SchedulerCh\<close>, and the profile manager, connected by their
  channels. A step of the worker is a step of one of them or the passing of a message between two.
\<close>

section \<open>The goroutine of \<open>Scheduler.Start\<close>\<close>

text \<open>
  What it sends on to the loop of the scheduler: nothing for a message of another kind, and the zero
  option, which is Some of no workloads, for a payload of another type.
\<close>

definition start_payload :: "Message \<Rightarrow> PodWorkload list option option" where
  "start_payload m =
     (case m_Kind m of
        WorkloadConfigurationMessage \<Rightarrow> Some (case m_Payload m of WorkloadsPayload v \<Rightarrow> v | ProfilesPayload _ \<Rightarrow> Some [])
      | ProfileConfigurationMessage \<Rightarrow> None)"

text \<open>What the profile manager does with a message, in the branch that receives it.\<close>

definition profile_recv :: "Message \<Rightarrow> Manager \<Rightarrow> Manager" where
  "profile_recv m p =
     (case m_Kind m of
        ProfileConfigurationMessage \<Rightarrow> p\<lparr>control := ToInput (payload_value
          (case m_Payload m of ProfilesPayload v \<Rightarrow> Profiles_payload v | WorkloadsPayload _ \<Rightarrow> Other_payload))\<rparr>
      | WorkloadConfigurationMessage \<Rightarrow> p)"

section \<open>Steps\<close>

text \<open>
  \<open>jobCh\<close> is the option the goroutine waits to hand over, None while it waits for a message.
\<close>

record ('pool, 'v, 'w, 'x) Worker =
  controller :: "('pool, 'v, 'w) Controller"
  jobCh :: "PodWorkload list option option"
  scheduler :: "'x Scheduler"
  profileManager :: Manager

record ('pool, 'v, 'w, 'x) worker_env =
  we_ctl :: "('pool, 'v, 'w) ctl_env"
  we_orders :: orders
  we_executor :: "env \<Rightarrow> 'x Executor"
  we_resources :: "'x ResourceManager"
  we_profilesRange :: profiles_range

abbreviation we_env :: "('pool, 'v, 'w, 'x) worker_env \<Rightarrow> env" where
  "we_env Q \<equiv> cenv (we_ctl Q)"

text \<open>The steps a component takes by itself.\<close>

inductive sched_internal :: "env \<Rightarrow> orders \<Rightarrow> (env \<Rightarrow> 'x Executor) \<Rightarrow> 'x ResourceManager \<Rightarrow> 'x Scheduler \<Rightarrow> 'x Scheduler \<Rightarrow> bool"
  for E Ord X R where
  i_execution: "sched_ctl s = InSelect \<Longrightarrow> executionSync s \<Longrightarrow>
    sched_internal E Ord X R s (sched_execution (at_time t E) (X (at_time t E)) s)"
| i_resources: "sched_ctl s = InSelect \<Longrightarrow> resourceSync s \<Longrightarrow> sched_internal E Ord X R s (sched_resources (at_time t E) R s)"
| i_evaluation: "sched_ctl s = InSelect \<Longrightarrow> evaluationSync s \<Longrightarrow>
    sched_internal E Ord X R s (sched_evaluation (at_time t E) Ord s)"
| i_heartbeat: "sched_ctl s = InSelect \<Longrightarrow> sched_internal E Ord X R s (s\<lparr>sched_ctl := InHeartbeatSend\<rparr>)"
| i_send: "sched_ctl s = InHeartbeatSend \<Longrightarrow> \<not> executionSync s \<Longrightarrow>
    sched_internal E Ord X R s (s\<lparr>executionSync := True, sched_ctl := InSelect\<rparr>)"
| i_ctx_done: "sched_ctl s = InSelect \<Longrightarrow> sched_internal E Ord X R s (s\<lparr>sched_ctl := HasReturned\<rparr>)"
| i_task: "sched_ctl s \<noteq> Scheduler.Crashed \<Longrightarrow> i < length (tasks s) \<Longrightarrow>
    sched_internal E Ord X R s (finish_task (X (at_time t E)) i s)"
| i_rtask: "sched_ctl s \<noteq> Scheduler.Crashed \<Longrightarrow> i < length (rtasks s) \<Longrightarrow>
    sched_internal E Ord X R s (finish_rtask (at_time t E) R i s)"

inductive profile_internal :: "profiles_range \<Rightarrow> Manager \<Rightarrow> Manager \<Rightarrow> bool" for rng where
  p_send_input: "control m = ToInput v \<Longrightarrow> inputCh m = None \<Longrightarrow> profile_internal rng m (m\<lparr>inputCh := Some v, control := Select\<rparr>)"
| p_input: "control m = Select \<Longrightarrow> inputCh m = Some opt \<Longrightarrow> profile_internal rng m (on_input rng opt (m\<lparr>inputCh := None\<rparr>))"
| p_metric: "control m = Select \<Longrightarrow> metricChannel m \<Longrightarrow> profile_internal rng m (on_metric name v m)"
| p_send_evaluate: "control m = ToEvaluate \<Longrightarrow> \<not> evaluateCh m \<Longrightarrow>
    profile_internal rng m (m\<lparr>evaluateCh := True, control := Select\<rparr>)"
| p_evaluate: "control m = Select \<Longrightarrow> evaluateCh m \<Longrightarrow> profile_internal rng m (on_evaluate (m\<lparr>evaluateCh := False\<rparr>))"
| p_send_output: "control m = ToOutput r \<Longrightarrow> OutputCh m = None \<Longrightarrow>
    profile_internal rng m (m\<lparr>OutputCh := Some r, control := Select\<rparr>)"
| p_send_done: "control m = ToDone \<Longrightarrow> doneListener m \<Longrightarrow>
    profile_internal rng m (m\<lparr>doneListener := False, metricChannel := False, control := Select\<rparr>)"
| p_ctx_done: "control m = Select \<Longrightarrow> profile_internal rng m (m\<lparr>control := Returned\<rparr>)"

inductive worker_step :: "('pool, 'v, 'w, 'x) worker_env \<Rightarrow> ('pool, 'v, 'w, 'x) Worker \<Rightarrow> ('pool, 'v, 'w, 'x) Worker \<Rightarrow> bool"
  for Q where
  w_controller: "ctl_step (we_ctl Q) (controller W) Quiet c \<Longrightarrow> worker_step Q W (W\<lparr>controller := c\<rparr>)"
| w_profiles: "ctl_step (we_ctl Q) (controller W) (Profiled m) c \<Longrightarrow> control (profileManager W) = Select \<Longrightarrow>
    worker_step Q W (W\<lparr>controller := c, profileManager := profile_recv m (profileManager W)\<rparr>)"
| w_take: "ctl_step (we_ctl Q) (controller W) (Scheduled m) c \<Longrightarrow> jobCh W = None \<Longrightarrow>
    worker_step Q W (W\<lparr>controller := c, jobCh := start_payload m\<rparr>)"
| w_input: "jobCh W = Some opt \<Longrightarrow> sched_ctl (scheduler W) = InSelect \<Longrightarrow>
    worker_step Q W (W\<lparr>jobCh := None, scheduler := sched_input (at_time t (we_env Q)) (we_orders Q) opt (scheduler W)\<rparr>)"
| w_scheduler: "sched_internal (we_env Q) (we_orders Q) (we_executor Q) (we_resources Q) (scheduler W) s \<Longrightarrow>
    worker_step Q W (W\<lparr>scheduler := s\<rparr>)"
| w_profile: "profile_internal (we_profilesRange Q) (profileManager W) p \<Longrightarrow> worker_step Q W (W\<lparr>profileManager := p\<rparr>)"
| w_results: "OutputCh (profileManager W) = Some r \<Longrightarrow> sched_ctl (scheduler W) = InSelect \<Longrightarrow>
    worker_step Q W (W\<lparr>profileManager := (profileManager W)\<lparr>OutputCh := None\<rparr>, scheduler := sched_profiles r (scheduler W)\<rparr>)"

abbreviation worker_reaches :: "('pool, 'v, 'w, 'x) worker_env \<Rightarrow> ('pool, 'v, 'w, 'x) Worker \<Rightarrow> ('pool, 'v, 'w, 'x) Worker \<Rightarrow> bool" where
  "worker_reaches Q \<equiv> (worker_step Q)\<^sup>*\<^sup>*"

definition worker_init :: "conf_Manager \<Rightarrow> 'pool cert_Manager \<Rightarrow> 'v \<Rightarrow> 'w \<Rightarrow> 'x \<Rightarrow> ('pool, 'v, 'w, 'x) Worker" where
  "worker_init c cm v w x = \<lparr>controller = ctl_init c cm v w, jobCh = None, scheduler = newScheduler x,
     profileManager = new_Manager\<rparr>"

text \<open>
  The command \<open>Run\<close> of \<open>cmd/root.go\<close> up to its wait for a signal: the value is the initial state of
  the worker, or the error it panics with. The error of \<open>InitConfiguration\<close> is dropped.
\<close>

record ('pool, 'v) start_env =
  se_viper :: "'v viper_api"
  se_crypto :: "'pool crypto"
  se_readFile :: "string \<Rightarrow> error + string"
  se_urlParse :: "string \<Rightarrow> error + string"

definition root_Run :: "('pool, 'v) start_env \<Rightarrow> Flag list \<Rightarrow> 'w \<Rightarrow> 'x \<Rightarrow>
    error + ('pool, 'v, 'pool http_Client \<times> 'w, 'x) Worker" where
  "root_Run S flags w x =
     (let (_, flags', v) = InitConfiguration (se_viper S) flags (flag_value flags ''config'')
      in (case initCertificateManager (se_crypto S) (se_readFile S) (flag_value flags' ''ca-root'')
               (flag_value flags' ''cert'') (flag_value flags' ''key'') of
            Inl err \<Rightarrow> Inl err
          | Inr cm \<Rightarrow>
              (case client_New (se_urlParse S) (GetServerAddress (se_viper S) v) (Some cm) of
                 Inl err \<Rightarrow> Inl err
               | Inr hc \<Rightarrow> Inr (worker_init conf_New cm v (hc, w) x))))"

section \<open>The components keep their invariants\<close>

lemma sched_internal_step: "sched_internal E Ord X R s s' \<Longrightarrow> sched_step E Ord X R s s'"
  by (cases rule: sched_internal.cases) (auto intro: sched_step.intros)

lemma profile_internal_step: "profile_internal rng p p' \<Longrightarrow> run_step rng p p'"
  by (cases rule: profile_internal.cases) (auto intro: run_step.intros)

lemma profile_recv_step: "control p = Select \<Longrightarrow> run_step rng p (profile_recv m p)"
  by (auto simp: profile_recv_def split: MessageKind.split intro: run_step.recv run_step.recv_other)

text \<open>A step of the worker is a step of a component, or leaves it alone.\<close>

lemma worker_step_projects:
  assumes "worker_step Q W W'"
  shows "controller W' = controller W \<or> ctl_move (we_ctl Q) (controller W) (controller W')"
    and "scheduler W' = scheduler W \<or>
      sched_step (we_env Q) (we_orders Q) (we_executor Q) (we_resources Q) (scheduler W) (scheduler W')"
    and "profileManager W' = profileManager W \<or> run_step (we_profilesRange Q) (profileManager W) (profileManager W')"
  using assms
  by (cases; auto intro: ctl_moveI sched_internal_step profile_internal_step profile_recv_step
      sched_step.input sched_step.profiles run_step.consumer)+

definition worker_inv :: "('pool, 'v, 'w, 'x) worker_env \<Rightarrow> ('pool, 'v, 'w, 'x) Worker \<Rightarrow> bool" where
  "worker_inv Q W \<longleftrightarrow> ctl_inv (controller W) \<and> cert_inv (certM (controller W)) \<and>
     sched_inv (we_env Q) (scheduler W) \<and> manager_inv (profileManager W)"

lemma worker_inv_step:
  assumes "worker_step Q W W'" and "is_range (ord_jobs (we_orders Q))" and "worker_inv Q W"
  shows "worker_inv Q W'"
  using worker_step_projects [OF assms(1)] assms(2,3)
  by (auto simp: worker_inv_def ctl_move_def intro: enrolment.inv_step [unfolded ctl_move_def] cert_inv_step inv_step manager_inv_step)

interpretation worker: simulation "worker_step Q" phase_step "\<lambda>W. phase_of (controller W)"
    "\<lambda>W. is_range (ord_jobs (we_orders Q)) \<and> worker_inv Q W"
proof
  fix W W'
  assume W: "is_range (ord_jobs (we_orders Q)) \<and> worker_inv Q W" "worker_step Q W W'"
  then show "is_range (ord_jobs (we_orders Q)) \<and> worker_inv Q W'" using worker_inv_step by blast
  from W have "ctl_inv (controller W)" by (simp add: worker_inv_def)
  with worker_step_projects(1) [OF W(2)] enrolment.sim_step
  show "phase_of (controller W') = phase_of (controller W) \<or> phase_step (phase_of (controller W)) (phase_of (controller W'))"
    by metis
qed

lemma worker_init_inv: "cert_inv cm \<Longrightarrow> worker_inv Q (worker_init c cm v w x)"
  by (simp add: worker_inv_def worker_init_def ctl_init_inv inv_new)
    (simp add: manager_inv_def new_Manager_def ctl_init_def)

lemma root_Run_starts:
  assumes "root_Run S flags w x = Inr W"
  obtains cm v hc where "W = worker_init conf_New cm v (hc, w) x" "cert_inv cm"
proof -
  have "cert_inv cm" if "initCertificateManager C rd ca cf kf = Inr cm" for C rd ca cf kf and cm :: "'a cert_Manager"
    using that by (auto simp: initCertificateManager_def intro: cert_New_inv split: sum.splits)
  with assms that show thesis by (auto simp: root_Run_def Let_def split: prod.splits sum.splits)
qed


section \<open>A configuration from the operator to the scheduler\<close>

lemma ctl_run_quiet_worker:
  "ctl_run (we_ctl Q) c ms c' \<Longrightarrow> ms = [] \<Longrightarrow> worker_reaches Q (W\<lparr>controller := c\<rparr>) (W\<lparr>controller := c'\<rparr>)"
proof (induction rule: ctl_run.induct)
  case (run_quiet s s' ms s'')
  have "worker_step Q (W\<lparr>controller := s\<rparr>) (W\<lparr>controller := s\<rparr>\<lparr>controller := s'\<rparr>)"
    using run_quiet.hyps(1) by (intro worker_step.w_controller) simp
  then show ?case using run_quiet.IH [OF run_quiet.prems] by (simp add: converse_rtranclp_into_rtranclp)
qed simp_all

lemma controller_first: "W\<lparr>profileManager := p, controller := c\<rparr> = W\<lparr>controller := c, profileManager := p\<rparr>"
  by simp

lemma ctl_run_sends_worker:
  "ctl_run (we_ctl Q) c ms c' \<Longrightarrow> ms = [m] \<Longrightarrow> control (profileManager W) = Select \<Longrightarrow>
     worker_reaches Q (W\<lparr>controller := c\<rparr>) (W\<lparr>controller := c', profileManager := profile_recv m (profileManager W)\<rparr>)"
proof (induction rule: ctl_run.induct)
  case (run_quiet s s' ms s'')
  have "worker_step Q (W\<lparr>controller := s\<rparr>) (W\<lparr>controller := s\<rparr>\<lparr>controller := s'\<rparr>)"
    using run_quiet.hyps(1) by (intro worker_step.w_controller) simp
  then show ?case using run_quiet.IH [OF run_quiet.prems] by (simp add: converse_rtranclp_into_rtranclp)
next
  case (run_sends s m' s' ms s'')
  have m: "m' = m" "ms = []" using run_sends.prems(1) by simp_all
  have "worker_step Q (W\<lparr>controller := s\<rparr>) (W\<lparr>controller := s', profileManager := profile_recv m (profileManager W)\<rparr>)"
    using worker_step.w_profiles [of Q "W\<lparr>controller := s\<rparr>" m s'] run_sends.hyps(1) run_sends.prems(2) m by simp
  moreover have "worker_reaches Q (W\<lparr>controller := s', profileManager := profile_recv m (profileManager W)\<rparr>)
      (W\<lparr>controller := s'', profileManager := profile_recv m (profileManager W)\<rparr>)"
    using ctl_run_quiet_worker [OF run_sends.hyps(2) m(2), of "W\<lparr>profileManager := profile_recv m (profileManager W)\<rparr>"]
    by (simp add: controller_first)
  ultimately show ?case by (simp add: converse_rtranclp_into_rtranclp)
qed simp

text \<open>An option of workloads, None when there are none, as the configuration manager sends it.\<close>

lemma input_option_jobs:
  assumes "sched_inv E s" and "distinct (map (id_at E s) (ToList (jobs s)))"
    and "is_range (ord_jobs Ord)" and "is_range (ord_workloads Ord)"
    and "\<forall>w \<in> set ws. \<exists>j. createJob E w = Inr j"
  defines "s' \<equiv> sched_input E Ord (if ws = [] then None else Some ws) s"
  shows "id_at E s' ` set (ToList (jobs s')) = id_at E s ` set (ToList (jobs s)) \<union> w_ID E ` set ws \<and>
    (\<forall>a \<in> set (ToList (jobs s)). heap s' ! a = (if id_at E s a \<in> w_ID E ` set ws then heap s ! a else retired (heap s ! a)))"
proof (cases "ws = []")
  case True
  have "jobs s' = jobs s"
  proof (cases "ToList (jobs s) = []")
    case False
    then obtain a where "a \<in> set (ToList (jobs s))" by (cases "ToList (jobs s)") auto
    from sched_input_none [OF assms(1) this, of Ord] \<open>ws = []\<close> show ?thesis by (simp add: s'_def)
  qed (simp add: s'_def sched_input_def \<open>ws = []\<close>)
  moreover have a: "heap s' ! a = retired (heap s ! a)" if "a \<in> set (ToList (jobs s))" for a
    using sched_input_none [OF assms(1) that] True by (simp add: s'_def)
  ultimately show ?thesis using True by (simp cong: image_cong)
qed (use input_jobs [OF assms(1-5)] in \<open>simp add: s'_def\<close>)

text \<open>
  C2: From the operator to the scheduler. When the worker is between two rounds and the operator
  answers with a new configuration, a state is reached in which the configuration is in force, the
  scheduler has a job for every workload of it, the jobs that are not in it any more are marked for
  deletion with the target \<open>ExitedState\<close>, and the profile manager has the profiles that were built
  from its expressions.
\<close>

theorem configuration_reaches_scheduler:
  assumes "worker_inv Q W" and "idle (controller W)" and "answers (we_ctl Q) m"
    and "message_Hash (we_env Q) m \<noteq> message_Hash (we_env Q) (cm_conf (confM (controller W)))"
    and "schedulerCh (controller W) = []" and "jobCh W = None"
    and "control (profileManager W) = Select" and "sched_ctl (scheduler W) = InSelect"
    and "distinct (map (id_at (we_env Q) (scheduler W)) (ToList (jobs (scheduler W))))"
    and "is_range (ord_jobs (we_orders Q))" and "is_range (ord_workloads (we_orders Q))"
    and "\<forall>w \<in> set (elems (msg_Workloads m)). \<exists>j. createJob (we_env Q) w = Inr j"
  shows "\<exists>W'. worker_reaches Q W W' \<and>
    cm_conf (confM (controller W')) = sort_workloads (we_env Q) m \<and>
    id_at (we_env Q) (scheduler W') ` set (ToList (jobs (scheduler W'))) =
      id_at (we_env Q) (scheduler W) ` set (ToList (jobs (scheduler W))) \<union> w_ID (we_env Q) ` set (elems (msg_Workloads m)) \<and>
    (\<forall>a \<in> set (ToList (jobs (scheduler W))). heap (scheduler W') ! a =
       (if id_at (we_env Q) (scheduler W) a \<in> w_ID (we_env Q) ` set (elems (msg_Workloads m))
        then heap (scheduler W) ! a else retired (heap (scheduler W) ! a))) \<and>
    control (profileManager W') =
      ToInput (fst (createDeviceProfiles (ranges (we_ctl Q)) (elems (dc_Profiles (msg_Configuration m)))))"
proof -
  let ?P = "we_ctl Q" and ?E = "we_env Q" and ?c = "controller W" and ?s = "scheduler W"
  define ws where "ws = elems (msg_Workloads (sort_workloads ?E m))"
  have ws: "set ws = set (elems (msg_Workloads m))"
    using sorted_workloads_mset [of ?E m] by (metis ws_def mset_eq_setD)
  let ?opt = "if ws = [] then None else Some ws"
  let ?wm = "\<lparr>m_Kind = WorkloadConfigurationMessage, m_Payload = WorkloadsPayload ?opt\<rparr>"
  let ?dps = "fst (createDeviceProfiles (ranges ?P) (elems (dc_Profiles (msg_Configuration m))))"
  let ?pm = "\<lparr>m_Kind = ProfileConfigurationMessage, m_Payload = ProfilesPayload ?dps\<rparr>"
  let ?conf = "(confM ?c)\<lparr>cm_conf := sort_workloads ?E m\<rparr>"
  have set: "SetConfiguration ?E (ranges ?P) m (confM ?c) = ([ToScheduler ?wm, ToStateManager ?pm], ?conf)"
    using SetConfiguration_new [OF assms(4), of "ranges ?P"] by (simp only: ws_def)
  from round_run [OF assms(2,3) set] assms(5) obtain c' where
    run: "ctl_run ?P ?c [?pm] c'" and c': "confM c' = ?conf" "schedulerCh c' = [?wm]" "ctl c' = CSelect" by auto
  let ?p = "profile_recv ?pm (profileManager W)"
  let ?W1 = "W\<lparr>controller := c', profileManager := ?p\<rparr>"
  let ?W2 = "?W1\<lparr>controller := c'\<lparr>schedulerCh := []\<rparr>, jobCh := Some ?opt\<rparr>"
  let ?s' = "sched_input ?E (we_orders Q) ?opt ?s"
  let ?W3 = "?W2\<lparr>jobCh := None, scheduler := ?s'\<rparr>"
  have r1: "worker_reaches Q W ?W1" using ctl_run_sends_worker [OF run HOL.refl assms(7)] by simp
  have "ctl_step ?P c' (Scheduled ?wm) (c'\<lparr>schedulerCh := []\<rparr>)"
    by (rule ctl_step.scheduler_recv) (simp_all add: c')
  then have r2: "worker_step Q ?W1 ?W2"
    using worker_step.w_take [of Q ?W1 ?wm "c'\<lparr>schedulerCh := []\<rparr>"] assms(6) by (simp add: start_payload_def)
  have r3: "worker_step Q ?W2 ?W3"
    using worker_step.w_input [of ?W2 ?opt Q "now ?E"] assms(8) by (simp add: at_time_def)
  have "worker_reaches Q W ?W3" using r1 r2 r3 by (meson rtranclp.rtrancl_into_rtrancl)
  moreover have "sched_inv ?E ?s" using assms(1) by (simp add: worker_inv_def)
  note jobs = input_option_jobs [OF this assms(9-11), of ws, unfolded ws, OF assms(12)]
  moreover have "control ?p = ToInput ?dps" by (simp add: profile_recv_def payload_value_def)
  ultimately show ?thesis by (intro exI [of _ ?W3]) (simp add: c')
qed

definition worker_env_example ::
    "(unit, (string, string) gomap, 'w, (string \<times> string) list) worker_env" where
  "worker_env_example = \<lparr>we_ctl = ctl_example crt_example conf_example, we_orders = ord_example, we_executor = ex_example,
     we_resources = idle_rm, we_profilesRange = (\<lambda>m. m)\<rparr>"

definition worker_example :: "(unit, (string, string) gomap, unit, (string \<times> string) list) Worker" where
  "worker_example = \<lparr>controller = idle_example, jobCh = None, scheduler = newScheduler [], profileManager = new_Manager\<rparr>"

text \<open>A command line with the file names of the certificate and of the key.\<close>

definition start_env_example :: "(unit, (string, string) gomap) start_env" where
  "start_env_example = \<lparr>se_viper = viper_example, se_crypto = crypto_example,
     se_readFile = (\<lambda>f. Inr (if f = ''device.crt'' then pem_Encode crypto_example ''CERTIFICATE'' ''c''
                       else pem_Encode crypto_example ecPrivateKeyBlockType ''k'')), se_urlParse = Inr\<rparr>"

definition flags_example :: "Flag list" where
  "flags_example = map (\<lambda>f. if f_Name f = ''cert'' then f\<lparr>f_Changed := True, f_Value := ''device.crt''\<rparr>
     else if f_Name f = ''key'' then f\<lparr>f_Changed := True, f_Value := ''device.key''\<rparr> else f) root_flags"

lemma worker_env_example_simps [simp]:
  "we_ctl worker_env_example = ctl_example crt_example conf_example" "we_orders worker_env_example = ord_example"
  by (simp_all add: worker_env_example_def)

lemma root_Run_example_client:
  "\<exists>url. root_Run start_env_example flags_example w x = Inr (worker_init conf_New manager_example []
     (\<lparr>certificateSignature = [], serverURL = url, transportWrappers = [], transport = None\<rparr>, w) x)"
proof -
  have f: "flag_value flags_example ''config'' = ''c''" "flag_value flags_example ''cert'' = ''device.crt''"
    "flag_value flags_example ''key'' = ''device.key''" by code_simp+
  have v: "InitConfiguration viper_example flags_example ''c'' = (Some (ErrorString ''fail to read config file''), flags_example, [])"
    by (simp add: InitConfiguration_def viper_example_def)
  have pool: "SystemCertPool crypto_example = Inr ()" by (simp add: crypto_example_def)
  have c: "cert_New crypto_example [ca] (pem_Encode crypto_example ''CERTIFICATE'' ''c'')
      (pem_Encode crypto_example ecPrivateKeyBlockType ''k'') = Inr manager_example" for ca
    using pool by (simp add: cert_New_def SetCertificate_def pem_example parse_key_def manager_example_def)
  show ?thesis
    by (simp add: root_Run_def start_env_example_def f v c Let_def initCertificateManager_def client_New_def) (rule exI, rule HOL.refl)
qed

lemma root_Run_example:
  "\<exists>hc. root_Run start_env_example flags_example w x = Inr (worker_init conf_New manager_example [] (hc, w) x)"
  using root_Run_example_client [of w x] by auto


theorem configuration_reaches_scheduler_witness:
  "\<exists>W'. worker_reaches worker_env_example worker_example W' \<and>
     id_at (env_at 0) (scheduler W') ` set (ToList (jobs (scheduler W'))) = {w_ID (env_at 0) pod_example}"
proof -
  let ?Q = worker_env_example and ?W = worker_example
  have inv: "worker_inv ?Q ?W"
    by (simp add: worker_inv_def worker_example_def inv_new idle_example_def ctl_inv_def ctl_init_def phase_of_def manager_example_inv)
      (simp add: manager_inv_def new_Manager_def)
  have ctl: "idle (controller ?W)" "answers (we_ctl ?Q) conf_example" "schedulerCh (controller ?W) = []"
    using idle_example(1) answers_example by (simp_all add: worker_example_def idle_example_def ctl_init_def)
  have hash: "message_Hash (we_env ?Q) conf_example \<noteq> message_Hash (we_env ?Q) (cm_conf (confM (controller ?W)))"
    using conf_example_new by (simp add: worker_example_def idle_example(2))
  have rest: "jobCh ?W = None" "control (profileManager ?W) = Select" "sched_ctl (scheduler ?W) = InSelect"
    "distinct (map (id_at (we_env ?Q) (scheduler ?W)) (ToList (jobs (scheduler ?W))))"
    by (simp_all add: worker_example_def new_Manager_def newScheduler_def)
  have ord: "is_range (ord_jobs (we_orders ?Q))" "is_range (ord_workloads (we_orders ?Q))" by (simp_all add: ord_example_def)
  have ws: "elems (msg_Workloads conf_example) = [pod_example]" by (simp add: conf_example_def)
  then have "\<forall>w \<in> set (elems (msg_Workloads conf_example)). \<exists>j. createJob (we_env ?Q) w = Inr j"
    using createJob_example by simp
  from configuration_reaches_scheduler [OF inv ctl(1,2) hash ctl(3) rest(1-4) ord this]
  show ?thesis by (auto simp: ws worker_example_def newScheduler_def)
qed

end
