(* ===== verification/Traffic.thy ===== *)
theory Traffic
  imports Worker
begin

text \<open>
  The worker with its HTTP client: what goes out to the operator. The network is observed: every
  request that is sent is recorded with the transport it was sent over. All requests go out over a
  transport with a client certificate, and it is the certificate the device has at that time.
\<close>

section \<open>An observed network\<close>

type_synonym 'pool traffic = "('pool RoundTripper option \<times> Request) list"

definition traced :: "('pool, 'n) http_api \<Rightarrow> ('pool, 'n \<times> 'pool traffic) http_api" where
  "traced A = \<lparr>crypto_of = crypto_of A, X509KeyPair = X509KeyPair A, uuid = (\<lambda>(n, _). uuid A n),
     json_Marshal = json_Marshal A, json_Unmarshal = json_Unmarshal A, json_Marshal_map = json_Marshal_map A,
     json_Unmarshal_configuration = json_Unmarshal_configuration A, checkRequest = checkRequest A,
     http_Do = (\<lambda>t r (n, tr). case http_Do A t r n of (x, n') \<Rightarrow> (x, (n', tr @ [(t, r)])))\<rparr>"

text \<open>The files are beside the network: neither the client nor the record is touched by them.\<close>

definition beside :: "('n, 'a) io \<Rightarrow> ('c \<times> 'n \<times> 'l, 'a) io" where
  "beside m s = (case s of (c, n, tr) \<Rightarrow> (case m n of (x, n') \<Rightarrow> (x, (c, n', tr))))"

definition files_beside :: "'n file_api \<Rightarrow> ('c \<times> 'n \<times> 'l) file_api" where
  "files_beside F = \<lparr>os_Create = (\<lambda>f. beside (os_Create F f)), file_Write = (\<lambda>f s. beside (file_Write F f s)),
     os_WriteFile = (\<lambda>f s. beside (os_WriteFile F f s))\<rparr>"

abbreviation sent :: "('pool, 'v, 'pool http_Client \<times> 'n \<times> 'pool traffic) Controller \<Rightarrow> 'pool traffic" where
  "sent s \<equiv> snd (snd (cworld s))"

section \<open>The calls of the client\<close>

lemma createTransport_traced: "createTransport (traced A) ws cm = createTransport A ws cm"
  by (simp add: createTransport_def createTLSConfig_def traced_def)

definition client_ok :: "('pool, 'n) http_api \<Rightarrow> 'pool http_Client \<Rightarrow> bool" where
  "client_ok A c \<longleftrightarrow> client_inv (traced A) c \<and> transportWrappers c = []"

text \<open>
  At most one request is sent, over a transport made from a certificate with the signature of the
  current one.
\<close>

definition one_request :: "('pool, 'n) http_api \<Rightarrow> 'pool cert_Manager \<Rightarrow> 'pool traffic \<Rightarrow> 'pool traffic \<Rightarrow> bool" where
  "one_request A cm tr tr' \<longleftrightarrow> tr' = tr \<or>
     (\<exists>t req cm\<^sub>0. tr' = tr @ [(Some t, req)] \<and> Signature cm\<^sub>0 = Signature cm \<and> createTransport A [] cm\<^sub>0 = Some (t, None))"

lemma one_request_refl [simp]: "one_request A cm tr tr"
  by (simp add: one_request_def)

definition calls_ok :: "('pool, 'n) http_api \<Rightarrow> 'pool cert_Manager \<Rightarrow> ('pool http_Client \<times> 'n \<times> 'pool traffic, 'a) io \<Rightarrow> bool" where
  "calls_ok A cm m \<longleftrightarrow> (\<forall>c n tr r c' n' tr'. client_ok A c \<longrightarrow> m (c, n, tr) = (r, (c', n', tr')) \<longrightarrow>
     client_ok A c' \<and> one_request A cm tr tr')"

lemma getClient_wrappers: "getClient A cm (c, w) = (r, (c', w')) \<Longrightarrow> transportWrappers c' = transportWrappers c"
  by (auto simp: getClient_def split: option.splits if_splits prod.splits)

lemma client_do_wrappers: "client_do A cm req (c, w) = (r, (c', w')) \<Longrightarrow> transportWrappers c' = transportWrappers c"
  by (auto simp: client_do_def io_bind_def lift_net_def dest!: getClient_wrappers split: prod.splits call.splits sum.splits)

lemma http_Do_traced: "http_Do (traced A) t r (n, tr) = (x, (n', tr')) \<Longrightarrow> tr' = tr @ [(t, r)]"
  by (auto simp: traced_def split: prod.splits)

lemma client_do_ok:
  assumes "Signature cm \<noteq> Some []"
  shows "calls_ok A cm (client_do (traced A) cm req)"
  unfolding calls_ok_def
proof (intro allI impI)
  fix c n tr r c' n' tr'
  assume c: "client_ok A c" and d: "client_do (traced A) cm req (c, n, tr) = (r, (c', n', tr'))"
  have w: "transportWrappers c' = []" using client_do_wrappers [OF d] c by (simp add: client_ok_def)
  from client_do_sends [OF _ assms d] c w
  have inv: "client_inv (traced A) c'" and sends: "(n', tr') = (n, tr) \<or>
    (\<exists>t cm\<^sub>0. Signature cm\<^sub>0 = Signature cm \<and> createTransport A [] cm\<^sub>0 = Some (t, None) \<and>
      http_Do (traced A) (Some t) req (n, tr) = (r, (n', tr')))"
    by (auto simp: client_ok_def createTransport_traced)
  from sends have "one_request A cm tr tr'" by (auto simp: one_request_def dest!: http_Do_traced)
  with inv w show "client_ok A c' \<and> one_request A cm tr tr'" by (simp add: client_ok_def)
qed

lemma send_request_ok:
  assumes "Signature cm \<noteq> Some []" and "\<And>resp s. snd (k resp s) = s"
  shows "calls_ok A cm (send_request (traced A) cm mk ct st fail k)"
  unfolding calls_ok_def
proof (intro allI impI)
  fix c n tr r c' n' tr'
  assume c: "client_ok A c" and d: "send_request (traced A) cm mk ct st fail k (c, n, tr) = (r, (c', n', tr'))"
  have "(c', n', tr') = (c, n, tr) \<or> (\<exists>req x. client_do (traced A) cm req (c, n, tr) = (x, (c', n', tr')))"
    using d assms(2) by (auto simp: send_request_def io_bind_def split: option.splits sum.splits prod.splits call.splits)
      (metis snd_conv)+
  then show "client_ok A c' \<and> one_request A cm tr tr'"
    using c client_do_ok [OF assms(1), of A, unfolded calls_ok_def, rule_format, OF c] by auto
qed

lemma client_calls_ok:
  assumes "Signature cm \<noteq> Some []"
  shows "calls_ok A cm (client_Enrol (traced A) cm d ei)" and "calls_ok A cm (client_Register (traced A) cm d ri)"
    and "calls_ok A cm (client_Heartbeat (traced A) cm d hb)" and "calls_ok A cm (client_GetConfiguration (traced A) cm d)"
  unfolding client_Enrol_def client_Register_def client_Heartbeat_def client_GetConfiguration_def
  by (rule send_request_ok [OF assms], simp add: io_panic_def split: sum.split option.split)+


section \<open>The controller\<close>

text \<open>A network that the controller is connected to: the client is the HTTP client, the files are beside it.\<close>

definition connected :: "('pool, 'n) http_api \<Rightarrow> 'n file_api \<Rightarrow> ('pool, 'v, 'pool http_Client \<times> 'n \<times> 'pool traffic) ctl_env \<Rightarrow> bool" where
  "connected A F P \<longleftrightarrow> client P = http_client (traced A) \<and> files P = files_beside F"

definition signed :: "'pool cert_Manager \<Rightarrow> bool" where
  "signed cm \<longleftrightarrow> Signature cm \<noteq> Some []"

lemma WriteCertificate_beside:
  "WriteCertificate C (files_beside F) cp kp cm (c, n, tr) = (r, (c', n', tr')) \<Longrightarrow> c' = c \<and> tr' = tr"
  by (auto simp: WriteCertificate_def files_beside_def beside_def io_bind_def io_panic_def
      split: prod.splits call.splits option.splits)

abbreviation request_step where
  "request_step A s s' \<equiv> client_ok A (fst (cworld s')) \<and> one_request A (certM s) (sent s) (sent s')"

lemma request_step_call:
  assumes "calls_ok A cm m" and "m (cworld s) = (r, w)" and "client_ok A (fst (cworld s))"
  shows "client_ok A (fst w) \<and> one_request A cm (sent s) (snd (snd w))"
proof -
  obtain c n tr where s: "cworld s = (c, n, tr)" using prod_cases3 by blast
  obtain c' n' tr' where w: "w = (c', n', tr')" using prod_cases3 by blast
  from assms(1) [unfolded calls_ok_def, rule_format, of c n tr r c' n' tr'] assms(2,3) show ?thesis by (simp add: s w)
qed

lemma on_enrol_request:
  assumes "connected A F P" and "signed (certM s)" and "client_ok A (fst (cworld s))"
  shows "request_step A s (on_enrol P s)"
proof -
  obtain i v where d: "deviceID_of P s = (i, s\<lparr>settings := v\<rparr>)" using deviceID_of_settings [of P s] by auto
  let ?m = "client_Enrol (traced A) (certM s) i \<lparr>ei_Features = \<lparr>ef_Hardware = cm_hardware (confM s), ef_ModelName = []\<rparr>,
      ei_TargetNamespace = GetTargetNamespace (viper P) (settings s)\<rparr>"
  obtain r w where m: "?m (cworld s) = (r, w)" by (metis surj_pair)
  have "request_step A s (s\<lparr>cworld := w\<rparr>)"
    using request_step_call [OF client_calls_ok(1) m assms(3)] assms(2) by (simp add: signed_def)
  then show ?thesis
    using assms(1) by (simp add: on_enrol_def d m connected_def http_client_def split: call.split option.split)
qed

lemma on_register_request:
  assumes "connected A F P" and "signed (certM s)" and "client_ok A (fst (cworld s))"
  shows "request_step A s (on_register P s)"
proof (cases "GenerateCSR (ccrypto P) (random P (cworld s)) ''deviceID'' (certM s)")
  case (Inl err)
  then show ?thesis using assms(3) by (simp add: on_register_def)
next
  case (Inr p)
  obtain csr key where p: "p = (csr, key)" by fastforce
  obtain i v where d: "deviceID_of P s = (i, s\<lparr>settings := v\<rparr>)" using deviceID_of_settings [of P s] by auto
  let ?m = "client_Register (traced A) (certM s) i \<lparr>ri_CertificateRequest = csr, ri_Hardware = cm_hardware (confM s)\<rparr>"
  obtain r w where m: "?m (cworld s) = (r, w)" by (metis surj_pair)
  obtain c n tr where w: "w = (c, n, tr)" using prod_cases3 by blast
  have "client_ok A c \<and> one_request A (certM s) (sent s) tr"
    using request_step_call [OF client_calls_ok(2) m assms(3)] assms(2) by (simp add: signed_def w)
  then show ?thesis
    using assms(1)
    by (auto simp: on_register_def Inr p d m w connected_def http_client_def Let_def dest!: WriteCertificate_beside
        split: call.split sum.split option.split prod.split)
qed

lemma op_heartbeat_request:
  assumes "connected A F P" and "signed (certM s)" and "client_ok A (fst (cworld s))"
  shows "request_step A s (op_heartbeat P g s)"
proof -
  obtain i v where d: "deviceID_of P s = (i, s\<lparr>settings := v\<rparr>)" using deviceID_of_settings [of P s] by auto
  obtain r w where m: "client_Heartbeat (traced A) (certM s) i (Heartbeat_of (ranges P) (confM s)) (cworld s) = (r, w)" by (metis surj_pair)
  have "request_step A s (s\<lparr>cworld := w\<rparr>)"
    using request_step_call [OF client_calls_ok(3) m assms(3)] assms(2) by (simp add: signed_def)
  then show ?thesis
    using assms(1) by (simp add: op_heartbeat_def d m connected_def http_client_def split: call.split)
qed

lemma op_getConfiguration_request:
  assumes "connected A F P" and "signed (certM s)" and "client_ok A (fst (cworld s))"
  shows "request_step A s (op_getConfiguration P g s)"
proof -
  obtain i v where d: "deviceID_of P s = (i, s\<lparr>settings := v\<rparr>)" using deviceID_of_settings [of P s] by auto
  obtain r w where m: "client_GetConfiguration (traced A) (certM s) i (cworld s) = (r, w)" by (metis surj_pair)
  have "request_step A s (s\<lparr>cworld := w\<rparr>)"
    using request_step_call [OF client_calls_ok(4) m assms(3)] assms(2) by (simp add: signed_def)
  then show ?thesis
    using assms(1) by (simp add: op_getConfiguration_def d m connected_def http_client_def split: call.split sum.split)
qed

text \<open>Every certificate that parses is signed, so that a device with one keeps one.\<close>

definition certificates_signed :: "'pool crypto \<Rightarrow> bool" where
  "certificates_signed C \<longleftrightarrow> (\<forall>b x. ParseCertificate C b = Inr x \<longrightarrow> x_Signature x \<noteq> [])"

lemma SetCertificate_signed:
  "certificates_signed C \<Longrightarrow> signed cm \<Longrightarrow> signed (snd (SetCertificate C cp kp cm))"
  by (auto simp: SetCertificate_def certificates_signed_def signed_def Signature_def split: option.splits sum.splits prod.splits)

lemma signed_on_register: "certificates_signed (ccrypto P) \<Longrightarrow> signed (certM s) \<Longrightarrow> signed (certM (on_register P s))"
  by (auto simp: on_register_def Let_def SetCertificate_signed split: sum.split prod.split call.split option.split)

lemma request_ctl_step:
  assumes "ctl_step P s l s'" and "connected A F P" and "certificates_signed (ccrypto P)"
    and "signed (certM s)" and "client_ok A (fst (cworld s))"
  shows "request_step A s s' \<and> signed (certM s')"
  using assms(1)
proof cases
  case sel_enrol
  then show ?thesis
    using assms(4,5) on_enrol_request [OF assms(2), of "s\<lparr>enrolCh := Some False\<rparr>"] on_enrol_cases [of P "s\<lparr>enrolCh := Some False\<rparr>"]
    by auto
next
  case sel_register
  then show ?thesis
    using assms(4,5) on_register_request [OF assms(2), of "s\<lparr>registerCh := Some False\<rparr>"]
      signed_on_register [OF assms(3), of "s\<lparr>registerCh := Some False\<rparr>"] by simp
next
  case (heartbeat g)
  then show ?thesis using assms(4,5) op_heartbeat_request [OF assms(2)] op_heartbeat_cases [of P g s] by auto
next
  case (get_configuration g)
  then show ?thesis using assms(4,5) op_getConfiguration_request [OF assms(2)] op_getConfiguration_cases [of P g s] by auto
qed (use assms(4,5) in \<open>auto simp: on_tick_def on_configuration_def op_finish_def split: option.split\<close>)

section \<open>The worker\<close>

lemma root_Run_client:
  assumes "root_Run S flags w x = Inr W" and "certificates_signed (se_crypto S)"
  obtains cm v hc where "W = worker_init conf_New cm v (hc, w) x" "signed cm" "client_ok A hc"
proof -
  have "signed cm" if cm: "initCertificateManager (se_crypto S) rd ca cf kf = Inr cm" for rd ca cf kf cm
  proof -
    have "signed c" if new: "cert_New (se_crypto S) cs cp kp = Inr c" for cs cp kp c
    proof -
      obtain pool where "SetCertificate (se_crypto S) cp kp \<lparr>cert = None, privateKey = None, privateKeyType = [], rootCA = pool\<rparr> = (None, c)"
        using new by (auto simp: cert_New_def split: sum.splits prod.splits option.splits)
      with SetCertificate_signed [OF assms(2), of "\<lparr>cert = None, privateKey = None, privateKeyType = [], rootCA = pool\<rparr>" cp kp]
      show ?thesis by (simp add: signed_def Signature_def)
    qed
    with cm show ?thesis by (auto simp: initCertificateManager_def split: sum.splits)
  qed
  with assms(1) that show thesis
    by (auto simp: root_Run_def client_New_def client_ok_def client_inv_def Let_def split: prod.splits sum.splits)
qed

lemma request_worker_step:
  assumes "worker_step Q W W'" and "connected A F (we_ctl Q)" and "certificates_signed (ccrypto (we_ctl Q))"
    and "signed (certM (controller W))" and "client_ok A (fst (cworld (controller W)))"
  shows "request_step A (controller W) (controller W') \<and> signed (certM (controller W'))"
  using worker_step_projects(1) [OF assms(1)] request_ctl_step [OF _ assms(2-5)] assms(4,5)
  by (auto simp: ctl_move_def)

text \<open>Every request was sent over a transport with a client certificate.\<close>

definition authenticated :: "'pool traffic \<Rightarrow> bool" where
  "authenticated tr \<longleftrightarrow> (\<forall>(t, req) \<in> set tr. \<exists>ca cc. t = Some (Transport (Some \<lparr>RootCAs = ca, Certificates = [cc]\<rparr>)))"

lemma createTransport_plain:
  assumes "createTransport A [] cm = Some (t, None)"
  shows "\<exists>ca cc. t = Transport (Some \<lparr>RootCAs = ca, Certificates = [cc]\<rparr>)"
proof -
  obtain r where r: "createTLSConfig A cm = Some r" using assms by (auto simp: createTransport_def)
  with assms obtain config where c: "r = Inr config" "t = Transport (Some config)"
    by (cases r) (auto simp: createTransport_def wrap_all_def)
  from r obtain z where z: "cert cm = Some z" by (auto simp: createTLSConfig_def GetCertificates_def)
  with r c show ?thesis
    by (cases "X509KeyPair A (pem_Encode (crypto_of A) ''CERTIFICATE'' (x_Raw z)) (marshalKeyToPem (crypto_of A) (privateKey cm))")
      (auto simp: createTLSConfig_def GetCertificates_def)
qed

lemma one_request_authenticated: "one_request A cm tr tr' \<Longrightarrow> authenticated tr \<Longrightarrow> authenticated tr'"
  using createTransport_plain by (fastforce simp: one_request_def authenticated_def)

lemma traffic_reaches:
  assumes "worker_reaches Q W\<^sub>0 W" and "connected A F (we_ctl Q)" and "certificates_signed (ccrypto (we_ctl Q))"
    and "signed (certM (controller W\<^sub>0))" and "client_ok A (fst (cworld (controller W\<^sub>0)))" and "authenticated (sent (controller W\<^sub>0))"
  shows "signed (certM (controller W)) \<and> client_ok A (fst (cworld (controller W))) \<and> authenticated (sent (controller W))"
  using assms(1)
proof (induction rule: rtranclp_induct)
  case (step V W)
  then show ?case using request_worker_step [OF step.hyps(2) assms(2,3)] one_request_authenticated by blast
qed (use assms in simp)


section \<open>An example\<close>

definition connected_example :: "(unit, (string, string) gomap, unit http_Client \<times> nat \<times> unit traffic) ctl_env" where
  "connected_example = \<lparr>client = http_client (traced api_example), ccrypto = crypto_example,
     files = files_beside \<lparr>os_Create = (\<lambda>_. ret None), file_Write = (\<lambda>_ _. ret ()), os_WriteFile = (\<lambda>_ _. ret None)\<rparr>,
     viper = viper_example, machineID = Inr ''m'', freshID = (\<lambda>_. ''u''), random = (\<lambda>_. 7), cenv = env_at 0,
     ranges = ranges_id\<rparr>"

definition traffic_env_example ::
    "(unit, (string, string) gomap, unit http_Client \<times> nat \<times> unit traffic, (string \<times> string) list) worker_env" where
  "traffic_env_example = \<lparr>we_ctl = connected_example, we_orders = ord_example, we_executor = ex_example,
     we_resources = idle_rm, we_profilesRange = (\<lambda>m. m)\<rparr>"

lemma Enrol_sends_example:
  assumes "transport c = None" and "certificateSignature c = []" and "transportWrappers c = []"
    and "hardwareEntity2Model (ef_Hardware (ei_Features e)) \<noteq> None"
  shows "\<exists>r c' x. client_Enrol (traced api_example) manager_example i e (c, 0, []) = (r, (c', 1, [x]))"
  using assms
  by (auto simp: client_Enrol_def send_request_def Build_request_def request_data_def enrolInfoEntity2Model_def
      client_do_def getClient_def createTransport_def createTLSConfig_def GetCertificates_def Signature_def
      manager_example_def traced_def api_example_def lift_net_def io_bind_def Let_def rb_Body_def rb_Url_def
      rb_Header_def rb_Action_def rb_Type_def)


end
