(* ===== verification/Process.thy ===== *)
theory Process
  imports Worker
begin

text \<open>
  The command from its start to its end (\<open>cmd/root.go\<close>): the logger, the start of the worker, and
  what follows the signal that ends it. The main goroutine of the command is put beside the worker:
  it waits for the signal, cancels the context, and calls the \<open>Shutdown\<close> of the controller and of
  the profile manager. The package \<open>zap\<close> is a record of what is used of it.
\<close>

section \<open>The logger\<close>

record ('lvl, 'enc) EncoderConfig =
  TimeKey :: string
  LevelKey :: string
  NameKey :: string
  CallerKey :: string
  MessageKey :: string
  StacktraceKey :: string
  LineEnding :: string
  EncodeTime :: 'enc
  EncodeLevel :: 'enc
  EncodeDuration :: 'enc
  EncodeCaller :: 'enc

record ('lvl, 'enc) zap_Config =
  zc_Level :: 'lvl
  zc_Encoding :: string
  zc_EncoderConfig :: "('lvl, 'enc) EncoderConfig"
  zc_OutputPaths :: "string list"
  zc_ErrorOutputPaths :: "string list"

text \<open>\<open>zap_Build\<close> has the level of the option \<open>AddStacktrace\<close> as its first argument.\<close>

record ('lvl, 'enc, 'logger) zap_api =
  InfoLevel :: 'lvl
  DPanicLevel :: 'lvl
  DefaultLineEnding :: string
  RFC3339TimeEncoder :: 'enc
  LowercaseLevelEncoder :: 'enc
  MillisDurationEncoder :: 'enc
  ShortCallerEncoder :: 'enc
  ParseAtomicLevel :: "string \<Rightarrow> error + 'lvl"
  zap_Build :: "'lvl \<Rightarrow> ('lvl, 'enc) zap_Config \<Rightarrow> error + 'logger"

definition loggerCfg :: "('lvl, 'enc, 'logger) zap_api \<Rightarrow> ('lvl, 'enc) zap_Config" where
  "loggerCfg Z = \<lparr>zc_Level = InfoLevel Z, zc_Encoding = ''json'',
     zc_EncoderConfig = \<lparr>TimeKey = ''time'', LevelKey = ''severity'', NameKey = ''logger'', CallerKey = ''caller'',
       MessageKey = ''message'', StacktraceKey = ''stacktrace'', LineEnding = DefaultLineEnding Z,
       EncodeTime = RFC3339TimeEncoder Z, EncodeLevel = LowercaseLevelEncoder Z,
       EncodeDuration = MillisDurationEncoder Z, EncodeCaller = ShortCallerEncoder Z\<rparr>,
     zc_OutputPaths = [''stdout''], zc_ErrorOutputPaths = [''stderr'']\<rparr>"

text \<open>An error is what the function panics with.\<close>

definition setupLogger :: "('lvl, 'enc, 'logger) zap_api \<Rightarrow> string \<Rightarrow> error + 'logger" where
  "setupLogger Z logLevel =
     (let cfg = (case ParseAtomicLevel Z logLevel of
                   Inr level \<Rightarrow> (loggerCfg Z)\<lparr>zc_Level := level\<rparr>
                 | Inl err \<Rightarrow> loggerCfg Z)
      in zap_Build Z (DPanicLevel Z) cfg)"

section \<open>The command\<close>

definition root_command :: "('lvl, 'enc, 'logger) zap_api \<Rightarrow> ('pool, 'v) start_env \<Rightarrow> Flag list \<Rightarrow> 'w \<Rightarrow> 'x \<Rightarrow>
    error + ('pool, 'v, 'pool http_Client \<times> 'w, 'x) Worker" where
  "root_command Z S flags w x =
     (case setupLogger Z (flag_value flags ''log-level'') of
        Inl err \<Rightarrow> Inl err
      | Inr logger \<Rightarrow> root_Run S flags w x)"

text \<open>
  Where the main goroutine is: it waits for the signal, is about to send to the controller, waits
  for the answer, is about to shut the profile manager down, waits there for ever, has panicked, or
  has returned.
\<close>

datatype main_control = WaitSignal | SendDone | AwaitDone | ShutProfiles | MainBlocked | MainPanicked | MainReturned

record ('pool, 'v, 'w, 'x) Process =
  main :: main_control
  worker :: "('pool, 'v, 'w, 'x) Worker"

definition set_controller :: "(('pool, 'v, 'w) Controller \<Rightarrow> ('pool, 'v, 'w) Controller) \<Rightarrow>
    ('pool, 'v, 'w, 'x) Process \<Rightarrow> ('pool, 'v, 'w, 'x) Process" where
  "set_controller f p = p\<lparr>worker := (worker p)\<lparr>controller := f (controller (worker p))\<rparr>\<rparr>"

definition shut_profiles :: "('pool, 'v, 'w, 'x) Process \<Rightarrow> ('pool, 'v, 'w, 'x) Process" where
  "shut_profiles p =
     (case profile_Shutdown (profileManager (worker p)) of
        None \<Rightarrow> p\<lparr>main := MainBlocked\<rparr>
      | Some (Panics, m) \<Rightarrow> p\<lparr>main := MainPanicked, worker := (worker p)\<lparr>profileManager := m\<rparr>\<rparr>
      | Some (Returns _, m) \<Rightarrow> p\<lparr>main := MainReturned, worker := (worker p)\<lparr>profileManager := m\<rparr>\<rparr>)"

text \<open>
  The process ends when the main goroutine returns or panics. The controller has answered once its
  channel is empty again: the branch that empties it sends the answer.
\<close>

inductive proc_step :: "('pool, 'v, 'w, 'x) worker_env \<Rightarrow> ('pool, 'v, 'w, 'x) Process \<Rightarrow> ('pool, 'v, 'w, 'x) Process \<Rightarrow> bool"
  for Q where
  goroutines: "main p \<noteq> MainPanicked \<Longrightarrow> main p \<noteq> MainReturned \<Longrightarrow> worker_step Q (worker p) W \<Longrightarrow> proc_step Q p (p\<lparr>worker := W\<rparr>)"
| signal: "main p = WaitSignal \<Longrightarrow> proc_step Q p (set_controller (\<lambda>c. c\<lparr>cancelled := True\<rparr>) (p\<lparr>main := SendDone\<rparr>))"
| send_done: "main p = SendDone \<Longrightarrow> \<not> doneCh (controller (worker p)) \<Longrightarrow>
    proc_step Q p (set_controller (\<lambda>c. c\<lparr>doneCh := True\<rparr>) (p\<lparr>main := AwaitDone\<rparr>))"
| answered: "main p = AwaitDone \<Longrightarrow> \<not> doneCh (controller (worker p)) \<Longrightarrow> proc_step Q p (p\<lparr>main := ShutProfiles\<rparr>)"
| profiles: "main p = ShutProfiles \<Longrightarrow> proc_step Q p (shut_profiles p)"

abbreviation proc_reaches :: "('pool, 'v, 'w, 'x) worker_env \<Rightarrow> ('pool, 'v, 'w, 'x) Process \<Rightarrow> ('pool, 'v, 'w, 'x) Process \<Rightarrow> bool" where
  "proc_reaches Q \<equiv> (proc_step Q)\<^sup>*\<^sup>*"

section \<open>The start\<close>

text \<open>
  The logger has the level of the flag, or the level info when the flag does not parse, and is as
  configured otherwise; the function panics exactly when the logger cannot be built.
\<close>

lemma setupLogger_spec:
  "setupLogger Z l = zap_Build Z (DPanicLevel Z)
     ((loggerCfg Z)\<lparr>zc_Level := (case ParseAtomicLevel Z l of Inr lvl \<Rightarrow> lvl | Inl _ \<Rightarrow> InfoLevel Z)\<rparr>)"
  by (simp add: setupLogger_def loggerCfg_def split: sum.split)

lemma root_command_starts:
  assumes "root_command Z S flags w x = Inr W"
  obtains cm v hc where "W = worker_init conf_New cm v (hc, w) x" "cert_inv cm"
proof -
  have "root_Run S flags w x = Inr W" using assms by (simp add: root_command_def split: sum.splits)
  from root_Run_starts [OF this] that show thesis .
qed

section \<open>The end\<close>

text \<open>The invariant of the worker holds as long as the process lives, and the command has not returned.\<close>

definition proc_inv :: "('pool, 'v, 'w, 'x) worker_env \<Rightarrow> ('pool, 'v, 'w, 'x) Process \<Rightarrow> bool" where
  "proc_inv Q p \<longleftrightarrow> main p \<noteq> MainReturned \<and> (main p \<noteq> MainPanicked \<longrightarrow> worker_inv Q (worker p))"

lemma worker_inv_cancel [simp]:
  "worker_inv Q (W\<lparr>controller := (controller W)\<lparr>cancelled := b\<rparr>\<rparr>) = worker_inv Q W"
  "worker_inv Q (W\<lparr>controller := (controller W)\<lparr>doneCh := b\<rparr>\<rparr>) = worker_inv Q W"
  by (simp_all add: worker_inv_def ctl_inv_def phase_of_def cong: ctl_control.case_cong)

lemma proc_inv_step:
  assumes "proc_step Q p p'" and "is_range (ord_jobs (we_orders Q))" and "proc_inv Q p"
  shows "proc_inv Q p'"
  using assms(1)
proof cases
  case (goroutines W)
  then show ?thesis using assms(2,3) worker_inv_step by (auto simp: proc_inv_def)
next
  case profiles
  then have "worker_inv Q (worker p)" using assms(3) by (simp add: proc_inv_def)
  then have "\<not> cancelFunc (profileManager (worker p))" "worker_inv Q (worker p)" by (simp_all add: worker_inv_def manager_inv_def)
  then show ?thesis
    using profiles by (auto simp: shut_profiles_def profile_Shutdown_def proc_inv_def Let_def)
qed (use assms(3) in \<open>auto simp: proc_inv_def set_controller_def\<close>)

lemma proc_inv_reaches: "proc_reaches Q p p' \<Longrightarrow> is_range (ord_jobs (we_orders Q)) \<Longrightarrow> proc_inv Q p \<Longrightarrow> proc_inv Q p'"
  by (induction rule: rtranclp_induct) (auto intro: proc_inv_step)

text \<open>
  A shutdown in which nothing is in the way: the controller waits in its \<open>select\<close> and there were
  never profiles. The controller answers, and the profile manager calls its nil cancel function.
\<close>

lemma shutdown_run:
  assumes "main p = WaitSignal" and "ctl (controller (worker p)) = CSelect" and "\<not> doneCh (controller (worker p))"
    and "\<not> metricServer (profileManager (worker p))" and "\<not> cancelFunc (profileManager (worker p))"
  shows "\<exists>p'. proc_reaches Q p p' \<and> main p' = MainPanicked"
proof -
  let ?p1 = "set_controller (\<lambda>c. c\<lparr>cancelled := True\<rparr>) (p\<lparr>main := SendDone\<rparr>)"
  let ?p2 = "set_controller (\<lambda>c. c\<lparr>doneCh := True\<rparr>) (?p1\<lparr>main := AwaitDone\<rparr>)"
  let ?c = "controller (worker ?p2)"
  let ?p3 = "?p2\<lparr>worker := (worker ?p2)\<lparr>controller := ?c\<lparr>doneCh := False, tickerOn := False\<rparr>\<rparr>\<rparr>"
  let ?p4 = "?p3\<lparr>main := ShutProfiles\<rparr>"
  have "proc_step Q p ?p1" using assms(1) by (rule proc_step.signal)
  moreover have "proc_step Q ?p1 ?p2" by (rule proc_step.send_done) (use assms(3) in \<open>simp_all add: set_controller_def\<close>)
  moreover have "ctl_step (we_ctl Q) ?c Quiet (?c\<lparr>doneCh := False, tickerOn := False\<rparr>)"
    by (rule ctl_step.sel_done) (use assms(2) in \<open>simp_all add: set_controller_def\<close>)
  then have "proc_step Q ?p2 ?p3"
    by (intro proc_step.goroutines worker_step.w_controller) (simp_all add: set_controller_def)
  moreover have "proc_step Q ?p3 ?p4" by (rule proc_step.answered) (simp_all add: set_controller_def)
  moreover have "proc_step Q ?p4 (shut_profiles ?p4)" by (rule proc_step.profiles) simp
  ultimately have "proc_reaches Q p (shut_profiles ?p4)" by (meson converse_rtranclp_into_rtranclp rtranclp.rtrancl_refl)
  moreover have "main (shut_profiles ?p4) = MainPanicked"
    using assms(4,5) by (simp add: shut_profiles_def profile_Shutdown_def set_controller_def Let_def)
  ultimately show ?thesis by blast
qed

text \<open>
  C18: The command never returns. In every run of the process from its start, with the signal at any
  time, the main goroutine does not come to the end of \<open>Run\<close>: it waits, or it has panicked. A
  signal that finds the controller waiting and no metric server running leads to the panic.
\<close>

theorem command_never_returns:
  assumes "root_command Z S flags w x = Inr W\<^sub>0" and "is_range (ord_jobs (we_orders Q))"
    and "proc_reaches Q \<lparr>main = WaitSignal, worker = W\<^sub>0\<rparr> p"
  shows "main p \<noteq> MainReturned \<and>
    (main p = WaitSignal \<and> ctl (controller (worker p)) = CSelect \<and> \<not> doneCh (controller (worker p)) \<and>
     \<not> metricServer (profileManager (worker p)) \<longrightarrow> (\<exists>p'. proc_reaches Q p p' \<and> main p' = MainPanicked))"
proof (intro conjI impI)
  obtain cm v hc where "W\<^sub>0 = worker_init conf_New cm v (hc, w) x" "cert_inv cm" using root_command_starts [OF assms(1)] .
  then have "proc_inv Q \<lparr>main = WaitSignal, worker = W\<^sub>0\<rparr>" by (simp add: proc_inv_def worker_init_inv)
  then have inv: "proc_inv Q p" by (rule proc_inv_reaches [OF assms(3,2)])
  then show "main p \<noteq> MainReturned" by (simp add: proc_inv_def)
  assume "main p = WaitSignal \<and> ctl (controller (worker p)) = CSelect \<and> \<not> doneCh (controller (worker p)) \<and>
     \<not> metricServer (profileManager (worker p))"
  then have p: "main p = WaitSignal" "ctl (controller (worker p)) = CSelect" "\<not> doneCh (controller (worker p))"
    "\<not> metricServer (profileManager (worker p))" by simp_all
  have "\<not> cancelFunc (profileManager (worker p))" using inv p(1) by (simp add: proc_inv_def worker_inv_def manager_inv_def)
  with p show "\<exists>p'. proc_reaches Q p p' \<and> main p' = MainPanicked" by (rule shutdown_run)
qed

definition zap_example :: "(nat, unit, nat) zap_api" where
  "zap_example = \<lparr>InfoLevel = 0, DPanicLevel = 3, DefaultLineEnding = [CHR 0x0A], RFC3339TimeEncoder = (),
     LowercaseLevelEncoder = (), MillisDurationEncoder = (), ShortCallerEncoder = (),
     ParseAtomicLevel = (\<lambda>s. if s = ''info'' then Inr 0 else Inl (ErrorString ''unrecognized level'')),
     zap_Build = (\<lambda>_ cfg. Inr (zc_Level cfg))\<rparr>"

theorem command_never_returns_witness:
  "\<exists>W\<^sub>0 p. root_command zap_example start_env_example flags_example () [] = Inr W\<^sub>0 \<and>
     proc_reaches worker_env_example \<lparr>main = WaitSignal, worker = W\<^sub>0\<rparr> p \<and> main p = MainPanicked"
proof -
  obtain hc where "root_Run start_env_example flags_example () ([] :: (string \<times> string) list) =
      Inr (worker_init conf_New manager_example [] (hc, ()) [])" using root_Run_example [of "()" "[]"] by (elim exE)
  then have W0: "root_command zap_example start_env_example flags_example () ([] :: (string \<times> string) list) =
      Inr (worker_init conf_New manager_example [] (hc, ()) [])" (is "_ = Inr ?W0")
    by (simp add: root_command_def setupLogger_spec zap_example_def split: sum.split)
  have ord: "is_range (ord_jobs (we_orders worker_env_example))" by (simp add: ord_example_def)
  from command_never_returns [OF W0 ord rtranclp.rtrancl_refl] W0 show ?thesis
    by (simp add: worker_init_def ctl_init_def new_Manager_def)
qed

end
