(* ===== verification/Spec2Isabelle.thy ===== *)
theory Spec2Isabelle
  imports Printer Scheduling_Faults Lifecycle Traffic Process
begin

text \<open>
  A verification development for the device worker of Project Flotta (\<open>device-worker-ng\<close>). The
  worker runs on an edge device: it enrols and registers the device with an operator over HTTP,
  asks it for a configuration once per heartbeat period, and keeps the workloads of the
  configuration running under podman or Kubernetes. A workload may depend on profiles: conditions
  on metrics of the device, written in a small expression language, that decide whether it is to
  run and with how much CPU.

  \<^bold>\<open>Parts and how they interact.\<close> The command (\<open>cmd/root.go\<close>) reads the settings
  (\<open>configuration/config.go\<close>) and the certificates (\<open>internal/certificate\<close>), and starts three
  goroutines: the controller (\<open>internal/edge\<close>), the scheduler (\<open>internal/scheduler\<close>) and the profile
  manager (\<open>internal/profile\<close>). The controller uses the HTTP client (\<open>internal/client/http\<close>) and
  hands a new configuration to the configuration manager (\<open>internal/configuration\<close>), which sends the
  workloads through \<open>SchedulerCh\<close> to the scheduler and the parsed profiles through
  \<open>StateManagerCh\<close> to the profile manager. The profile manager evaluates the profiles whenever a
  metric arrives and sends the results to the scheduler. The scheduler holds the jobs in its store,
  evaluates their profiles, and starts goroutines of the reconcilers, which call the executors
  (\<open>internal/executor\<close>) and the resource manager (\<open>internal/resources\<close>) and report through futures.

  \<^bold>\<open>Theories.\<close>

    \<^item> \<open>Go_Prelude\<close>: errors, panics, calls on a world, slices, maps with an order of their range, strings,
      words, time, and the locale \<open>simulation\<close> (invariant and abstraction of a step relation).
      \<open>Float32\<close>: the finite \<open>float32\<close> values. \<open>Json\<close>: printing of JSON, with the locale
      \<open>json_code\<close> (what is printed can be told apart) and its interpretations.
    \<^item> \<open>Lexer\<close>, \<open>Parser\<close>, \<open>Interpreter\<close>, \<open>Printer\<close> (\<open>internal/configuration/interpreter\<close>): tokens, the
      recursive-descent parser with its panics, the visitor, the \<open>String\<close> methods. The parser returns
      for every text, \<open>Evaluate\<close> agrees with a reference semantics on conditions of the grammar, and
      what is printed parses again, to an expression with the same values. The locale
      \<open>expression_parser\<close> is what a level of the grammar relies on in the level below.
    \<^item> \<open>Workload\<close>, \<open>Job\<close>, \<open>Store\<close> (\<open>internal/entity/workload.go\<close>, \<open>job.go\<close>, \<open>state.go\<close>,
      \<open>internal/scheduler/store.go\<close>, \<open>util.go\<close>): identity of workloads, the state machine of a job
      with its hooks, retry and cron, and the store on its shared array (locale \<open>job_store\<close>).
    \<^item> \<open>Profile\<close> (\<open>internal/profile\<close>): evaluation of profiles, the goroutine of the manager as the step
      relation \<open>run_step\<close>, the metric server. \<open>Evaluate\<close>: \<open>Scheduler.evaluate\<close> with a specification
      that does not mention map orders.
    \<^item> \<open>Executor\<close>, \<open>Reconcile\<close>, \<open>Resources\<close>: the executors for podman and Kubernetes and their
      dispatch (locale \<open>executor_contract\<close>), the synchronisation functions and the futures of
      \<open>internal/entity/future.go\<close>, and the
      resource manager with its search for control groups (locale \<open>resource_contract\<close>).
    \<^item> \<open>Scheduler\<close>, \<open>Scheduling\<close>, \<open>Scheduling_Faults\<close>, \<open>Lifecycle\<close> (\<open>internal/scheduler/scheduler.go\<close>): each
      branch of the loop as a function on a heap of jobs and futures, the loop with its goroutines as
      the step relation \<open>sched_step\<close>; its invariants and what each branch does; its faults; the
      abstract machine of the life of a job that the loop refines, with the removal of a workload
      from the empty configuration to a runtime without its pod.
    \<^item> \<open>Hardware\<close>, \<open>Configuration\<close>, \<open>Conf_Manager\<close> (\<open>internal/entity\<close>, \<open>internal/configuration\<close>): the
      entities, their texts and hashes, what the text of a configuration determines, and the
      configuration manager: which messages a configuration causes, how profiles are built from
      expressions, what a heartbeat reports.
    \<^item> \<open>Mapper\<close>, \<open>Certificate\<close>, \<open>Client\<close>, \<open>Settings\<close>: the translation from and to the messages of the
      operator with its panics and wrap-arounds; certificates, keys and requests; the four
      operations of the client and its transport, which is rebuilt when the certificate changes;
      settings and flags.
    \<^item> \<open>Controller\<close>, \<open>Controller_Runs\<close> (\<open>internal/edge/controller.go\<close>): the loop and the two goroutines
      of a round as the step relation \<open>ctl_step\<close>, its refinement of the machine of phases
      unenrolled, enrolled, registered; runs that register a device and deliver a
      configuration; runs that block or panic.
    \<^item> \<open>Worker\<close> (\<open>cmd/root.go\<close>): the start of the process and the three goroutines with their channels;
      the invariants of the components hold together, and a configuration of the operator reaches
      the jobs of the scheduler and the profile manager. \<open>Traffic\<close>: the worker with the HTTP client on a
      network that records what is sent; every request carries the current client certificate.
      \<open>Process\<close>: the logger, and the main goroutine of the command from the start to the shutdown.

  \<^bold>\<open>What is modelled how.\<close> A struct is a record, an enumeration a datatype, and an operation a function
  on the record. A nil map, slice or pointer is None where the code distinguishes it. An error is a
  value of \<open>error\<close>, with the text of a message shortened to its fixed part; a runtime panic is
  None or \<open>Panics\<close>. A call that reaches outside of the process is a function on a world \<open>'w\<close>. A
  channel of capacity one is whether it is full, or its content; a goroutine that waits in a send is a
  state of its control.

  \<^bold>\<open>Bounds and fuel.\<close> The parser recurses with fuel, the length of the text plus two, and
  \<open>parse_total\<close> shows that it never runs out. Quotas, periods and the numbers of the operator are
  64-bit words; a \<open>float32\<close> is a multiple of the least positive value, without infinities and NaN,
  which the lexer does not produce. The printing of a fraction looks for its decimal exponent in 85
  steps, from \<open>10^-46\<close> to \<open>10^39\<close>, which covers the type. Everything else is structural.

  \<^bold>\<open>Assumptions.\<close> The clock stands still within one branch of a loop. All maps of one kind are
  ranged over in one order, an argument of which only \<open>is_range\<close> is assumed. A run of a reconciler, a
  call of the client and a write of certificates are atomic steps. Strings are valid UTF-8. The
  label that a run adds to its workload is seen by the job of the workload; the configuration
  manager, which holds the same map, is not told, so that in the model the stored configuration
  keeps its hash. The steps \<open>cancel\<close> and \<open>shutdown\<close> of the controller may come at any time, in
  \<open>Process\<close> also from the command.
  SHA-256, YAML, cron expressions, the back-off, the podman bindings, the Kubernetes client, the
  cgroup library, \<open>net/http\<close>, \<open>crypto\<close> and viper are arguments; what a theorem relies on is a
  hypothesis about them (\<open>podman_laws\<close>, \<open>crypto_ok\<close>, \<open>viper_ok\<close> and the like), and a witness shows an
  instance.

  \<^bold>\<open>Not modelled.\<close> Log output, except that of the wrapper of the HTTP transport; the serving of HTTP and
  the sockets of podman, which are libraries; the cancellation of a context, except where a loop, a
  round or the command reads or causes it; accessors that only return a field;
  data races between the goroutines of a round; \<open>main.go\<close>, which only calls the
  command; and the generated mocks of the tests.
\<close>

end
